(* ===== verification/Prelude.thy ===== *)
theory Prelude
  imports Main "HOL-Library.Word"
begin

text \<open>
  Shared vocabulary of the development: Go's \<open>time.Time\<close> and \<open>time.Duration\<close> as the sources
  use them, the two reader slots, the fixed-size byte helpers, and the generic state-machine
  locale through which every component lifts its one-step lemmas to whole executions.
\<close>

section \<open>Collections of facts\<close>

named_theorems time_defs \<open>definitions of the clock operations\<close>
named_theorems const_defs \<open>numeric constants of the sources\<close>

section \<open>Durations and instants\<close>

text \<open>
  A \<open>time.Duration\<close> is a number of nanoseconds (int64). A \<open>time.Time\<close> carries a wall clock
  reading and, when it comes from \<open>time.Now\<close>, a monotonic one. \<open>Before\<close>, \<open>After\<close>, \<open>Equal\<close>
  and \<open>Sub\<close> use the monotonic readings when both operands have one and the wall clock
  otherwise; \<open>Sub\<close> saturates at the bounds of int64; \<open>IsZero\<close> looks at the wall clock only
  (the zero \<open>Time\<close> is the start of year 1).
\<close>

type_synonym duration = int

abbreviation Millisecond :: duration where "Millisecond \<equiv> 1000000"
abbreviation Second :: duration where "Second \<equiv> 1000000000"
abbreviation Minute :: duration where "Minute \<equiv> 60000000000"

definition minDuration :: duration where [const_defs]: "minDuration = - (2 ^ 63)"
definition maxDuration :: duration where [const_defs]: "maxDuration = 2 ^ 63 - 1"

record gotime =
  wall_ns :: int
  mono_ns :: "int option"

definition zeroTime :: gotime where
  [time_defs]: "zeroTime = \<lparr>wall_ns = 0, mono_ns = None\<rparr>"

definition IsZero :: "gotime \<Rightarrow> bool" where
  [time_defs]: "IsZero t \<longleftrightarrow> wall_ns t = 0"

definition raw_diff :: "gotime \<Rightarrow> gotime \<Rightarrow> int" where
  [time_defs]: "raw_diff t u =
     (case (mono_ns t, mono_ns u) of
        (Some m, Some n) \<Rightarrow> m - n
      | _ \<Rightarrow> wall_ns t - wall_ns u)"

definition Sub :: "gotime \<Rightarrow> gotime \<Rightarrow> duration" where
  [time_defs]: "Sub t u = max minDuration (min maxDuration (raw_diff t u))"

definition Before :: "gotime \<Rightarrow> gotime \<Rightarrow> bool" where
  [time_defs]: "Before t u \<longleftrightarrow> raw_diff t u < 0"

definition After :: "gotime \<Rightarrow> gotime \<Rightarrow> bool" where
  [time_defs]: "After t u \<longleftrightarrow> 0 < raw_diff t u"

definition Equal :: "gotime \<Rightarrow> gotime \<Rightarrow> bool" where
  [time_defs]: "Equal t u \<longleftrightarrow> raw_diff t u = 0"

text \<open>\<open>Add\<close> shifts both readings; a monotonic reading that leaves int64 is dropped.\<close>

definition AddDur :: "gotime \<Rightarrow> duration \<Rightarrow> gotime" where
  [time_defs]: "AddDur t d =
     \<lparr>wall_ns = wall_ns t + d,
      mono_ns = (case mono_ns t of
                   None \<Rightarrow> None
                 | Some m \<Rightarrow> if - (2 ^ 63) \<le> m + d \<and> m + d < 2 ^ 63 then Some (m + d) else None)\<rparr>"

text \<open>Two's complement reduction to int64, and \<open>Time.UnixNano\<close> on top of it.\<close>

definition wrap64 :: "int \<Rightarrow> int" where
  [time_defs]: "wrap64 x = (x + 2 ^ 63) mod 2 ^ 64 - 2 ^ 63"

definition unixToInternal :: int where
  [const_defs]: "unixToInternal = 62135596800 * Second"

definition UnixNano :: "gotime \<Rightarrow> int" where
  [time_defs]: "UnixNano t = wrap64 (wall_ns t - unixToInternal)"

lemma IsZero_zeroTime [simp]: "IsZero zeroTime"
  by (simp add: time_defs)

lemma raw_diff_self [simp]: "raw_diff t t = 0"
  by (simp add: raw_diff_def split: option.split)

lemma raw_diff_swap: "raw_diff u t = - raw_diff t u"
  by (simp add: raw_diff_def split: option.split)

lemma Before_After_swap: "Before t u = After u t"
  by (simp add: Before_def After_def raw_diff_swap [of u t])

lemma Sub_self [simp]: "Sub t t = 0"
  by (simp add: Sub_def const_defs)

lemma Before_irrefl [simp]: "\<not> Before t t"
  by (simp add: Before_def)

lemma After_irrefl [simp]: "\<not> After t t"
  by (simp add: After_def)

lemma Sub_nonneg_iff: "0 \<le> Sub t u \<longleftrightarrow> \<not> Before t u"
  by (auto simp: Sub_def Before_def const_defs)

lemma Sub_le_iff:
  "0 \<le> d \<Longrightarrow> d < maxDuration \<Longrightarrow> Sub t u \<le> d \<longleftrightarrow> raw_diff t u \<le> d"
  by (auto simp: Sub_def const_defs)

lemma wrap64_id: "- (2 ^ 63) \<le> x \<Longrightarrow> x < 2 ^ 63 \<Longrightarrow> wrap64 x = x"
  by (simp add: wrap64_def)

section \<open>The two reader slots\<close>

text \<open>
  \<open>packAdmission.slots\<close> is an array of two; every index that reaches it is 0 or 1
  (\<open>BatteryReader.packAdmission\<close> returns nil for any other reader index and
  \<open>newPackAdmission\<close> skips it). \<open>other i\<close> is the source's \<open>1-index\<close>.
\<close>

datatype slot = Slot0 | Slot1

fun other :: "slot \<Rightarrow> slot" where
  "other Slot0 = Slot1"
| "other Slot1 = Slot0"

instantiation slot :: enum
begin
definition "enum_slot = [Slot0, Slot1]"
definition "enum_all_slot P \<longleftrightarrow> P Slot0 \<and> P Slot1"
definition "enum_ex_slot P \<longleftrightarrow> P Slot0 \<or> P Slot1"
instance
proof
  show univ: "UNIV = set (enum_class.enum :: slot list)"
    by (auto simp: enum_slot_def intro: slot.exhaust)
  show "distinct (enum_class.enum :: slot list)"
    by (simp add: enum_slot_def)
  show "enum_class.enum_all P \<longleftrightarrow> Ball UNIV P" for P :: "slot \<Rightarrow> bool"
    by (auto simp: enum_all_slot_def intro: slot.exhaust) (metis slot.exhaust)
  show "enum_class.enum_ex P \<longleftrightarrow> Bex UNIV P" for P :: "slot \<Rightarrow> bool"
    by (auto simp: enum_ex_slot_def) (metis slot.exhaust)
qed
end

instantiation slot :: linorder
begin
definition "less_eq_slot i j \<longleftrightarrow> i = Slot0 \<or> j = Slot1"
definition "less_slot i j \<longleftrightarrow> i = Slot0 \<and> j = Slot1"
instance
proof
  fix i j k :: slot
  show "i < j \<longleftrightarrow> i \<le> j \<and> \<not> j \<le> i"
    by (cases i; cases j) (simp_all add: less_eq_slot_def less_slot_def)
  show "i \<le> i" by (cases i) (simp_all add: less_eq_slot_def)
  show "i \<le> j \<Longrightarrow> j \<le> k \<Longrightarrow> i \<le> k"
    by (cases i; cases j; cases k) (simp_all add: less_eq_slot_def)
  show "i \<le> j \<Longrightarrow> j \<le> i \<Longrightarrow> i = j"
    by (cases i; cases j) (simp_all add: less_eq_slot_def)
  show "i \<le> j \<or> j \<le> i" by (cases i) (simp_all add: less_eq_slot_def)
qed
end

lemma other_neq [simp]: "other i \<noteq> i" "i \<noteq> other i"
  by (cases i; simp)+

lemma other_other [simp]: "other (other i) = i"
  by (cases i) simp_all

lemma other_eq_iff [simp]: "other i = j \<longleftrightarrow> i \<noteq> j"
  by (cases i; cases j) simp_all

lemma eq_other_iff [simp]: "i = other j \<longleftrightarrow> i \<noteq> j"
  by (cases i; cases j) simp_all

lemma all_slot: "(\<forall>i. P i) \<longleftrightarrow> P Slot0 \<and> P Slot1"
  by (metis slot.exhaust)

lemma ex_slot: "(\<exists>i. P i) \<longleftrightarrow> P Slot0 \<or> P Slot1"
  by (metis slot.exhaust)

lemma all_slot_of: "(\<forall>i. P i) \<longleftrightarrow> P j \<and> P (other j)"
  by (cases j) (auto simp: all_slot)

section \<open>Loops\<close>

lemma foldl_inv: "P a \<Longrightarrow> (\<And>a x. P a \<Longrightarrow> P (f a x)) \<Longrightarrow> P (foldl f a xs)"
  by (induction xs arbitrary: a) auto

section \<open>Machines\<close>

text \<open>
  A component whose operations are serialized (by a mutex, by one goroutine) is a machine: an
  initial state, one operation at a time, and an invariant each operation keeps. The executions
  of the program are the sequences of operations, so what is proved here holds for every
  interleaving of the callers.
\<close>

locale machine =
  fixes initial :: "'st \<Rightarrow> bool"
    and exec :: "'op \<Rightarrow> 'st \<Rightarrow> 'st"
    and inv :: "'st \<Rightarrow> bool"
  assumes inv_initial: "initial s \<Longrightarrow> inv s"
    and inv_exec: "inv s \<Longrightarrow> inv (exec c s)"
begin

lemma inv_run: "inv s \<Longrightarrow> inv (fold exec cs s)"
  by (induction cs arbitrary: s) (auto intro: inv_exec)

lemma inv_reachable: "initial s \<Longrightarrow> inv (fold exec cs s)"
  by (blast intro: inv_run inv_initial)

text \<open>
  A state predicate that only one kind of operation can end (\<open>ends c s\<close>) either survives a
  whole run or was ended by such an operation somewhere along it.
\<close>

lemma kept_or_ended:
  assumes step: "\<And>c t. inv t \<Longrightarrow> Q t \<Longrightarrow> Q (exec c t) \<or> ends c t"
    and "inv s" and "Q s"
  shows "Q (fold exec cs s) \<or> (\<exists>us c vs. cs = us @ c # vs \<and> Q (fold exec us s) \<and> ends c (fold exec us s))"
  using assms(2,3)
proof (induction cs rule: rev_induct)
  case Nil
  then show ?case by simp
next
  case (snoc c cs)
  then consider "Q (fold exec cs s)"
    | us d vs where "cs = us @ d # vs" "Q (fold exec us s)" "ends d (fold exec us s)"
    by blast
  then show ?case
  proof cases
    case 1
    from step [OF inv_run [OF snoc.prems(1)] 1, of c] show ?thesis
    proof
      assume "ends c (fold exec cs s)"
      with 1 show ?thesis by blast
    qed simp
  next
    case 2
    then have "cs @ [c] = us @ d # (vs @ [c])" by simp
    with 2 show ?thesis by blast
  qed
qed

end

text \<open>
  A path of an abstract transition relation labelled by the concrete operations, and the locale
  of a forward simulation along an abstraction function.
\<close>

fun path :: "('op \<Rightarrow> 'a \<Rightarrow> 'a \<Rightarrow> bool) \<Rightarrow> 'op list \<Rightarrow> 'a \<Rightarrow> 'a \<Rightarrow> bool" where
  "path st [] x y \<longleftrightarrow> x = y"
| "path st (c # cs) x y \<longleftrightarrow> (\<exists>z. st c x z \<and> path st cs z y)"

lemma path_invariant:
  assumes "\<And>c x y. P x \<Longrightarrow> st c x y \<Longrightarrow> P y"
  shows "path st cs x y \<Longrightarrow> P x \<Longrightarrow> P y"
  using assms by (induction cs arbitrary: x) auto

locale simulation = machine +
  fixes abs :: "'a \<Rightarrow> 'c"
    and astep :: "'b \<Rightarrow> 'c \<Rightarrow> 'c \<Rightarrow> bool"
  assumes step_sim: "inv s \<Longrightarrow> astep c (abs s) (abs (exec c s))"
begin

lemma sim_run: "inv s \<Longrightarrow> path astep cs (abs s) (abs (fold exec cs s))"
  by (induction cs arbitrary: s) (auto intro: step_sim inv_exec)

lemma sim_reachable: "initial s \<Longrightarrow> path astep cs (abs s) (abs (fold exec cs s))"
  by (blast intro: sim_run inv_initial)

end

end
