(* ===== verification/Types.thy ===== *)
theory Types
  imports Prelude
begin

text \<open>
  The data model of \<open>battery/types.go\<close> and \<open>battery/fsm/command.go\<close>: BMS states, vehicle
  states, temperature states, fault numbers, command words, the decoded status frame and the
  timing constants. \<open>uint\<close> fields that are only ever filled from at most 16 frame bits are
  \<open>nat\<close>; BMS states and command words keep their 32 bits.
\<close>

section \<open>BMS states\<close>

type_synonym BMSState = "32 word"

definition BMSStateUnknown :: BMSState where "BMSStateUnknown = 0"
definition BMSStateAsleep :: BMSState where "BMSStateAsleep = 0xA4983474"
definition BMSStateIdle :: BMSState where "BMSStateIdle = 0xB9164828"
definition BMSStateActive :: BMSState where "BMSStateActive = 0xC6583518"

lemmas BMSState_defs = BMSStateUnknown_def BMSStateAsleep_def BMSStateIdle_def BMSStateActive_def

lemma BMSState_distinct [simp]:
  "BMSStateUnknown \<noteq> BMSStateAsleep" "BMSStateAsleep \<noteq> BMSStateUnknown"
  "BMSStateUnknown \<noteq> BMSStateIdle" "BMSStateIdle \<noteq> BMSStateUnknown"
  "BMSStateUnknown \<noteq> BMSStateActive" "BMSStateActive \<noteq> BMSStateUnknown"
  "BMSStateAsleep \<noteq> BMSStateIdle" "BMSStateIdle \<noteq> BMSStateAsleep"
  "BMSStateAsleep \<noteq> BMSStateActive" "BMSStateActive \<noteq> BMSStateAsleep"
  "BMSStateIdle \<noteq> BMSStateActive" "BMSStateActive \<noteq> BMSStateIdle"
  by (simp_all add: BMSState_defs)

definition BMSState_String :: "BMSState \<Rightarrow> string" where
  "BMSState_String s =
     (if s = BMSStateUnknown then ''unknown''
      else if s = BMSStateAsleep then ''asleep''
      else if s = BMSStateIdle then ''idle''
      else if s = BMSStateActive then ''active''
      else ''unknown'')"

text \<open>The two readings the sources treat as "switched off".\<close>

abbreviation inactive_state :: "BMSState \<Rightarrow> bool" where
  "inactive_state s \<equiv> s = BMSStateIdle \<or> s = BMSStateAsleep"

section \<open>Vehicle states\<close>

text \<open>A vehicle state is whatever string Redis holds; the sources name thirteen.\<close>

type_synonym VehicleState = string

definition VehicleStateStandby :: VehicleState where "VehicleStateStandby = ''stand-by''"
definition VehicleStateParked :: VehicleState where "VehicleStateParked = ''parked''"
definition VehicleStateHopOn :: VehicleState where "VehicleStateHopOn = ''hop-on''"
definition VehicleStateHopOnLearning :: VehicleState where
  "VehicleStateHopOnLearning = ''hop-on-learning''"
definition VehicleStateReadyToDrive :: VehicleState where
  "VehicleStateReadyToDrive = ''ready-to-drive''"
definition VehicleStateWaitingSeatbox :: VehicleState where
  "VehicleStateWaitingSeatbox = ''waiting-seatbox''"
definition VehicleStateShuttingDown :: VehicleState where
  "VehicleStateShuttingDown = ''shutting-down''"
definition VehicleStateUpdating :: VehicleState where "VehicleStateUpdating = ''updating''"
definition VehicleStateWaitingHibernation :: VehicleState where
  "VehicleStateWaitingHibernation = ''waiting-hibernation''"
definition VehicleStateWaitingHibernationAdvanced :: VehicleState where
  "VehicleStateWaitingHibernationAdvanced = ''waiting-hibernation-advanced''"
definition VehicleStateWaitingHibernationSeatbox :: VehicleState where
  "VehicleStateWaitingHibernationSeatbox = ''waiting-hibernation-seatbox''"
definition VehicleStateWaitingHibernationConfirm :: VehicleState where
  "VehicleStateWaitingHibernationConfirm = ''waiting-hibernation-confirm''"
definition VehicleStateOther :: VehicleState where "VehicleStateOther = ''other''"

lemmas VehicleState_defs =
  VehicleStateStandby_def VehicleStateParked_def VehicleStateHopOn_def
  VehicleStateHopOnLearning_def VehicleStateReadyToDrive_def VehicleStateWaitingSeatbox_def
  VehicleStateShuttingDown_def VehicleStateUpdating_def VehicleStateWaitingHibernation_def
  VehicleStateWaitingHibernationAdvanced_def VehicleStateWaitingHibernationSeatbox_def
  VehicleStateWaitingHibernationConfirm_def VehicleStateOther_def

definition nonDrivingVehicle :: "VehicleState \<Rightarrow> bool" where
  "nonDrivingVehicle state \<longleftrightarrow>
     state = VehicleStateStandby \<or> state = VehicleStateParked \<or> state = VehicleStateHopOn \<or>
     state = VehicleStateHopOnLearning \<or> state = VehicleStateWaitingSeatbox \<or>
     state = VehicleStateShuttingDown \<or> state = VehicleStateUpdating \<or>
     state = VehicleStateWaitingHibernation \<or> state = VehicleStateWaitingHibernationAdvanced \<or>
     state = VehicleStateWaitingHibernationSeatbox \<or> state = VehicleStateWaitingHibernationConfirm"

lemma nonDriving_ReadyToDrive [simp]: "\<not> nonDrivingVehicle VehicleStateReadyToDrive"
  by (simp add: nonDrivingVehicle_def VehicleState_defs)

lemma nonDriving_Other [simp]: "\<not> nonDrivingVehicle VehicleStateOther"
  by (simp add: nonDrivingVehicle_def VehicleState_defs)

lemma nonDriving_empty [simp]: "\<not> nonDrivingVehicle []"
  by (simp add: nonDrivingVehicle_def VehicleState_defs)

lemma nonDriving_Parked [simp]: "nonDrivingVehicle VehicleStateParked"
  by (simp add: nonDrivingVehicle_def)

lemma nonDriving_Standby [simp]: "nonDrivingVehicle VehicleStateStandby"
  by (simp add: nonDrivingVehicle_def)

lemma nonDriving_not_ready: "nonDrivingVehicle v \<Longrightarrow> v \<noteq> VehicleStateReadyToDrive"
  by auto

section \<open>Temperature states and sensor limits\<close>

datatype BMSTemperatureState =
    BMSTemperatureStateUnknown
  | BMSTemperatureStateCold
  | BMSTemperatureStateHot
  | BMSTemperatureStateIdeal

definition BMSTemperatureStateColdLimit :: int where
  [const_defs]: "BMSTemperatureStateColdLimit = 2"
definition BMSTemperatureStateHotLimit :: int where
  [const_defs]: "BMSTemperatureStateHotLimit = 43"
definition sensors01ExtremeHot :: int where [const_defs]: "sensors01ExtremeHot = 105"
definition sensors01ExtremeCold :: int where [const_defs]: "sensors01ExtremeCold = - 40"
definition sensors01HotCredibleFrom :: int where [const_defs]: "sensors01HotCredibleFrom = 80"
definition sensors01ColdCredibleTo :: int where [const_defs]: "sensors01ColdCredibleTo = - 20"
definition sensors01PreviousMaxAge :: duration where
  [const_defs]: "sensors01PreviousMaxAge = 60 * Second"

section \<open>Timing constants\<close>

definition tagConfirmRetry :: duration where [const_defs]: "tagConfirmRetry = 3 * Second"
definition tagConfirmDeadline :: duration where [const_defs]: "tagConfirmDeadline = 9 * Second"
definition BMSTimeReinit :: duration where [const_defs]: "BMSTimeReinit = 2 * Second"
definition BMSTimeDeparture :: duration where [const_defs]: "BMSTimeDeparture = 500 * Millisecond"
definition BMSTimeCheckReader :: duration where [const_defs]: "BMSTimeCheckReader = 10 * Second"
definition BMSTimeReadable :: duration where [const_defs]: "BMSTimeReadable = 250 * Millisecond"
definition BMSTimeCmd :: duration where [const_defs]: "BMSTimeCmd = 400 * Millisecond"
definition BMSTimeCmdSlow :: duration where [const_defs]: "BMSTimeCmdSlow = 1 * Second"
definition BMSTimeCmdFirstOpenedAwake :: duration where
  [const_defs]: "BMSTimeCmdFirstOpenedAwake = 2 * Second"
definition BMSTimeCmdFirstOpenedAsleep :: duration where
  [const_defs]: "BMSTimeCmdFirstOpenedAsleep = 3 * Second"
definition BMSTimeUpdateOn :: duration where [const_defs]: "BMSTimeUpdateOn = 10 * Second"
definition BMSTimePresence :: duration where [const_defs]: "BMSTimePresence = 10 * Second"
definition BMSMaxZeroRetryHeartbeat :: nat where [const_defs]: "BMSMaxZeroRetryHeartbeat = 10"
definition BMSMinSOC :: nat where [const_defs]: "BMSMinSOC = 0"
definition DefaultMaxVoltageDeltaMV :: nat where [const_defs]: "DefaultMaxVoltageDeltaMV = 1000"

section \<open>Command words\<close>

type_synonym BMSCommand = "32 word"

definition BMSCmdNone :: BMSCommand where "BMSCmdNone = 0"
definition BMSCmdOn :: BMSCommand where "BMSCmdOn = 0x50505050"
definition BMSCmdOff :: BMSCommand where "BMSCmdOff = 0xCAFEF00D"
definition BMSCmdInsertedInScooter :: BMSCommand where "BMSCmdInsertedInScooter = 0x44414E41"
definition BMSCmdSeatboxOpened :: BMSCommand where "BMSCmdSeatboxOpened = 0x48525259"
definition BMSCmdSeatboxClosed :: BMSCommand where "BMSCmdSeatboxClosed = 0x4D4B4D4B"
definition BMSCmdHeartbeatScooter :: BMSCommand where "BMSCmdHeartbeatScooter = 0x534E4A41"
definition BMSCmdInsertedInCharger :: BMSCommand where "BMSCmdInsertedInCharger = 0x4D415856"
definition BMSCmdHeartbeatCharger :: BMSCommand where "BMSCmdHeartbeatCharger = 0x4755494C"
definition BMSCmdReadyToCharge :: BMSCommand where "BMSCmdReadyToCharge = 0x4D485249"
definition BMSCmdReadyToScoot :: BMSCommand where "BMSCmdReadyToScoot = 0x4D484D54"

lemmas BMSCmd_defs =
  BMSCmdNone_def BMSCmdOn_def BMSCmdOff_def BMSCmdInsertedInScooter_def BMSCmdSeatboxOpened_def
  BMSCmdSeatboxClosed_def BMSCmdHeartbeatScooter_def BMSCmdInsertedInCharger_def
  BMSCmdHeartbeatCharger_def BMSCmdReadyToCharge_def BMSCmdReadyToScoot_def

lemma BMSCmd_On_Off [simp]: "BMSCmdOn \<noteq> BMSCmdOff" "BMSCmdOff \<noteq> BMSCmdOn"
  by (simp_all add: BMSCmd_defs)

definition BMSCommand_String :: "BMSCommand \<Rightarrow> string" where
  "BMSCommand_String c =
     (if c = BMSCmdNone then ''NONE''
      else if c = BMSCmdOn then ''ON''
      else if c = BMSCmdOff then ''OFF''
      else if c = BMSCmdInsertedInScooter then ''INSERTED_IN_SCOOTER''
      else if c = BMSCmdSeatboxOpened then ''SEATBOX_OPENED''
      else if c = BMSCmdSeatboxClosed then ''SEATBOX_CLOSED''
      else if c = BMSCmdHeartbeatScooter then ''HEARTBEAT_SCOOTER''
      else if c = BMSCmdInsertedInCharger then ''INSERTED_IN_CHARGER''
      else if c = BMSCmdHeartbeatCharger then ''HEARTBEAT_CHARGER''
      else if c = BMSCmdReadyToCharge then ''READY_TO_CHARGE''
      else if c = BMSCmdReadyToScoot then ''READY_TO_SCOOT''
      else ''UNKNOWN'')"

section \<open>Decoded status frames\<close>

text \<open>\<open>Temperature\<close> is the source's \<open>[4]int\<close>: a list, which stays at length 4 (\<open>Frame_Typing\<close>).\<close>

record BMSData =
  SampleTime :: gotime
  SampleValid :: bool
  Present :: bool
  Voltage :: nat
  Current :: int
  FwVersion :: string
  Charge :: nat
  FaultCode :: nat
  Temperature :: "int list"
  TemperatureState :: BMSTemperatureState
  StateOfHealth :: nat
  LowSOC :: bool
  State :: BMSState
  SerialNumber :: string
  ManufacturingDate :: string
  CycleCount :: nat
  RemainingCapacity :: nat
  FullCapacity :: nat
  EmptyOr0Data :: nat

definition zeroBMSData :: BMSData where
  "zeroBMSData =
     \<lparr>SampleTime = zeroTime, SampleValid = False, Present = False, Voltage = 0, Current = 0,
      FwVersion = [], Charge = 0, FaultCode = 0, Temperature = [0, 0, 0, 0],
      TemperatureState = BMSTemperatureStateUnknown, StateOfHealth = 0, LowSOC = False,
      State = BMSStateUnknown, SerialNumber = [], ManufacturingDate = [], CycleCount = 0,
      RemainingCapacity = 0, FullCapacity = 0, EmptyOr0Data = 0\<rparr>"

record sensors01Sample =
  s01_valid :: bool
  s01_temperature :: "int \<times> int"
  s01_voltage :: nat
  s01_current :: int

text \<open>
  \<open>tagFreshness\<close>; the early-read timer is represented by whether one is pending.
\<close>

record tagFreshness =
  unconfirmed :: bool
  fr_haveFrame :: bool
  since :: gotime
  fr_frame :: BMSData
  timer :: bool

datatype BatteryRole = BatteryRoleActive | BatteryRoleInactive

record BatteryReaderConfig =
  Index :: int
  Role :: BatteryRole
  Enabled :: bool
  DeviceName :: string
  LogLevel :: int

type_synonym BatteryConfiguration = "BatteryReaderConfig list"

text \<open>
  Whether two frames differ in anything the pack measures or counts
  (\<open>statusFrameChanged\<close> in \<open>battery_status.go\<close>).
\<close>

definition statusFrameChanged :: "BMSData \<Rightarrow> BMSData \<Rightarrow> bool" where
  "statusFrameChanged a b \<longleftrightarrow>
     Voltage a \<noteq> Voltage b \<or> Current a \<noteq> Current b \<or> Charge a \<noteq> Charge b \<or>
     State a \<noteq> State b \<or> Temperature a \<noteq> Temperature b \<or> CycleCount a \<noteq> CycleCount b"

lemma statusFrameChanged_self [simp]: "\<not> statusFrameChanged d d"
  by (simp add: statusFrameChanged_def)

end
