(* ===== verification/Admission_State.thy ===== *)
theory Admission_State
  imports Types
begin

text \<open>
  The state of the shared activation guard: the records of \<open>admission.go\<close>, \<open>sampling.go\<close>,
  \<open>admission_isolation.go\<close> and \<open>stopped_admission.go\<close>, their zero values, the slot
  predicates that need no further state (\<open>fresh\<close>, \<open>usable\<close>, \<open>stable\<close>, \<open>appendHistory\<close>,
  \<open>replaceIdentity\<close>), and \<open>cancelRoundLocked\<close>, which every component calls. All of it is
  protected by one mutex in the program, so each operation is a function from state to state.
\<close>

section \<open>Constants\<close>

definition admissionPollInterval :: duration where [const_defs]: "admissionPollInterval = 3 * Second"
definition admissionMaxAge :: duration where [const_defs]: "admissionMaxAge = 10 * Second"
definition admissionMaxSkew :: duration where [const_defs]: "admissionMaxSkew = 3 * Second"
definition admissionStableTime :: duration where [const_defs]: "admissionStableTime = 6 * Second"
definition admissionMaxCurrent :: int where [const_defs]: "admissionMaxCurrent = 1000"
definition admissionVoltageSpan :: nat where [const_defs]: "admissionVoltageSpan = 100"
definition admissionOnSettle :: duration where [const_defs]: "admissionOnSettle = 10 * Second"
definition samplingMaxSkew :: duration where [const_defs]: "samplingMaxSkew = 1 * Second"
definition samplingFrameLimit :: duration where [const_defs]: "samplingFrameLimit = 2 * Second"
definition samplingDeadline :: duration where [const_defs]: "samplingDeadline = 10 * Second"
definition stoppedMotionMaxAge :: duration where
  [const_defs]: "stoppedMotionMaxAge = 500 * Millisecond"
definition stoppedPairMaxAge :: duration where
  [const_defs]: "stoppedPairMaxAge = admissionPollInterval"

section \<open>Records\<close>

record admissionSample =
  smp_data :: BMSData
  smp_at :: gotime

record admissionSlot =
  monitored :: bool
  eligible :: bool
  powerTracked :: bool
  uid :: string
  serial :: string
  absent :: bool
  observed :: gotime
  observedRound :: "64 word"
  frame :: BMSData
  haveFrame :: bool
  written :: gotime
  valid :: bool
  history :: "admissionSample list"
  held :: bool
  active :: bool
  onAt :: gotime
  lastOnAt :: gotime
  offPending :: bool
  offAt :: gotime
  identityUncertain :: bool
  requiresAdmission :: bool

definition zeroSlot :: admissionSlot where
  "zeroSlot =
     \<lparr>monitored = False, eligible = False, powerTracked = False, uid = [], serial = [],
      absent = False, observed = zeroTime, observedRound = 0, frame = zeroBMSData,
      haveFrame = False, written = zeroTime, valid = False, history = [], held = False,
      active = False, onAt = zeroTime, lastOnAt = zeroTime, offPending = False,
      offAt = zeroTime, identityUncertain = False, requiresAdmission = False\<rparr>"

record acquisition =
  acq_start :: gotime
  acq_end :: gotime
  acq_complete :: gotime
  acq_data :: BMSData

definition zeroAcquisition :: acquisition where
  "zeroAcquisition =
     \<lparr>acq_start = zeroTime, acq_end = zeroTime, acq_complete = zeroTime, acq_data = zeroBMSData\<rparr>"

record samplingRound =
  round_id :: "64 word"
  opened :: gotime
  claimed :: "slot \<Rightarrow> bool"
  samples :: "slot \<Rightarrow> acquisition"

text \<open>Why a round ended; \<open>round_reason_text\<close> gives the source's string.\<close>

datatype round_reason =
    NoReason
  | RoleChanged | VehicleChanged | SeatboxChanged | TagChanged | ReadFailed | PackAbsent
  | PackIdentityChanged | SupplyBecameInactive | ActivationRequalified | ActivationReserved
  | OffCommand | IncompleteOrExpired | Shutdown | UnpairedOrLate | SlowOrStale
  | SingleSupplyAcquired | AcquisitionSkew | SupersededOrStale | Paired
  | MotionQualificationChanged

fun round_reason_text :: "round_reason \<Rightarrow> string" where
  "round_reason_text NoReason = []"
| "round_reason_text RoleChanged = ''role changed''"
| "round_reason_text VehicleChanged = ''vehicle changed''"
| "round_reason_text SeatboxChanged = ''seatbox changed''"
| "round_reason_text TagChanged = ''tag changed''"
| "round_reason_text ReadFailed = ''read failed''"
| "round_reason_text PackAbsent = ''pack absent''"
| "round_reason_text PackIdentityChanged = ''pack identity changed''"
| "round_reason_text SupplyBecameInactive = ''supply became inactive''"
| "round_reason_text ActivationRequalified = ''activation requalified''"
| "round_reason_text ActivationReserved = ''activation reserved''"
| "round_reason_text OffCommand = ''OFF command''"
| "round_reason_text IncompleteOrExpired = ''incomplete or expired''"
| "round_reason_text Shutdown = ''shutdown''"
| "round_reason_text UnpairedOrLate = ''unpaired or late result''"
| "round_reason_text SlowOrStale = ''slow or stale acquisition''"
| "round_reason_text SingleSupplyAcquired = ''single supply acquired''"
| "round_reason_text AcquisitionSkew = ''acquisition skew''"
| "round_reason_text SupersededOrStale = ''superseded or stale frame''"
| "round_reason_text Paired = ''paired''"
| "round_reason_text MotionQualificationChanged = ''motion qualification changed''"

record samplingReport =
  rep_id :: "64 word"
  rep_reason :: round_reason
  rep_skew :: duration
  rep_status0 :: "slot \<Rightarrow> duration"
  rep_frame :: "slot \<Rightarrow> duration"

definition zeroReport :: samplingReport where
  "zeroReport =
     \<lparr>rep_id = 0, rep_reason = NoReason, rep_skew = 0, rep_status0 = (\<lambda>_. 0), rep_frame = (\<lambda>_. 0)\<rparr>"

record samplingRounds =
  sampling_enabled :: bool
  sampling_stopped :: bool
  next_id :: "64 word"
  round_cur :: "samplingRound option"
  pairedAt :: gotime
  pairedID :: "64 word"
  report :: samplingReport

definition zeroSampling :: samplingRounds where
  "zeroSampling =
     \<lparr>sampling_enabled = False, sampling_stopped = False, next_id = 0, round_cur = None,
      pairedAt = zeroTime, pairedID = 0, report = zeroReport\<rparr>"

record isolationEpisode =
  survivor :: slot
  victim :: slot
  attempted :: bool
  handover :: bool
  offConfirmed :: bool

record stoppedAdmission =
  motion_enabled :: bool
  motion_at :: gotime
  motion_since :: gotime
  motion_stopped :: bool
  motion_source :: string
  motion_sequence :: "64 word"
  lastCheck :: gotime

definition zeroMotion :: stoppedAdmission where
  "zeroMotion =
     \<lparr>motion_enabled = False, motion_at = zeroTime, motion_since = zeroTime,
      motion_stopped = False, motion_source = [], motion_sequence = 0, lastCheck = zeroTime\<rparr>"

record packAdmission =
  coordinated :: bool
  conservative :: bool
  isolation :: "isolationEpisode option"
  vehicle :: VehicleState
  slots :: "slot \<Rightarrow> admissionSlot"
  sampling :: samplingRounds
  motion :: stoppedAdmission
  seatboxKnown :: bool
  seatboxClosed :: bool

definition zeroAdmission :: packAdmission where
  "zeroAdmission =
     \<lparr>coordinated = False, conservative = False, isolation = None, vehicle = [],
      slots = (\<lambda>_. zeroSlot), sampling = zeroSampling, motion = zeroMotion,
      seatboxKnown = False, seatboxClosed = False\<rparr>"

section \<open>Slot operations\<close>

definition replaceIdentity :: "string \<Rightarrow> admissionSlot \<Rightarrow> admissionSlot" where
  "replaceIdentity u s =
     zeroSlot\<lparr>monitored := monitored s, eligible := eligible s, powerTracked := powerTracked s,
       uid := u, held := held s, onAt := onAt s, lastOnAt := lastOnAt s,
       offPending := offPending s, offAt := offAt s, identityUncertain := held s,
       requiresAdmission :=
         (requiresAdmission s \<or> uid s \<noteq> [] \<or> serial s \<noteq> [] \<or> haveFrame s)\<rparr>"

text \<open>
  The loop at the end of \<open>appendHistory\<close>: drop the oldest sample while more than three remain
  and the second oldest already covers the stable window.
\<close>

fun trimHistory :: "gotime \<Rightarrow> admissionSample list \<Rightarrow> admissionSample list" where
  "trimHistory now (x # y # z # w # rest) =
     (if Sub now (smp_at y) \<ge> admissionStableTime
      then trimHistory now (y # z # w # rest)
      else x # y # z # w # rest)"
| "trimHistory now xs = xs"

definition appendHistory :: "BMSData \<Rightarrow> gotime \<Rightarrow> admissionSlot \<Rightarrow> admissionSlot" where
  "appendHistory d now s =
     (let h = (if history s \<noteq> [] \<and> Sub now (smp_at (last (history s))) > admissionMaxAge
               then [] else history s)
      in s\<lparr>history := trimHistory now (h @ [\<lparr>smp_data = d, smp_at = now\<rparr>])\<rparr>)"

definition fresh :: "gotime \<Rightarrow> admissionSlot \<Rightarrow> bool" where
  "fresh now s \<longleftrightarrow> valid s \<and> Sub now (observed s) \<le> admissionMaxAge"

definition usable :: "admissionSlot \<Rightarrow> bool" where
  "usable s \<longleftrightarrow> eligible s \<and> FaultCode (frame s) = 0 \<and>
     \<not> (LowSOC (frame s) \<and> Charge (frame s) = 0)"

text \<open>The loop of \<open>stable\<close>, with its running minimum and maximum voltage.\<close>

fun stableLoop :: "nat \<Rightarrow> nat \<Rightarrow> admissionSample list \<Rightarrow> bool" where
  "stableLoop minV maxV [] = (maxV - minV \<le> admissionVoltageSpan)"
| "stableLoop minV maxV (x # xs) =
     (if Current (smp_data x) < - admissionMaxCurrent \<or> Current (smp_data x) > admissionMaxCurrent
      then False
      else stableLoop (min minV (Voltage (smp_data x))) (max maxV (Voltage (smp_data x))) xs)"

definition stable :: "gotime \<Rightarrow> admissionSlot \<Rightarrow> bool" where
  "stable now s \<longleftrightarrow>
     (if \<not> fresh now s \<or> length (history s) < 3 \<or>
         Sub (smp_at (last (history s))) (smp_at (hd (history s))) < admissionStableTime
      then False
      else stableLoop (Voltage (frame s)) (Voltage (frame s)) (history s))"

definition voltageDistance :: "nat \<Rightarrow> nat \<Rightarrow> nat" where
  "voltageDistance v0 v1 = (if v0 > v1 then v0 - v1 else v1 - v0)"

section \<open>Updating the guard\<close>

text \<open>
  \<open>upd_slot\<close> is an assignment through \<open>&a.slots[i]\<close>; \<open>clear_histories\<close> the loop
  \<open>for i := range a.slots \{ a.slots[i].history = nil \}\<close>.
\<close>

definition upd_slot :: "slot \<Rightarrow> (admissionSlot \<Rightarrow> admissionSlot) \<Rightarrow> packAdmission \<Rightarrow> packAdmission" where
  "upd_slot i f a = a\<lparr>slots := (slots a)(i := f (slots a i))\<rparr>"

definition clear_histories :: "packAdmission \<Rightarrow> packAdmission" where
  "clear_histories a = a\<lparr>slots := (\<lambda>i. (slots a i)\<lparr>history := []\<rparr>)\<rparr>"

text \<open>The union of the two STATUS0 intervals: its start and its length.\<close>

definition acquisitionSpan :: "acquisition \<Rightarrow> acquisition \<Rightarrow> gotime \<times> duration" where
  "acquisitionSpan x y =
     (let st = (if Before (acq_start y) (acq_start x) then acq_start y else acq_start x);
          en = (if After (acq_end y) (acq_end x) then acq_end y else acq_end x)
      in (st, Sub en st))"

definition roundReport :: "samplingRound \<Rightarrow> round_reason \<Rightarrow> samplingReport" where
  "roundReport r reason =
     (let x = samples r Slot0; y = samples r Slot1
      in zeroReport\<lparr>rep_id := round_id r, rep_reason := reason,
           rep_skew := (if \<not> IsZero (acq_start x) \<and> \<not> IsZero (acq_start y)
                        then snd (acquisitionSpan x y) else 0),
           rep_status0 := (\<lambda>i. if \<not> IsZero (acq_start (samples r i))
                               then Sub (acq_end (samples r i)) (acq_start (samples r i)) else 0),
           rep_frame := (\<lambda>i. if \<not> IsZero (acq_start (samples r i))
                             then Sub (acq_complete (samples r i)) (acq_start (samples r i)) else 0)\<rparr>)"

definition cancelRoundLocked :: "round_reason \<Rightarrow> packAdmission \<Rightarrow> packAdmission" where
  "cancelRoundLocked reason a =
     (let sp = (case round_cur (sampling a) of
                  Some r \<Rightarrow> (sampling a)\<lparr>report := roundReport r reason, round_cur := None\<rparr>
                | None \<Rightarrow> sampling a);
          a' = a\<lparr>sampling := sp\<lparr>pairedAt := zeroTime, pairedID := 0\<rparr>\<rparr>
      in if sampling_enabled (sampling a) then clear_histories a' else a')"

section \<open>How the updates act on the fields\<close>

lemma slots_upd_slot [simp]: "slots (upd_slot i f a) = (slots a)(i := f (slots a i))"
  by (simp add: upd_slot_def)

lemma upd_slot_fields [simp]:
  "coordinated (upd_slot i f a) = coordinated a"
  "conservative (upd_slot i f a) = conservative a"
  "isolation (upd_slot i f a) = isolation a"
  "vehicle (upd_slot i f a) = vehicle a"
  "sampling (upd_slot i f a) = sampling a"
  "motion (upd_slot i f a) = motion a"
  "seatboxKnown (upd_slot i f a) = seatboxKnown a"
  "seatboxClosed (upd_slot i f a) = seatboxClosed a"
  by (simp_all add: upd_slot_def)

lemma slots_clear_histories [simp]:
  "slots (clear_histories a) = (\<lambda>i. (slots a i)\<lparr>history := []\<rparr>)"
  by (simp add: clear_histories_def)

lemma clear_histories_fields [simp]:
  "coordinated (clear_histories a) = coordinated a"
  "conservative (clear_histories a) = conservative a"
  "isolation (clear_histories a) = isolation a"
  "vehicle (clear_histories a) = vehicle a"
  "sampling (clear_histories a) = sampling a"
  "motion (clear_histories a) = motion a"
  "seatboxKnown (clear_histories a) = seatboxKnown a"
  "seatboxClosed (clear_histories a) = seatboxClosed a"
  by (simp_all add: clear_histories_def)

lemma slots_cancelRound:
  "slots (cancelRoundLocked r a) =
     (\<lambda>i. if sampling_enabled (sampling a) then (slots a i)\<lparr>history := []\<rparr> else slots a i)"
  by (auto simp: cancelRoundLocked_def Let_def)

lemma slots_cancelRound_history_free [simp]:
  "monitored (slots (cancelRoundLocked r a) i) = monitored (slots a i)"
  "eligible (slots (cancelRoundLocked r a) i) = eligible (slots a i)"
  "powerTracked (slots (cancelRoundLocked r a) i) = powerTracked (slots a i)"
  "uid (slots (cancelRoundLocked r a) i) = uid (slots a i)"
  "serial (slots (cancelRoundLocked r a) i) = serial (slots a i)"
  "absent (slots (cancelRoundLocked r a) i) = absent (slots a i)"
  "observed (slots (cancelRoundLocked r a) i) = observed (slots a i)"
  "observedRound (slots (cancelRoundLocked r a) i) = observedRound (slots a i)"
  "frame (slots (cancelRoundLocked r a) i) = frame (slots a i)"
  "haveFrame (slots (cancelRoundLocked r a) i) = haveFrame (slots a i)"
  "written (slots (cancelRoundLocked r a) i) = written (slots a i)"
  "valid (slots (cancelRoundLocked r a) i) = valid (slots a i)"
  "held (slots (cancelRoundLocked r a) i) = held (slots a i)"
  "active (slots (cancelRoundLocked r a) i) = active (slots a i)"
  "onAt (slots (cancelRoundLocked r a) i) = onAt (slots a i)"
  "lastOnAt (slots (cancelRoundLocked r a) i) = lastOnAt (slots a i)"
  "offPending (slots (cancelRoundLocked r a) i) = offPending (slots a i)"
  "offAt (slots (cancelRoundLocked r a) i) = offAt (slots a i)"
  "identityUncertain (slots (cancelRoundLocked r a) i) = identityUncertain (slots a i)"
  "requiresAdmission (slots (cancelRoundLocked r a) i) = requiresAdmission (slots a i)"
  by (simp_all add: slots_cancelRound)

lemma cancelRound_fields [simp]:
  "coordinated (cancelRoundLocked r a) = coordinated a"
  "conservative (cancelRoundLocked r a) = conservative a"
  "isolation (cancelRoundLocked r a) = isolation a"
  "vehicle (cancelRoundLocked r a) = vehicle a"
  "motion (cancelRoundLocked r a) = motion a"
  "seatboxKnown (cancelRoundLocked r a) = seatboxKnown a"
  "seatboxClosed (cancelRoundLocked r a) = seatboxClosed a"
  "sampling_enabled (sampling (cancelRoundLocked r a)) = sampling_enabled (sampling a)"
  "sampling_stopped (sampling (cancelRoundLocked r a)) = sampling_stopped (sampling a)"
  "next_id (sampling (cancelRoundLocked r a)) = next_id (sampling a)"
  "round_cur (sampling (cancelRoundLocked r a)) = None"
  "pairedAt (sampling (cancelRoundLocked r a)) = zeroTime"
  "pairedID (sampling (cancelRoundLocked r a)) = 0"
  by (simp_all add: cancelRoundLocked_def Let_def split: option.split)

lemma replaceIdentity_fields [simp]:
  "monitored (replaceIdentity u s) = monitored s"
  "eligible (replaceIdentity u s) = eligible s"
  "powerTracked (replaceIdentity u s) = powerTracked s"
  "uid (replaceIdentity u s) = u"
  "serial (replaceIdentity u s) = []"
  "absent (replaceIdentity u s) = False"
  "haveFrame (replaceIdentity u s) = False"
  "written (replaceIdentity u s) = zeroTime"
  "valid (replaceIdentity u s) = False"
  "history (replaceIdentity u s) = []"
  "held (replaceIdentity u s) = held s"
  "active (replaceIdentity u s) = False"
  "onAt (replaceIdentity u s) = onAt s"
  "lastOnAt (replaceIdentity u s) = lastOnAt s"
  "offPending (replaceIdentity u s) = offPending s"
  "offAt (replaceIdentity u s) = offAt s"
  "identityUncertain (replaceIdentity u s) = held s"
  "observedRound (replaceIdentity u s) = 0"
  "requiresAdmission (replaceIdentity u s) \<longleftrightarrow>
     requiresAdmission s \<or> uid s \<noteq> [] \<or> serial s \<noteq> [] \<or> haveFrame s"
  by (simp_all add: replaceIdentity_def zeroSlot_def)

lemma appendHistory_fields [simp]:
  "monitored (appendHistory d t s) = monitored s"
  "eligible (appendHistory d t s) = eligible s"
  "powerTracked (appendHistory d t s) = powerTracked s"
  "uid (appendHistory d t s) = uid s"
  "serial (appendHistory d t s) = serial s"
  "absent (appendHistory d t s) = absent s"
  "observed (appendHistory d t s) = observed s"
  "observedRound (appendHistory d t s) = observedRound s"
  "frame (appendHistory d t s) = frame s"
  "haveFrame (appendHistory d t s) = haveFrame s"
  "written (appendHistory d t s) = written s"
  "valid (appendHistory d t s) = valid s"
  "held (appendHistory d t s) = held s"
  "active (appendHistory d t s) = active s"
  "onAt (appendHistory d t s) = onAt s"
  "lastOnAt (appendHistory d t s) = lastOnAt s"
  "offPending (appendHistory d t s) = offPending s"
  "offAt (appendHistory d t s) = offAt s"
  "identityUncertain (appendHistory d t s) = identityUncertain s"
  "requiresAdmission (appendHistory d t s) = requiresAdmission s"
  by (simp_all add: appendHistory_def Let_def)

section \<open>Sample windows\<close>

lemma trimHistory_suffix: "\<exists>ys. xs = ys @ trimHistory now xs"
proof (induction now xs rule: trimHistory.induct)
  case (1 now x y z w rest)
  show ?case
  proof (cases "Sub now (smp_at y) \<ge> admissionStableTime")
    case True
    with 1 obtain ys where "y # z # w # rest = ys @ trimHistory now (y # z # w # rest)" by blast
    with True have "x # y # z # w # rest = (x # ys) @ trimHistory now (x # y # z # w # rest)"
      by simp
    then show ?thesis by blast
  qed simp
qed auto

lemma trimHistory_last [simp]: "xs \<noteq> [] \<Longrightarrow> last (trimHistory now xs) = last xs"
  by (induction now xs rule: trimHistory.induct) auto

lemma trimHistory_length: "min 3 (length xs) \<le> length (trimHistory now xs)"
  by (induction now xs rule: trimHistory.induct) auto

lemma trimHistory_set: "set (trimHistory now xs) \<subseteq> set xs"
  using trimHistory_suffix [of xs now] by (metis Un_upper2 set_append)

text \<open>
  Trimming stops as soon as the second oldest sample is inside the window, so a window of more
  than three samples spans the stable time by at most one sampling interval.
\<close>

lemma trimHistory_window:
  "3 < length (trimHistory now xs) \<Longrightarrow>
   Sub now (smp_at (trimHistory now xs ! 1)) < admissionStableTime"
  by (induction now xs rule: trimHistory.induct) auto

text \<open>
  The running minimum and maximum decide exactly that no two voltages of the window differ by
  more than the span.
\<close>

lemma stableLoop_iff:
  "lo \<le> hi \<Longrightarrow>
   stableLoop lo hi xs \<longleftrightarrow>
     (\<forall>x \<in> set xs. \<bar>Current (smp_data x)\<bar> \<le> admissionMaxCurrent) \<and>
     (\<forall>v \<in> {lo, hi} \<union> (Voltage \<circ> smp_data) ` set xs.
      \<forall>w \<in> {lo, hi} \<union> (Voltage \<circ> smp_data) ` set xs. v - w \<le> admissionVoltageSpan)"
proof (induction lo hi xs rule: stableLoop.induct)
  case (2 lo hi x xs)
  let ?v = "Voltage (smp_data x)"
  let ?V = "(Voltage \<circ> smp_data) ` set xs"
  have ends: "(\<forall>v \<in> {min lo ?v, max hi ?v} \<union> ?V. \<forall>w \<in> {min lo ?v, max hi ?v} \<union> ?V.
                 v - w \<le> admissionVoltageSpan) \<longleftrightarrow>
              (\<forall>v \<in> {lo, hi, ?v} \<union> ?V. \<forall>w \<in> {lo, hi, ?v} \<union> ?V. v - w \<le> admissionVoltageSpan)"
    (is "?L \<longleftrightarrow> ?R")
  proof
    assume L: ?L
    have "\<exists>v' \<in> {min lo ?v, max hi ?v} \<union> ?V. v \<le> v'" if "v \<in> {lo, hi, ?v} \<union> ?V" for v
      using that "2.prems" by auto
    moreover have "\<exists>w' \<in> {min lo ?v, max hi ?v} \<union> ?V. w' \<le> w" if "w \<in> {lo, hi, ?v} \<union> ?V" for w
      using that "2.prems" by auto
    ultimately show ?R
      using L by (meson diff_le_mono diff_le_mono2 order_trans)
  next
    assume R: ?R
    have "{min lo ?v, max hi ?v} \<union> ?V \<subseteq> {lo, hi, ?v} \<union> ?V" by (auto simp: min_def max_def)
    with R show ?L by (meson subsetD)
  qed
  show ?case
  proof (cases "Current (smp_data x) < - admissionMaxCurrent \<or> Current (smp_data x) > admissionMaxCurrent")
    case True
    then show ?thesis by (auto simp: abs_le_iff)
  next
    case False
    then have cur: "(\<forall>y \<in> set (x # xs). \<bar>Current (smp_data y)\<bar> \<le> admissionMaxCurrent) \<longleftrightarrow>
        (\<forall>y \<in> set xs. \<bar>Current (smp_data y)\<bar> \<le> admissionMaxCurrent)"
      by (auto simp: abs_le_iff)
    from False "2.prems" have "stableLoop lo hi (x # xs) \<longleftrightarrow>
        (\<forall>y \<in> set xs. \<bar>Current (smp_data y)\<bar> \<le> admissionMaxCurrent) \<and> ?L"
      by (simp add: "2.IH" min.coboundedI1 max.coboundedI1 del: ball_simps)
    also have "\<dots> \<longleftrightarrow> (\<forall>y \<in> set (x # xs). \<bar>Current (smp_data y)\<bar> \<le> admissionMaxCurrent) \<and> ?R"
      by (simp only: cur ends)
    also have "{lo, hi, ?v} \<union> ?V = {lo, hi} \<union> (Voltage \<circ> smp_data) ` set (x # xs)"
      by auto
    finally show ?thesis .
  qed
qed auto

lemma voltageDistance_sym: "voltageDistance v w = voltageDistance w v"
  by (simp add: voltageDistance_def)

lemma voltageDistance_abs: "int (voltageDistance v w) = \<bar>int v - int w\<bar>"
  by (simp add: voltageDistance_def)

lemma voltageDistance_self [simp]: "voltageDistance v v = 0"
  by (simp add: voltageDistance_def)

end
