(* ===== verification/Motion.thy ===== *)
theory Motion
  imports Admission_State
begin

text \<open>
  Movement evidence: \<open>stopped_admission.go\<close> and the decoder side of \<open>motion_ipc.go\<close>. The
  JSON decoder of the message is the parameter \<open>unmarshal\<close>; nothing is assumed about it.
\<close>

section \<open>Tracking stopped reports\<close>

definition upd_motion :: "(stoppedAdmission \<Rightarrow> stoppedAdmission) \<Rightarrow> packAdmission \<Rightarrow> packAdmission" where
  "upd_motion f a = a\<lparr>motion := f (motion a)\<rparr>"

definition invalidateMotionLocked :: "packAdmission \<Rightarrow> packAdmission" where
  "invalidateMotionLocked a =
     upd_motion (\<lambda>m. m\<lparr>motion_at := zeroTime, motion_since := zeroTime, motion_stopped := False\<rparr>) a"

definition motionClockJump :: "gotime \<Rightarrow> gotime \<Rightarrow> bool" where
  "motionClockJump previous now \<longleftrightarrow>
     (if IsZero previous then False
      else let delta = wrap64 (wrap64 (UnixNano now - UnixNano previous) - Sub now previous)
           in delta > 5 * Millisecond \<or> delta < - (5 * Millisecond))"

definition observeMotionLocked :: "bool \<Rightarrow> gotime \<Rightarrow> gotime \<Rightarrow> packAdmission \<Rightarrow> packAdmission" where
  "observeMotionLocked stopped received now a0 =
     (let a1 = (if motionClockJump (lastCheck (motion a0)) now then invalidateMotionLocked a0 else a0);
          a2 = upd_motion (\<lambda>m. m\<lparr>lastCheck := now\<rparr>) a1;
          m = motion a2
      in if IsZero received \<or> After received now \<or> Sub now received > stoppedMotionMaxAge \<or>
            (\<not> IsZero (motion_at m) \<and> \<not> After received (motion_at m))
         then invalidateMotionLocked a2
         else
           let a3 = (if IsZero (motion_at m) \<or> motion_stopped m \<noteq> stopped
                     then clear_histories (cancelRoundLocked MotionQualificationChanged a2) else a2);
               since' = (if \<not> stopped then zeroTime
                         else if \<not> motion_stopped m \<or> Sub received (motion_at m) > stoppedMotionMaxAge
                              then received
                         else motion_since m)
           in upd_motion (\<lambda>m. m\<lparr>motion_since := since', motion_at := received, motion_stopped := stopped\<rparr>) a3)"

definition observeMotion :: "bool \<Rightarrow> gotime \<Rightarrow> gotime \<Rightarrow> packAdmission \<Rightarrow> packAdmission" where
  "observeMotion stopped received now a = observeMotionLocked stopped received now a"

definition invalidateMotion :: "packAdmission \<Rightarrow> packAdmission" where
  "invalidateMotion a = invalidateMotionLocked a"

text \<open>The freshness test discards the evidence when it sees a clock jump.\<close>

definition stoppedMotionFreshLocked :: "gotime \<Rightarrow> packAdmission \<Rightarrow> bool \<times> packAdmission" where
  "stoppedMotionFreshLocked now a =
     (let m = motion a
      in if motionClockJump (lastCheck m) now then (False, invalidateMotionLocked a)
         else (motion_enabled m \<and> motion_stopped m \<and> \<not> IsZero (motion_since m) \<and>
               \<not> Before now (motion_at m) \<and> Sub now (motion_at m) \<le> stoppedMotionMaxAge, a))"

text \<open>One iteration of the loop over the slots in \<open>stoppedPairReadyLocked\<close>.\<close>

definition stoppedPairSlotOK :: "packAdmission \<Rightarrow> slot \<Rightarrow> bool" where
  "stoppedPairSlotOK a i \<longleftrightarrow>
     (let s = slots a i; m = motion a; p = sampling a
      in \<not> (observedRound s \<noteq> pairedID p \<or> Before (motion_at m) (observed s) \<or>
            history s = [] \<or> Before (smp_at (hd (history s))) (motion_since m)))"

definition stoppedPairReadyLocked :: "gotime \<Rightarrow> packAdmission \<Rightarrow> bool \<times> packAdmission" where
  "stoppedPairReadyLocked now a0 =
     (case stoppedMotionFreshLocked now a0 of (fr, a) \<Rightarrow>
        if \<not> fr then (False, a)
        else let m = motion a; p = sampling a
          in if \<not> sampling_enabled p \<or> sampling_stopped p \<or> pairedID p = 0 \<or>
                Before (pairedAt p) (motion_since m) \<or> Before now (pairedAt p) \<or>
                Sub now (pairedAt p) > stoppedPairMaxAge
             then (False, a)
             else (stoppedPairSlotOK a Slot0 \<and> stoppedPairSlotOK a Slot1, a))"

definition secondPackStationaryLocked :: "gotime \<Rightarrow> packAdmission \<Rightarrow> bool \<times> packAdmission" where
  "secondPackStationaryLocked now a =
     (if nonDrivingVehicle (vehicle a)
      then let m = motion a
        in (IsZero (motion_at m) \<or> Before now (motion_at m) \<or>
            Sub now (motion_at m) > stoppedMotionMaxAge \<or> motion_stopped m, a)
      else stoppedPairReadyLocked now a)"

section \<open>Motion messages\<close>

record motionEvidence =
  ev_Version :: int
  ev_Source :: string
  ev_Sequence :: "64 word"
  ev_ObservedAt :: "gotime option"
  ev_Valid :: "bool option"
  ev_RPM :: "16 word option"
  ev_RawSpeed :: "8 word option"
  ev_ThrottleOn :: "bool option"
  ev_Reason :: string

text \<open>\<open>hex.DecodeString\<close>: pairs of hex digits, an error on any other byte or an odd length.\<close>

definition hexVal :: "char \<Rightarrow> nat option" where
  "hexVal c =
     (let n = (of_char c :: nat)
      in if 48 \<le> n \<and> n \<le> 57 then Some (n - 48)
         else if 97 \<le> n \<and> n \<le> 102 then Some (n - 87)
         else if 65 \<le> n \<and> n \<le> 70 then Some (n - 55)
         else None)"

fun hexDecode :: "string \<Rightarrow> nat list option" where
  "hexDecode [] = Some []"
| "hexDecode [c] = None"
| "hexDecode (c # d # cs) =
     (case (hexVal c, hexVal d, hexDecode cs) of
        (Some x, Some y, Some bs) \<Rightarrow> Some ((16 * x + y) # bs)
      | _ \<Rightarrow> None)"

text \<open>\<open>strings.ToLower\<close> on the ASCII bytes a successful hex decoding leaves possible.\<close>

definition toLowerChar :: "char \<Rightarrow> char" where
  "toLowerChar c =
     (let n = (of_char c :: nat) in if 65 \<le> n \<and> n \<le> 90 then char_of (n + 32) else c)"

definition sourceValid :: "string \<Rightarrow> bool" where
  "sourceValid src \<longleftrightarrow>
     (case hexDecode src of None \<Rightarrow> False | Some bs \<Rightarrow> length bs = 16) \<and>
     src = map toLowerChar src"

definition resetMotionStream :: "packAdmission \<Rightarrow> packAdmission" where
  "resetMotionStream a =
     upd_motion (\<lambda>m. m\<lparr>motion_source := [], motion_sequence := 0\<rparr>) (invalidateMotionLocked a)"

text \<open>
  The end of \<open>receiveMotionEvidence\<close>: completeness and age of the observation.
\<close>

definition applyMotionEvidence :: "motionEvidence \<Rightarrow> gotime \<Rightarrow> packAdmission \<Rightarrow> bool \<times> packAdmission" where
  "applyMotionEvidence e now a =
     (case (ev_Valid e, ev_ObservedAt e, ev_RPM e, ev_RawSpeed e, ev_ThrottleOn e) of
        (Some True, Some observedAt, Some rpm, Some rawSpeed, Some throttleOn) \<Rightarrow>
          let age = Sub now observedAt
          in if IsZero observedAt \<or> age < 0 \<or> age > stoppedMotionMaxAge
             then (False, invalidateMotionLocked a)
             else
               let b = observeMotionLocked (rpm = 0 \<and> rawSpeed = 0 \<and> \<not> throttleOn)
                         (AddDur now (- age)) now a
               in (\<not> IsZero (motion_at (motion b)), b)
      | _ \<Rightarrow> (False, invalidateMotionLocked a))"

text \<open>Stream continuity of a well-formed message: duplicates, gaps and new sources.\<close>

definition acceptMotionEvidence :: "motionEvidence \<Rightarrow> gotime \<Rightarrow> packAdmission \<Rightarrow> bool \<times> packAdmission" where
  "acceptMotionEvidence e now a =
     (let m = motion a
      in if ev_Source e = motion_source m \<and> ev_Sequence e \<le> motion_sequence m
         then (False, invalidateMotionLocked a)
         else
           let a1 = (if ev_Source e \<noteq> motion_source m \<or> ev_Sequence e \<noteq> motion_sequence m + 1
                     then invalidateMotionLocked a else a)
           in applyMotionEvidence e now
                (upd_motion (\<lambda>m. m\<lparr>motion_source := ev_Source e, motion_sequence := ev_Sequence e\<rparr>) a1))"

definition receiveMotionEvidence ::
  "(string \<Rightarrow> motionEvidence option) \<Rightarrow> string \<Rightarrow> gotime \<Rightarrow> packAdmission \<Rightarrow> bool \<times> packAdmission" where
  "receiveMotionEvidence unmarshal payload now a0 =
     (let decoded = (if length payload \<le> 1024 then unmarshal payload else None);
          wellFormed = (case decoded of
                          None \<Rightarrow> False
                        | Some e \<Rightarrow> sourceValid (ev_Source e) \<and> ev_Version e = 1 \<and>
                                    ev_Sequence e \<noteq> 0 \<and> ev_Valid e \<noteq> None);
          a1 = (if motionClockJump (lastCheck (motion a0)) now then invalidateMotionLocked a0 else a0);
          a2 = upd_motion (\<lambda>m. m\<lparr>lastCheck := now\<rparr>) a1
      in if \<not> wellFormed then (False, invalidateMotionLocked a2)
         else acceptMotionEvidence (the decoded) now a2)"

section \<open>Frame facts\<close>

text \<open>
  Motion evidence never touches the power ledger of a slot: these operations change the motion
  record, and at most drop the sampling round with the sample windows.
\<close>

lemma upd_motion_fields [simp]:
  "coordinated (upd_motion f a) = coordinated a"
  "conservative (upd_motion f a) = conservative a"
  "isolation (upd_motion f a) = isolation a"
  "vehicle (upd_motion f a) = vehicle a"
  "slots (upd_motion f a) = slots a"
  "sampling (upd_motion f a) = sampling a"
  "motion (upd_motion f a) = f (motion a)"
  "seatboxKnown (upd_motion f a) = seatboxKnown a"
  "seatboxClosed (upd_motion f a) = seatboxClosed a"
  by (simp_all add: upd_motion_def)

lemma invalidateMotion_fields [simp]:
  "coordinated (invalidateMotionLocked a) = coordinated a"
  "conservative (invalidateMotionLocked a) = conservative a"
  "isolation (invalidateMotionLocked a) = isolation a"
  "vehicle (invalidateMotionLocked a) = vehicle a"
  "slots (invalidateMotionLocked a) = slots a"
  "sampling (invalidateMotionLocked a) = sampling a"
  "motion_at (motion (invalidateMotionLocked a)) = zeroTime"
  "motion_since (motion (invalidateMotionLocked a)) = zeroTime"
  "motion_stopped (motion (invalidateMotionLocked a)) = False"
  "motion_enabled (motion (invalidateMotionLocked a)) = motion_enabled (motion a)"
  "motion_source (motion (invalidateMotionLocked a)) = motion_source (motion a)"
  "motion_sequence (motion (invalidateMotionLocked a)) = motion_sequence (motion a)"
  "lastCheck (motion (invalidateMotionLocked a)) = lastCheck (motion a)"
  by (simp_all add: invalidateMotionLocked_def)

text \<open>Case analysis on the completeness of a motion message.\<close>

lemma complete_evidence_cases:
  assumes "\<And>ob r s t. v = Some True \<Longrightarrow> ob' = Some ob \<Longrightarrow> r' = Some r \<Longrightarrow> s' = Some s \<Longrightarrow> t' = Some t \<Longrightarrow>
             P (f ob r s t)"
    and "P g"
  shows "P (case (v, ob', r', s', t') of
              (Some True, Some ob, Some r, Some s, Some t) \<Rightarrow> f ob r s t | _ \<Rightarrow> g)"
proof (cases "v = Some True \<and> ob' \<noteq> None \<and> r' \<noteq> None \<and> s' \<noteq> None \<and> t' \<noteq> None")
  case True
  with assms(1) show ?thesis by auto
next
  case False
  with assms(2) show ?thesis by (simp split: option.split bool.split) blast
qed

end
