(* ===== verification/Observation.thy ===== *)
theory Observation
  imports Motion
begin

text \<open>
  The operations of \<open>admission.go\<close> that record what the service observes: construction, role,
  vehicle and seatbox changes, tag identity, failed and absent reads, and \<open>observeLocked\<close>,
  which turns a status frame into evidence about a slot's supply.
\<close>

section \<open>Construction and configuration\<close>

definition setRole :: "slot \<Rightarrow> bool \<Rightarrow> packAdmission \<Rightarrow> packAdmission" where
  "setRole index el a =
     (let a1 = cancelRoundLocked RoleChanged a;
          a2 = upd_slot index (\<lambda>s. s\<lparr>eligible := el\<rparr>) a1;
          a3 = upd_slot index (\<lambda>s. s\<lparr>powerTracked := (powerTracked s \<or> el)\<rparr>) a2;
          a4 = (if eligible (slots a3 Slot0) \<and> eligible (slots a3 Slot1)
                then a3\<lparr>coordinated := True\<rparr> else a3)
      in clear_histories a4)"

text \<open>One reader of the configuration; indices outside the array are skipped.\<close>

definition configureReader :: "packAdmission \<Rightarrow> BatteryReaderConfig \<Rightarrow> packAdmission" where
  "configureReader a r =
     (if Index r < 0 \<or> Index r \<ge> 2 then a
      else let i = (if Index r = 0 then Slot0 else Slot1)
           in setRole i (Enabled r \<and> Role r = BatteryRoleActive)
                (upd_slot i (\<lambda>s. s\<lparr>monitored := Enabled r\<rparr>) a))"

definition newPackAdmission :: "BatteryConfiguration \<Rightarrow> packAdmission" where
  "newPackAdmission config =
     (let a = foldl configureReader (zeroAdmission\<lparr>conservative := True\<rparr>) config
      in a\<lparr>coordinated := (monitored (slots a Slot0) \<and> monitored (slots a Slot1))\<rparr>)"

definition setVehicleAt :: "VehicleState \<Rightarrow> gotime \<Rightarrow> packAdmission \<Rightarrow> packAdmission" where
  "setVehicleAt state now a =
     (let a' = (if vehicle a \<noteq> state \<and>
                   \<not> (nonDrivingVehicle (vehicle a) \<and> nonDrivingVehicle state)
                then (case stoppedMotionFreshLocked now a of (fr, b) \<Rightarrow>
                        if \<not> fr then clear_histories (cancelRoundLocked VehicleChanged b) else b)
                else a)
      in a'\<lparr>vehicle := state\<rparr>)"

text \<open>The loop body of \<open>invalidateSeatboxLocked\<close>.\<close>

definition invalidateSeatboxSlot :: "admissionSlot \<Rightarrow> admissionSlot" where
  "invalidateSeatboxSlot s =
     (let s' = s\<lparr>valid := False, history := [], observedRound := 0\<rparr>
      in if \<not> held s' \<or> \<not> active s' then s'\<lparr>requiresAdmission := True\<rparr> else s')"

definition invalidateSeatboxLocked :: "packAdmission \<Rightarrow> packAdmission" where
  "invalidateSeatboxLocked a =
     (let a' = cancelRoundLocked SeatboxChanged a
      in a'\<lparr>slots := (\<lambda>i. invalidateSeatboxSlot (slots a' i))\<rparr>)"

definition setSeatbox :: "bool \<Rightarrow> packAdmission \<Rightarrow> packAdmission" where
  "setSeatbox closed a =
     (if \<not> seatboxKnown a then a\<lparr>seatboxKnown := True, seatboxClosed := closed\<rparr>
      else if seatboxClosed a = closed then a
      else invalidateSeatboxLocked (a\<lparr>seatboxClosed := closed\<rparr>))"

section \<open>Tags and failed reads\<close>

definition tag :: "slot \<Rightarrow> string \<Rightarrow> packAdmission \<Rightarrow> packAdmission" where
  "tag index u a0 =
     (let a = cancelRoundLocked TagChanged a0;
          a' = (if uid (slots a index) \<noteq> u
                then upd_slot index (replaceIdentity u) a
                else upd_slot index
                       (\<lambda>s. let s' = s\<lparr>valid := False, haveFrame := False, written := zeroTime, history := []\<rparr>
                            in if nonDrivingVehicle (vehicle a) then s'\<lparr>requiresAdmission := True\<rparr> else s') a)
      in upd_slot index (\<lambda>s. s\<lparr>absent := False\<rparr>) a')"

definition set_round_sample :: "slot \<Rightarrow> acquisition \<Rightarrow> samplingRound \<Rightarrow> samplingRound" where
  "set_round_sample i x r = r\<lparr>samples := (samples r)(i := x)\<rparr>"

definition failAcquisition :: "slot \<Rightarrow> 64 word \<Rightarrow> acquisition \<Rightarrow> packAdmission \<Rightarrow> packAdmission" where
  "failAcquisition index rid x a0 =
     (let a1 = (case round_cur (sampling a0) of
                  Some r \<Rightarrow>
                    if round_id r = rid
                    then a0\<lparr>sampling := (sampling a0)\<lparr>round_cur := Some (set_round_sample index x r)\<rparr>\<rparr>
                    else a0
                | None \<Rightarrow> a0);
          a2 = cancelRoundLocked ReadFailed a1
      in upd_slot index (\<lambda>s. s\<lparr>valid := False, absent := False, history := []\<rparr>) a2)"

definition invalidate :: "slot \<Rightarrow> packAdmission \<Rightarrow> packAdmission" where
  "invalidate index a = failAcquisition index 0 zeroAcquisition a"

definition observeAbsent :: "slot \<Rightarrow> gotime \<Rightarrow> packAdmission \<Rightarrow> packAdmission" where
  "observeAbsent index now a0 =
     (let a1 = upd_slot index
                 (\<lambda>s. let s' = s\<lparr>valid := False, haveFrame := False, written := zeroTime,
                                 observedRound := 0, history := []\<rparr>
                      in if nonDrivingVehicle (vehicle a0) then s'\<lparr>requiresAdmission := True\<rparr> else s') a0;
          a2 = cancelRoundLocked PackAbsent a1
      in upd_slot index (\<lambda>s. s\<lparr>absent := \<not> held s, observed := now\<rparr>) a2)"

section \<open>Observing a frame\<close>

text \<open>
  \<open>observeLocked\<close> in four steps: the identity of the pack, the frame and its confirmation, the
  evidence about the supply, and the sample window. The third step runs on valid frames only.
\<close>

definition observeIdentity :: "slot \<Rightarrow> BMSData \<Rightarrow> packAdmission \<Rightarrow> packAdmission" where
  "observeIdentity index d a0 =
     (let a1 = (if State d = BMSStateActive
                then upd_slot index (\<lambda>s. s\<lparr>powerTracked := True\<rparr>) a0 else a0);
          s = slots a1 index;
          a2 = (if serial s \<noteq> [] \<and> SerialNumber d \<noteq> [] \<and> serial s \<noteq> SerialNumber d
                then upd_slot index (\<lambda>s. replaceIdentity (uid s) s)
                       (cancelRoundLocked PackIdentityChanged a1)
                else a1)
      in (if SerialNumber d \<noteq> [] then upd_slot index (\<lambda>s. s\<lparr>serial := SerialNumber d\<rparr>) a2 else a2))"

definition observeFrame :: "BMSData \<Rightarrow> gotime \<Rightarrow> admissionSlot \<Rightarrow> admissionSlot" where
  "observeFrame d now s0 =
     (let s1 = s0\<lparr>observedRound := 0\<rparr>;
          s2 = (if haveFrame s1 \<and> statusFrameChanged (frame s1) d then s1\<lparr>written := now\<rparr> else s1);
          s3 = s2\<lparr>frame := d, haveFrame := True, observed := now, absent := False\<rparr>
      in s3\<lparr>valid := (Present d \<and> Voltage d > 0 \<and>
                      (State d = BMSStateActive \<or> State d = BMSStateIdle \<or> State d = BMSStateAsleep) \<and>
                      \<not> IsZero (written s3))\<rparr>)"

text \<open>When an inactive reading releases the reservation of a slot.\<close>

definition inactiveConfirmed :: "gotime \<Rightarrow> admissionSlot \<Rightarrow> bool" where
  "inactiveConfirmed now s \<longleftrightarrow>
     (\<not> offPending s \<and> After (written s) (lastOnAt s) \<and>
        ((active s \<and> Sub now (lastOnAt s) \<ge> BMSTimeCmd) \<or> Sub now (lastOnAt s) \<ge> admissionOnSettle)) \<or>
     (offPending s \<and> \<not> Before (offAt s) (lastOnAt s) \<and> Sub now (offAt s) \<ge> BMSTimeCmd \<and>
        After (written s) (offAt s))"

text \<open>What a confirmed inactive reading of \<open>index\<close> does to an isolation episode.\<close>

definition isolationAfterOff :: "slot \<Rightarrow> isolationEpisode \<Rightarrow> isolationEpisode option" where
  "isolationAfterOff index e =
     (if victim e = index then (if handover e then Some (e\<lparr>offConfirmed := True\<rparr>) else None)
      else if \<not> handover e \<and> survivor e = index \<and> \<not> attempted e then None
      else Some e)"

definition observePower :: "slot \<Rightarrow> BMSData \<Rightarrow> gotime \<Rightarrow> packAdmission \<Rightarrow> packAdmission" where
  "observePower index d now a =
     (if State d = BMSStateActive
      then let a1 = upd_slot index (\<lambda>s. s\<lparr>held := True, active := True, identityUncertain := False\<rparr>) a
           in (case isolation a1 of
                 Some e \<Rightarrow> if handover e \<and> offConfirmed e \<and> survivor e = index
                           then a1\<lparr>isolation := None\<rparr> else a1
               | None \<Rightarrow> a1)
      else if inactiveConfirmed now (slots a index)
      then let a1 = (if held (slots a index)
                     then clear_histories (cancelRoundLocked SupplyBecameInactive a) else a);
               a2 = upd_slot index
                      (\<lambda>s. s\<lparr>held := False, active := False, offPending := False, identityUncertain := False\<rparr>) a1
           in (case isolation a2 of
                 Some e \<Rightarrow> a2\<lparr>isolation := isolationAfterOff index e\<rparr>
               | None \<Rightarrow> a2)
      else a)"

definition observeLocked :: "slot \<Rightarrow> BMSData \<Rightarrow> gotime \<Rightarrow> packAdmission \<Rightarrow> packAdmission" where
  "observeLocked index d now a0 =
     (let a1 = upd_slot index (observeFrame d now) (observeIdentity index d a0)
      in if \<not> valid (slots a1 index)
         then upd_slot index (\<lambda>s. s\<lparr>history := []\<rparr>) a1
         else let a2 = observePower index d now a1
              in if sampling_enabled (sampling a2) \<and> coordinated a2 then a2
                 else upd_slot index (appendHistory d now) a2)"

definition observe :: "slot \<Rightarrow> BMSData \<Rightarrow> gotime \<Rightarrow> packAdmission \<Rightarrow> packAdmission" where
  "observe index d now a = observeLocked index d now a"

section \<open>Frame facts\<close>

lemma observeFrame_fields [simp]:
  "monitored (observeFrame d t s) = monitored s"
  "eligible (observeFrame d t s) = eligible s"
  "powerTracked (observeFrame d t s) = powerTracked s"
  "uid (observeFrame d t s) = uid s"
  "serial (observeFrame d t s) = serial s"
  "absent (observeFrame d t s) = False"
  "observed (observeFrame d t s) = t"
  "frame (observeFrame d t s) = d"
  "haveFrame (observeFrame d t s) = True"
  "history (observeFrame d t s) = history s"
  "held (observeFrame d t s) = held s"
  "active (observeFrame d t s) = active s"
  "onAt (observeFrame d t s) = onAt s"
  "lastOnAt (observeFrame d t s) = lastOnAt s"
  "offPending (observeFrame d t s) = offPending s"
  "offAt (observeFrame d t s) = offAt s"
  "identityUncertain (observeFrame d t s) = identityUncertain s"
  "requiresAdmission (observeFrame d t s) = requiresAdmission s"
  "observedRound (observeFrame d t s) = 0"
  by (simp_all add: observeFrame_def Let_def)

lemma observeFrame_valid:
  "valid (observeFrame d t s) \<longleftrightarrow>
     Present d \<and> Voltage d > 0 \<and> (State d = BMSStateActive \<or> inactive_state (State d)) \<and>
     \<not> IsZero (written (observeFrame d t s))"
  by (auto simp: observeFrame_def Let_def)

lemma observeFrame_written:
  "written (observeFrame d t s) =
     (if haveFrame s \<and> statusFrameChanged (frame s) d then t else written s)"
  by (simp add: observeFrame_def Let_def)

end
