(* ===== verification/Sampling_Rounds.thy ===== *)
theory Sampling_Rounds
  imports Observation
begin

text \<open>
  Coordinated acquisition (\<open>sampling.go\<close>, and the polling predicates of \<open>admission.go\<close> and
  \<open>admission_demand.go\<close>): rounds are opened by the poller, claimed once per reader, and end
  paired, failed, superseded or expired.
\<close>

section \<open>Operations\<close>

definition needsPollLocked :: "packAdmission \<Rightarrow> bool" where
  "needsPollLocked a \<longleftrightarrow>
     (if \<not> coordinated a then False
      else if sampling_enabled (sampling a)
      then monitored (slots a Slot0) \<and> monitored (slots a Slot1) \<and>
           (eligible (slots a Slot0) \<or> eligible (slots a Slot1))
      else if \<not> nonDrivingVehicle (vehicle a) then False
      else (\<exists>i. let s = slots a i
                in monitored s \<and> eligible s \<and>
                   ((\<not> active s \<or> requiresAdmission s) \<and> \<not> absent s \<or> offPending s)))"

definition roundInProgress :: "packAdmission \<Rightarrow> bool" where
  "roundInProgress a \<longleftrightarrow> round_cur (sampling a) \<noteq> None"

definition hasInactiveCandidateLocked :: "packAdmission \<Rightarrow> bool" where
  "hasInactiveCandidateLocked a \<longleftrightarrow>
     (if sampling_stopped (sampling a) then False
      else (\<exists>i. let s = slots a i
                in eligible s \<and> \<not> absent s \<and> \<not> held s \<and> \<not> offPending s \<and> \<not> active s))"

definition upd_sampling :: "(samplingRounds \<Rightarrow> samplingRounds) \<Rightarrow> packAdmission \<Rightarrow> packAdmission" where
  "upd_sampling f a = a\<lparr>sampling := f (sampling a)\<rparr>"

text \<open>Opening a round once no earlier one blocks it.\<close>

definition openRound :: "gotime \<Rightarrow> packAdmission \<Rightarrow> (64 word \<times> samplingReport) \<times> packAdmission" where
  "openRound now a =
     (let rep = report (sampling a);
          a1 = upd_sampling (\<lambda>p. p\<lparr>report := zeroReport\<rparr>) a
      in if \<not> sampling_enabled (sampling a1) \<or> sampling_stopped (sampling a1) \<or>
            \<not> monitored (slots a1 Slot0) \<or> \<not> monitored (slots a1 Slot1) \<or> \<not> needsPollLocked a1
         then ((0, rep), a1)
         else let n = next_id (sampling a1) + 1;
                  a2 = upd_sampling
                         (\<lambda>p. p\<lparr>next_id := n,
                                round_cur := Some \<lparr>round_id = n, opened = now, claimed = (\<lambda>_. False),
                                                   samples = (\<lambda>_. zeroAcquisition)\<rparr>\<rparr>) a1
              in ((n, rep), a2))"

definition beginRound :: "gotime \<Rightarrow> packAdmission \<Rightarrow> (64 word \<times> samplingReport) \<times> packAdmission" where
  "beginRound now a =
     (case round_cur (sampling a) of
        Some r \<Rightarrow>
          if Sub now (opened r) \<le> samplingDeadline then ((0, zeroReport), a)
          else openRound now (cancelRoundLocked IncompleteOrExpired a)
      | None \<Rightarrow> openRound now a)"

definition claimRound :: "slot \<Rightarrow> gotime \<Rightarrow> packAdmission \<Rightarrow> 64 word \<times> packAdmission" where
  "claimRound index now a =
     (case round_cur (sampling a) of
        None \<Rightarrow> (0, a)
      | Some r \<Rightarrow>
          if claimed r index \<or> Before now (opened r) \<or> Sub now (opened r) > samplingDeadline
          then (0, a)
          else (round_id r,
                upd_sampling (\<lambda>p. p\<lparr>round_cur := Some (r\<lparr>claimed := (claimed r)(index := True)\<rparr>)\<rparr>) a))"

definition stopSampling :: "packAdmission \<Rightarrow> packAdmission" where
  "stopSampling a = cancelRoundLocked Shutdown (upd_sampling (\<lambda>p. p\<lparr>sampling_stopped := True\<rparr>) a)"

text \<open>The limits a single acquisition has to meet within its round.\<close>

definition acquisitionOutOfBounds :: "samplingRound \<Rightarrow> acquisition \<Rightarrow> bool" where
  "acquisitionOutOfBounds r x \<longleftrightarrow>
     Before (acq_start x) (opened r) \<or> Before (acq_end x) (acq_start x) \<or>
     Before (acq_complete x) (acq_end x) \<or>
     Sub (acq_complete x) (opened r) > samplingDeadline \<or>
     Sub (acq_complete x) (acq_start x) > samplingFrameLimit"

text \<open>
  The end of \<open>observeAcquisition\<close> once both readers have delivered: the skew check, the check
  that neither frame has been superseded, and the recording of the pair.
\<close>

definition pairRound ::
  "bool \<Rightarrow> samplingRound \<Rightarrow> acquisition \<Rightarrow> acquisition \<Rightarrow> packAdmission \<Rightarrow> bool \<times> packAdmission" where
  "pairRound retry r x y a =
     (let st = fst (acquisitionSpan x y); skew = snd (acquisitionSpan x y)
      in if skew > samplingMaxSkew then (retry, cancelRoundLocked AcquisitionSkew a)
         else if \<exists>i. \<not> fresh (acq_complete x) (slots a i) \<or>
                      \<not> Equal (observed (slots a i)) (acq_complete (samples r i))
         then (retry, cancelRoundLocked SupersededOrStale a)
         else
           let a1 = a\<lparr>slots := (\<lambda>i. appendHistory (acq_data (samples r i)) (acq_start (samples r i)) (slots a i))\<rparr>;
               a2 = upd_sampling (\<lambda>p. p\<lparr>pairedAt := st, pairedID := round_id r,
                                        report := roundReport r Paired, round_cur := None\<rparr>) a1
           in (hasInactiveCandidateLocked a2, a2))"

text \<open>A claimed result of the current round: bounds, storage-only peers, pairing.\<close>

definition deliverAcquisition ::
  "slot \<Rightarrow> bool \<Rightarrow> samplingRound \<Rightarrow> acquisition \<Rightarrow> packAdmission \<Rightarrow> bool \<times> packAdmission" where
  "deliverAcquisition index retry r0 x a0 =
     (let r = set_round_sample index x r0;
          a = upd_sampling (\<lambda>p. p\<lparr>round_cur := Some r\<rparr>) a0;
          peer = slots a (other index)
      in if acquisitionOutOfBounds r x \<or> \<not> fresh (acq_complete x) (slots a index)
         then (retry, cancelRoundLocked SlowOrStale a)
         else if \<not> powerTracked peer \<and> \<not> held peer \<and> \<not> offPending peer
         then let a1 = cancelRoundLocked SingleSupplyAcquired a
              in (hasInactiveCandidateLocked a1, a1)
         else if IsZero (acq_complete (samples r (other index))) then (retry, a)
         else pairRound retry r x (samples r (other index)) a)"

text \<open>The result says whether the poller should retry admission at once.\<close>

definition observeAcquisition ::
  "slot \<Rightarrow> 64 word \<Rightarrow> acquisition \<Rightarrow> packAdmission \<Rightarrow> bool \<times> packAdmission" where
  "observeAcquisition index rid x a0 =
     (let confirmed = (\<not> IsZero (written (slots a0 index)));
          a1 = observeLocked index (acq_data x) (acq_complete x) a0;
          retry = (\<not> confirmed \<and> valid (slots a1 index) \<and> hasInactiveCandidateLocked a1);
          a2 = upd_slot index (\<lambda>s. s\<lparr>observedRound := rid\<rparr>) a1
      in if \<not> sampling_enabled (sampling a2) \<or> \<not> coordinated a2 then (retry, a2)
         else (case round_cur (sampling a2) of
                 None \<Rightarrow> (retry, cancelRoundLocked UnpairedOrLate a2)
               | Some r \<Rightarrow>
                   if rid = 0 \<or> rid \<noteq> round_id r \<or> \<not> claimed r index
                   then (retry, cancelRoundLocked UnpairedOrLate a2)
                   else if \<not> IsZero (acq_complete (samples r index)) then (retry, a2)
                   else deliverAcquisition index retry r x a2))"

section \<open>Frame facts\<close>

lemma upd_sampling_fields [simp]:
  "coordinated (upd_sampling f a) = coordinated a"
  "conservative (upd_sampling f a) = conservative a"
  "isolation (upd_sampling f a) = isolation a"
  "vehicle (upd_sampling f a) = vehicle a"
  "slots (upd_sampling f a) = slots a"
  "sampling (upd_sampling f a) = f (sampling a)"
  "motion (upd_sampling f a) = motion a"
  "seatboxKnown (upd_sampling f a) = seatboxKnown a"
  "seatboxClosed (upd_sampling f a) = seatboxClosed a"
  by (simp_all add: upd_sampling_def)

end
