(* ===== verification/Isolation.thy ===== *)
theory Isolation
  imports Sampling_Rounds
begin

text \<open>
  Isolation of a mismatched running pack and the confirmed-OFF handover
  (\<open>admission_isolation.go\<close>), together with \<open>offAttemptLocked\<close> of \<open>admission.go\<close>, which
  both the corrective and the ordinary OFF path use.
\<close>

section \<open>Operations\<close>

definition isolationVehicle :: "VehicleState \<Rightarrow> bool" where
  "isolationVehicle state = nonDrivingVehicle state"

definition pairCurrentLocked :: "gotime \<Rightarrow> packAdmission \<Rightarrow> bool" where
  "pairCurrentLocked now a \<longleftrightarrow>
     (let skew = Sub (observed (slots a Slot0)) (observed (slots a Slot1)); p = sampling a
      in if skew < - admissionMaxSkew \<or> skew > admissionMaxSkew then False
         else \<not> sampling_enabled p \<or>
              (\<not> IsZero (pairedAt p) \<and> Sub now (pairedAt p) \<le> admissionMaxAge \<and>
               observedRound (slots a Slot0) = pairedID p \<and> observedRound (slots a Slot1) = pairedID p))"

text \<open>An episode in progress: when a later observation calls it off.\<close>

definition reconcileEpisode :: "isolationEpisode \<Rightarrow> gotime \<Rightarrow> nat \<Rightarrow> packAdmission \<Rightarrow> packAdmission" where
  "reconcileEpisode e now maxDelta a =
     (let target = slots a (survivor e); old = slots a (victim e)
      in if \<not> attempted e \<and> maxDelta = 0 then a\<lparr>isolation := None\<rparr>
         else if handover e \<and> \<not> attempted e \<and> pairCurrentLocked now a \<and>
                 fresh now (slots a Slot0) \<and> fresh now (slots a Slot1) \<and>
                 (\<not> usable target \<or> Voltage (frame target) \<le> Voltage (frame old) \<or> maxDelta = 0 \<or>
                  voltageDistance (Voltage (frame target)) (Voltage (frame old)) \<le> maxDelta)
         then a\<lparr>isolation := None\<rparr>
         else if handover e \<and> offConfirmed e \<and> \<not> held target \<and> \<not> held old \<and>
                 ((absent target \<and> Sub now (observed target) \<le> admissionMaxAge) \<or> \<not> usable target \<or>
                  (usable old \<and> Voltage (frame old) > Voltage (frame target)))
         then a\<lparr>isolation := None\<rparr>
         else a)"

text \<open>Which pack of a mismatched pair survives: the higher voltage, unless it is unusable.\<close>

definition selectSurvivor :: "packAdmission \<Rightarrow> slot option" where
  "selectSurvivor a =
     (let sv = (if Voltage (frame (slots a Slot1)) > Voltage (frame (slots a Slot0)) then Slot1 else Slot0)
      in if usable (slots a sv) then Some sv
         else if usable (slots a (other sv)) then Some (other sv) else None)"

definition startEpisode :: "slot \<Rightarrow> gotime \<Rightarrow> packAdmission \<Rightarrow> packAdmission" where
  "startEpisode sv now a =
     (let target = slots a sv; old = slots a (other sv)
      in if \<not> held old \<or> \<not> active old \<or> State (frame old) \<noteq> BMSStateActive then a
         else if held target \<and> active target \<and> State (frame target) = BMSStateActive
         then (if requiresAdmission target then a
               else a\<lparr>isolation := Some \<lparr>survivor = sv, victim = other sv, attempted = False,
                                         handover = False, offConfirmed = False\<rparr>\<rparr>)
         else if conservative a \<and> \<not> held target \<and>
                 (State (frame target) = BMSStateIdle \<or> State (frame target) = BMSStateAsleep) \<and>
                 stable now target \<and> stable now old
         then a\<lparr>isolation := Some \<lparr>survivor = sv, victim = other sv, attempted = False,
                                   handover = True, offConfirmed = False\<rparr>\<rparr>
         else a)"

definition reconcileLocked :: "gotime \<Rightarrow> nat \<Rightarrow> packAdmission \<Rightarrow> packAdmission" where
  "reconcileLocked now maxDelta a =
     (case isolation a of
        Some e \<Rightarrow> reconcileEpisode e now maxDelta a
      | None \<Rightarrow>
          if \<not> coordinated a \<or> maxDelta = 0 \<or> \<not> isolationVehicle (vehicle a) then a
          else if \<exists>i. offPending (slots a i) \<or> \<not> fresh now (slots a i) then a
          else if \<not> pairCurrentLocked now a \<or>
                  voltageDistance (Voltage (frame (slots a Slot0))) (Voltage (frame (slots a Slot1))) \<le> maxDelta
          then a
          else (case selectSurvivor a of None \<Rightarrow> a | Some sv \<Rightarrow> startEpisode sv now a))"

definition isolationReadyLocked :: "gotime \<Rightarrow> packAdmission \<Rightarrow> bool" where
  "isolationReadyLocked now a \<longleftrightarrow>
     (case isolation a of
        None \<Rightarrow> False
      | Some e \<Rightarrow>
          if \<not> isolationVehicle (vehicle a) then False
          else let s = slots a (survivor e)
            in if handover e
               then (if offConfirmed e \<or> held s \<or> offPending s \<or> \<not> fresh now s \<or> \<not> usable s \<or>
                        (State (frame s) \<noteq> BMSStateIdle \<and> State (frame s) \<noteq> BMSStateAsleep)
                     then False
                     else attempted e \<or>
                          (pairCurrentLocked now a \<and> stable now s \<and> stable now (slots a (victim e))))
               else held s \<and> active s \<and> \<not> requiresAdmission s \<and> \<not> offPending s \<and> fresh now s \<and>
                    usable s \<and> State (frame s) = BMSStateActive)"

definition maintainHandoverLocked :: "slot \<Rightarrow> gotime \<Rightarrow> packAdmission \<Rightarrow> bool" where
  "maintainHandoverLocked index now a \<longleftrightarrow>
     (case isolation a of
        None \<Rightarrow> False
      | Some e \<Rightarrow>
          if \<not> handover e \<or> \<not> attempted e \<or> offConfirmed e \<or> victim e \<noteq> index \<or>
             vehicle a \<noteq> VehicleStateReadyToDrive
          then False
          else
            let old = slots a (victim e); target = slots a (survivor e);
                targetInactive =
                  (absent target \<and> Sub now (observed target) \<le> admissionMaxAge) \<or>
                  (fresh now target \<and>
                   (State (frame target) = BMSStateIdle \<or> State (frame target) = BMSStateAsleep))
            in held old \<and> active old \<and> \<not> requiresAdmission old \<and> fresh now old \<and>
               State (frame old) = BMSStateActive \<and> After (observed old) (offAt old) \<and>
               Sub now (offAt old) \<ge> BMSTimeCmd \<and> \<not> held target \<and> \<not> offPending target \<and> targetInactive)"

definition shouldIsolate :: "slot \<Rightarrow> gotime \<Rightarrow> nat \<Rightarrow> packAdmission \<Rightarrow> bool \<times> packAdmission" where
  "shouldIsolate index now maxDelta a0 =
     (let a = reconcileLocked now maxDelta a0
      in if maintainHandoverLocked index now a then (False, a)
         else (case isolation a of
                 None \<Rightarrow> (False, a)
               | Some e \<Rightarrow>
                   (victim e = index \<and> \<not> offConfirmed e \<and> (attempted e \<or> isolationReadyLocked now a), a)))"

text \<open>\<open>admission.go\<close>: recording an OFF attempt before it is written.\<close>

definition markAttempted :: "slot \<Rightarrow> packAdmission \<Rightarrow> packAdmission" where
  "markAttempted index a =
     (case isolation a of
        Some e \<Rightarrow> if victim e = index then a\<lparr>isolation := Some (e\<lparr>attempted := True\<rparr>)\<rparr> else a
      | None \<Rightarrow> a)"

text \<open>The reservation an OFF attempt leaves on its slot.\<close>

definition offMark :: "gotime \<Rightarrow> admissionSlot \<Rightarrow> admissionSlot" where
  "offMark now s =
     (if held s \<and> (\<not> offPending s \<or> After (lastOnAt s) (offAt s))
      then s\<lparr>offPending := True, offAt := now\<rparr> else s)"

definition offAttemptLocked :: "slot \<Rightarrow> gotime \<Rightarrow> packAdmission \<Rightarrow> packAdmission" where
  "offAttemptLocked index now a0 =
     (let a1 = cancelRoundLocked OffCommand (markAttempted index a0);
          a2 = upd_slot index (offMark now) a1
      in clear_histories a2)"

definition offAttempt :: "slot \<Rightarrow> gotime \<Rightarrow> packAdmission \<Rightarrow> packAdmission" where
  "offAttempt index now a = offAttemptLocked index now a"

definition isolationOffAttempt :: "slot \<Rightarrow> gotime \<Rightarrow> packAdmission \<Rightarrow> bool \<times> packAdmission" where
  "isolationOffAttempt index now a =
     (case isolation a of
        None \<Rightarrow> (False, a)
      | Some e \<Rightarrow>
          if victim e \<noteq> index then (False, a)
          else if \<not> isolationReadyLocked now a then (False, a)
          else (True, offAttemptLocked index now (markAttempted index a)))"

section \<open>What reconciliation changes\<close>

text \<open>
  Reconciliation touches the episode only: it keeps it, drops it, or starts a fresh one that has
  not been attempted yet.
\<close>

definition fresh_episode :: "isolationEpisode \<Rightarrow> bool" where
  "fresh_episode e \<longleftrightarrow> survivor e = other (victim e) \<and> \<not> attempted e \<and> \<not> offConfirmed e"

definition episode_outcome :: "packAdmission \<Rightarrow> packAdmission \<Rightarrow> bool" where
  "episode_outcome a b \<longleftrightarrow>
     b = a \<or> b = a\<lparr>isolation := None\<rparr> \<or>
     (\<exists>e. isolation a = None \<and> b = a\<lparr>isolation := Some e\<rparr> \<and> fresh_episode e)"

lemma episode_outcome_if:
  "episode_outcome a x \<Longrightarrow> episode_outcome a y \<Longrightarrow> episode_outcome a (if c then x else y)"
  by simp

lemma startEpisode_outcome: "isolation a = None \<Longrightarrow> episode_outcome a (startEpisode sv now a)"
  unfolding startEpisode_def Let_def
  by (intro episode_outcome_if) (auto simp: episode_outcome_def fresh_episode_def)

lemma reconcileEpisode_outcome: "episode_outcome a (reconcileEpisode e now maxDelta a)"
  unfolding reconcileEpisode_def Let_def
  by (intro episode_outcome_if) (auto simp: episode_outcome_def)

lemma reconcile_outcome: "episode_outcome a (reconcileLocked now maxDelta a)"
proof (cases "isolation a")
  case None
  have "episode_outcome a (case selectSurvivor a of None \<Rightarrow> a | Some sv \<Rightarrow> startEpisode sv now a)"
    using startEpisode_outcome [OF None] by (simp add: episode_outcome_def split: option.split)
  then show ?thesis
    unfolding reconcileLocked_def None option.case
    by (intro episode_outcome_if) (auto simp: episode_outcome_def)
next
  case (Some e)
  then show ?thesis by (simp add: reconcileLocked_def reconcileEpisode_outcome)
qed

lemma episode_outcome_fields:
  assumes "episode_outcome a b"
  shows "coordinated b = coordinated a" "conservative b = conservative a" "vehicle b = vehicle a"
    "slots b = slots a" "sampling b = sampling a" "motion b = motion a"
    "seatboxKnown b = seatboxKnown a" "seatboxClosed b = seatboxClosed a"
  using assms by (auto simp: episode_outcome_def)

lemmas reconcile_fields [simp] = episode_outcome_fields [OF reconcile_outcome]

lemma markAttempted_fields [simp]:
  "coordinated (markAttempted i a) = coordinated a"
  "conservative (markAttempted i a) = conservative a"
  "vehicle (markAttempted i a) = vehicle a"
  "slots (markAttempted i a) = slots a"
  "sampling (markAttempted i a) = sampling a"
  "motion (markAttempted i a) = motion a"
  by (simp_all add: markAttempted_def split: option.split)

lemma isolation_markAttempted:
  "isolation (markAttempted i a) =
     map_option (\<lambda>e. if victim e = i then e\<lparr>attempted := True\<rparr> else e) (isolation a)"
  by (simp add: markAttempted_def split: option.split)

lemma offMark_history [simp]: "offMark now (s\<lparr>history := h\<rparr>) = (offMark now s)\<lparr>history := h\<rparr>"
  by (auto simp: offMark_def)

lemma slots_offAttempt:
  "slots (offAttemptLocked i now a) j =
     (if j = i then offMark now (slots a j) else slots a j)\<lparr>history := []\<rparr>"
  by (simp add: offAttemptLocked_def Let_def slots_cancelRound)

lemma offMark_fields [simp]:
  "held (offMark now s) = held s"
  "active (offMark now s) = active s"
  "offPending (offMark now s) \<longleftrightarrow> held s \<or> offPending s"
  "requiresAdmission (offMark now s) = requiresAdmission s"
  "eligible (offMark now s) = eligible s"
  "powerTracked (offMark now s) = powerTracked s"
  "identityUncertain (offMark now s) = identityUncertain s"
  "monitored (offMark now s) = monitored s"
  "history (offMark now s) = history s"
  "absent (offMark now s) = absent s"
  "valid (offMark now s) = valid s"
  by (auto simp: offMark_def)

lemma offAttempt_fields [simp]:
  "coordinated (offAttemptLocked i now a) = coordinated a"
  "conservative (offAttemptLocked i now a) = conservative a"
  "vehicle (offAttemptLocked i now a) = vehicle a"
  "motion (offAttemptLocked i now a) = motion a"
  "isolation (offAttemptLocked i now a) = isolation (markAttempted i a)"
  by (simp_all add: offAttemptLocked_def Let_def)

end
