(* ===== verification/Admission.thy ===== *)
theory Admission
  imports Isolation
begin

text \<open>
  The activation decision itself: \<open>requestOn\<close>, \<open>waiting\<close> and the preview of
  \<open>admission_diagnostics.go\<close>, and the guard as a machine whose operations are exactly the
  methods the reader and service goroutines call under the mutex.
\<close>

section \<open>The ON decision\<close>

datatype admission_reason =
    InactiveRole | MaintainingHandover | WaitingOffConfirmation | IsolatingMismatched
  | WaitingLowerOff | WaitingTagPower | MaintainingSupply | ServiceShuttingDown
  | WaitingNonDrive | WaitingOnConfirmation | WaitingFreshPack | PackEmptyOrFaulted
  | WaitingFreshPeer | WaitingStationary | WaitingQualifiedPeer | WaitingPeerPower
  | PeerEmptyOrFaulted | WaitingPaired | WaitingAligned | VoltageDifference | WaitingStable
  | PrimarySlotSelected | HigherVoltageSelected | PackRequalified | AwaitingOnConfirmation
  | ActivationAdmitted

fun admission_reason_text :: "admission_reason \<Rightarrow> string" where
  "admission_reason_text InactiveRole = ''inactive role''"
| "admission_reason_text MaintainingHandover =
     ''maintaining sole supply; handover paused while driving''"
| "admission_reason_text WaitingOffConfirmation = ''waiting for OFF confirmation''"
| "admission_reason_text IsolatingMismatched = ''isolating mismatched running pack''"
| "admission_reason_text WaitingLowerOff = ''waiting for lower-voltage pack OFF confirmation''"
| "admission_reason_text WaitingTagPower = ''waiting for tag power confirmation''"
| "admission_reason_text MaintainingSupply = ''maintaining supply''"
| "admission_reason_text ServiceShuttingDown = ''service shutting down''"
| "admission_reason_text WaitingNonDrive = ''waiting for non-drive vehicle state''"
| "admission_reason_text WaitingOnConfirmation = ''waiting for ON confirmation''"
| "admission_reason_text WaitingFreshPack = ''waiting for fresh pack data''"
| "admission_reason_text PackEmptyOrFaulted = ''pack empty or faulted''"
| "admission_reason_text WaitingFreshPeer = ''waiting for fresh peer data''"
| "admission_reason_text WaitingStationary = ''waiting for stationary second-pack qualification''"
| "admission_reason_text WaitingQualifiedPeer = ''waiting for qualified running peer''"
| "admission_reason_text WaitingPeerPower = ''waiting for peer power confirmation''"
| "admission_reason_text PeerEmptyOrFaulted = ''peer empty or faulted''"
| "admission_reason_text WaitingPaired = ''waiting for paired acquisition''"
| "admission_reason_text WaitingAligned = ''waiting for aligned readings''"
| "admission_reason_text VoltageDifference = ''voltage difference too large''"
| "admission_reason_text WaitingStable = ''waiting for stable low-load readings''"
| "admission_reason_text PrimarySlotSelected = ''primary slot selected''"
| "admission_reason_text HigherVoltageSelected = ''higher-voltage pack selected''"
| "admission_reason_text PackRequalified = ''pack requalified''"
| "admission_reason_text AwaitingOnConfirmation = ''awaiting ON confirmation''"
| "admission_reason_text ActivationAdmitted = ''activation admitted''"

text \<open>
  The checks against a running peer (\<open>if peer.held\<close> in \<open>requestOn\<close>): \<open>None\<close> lets the
  request continue, \<open>Some\<close> is the reason it is refused. The first check may discard motion
  evidence, so the state is passed through.
\<close>

definition conservativeLimit :: "nat \<Rightarrow> nat" where
  "conservativeLimit maxDelta = maxDelta - min 100 (maxDelta div 10)"

definition qualifyPair :: "slot \<Rightarrow> gotime \<Rightarrow> nat \<Rightarrow> packAdmission \<Rightarrow> admission_reason option" where
  "qualifyPair index now maxDelta a =
     (let s = slots a index; peer = slots a (other index); p = sampling a;
          skew = Sub (observed s) (observed peer)
      in if \<not> nonDrivingVehicle (vehicle a) \<and> requiresAdmission peer then Some WaitingQualifiedPeer
         else if \<not> active peer \<or> offPending peer then Some WaitingPeerPower
         else if FaultCode (frame peer) \<noteq> 0 \<or> (LowSOC (frame peer) \<and> Charge (frame peer) = 0)
         then Some PeerEmptyOrFaulted
         else if sampling_enabled p \<and>
                 (IsZero (pairedAt p) \<or> Sub now (pairedAt p) > admissionMaxAge \<or>
                  observedRound s \<noteq> pairedID p \<or> observedRound peer \<noteq> pairedID p)
         then Some WaitingPaired
         else if skew < - admissionMaxSkew \<or> skew > admissionMaxSkew then Some WaitingAligned
         else if maxDelta > 0 \<and> voltageDistance (Voltage (frame s)) (Voltage (frame peer)) > maxDelta
         then Some VoltageDifference
         else if conservative a \<or> \<not> nonDrivingVehicle (vehicle a)
         then (if \<not> stable now s \<or> \<not> stable now peer then Some WaitingStable
               else if maxDelta > 0 \<and>
                       list_ex (\<lambda>own. list_ex (\<lambda>oth.
                          voltageDistance (Voltage (smp_data own)) (Voltage (smp_data oth)) >
                            conservativeLimit maxDelta) (history peer)) (history s)
               then Some VoltageDifference
               else None)
         else None)"

definition checkRunningPeer ::
  "slot \<Rightarrow> gotime \<Rightarrow> nat \<Rightarrow> packAdmission \<Rightarrow> admission_reason option \<times> packAdmission" where
  "checkRunningPeer index now maxDelta a0 =
     (case secondPackStationaryLocked now a0 of (stationary, a) \<Rightarrow>
        if \<not> stationary then (Some WaitingStationary, a)
        else (qualifyPair index now maxDelta a, a))"

text \<open>Selection between two packs that are both off.\<close>

definition checkIdlePeer :: "slot \<Rightarrow> packAdmission \<Rightarrow> admission_reason option" where
  "checkIdlePeer index a =
     (let s = slots a index; peer = slots a (other index)
      in if \<not> conservative a
         then (if index > Slot0 then Some PrimarySlotSelected else None)
         else if Voltage (frame peer) > Voltage (frame s) \<or>
                 (Voltage (frame peer) = Voltage (frame s) \<and> Charge (frame peer) > Charge (frame s)) \<or>
                 (Voltage (frame peer) = Voltage (frame s) \<and> Charge (frame peer) = Charge (frame s) \<and>
                  index > Slot0)
         then Some HigherVoltageSelected
         else None)"

text \<open>The block \<open>if peer.monitored && (peer.powerTracked || peer.held || peer.offPending)\<close>.\<close>

definition checkPeer ::
  "slot \<Rightarrow> gotime \<Rightarrow> nat \<Rightarrow> packAdmission \<Rightarrow> admission_reason option \<times> packAdmission" where
  "checkPeer index now maxDelta a =
     (let peer = slots a (other index)
      in if monitored peer \<and> (powerTracked peer \<or> held peer \<or> offPending peer)
         then let gone = absent peer \<and> Sub now (observed peer) \<le> admissionMaxAge
              in if \<not> gone \<and> \<not> fresh now peer then (Some WaitingFreshPeer, a)
                 else if held peer then checkRunningPeer index now maxDelta a
                 else if \<not> gone \<and> usable peer then (checkIdlePeer index a, a)
                 else (None, a)
         else (None, a))"

text \<open>The reservation at the end of \<open>requestOn\<close>.\<close>

definition grantOn :: "slot \<Rightarrow> gotime \<Rightarrow> packAdmission \<Rightarrow> admission_reason \<times> packAdmission" where
  "grantOn index now a =
     (let s = slots a index
      in if held s
         then (if requiresAdmission s
               then (PackRequalified, clear_histories (cancelRoundLocked ActivationRequalified a))
               else (AwaitingOnConfirmation, a))
         else (ActivationAdmitted,
               clear_histories
                 (upd_slot index (\<lambda>s. s\<lparr>held := True, onAt := now\<rparr>)
                    (cancelRoundLocked ActivationReserved a))))"

text \<open>
  The guards of \<open>requestOn\<close> before the peer is looked at: \<open>Some (allowed, reason)\<close> is an early
  return, \<open>None\<close> continues.
\<close>

definition earlyDecision :: "slot \<Rightarrow> gotime \<Rightarrow> packAdmission \<Rightarrow> (bool \<times> admission_reason) option" where
  "earlyDecision index now a =
     (let s = slots a index; peer = slots a (other index)
      in if \<not> eligible s then Some (False, InactiveRole)
         else if offPending s
         then (if maintainHandoverLocked index now a then Some (True, MaintainingHandover)
               else Some (False, WaitingOffConfirmation))
         else if (case isolation a of
                    Some e \<Rightarrow> victim e = index \<and>
                              (attempted e \<or> isolationReadyLocked now a \<or> \<not> held s \<or> \<not> active s)
                  | None \<Rightarrow> False)
         then Some (False, IsolatingMismatched)
         else if (case isolation a of
                    Some e \<Rightarrow> handover e \<and> survivor e = index \<and> \<not> offConfirmed e
                  | None \<Rightarrow> False)
         then Some (False, WaitingLowerOff)
         else if identityUncertain s \<and> held s \<and> \<not> active s then Some (False, WaitingTagPower)
         else if held s \<and> active s \<and> \<not> requiresAdmission s then Some (True, MaintainingSupply)
         else if sampling_stopped (sampling a) then Some (False, ServiceShuttingDown)
         else if \<not> nonDrivingVehicle (vehicle a) \<and>
                 (vehicle a \<noteq> VehicleStateReadyToDrive \<or> held peer \<or> offPending peer)
         then Some (False, WaitingNonDrive)
         else if held s \<and> \<not> active s \<and> Sub now (onAt s) > admissionOnSettle
         then Some (False, WaitingOnConfirmation)
         else if \<not> fresh now s then Some (False, WaitingFreshPack)
         else if \<not> usable s then Some (False, PackEmptyOrFaulted)
         else None)"

definition decideOn ::
  "slot \<Rightarrow> gotime \<Rightarrow> nat \<Rightarrow> packAdmission \<Rightarrow> (bool \<times> admission_reason) \<times> packAdmission" where
  "decideOn index now maxDelta a =
     (case earlyDecision index now a of
        Some d \<Rightarrow> (d, a)
      | None \<Rightarrow>
          (case checkPeer index now maxDelta a of
             (Some reason, b) \<Rightarrow> ((False, reason), b)
           | (None, b) \<Rightarrow> (case grantOn index now b of (reason, c) \<Rightarrow> ((True, reason), c))))"

text \<open>\<open>requestOn\<close> with its deferred update of an allowed slot.\<close>

definition requestOn ::
  "slot \<Rightarrow> gotime \<Rightarrow> nat \<Rightarrow> packAdmission \<Rightarrow> (bool \<times> admission_reason) \<times> packAdmission" where
  "requestOn index now maxDelta a0 =
     (case decideOn index now maxDelta (reconcileLocked now maxDelta a0) of
        ((allowed, reason), a) \<Rightarrow>
          ((allowed, reason),
           if allowed
           then upd_slot index (\<lambda>s. s\<lparr>lastOnAt := now, requiresAdmission := False\<rparr>) a
           else a))"

definition waiting :: "slot \<Rightarrow> BMSState \<Rightarrow> packAdmission \<Rightarrow> bool" where
  "waiting index state a \<longleftrightarrow>
     (let s = slots a index
      in coordinated a \<and> \<not> IsZero (written s) \<and> \<not> held s \<and> \<not> offPending s \<and>
         (state = BMSStateIdle \<or> state = BMSStateAsleep))"

text \<open>
  Checking the peer changes nothing but, after a clock jump, the motion evidence.
\<close>

lemma secondPackStationary_state:
  "snd (secondPackStationaryLocked now a) = a \<or>
   snd (secondPackStationaryLocked now a) = invalidateMotionLocked a"
  by (simp add: secondPackStationaryLocked_def stoppedPairReadyLocked_def stoppedMotionFreshLocked_def
      Let_def split: prod.split)

lemma checkPeer_state:
  "snd (checkPeer index now maxDelta a) = a \<or>
   snd (checkPeer index now maxDelta a) = invalidateMotionLocked a"
proof -
  have "snd (checkRunningPeer index now maxDelta a) = snd (secondPackStationaryLocked now a)"
    by (simp add: checkRunningPeer_def split: prod.split)
  with secondPackStationary_state [of now a] show ?thesis
    by (simp add: checkPeer_def Let_def)
qed

lemma checkPeer_fields [simp]:
  "slots (snd (checkPeer i now md a)) = slots a"
  "isolation (snd (checkPeer i now md a)) = isolation a"
  "vehicle (snd (checkPeer i now md a)) = vehicle a"
  "sampling (snd (checkPeer i now md a)) = sampling a"
  "coordinated (snd (checkPeer i now md a)) = coordinated a"
  "conservative (snd (checkPeer i now md a)) = conservative a"
  using checkPeer_state [of i now md a] by auto

text \<open>The three ways a decision comes about.\<close>

lemma decideOn_cases [case_names early refused granted]:
  obtains d where "earlyDecision i now a = Some d" "decideOn i now md a = (d, a)"
  | reason where "earlyDecision i now a = None" "fst (checkPeer i now md a) = Some reason"
      "decideOn i now md a = ((False, reason), snd (checkPeer i now md a))"
  | "earlyDecision i now a = None" "fst (checkPeer i now md a) = None"
      "decideOn i now md a =
         ((True, fst (grantOn i now (snd (checkPeer i now md a)))),
          snd (grantOn i now (snd (checkPeer i now md a))))"
proof (cases "earlyDecision i now a")
  case None
  obtain r b where rb: "checkPeer i now md a = (r, b)" by fastforce
  show ?thesis
  proof (cases r)
    case None
    with rb \<open>earlyDecision i now a = None\<close> that(3) show ?thesis
      by (simp add: decideOn_def split: prod.split)
  next
    case (Some reason)
    with rb \<open>earlyDecision i now a = None\<close> that(2) show ?thesis
      by (simp add: decideOn_def)
  qed
next
  case (Some d)
  with that(1) show ?thesis by (simp add: decideOn_def)
qed

section \<open>Previews\<close>

text \<open>
  \<open>cloneLocked\<close> copies everything but the seatbox fields, which keep their zero values.
\<close>

definition cloneLocked :: "packAdmission \<Rightarrow> packAdmission" where
  "cloneLocked a =
     zeroAdmission\<lparr>coordinated := coordinated a, conservative := conservative a,
       vehicle := vehicle a, slots := slots a, sampling := sampling a, motion := motion a,
       isolation := isolation a\<rparr>"

definition previewOn ::
  "slot \<Rightarrow> gotime \<Rightarrow> nat \<Rightarrow> bool \<Rightarrow> bool \<Rightarrow> packAdmission \<Rightarrow> bool \<times> admission_reason" where
  "previewOn index now maxDelta joining cons a =
     (let b = (cloneLocked a)\<lparr>conservative := cons\<rparr>;
          c = (if joining
               then upd_slot index (\<lambda>s. s\<lparr>held := False, active := False, onAt := zeroTime\<rparr>) b else b)
      in fst (requestOn index now maxDelta c))"

section \<open>The guard as a machine\<close>

datatype adm_op =
    OpSetRole slot bool
  | OpSetVehicle VehicleState gotime
  | OpSetSeatbox bool
  | OpTag slot string
  | OpFailAcquisition slot "64 word" acquisition
  | OpObserveAbsent slot gotime
  | OpObserve slot BMSData gotime
  | OpObserveAcquisition slot "64 word" acquisition
  | OpBeginRound gotime
  | OpClaimRound slot gotime
  | OpStopSampling
  | OpObserveMotion bool gotime gotime
  | OpInvalidateMotion
  | OpResetMotionStream
  | OpReceiveMotion string gotime
  | OpRequestOn slot gotime nat
  | OpOffAttempt slot gotime
  | OpShouldIsolate slot gotime nat
  | OpIsolationOffAttempt slot gotime

fun adm_exec :: "(string \<Rightarrow> motionEvidence option) \<Rightarrow> adm_op \<Rightarrow> packAdmission \<Rightarrow> packAdmission" where
  "adm_exec js (OpSetRole i el) a = setRole i el a"
| "adm_exec js (OpSetVehicle v now) a = setVehicleAt v now a"
| "adm_exec js (OpSetSeatbox c) a = setSeatbox c a"
| "adm_exec js (OpTag i u) a = tag i u a"
| "adm_exec js (OpFailAcquisition i n x) a = failAcquisition i n x a"
| "adm_exec js (OpObserveAbsent i now) a = observeAbsent i now a"
| "adm_exec js (OpObserve i d now) a = observe i d now a"
| "adm_exec js (OpObserveAcquisition i n x) a = snd (observeAcquisition i n x a)"
| "adm_exec js (OpBeginRound now) a = snd (beginRound now a)"
| "adm_exec js (OpClaimRound i now) a = snd (claimRound i now a)"
| "adm_exec js OpStopSampling a = stopSampling a"
| "adm_exec js (OpObserveMotion st rc now) a = observeMotion st rc now a"
| "adm_exec js OpInvalidateMotion a = invalidateMotion a"
| "adm_exec js OpResetMotionStream a = resetMotionStream a"
| "adm_exec js (OpReceiveMotion msg now) a = snd (receiveMotionEvidence js msg now a)"
| "adm_exec js (OpRequestOn i now d) a = snd (requestOn i now d a)"
| "adm_exec js (OpOffAttempt i now) a = offAttempt i now a"
| "adm_exec js (OpShouldIsolate i now d) a = snd (shouldIsolate i now d a)"
| "adm_exec js (OpIsolationOffAttempt i now) a = snd (isolationOffAttempt i now a)"

text \<open>
  \<open>loadAdmissionSetting\<close>: the guard the service starts with. \<open>raw\<close> is the value read for
  \<open>experimental.battery.dual-pack-admission\<close>, \<open>None\<close> when the read fails or the key is
  missing.
\<close>

definition parseBoolSetting :: "string \<Rightarrow> bool \<times> bool" where
  "parseBoolSetting raw =
     (if raw = ''true'' then (True, True) else if raw = ''false'' then (False, True)
      else (False, False))"

definition loadAdmissionSetting :: "BatteryConfiguration \<Rightarrow> string option \<Rightarrow> packAdmission" where
  "loadAdmissionSetting config raw =
     (let a = newPackAdmission config;
          b = a\<lparr>conservative := False,
                sampling := (sampling a)\<lparr>sampling_enabled := True\<rparr>,
                motion := (motion a)\<lparr>motion_enabled := True\<rparr>\<rparr>
      in case raw of
           None \<Rightarrow> b
         | Some str \<Rightarrow>
             (case parseBoolSetting str of (en, ok) \<Rightarrow> if \<not> ok then b else b\<lparr>conservative := en\<rparr>))"

definition adm_initial :: "packAdmission \<Rightarrow> bool" where
  "adm_initial a \<longleftrightarrow> (\<exists>config raw. a = loadAdmissionSetting config raw)"

end
