(* ===== verification/Admission_Invariant.thy ===== *)
theory Admission_Invariant
  imports Admission
begin

text \<open>
  The invariant of the activation guard and its preservation by every operation, through the
  \<open>machine\<close> locale: it holds after any sequence of calls of any of the goroutines.
\<close>

section \<open>The invariant\<close>

text \<open>
  A supply flag of a slot is only ever set on a reserved, power-tracked slot, and a slot reported
  absent is neither reserved nor qualified.
\<close>

definition slot_inv :: "admissionSlot \<Rightarrow> bool" where
  "slot_inv s \<longleftrightarrow>
     (active s \<or> offPending s \<or> identityUncertain s \<longrightarrow> held s) \<and>
     (eligible s \<or> held s \<longrightarrow> powerTracked s) \<and>
     (absent s \<longrightarrow> \<not> held s \<and> \<not> valid s)"

definition role_inv :: "packAdmission \<Rightarrow> bool" where
  "role_inv a \<longleftrightarrow> (eligible (slots a Slot0) \<and> eligible (slots a Slot1) \<longrightarrow> coordinated a)"

definition isolation_inv :: "packAdmission \<Rightarrow> bool" where
  "isolation_inv a \<longleftrightarrow>
     (\<forall>e. isolation a = Some e \<longrightarrow> survivor e = other (victim e) \<and> (offConfirmed e \<longrightarrow> handover e))"

text \<open>A stored result of a round was claimed by its reader and met the limits of the round.\<close>

definition round_inv :: "samplingRound \<Rightarrow> bool" where
  "round_inv r \<longleftrightarrow>
     (\<forall>i. \<not> IsZero (acq_complete (samples r i)) \<longrightarrow> claimed r i \<and> \<not> acquisitionOutOfBounds r (samples r i))"

text \<open>The round in flight is the newest one, and sample windows do not outlive their pair.\<close>

definition sampling_inv :: "packAdmission \<Rightarrow> bool" where
  "sampling_inv a \<longleftrightarrow>
     sampling_enabled (sampling a) \<and>
     (\<forall>r. round_cur (sampling a) = Some r \<longrightarrow> round_id r = next_id (sampling a) \<and> round_inv r) \<and>
     (coordinated a \<and> pairedID (sampling a) = 0 \<longrightarrow> (\<forall>i. history (slots a i) = []))"

definition motion_inv :: "packAdmission \<Rightarrow> bool" where
  "motion_inv a \<longleftrightarrow>
     (let m = motion a
      in (motion_stopped m \<longrightarrow> \<not> IsZero (motion_since m) \<and> \<not> IsZero (motion_at m)) \<and>
         (\<not> motion_stopped m \<longrightarrow> IsZero (motion_since m)))"

definition adm_inv :: "packAdmission \<Rightarrow> bool" where
  "adm_inv a \<longleftrightarrow>
     (\<forall>i. slot_inv (slots a i)) \<and> role_inv a \<and> isolation_inv a \<and> sampling_inv a \<and> motion_inv a"

lemmas adm_inv_defs = adm_inv_def slot_inv_def role_inv_def isolation_inv_def sampling_inv_def motion_inv_def

lemma adm_invI:
  assumes "\<And>i. slot_inv (slots a i)" "role_inv a" "isolation_inv a" "sampling_inv a" "motion_inv a"
  shows "adm_inv a"
  using assms by (simp add: adm_inv_def)

section \<open>Building blocks\<close>

lemma cancelRound_inv [intro!]: "adm_inv a \<Longrightarrow> adm_inv (cancelRoundLocked r a)"
  by (auto simp: adm_inv_defs slots_cancelRound Let_def)

lemma clear_histories_inv [intro!]: "adm_inv a \<Longrightarrow> adm_inv (clear_histories a)"
  by (auto simp: adm_inv_defs)

lemma invalidateMotion_inv [intro!]: "adm_inv a \<Longrightarrow> adm_inv (invalidateMotionLocked a)"
  by (auto simp: adm_inv_defs Let_def)

text \<open>An update of one slot that keeps its role and does not extend its window.\<close>

lemma upd_slot_inv:
  assumes "adm_inv a" and "slot_inv (f (slots a i))"
    and "eligible (f (slots a i)) = eligible (slots a i)"
    and "history (f (slots a i)) = history (slots a i) \<or> history (f (slots a i)) = []"
  shows "adm_inv (upd_slot i f a)"
proof (rule adm_invI)
  show "slot_inv (slots (upd_slot i f a) j)" for j
    using assms(1,2) by (simp add: adm_inv_def)
  show "role_inv (upd_slot i f a)"
    using assms(1,3) by (cases i) (auto simp: adm_inv_def role_inv_def)
  show "isolation_inv (upd_slot i f a)" "motion_inv (upd_slot i f a)"
    using assms(1) by (simp_all add: adm_inv_def isolation_inv_def motion_inv_def)
  show "sampling_inv (upd_slot i f a)"
    using assms(1,4) by (auto simp: adm_inv_def sampling_inv_def)
qed

lemma isolation_update_inv:
  assumes "adm_inv a" and "\<And>e. x = Some e \<Longrightarrow> survivor e = other (victim e) \<and> (offConfirmed e \<longrightarrow> handover e)"
  shows "adm_inv (a\<lparr>isolation := x\<rparr>)"
  using assms by (auto simp: adm_inv_defs Let_def)

lemma adm_inv_slot: "adm_inv a \<Longrightarrow> slot_inv (slots a i)"
  by (simp add: adm_inv_def)

lemma slot_facts:
  assumes "adm_inv a"
  shows "active (slots a i) \<Longrightarrow> held (slots a i)"
    and "offPending (slots a i) \<Longrightarrow> held (slots a i)"
    and "identityUncertain (slots a i) \<Longrightarrow> held (slots a i)"
    and "eligible (slots a i) \<Longrightarrow> powerTracked (slots a i)"
    and "held (slots a i) \<Longrightarrow> powerTracked (slots a i)"
    and "absent (slots a i) \<Longrightarrow> \<not> held (slots a i)"
    and "absent (slots a i) \<Longrightarrow> \<not> valid (slots a i)"
  using adm_inv_slot [OF assms, of i] by (auto simp: slot_inv_def)

lemma adm_inv_isolation:
  "adm_inv a \<Longrightarrow> isolation a = Some e \<Longrightarrow> survivor e = other (victim e) \<and> (offConfirmed e \<longrightarrow> handover e)"
  by (simp add: adm_inv_def isolation_inv_def)

section \<open>Preservation, operation by operation\<close>

lemma setRole_inv: "adm_inv a \<Longrightarrow> adm_inv (setRole i el a)"
  by (cases i) (auto simp: setRole_def Let_def adm_inv_defs slots_cancelRound)

lemma stoppedMotionFresh_inv: "adm_inv a \<Longrightarrow> adm_inv (snd (stoppedMotionFreshLocked now a))"
  by (auto simp: stoppedMotionFreshLocked_def Let_def)

lemma setVehicle_inv: "adm_inv a \<Longrightarrow> adm_inv (setVehicleAt v now a)"
proof -
  assume a: "adm_inv a"
  have veh: "adm_inv b \<Longrightarrow> adm_inv (b\<lparr>vehicle := v\<rparr>)" for b
    by (simp add: adm_inv_defs)
  from a stoppedMotionFresh_inv [OF a, of now] show ?thesis
    unfolding setVehicleAt_def Let_def
    by (intro veh) (auto split: prod.split)
qed

lemma setSeatbox_inv: "adm_inv a \<Longrightarrow> adm_inv (setSeatbox c a)"
  by (auto simp: setSeatbox_def invalidateSeatboxLocked_def invalidateSeatboxSlot_def Let_def
      adm_inv_defs slots_cancelRound)

lemma tag_inv: "adm_inv a \<Longrightarrow> adm_inv (tag i u a)"
  unfolding tag_def Let_def
  by (intro upd_slot_inv) (auto simp: adm_inv_defs slots_cancelRound)

text \<open>Ending a round needs no assumption about the results stored in it.\<close>

lemma cancelRound_stored_inv:
  "adm_inv a \<Longrightarrow> adm_inv (cancelRoundLocked q (a\<lparr>sampling := (sampling a)\<lparr>round_cur := x\<rparr>\<rparr>))"
  by (auto simp: adm_inv_defs slots_cancelRound Let_def)

lemma failAcquisition_inv: "adm_inv a \<Longrightarrow> adm_inv (failAcquisition i n x a)"
  unfolding failAcquisition_def Let_def
  by (intro upd_slot_inv) (auto simp: cancelRound_stored_inv adm_inv_slot slot_inv_def
      intro: slot_facts split: option.split)

lemma observeAbsent_inv: "adm_inv a \<Longrightarrow> adm_inv (observeAbsent i now a)"
  unfolding observeAbsent_def Let_def
  by (intro upd_slot_inv cancelRound_inv) (auto simp: adm_inv_defs Let_def split: option.split)

lemma observeIdentity_inv: "adm_inv a \<Longrightarrow> adm_inv (observeIdentity i d a)"
  by (auto simp: observeIdentity_def Let_def slot_inv_def intro!: upd_slot_inv
      intro: slot_facts dest: slot_facts(6,7))


lemma observeFrame_inv: "adm_inv a \<Longrightarrow> adm_inv (upd_slot i (observeFrame d now) a)"
  by (rule upd_slot_inv) (auto simp: observeFrame_def Let_def slot_inv_def intro: slot_facts)

text \<open>Setting the supply flags is sound on a power-tracked slot.\<close>

lemma observeIdentity_tracked:
  "State d = BMSStateActive \<Longrightarrow> powerTracked (slots (observeIdentity i d a) i)"
  by (simp add: observeIdentity_def Let_def)

lemma observePower_inv:
  assumes inv: "adm_inv a" and tracked: "State d = BMSStateActive \<Longrightarrow> powerTracked (slots a i)"
    and here: "\<not> absent (slots a i)"
  shows "adm_inv (observePower i d now a)"
proof (cases "State d = BMSStateActive")
  case True
  let ?b = "upd_slot i (\<lambda>s. s\<lparr>held := True, active := True, identityUncertain := False\<rparr>) a"
  have "adm_inv ?b"
    by (rule upd_slot_inv [OF inv]) (auto simp: slot_inv_def tracked [OF True] here)
  then have "adm_inv ?b" "adm_inv (?b\<lparr>isolation := None\<rparr>)"
    by (auto intro: isolation_update_inv)
  with True show ?thesis
    by (auto simp: observePower_def Let_def split: option.split)
next
  case False
  let ?r = "\<lambda>s. s\<lparr>held := False, active := False, offPending := False, identityUncertain := False\<rparr>"
  have rel: "adm_inv (upd_slot i ?r b)" if "adm_inv b" for b
    by (rule upd_slot_inv [OF that]) (auto simp: slot_inv_def intro: slot_facts [OF that] dest: slot_facts(7) [OF that])
  have iso: "adm_inv (b\<lparr>isolation := isolationAfterOff i e\<rparr>)" if "adm_inv b" "isolation b = Some e" for b e
    using that(1) adm_inv_isolation [OF that]
    by (intro isolation_update_inv) (auto simp: isolationAfterOff_def split: if_splits)
  from False inv show ?thesis
    by (auto simp: observePower_def Let_def intro!: iso rel split: option.split)
qed

lemma observe_inv: "adm_inv a \<Longrightarrow> adm_inv (observeLocked i d now a)"
proof -
  assume inv: "adm_inv a"
  let ?b = "upd_slot i (observeFrame d now) (observeIdentity i d a)"
  let ?c = "observePower i d now ?b"
  have b: "adm_inv ?b"
    by (intro observeFrame_inv observeIdentity_inv inv)
  have c: "adm_inv ?c"
  proof (rule observePower_inv [OF b])
    assume "State d = BMSStateActive"
    then show "powerTracked (slots ?b i)"
      using observeIdentity_tracked [of d i a] by (simp add: observeFrame_def Let_def)
  qed simp
  have "adm_inv (upd_slot i (\<lambda>s. s\<lparr>history := []\<rparr>) ?b)"
    using adm_inv_slot [OF b, of i] by (intro upd_slot_inv [OF b]) (auto simp: slot_inv_def)
  moreover have "adm_inv (upd_slot i (appendHistory d now) ?c)" if "\<not> coordinated ?c"
    using c that by (cases i) (auto simp: adm_inv_defs)
  ultimately show ?thesis
    using c adm_inv_def sampling_inv_def by (auto simp: observeLocked_def Let_def)
qed


lemma round_inv_new: "round_inv \<lparr>round_id = n, opened = t, claimed = c, samples = (\<lambda>_. zeroAcquisition)\<rparr>"
  by (simp add: round_inv_def zeroAcquisition_def)

lemma round_inv_claim: "round_inv r \<Longrightarrow> round_inv (r\<lparr>claimed := (claimed r)(i := True)\<rparr>)"
  by (simp add: round_inv_def acquisitionOutOfBounds_def)

lemma round_inv_store:
  "round_inv r \<Longrightarrow> claimed r i \<Longrightarrow> \<not> acquisitionOutOfBounds r x \<Longrightarrow> round_inv (set_round_sample i x r)"
  by (auto simp: round_inv_def set_round_sample_def acquisitionOutOfBounds_def)

lemma openRound_inv: "adm_inv a \<Longrightarrow> round_cur (sampling a) = None \<Longrightarrow> adm_inv (snd (openRound now a))"
  by (auto simp: openRound_def Let_def adm_inv_defs round_inv_new)

lemma beginRound_inv: "adm_inv a \<Longrightarrow> adm_inv (snd (beginRound now a))"
  by (auto simp: beginRound_def intro!: openRound_inv split: option.split)

lemma claimRound_inv: "adm_inv a \<Longrightarrow> adm_inv (snd (claimRound i now a))"
  by (auto simp: claimRound_def adm_inv_defs round_inv_claim Let_def split: option.split)

lemma stopSampling_inv: "adm_inv a \<Longrightarrow> adm_inv (stopSampling a)"
  unfolding stopSampling_def by (rule cancelRound_inv) (auto simp: adm_inv_defs Let_def)

lemma pairRound_inv:
  "adm_inv a \<Longrightarrow> round_id r \<noteq> 0 \<Longrightarrow> adm_inv (snd (pairRound retry r x y a))"
  by (auto simp: pairRound_def Let_def) (auto simp: adm_inv_defs Let_def)

lemma deliverAcquisition_inv:
  assumes inv: "adm_inv a" and cur: "round_cur (sampling a) = Some r"
    and "round_id r \<noteq> 0" "claimed r i"
  shows "adm_inv (snd (deliverAcquisition i retry r x a))"
proof -
  let ?r = "set_round_sample i x r"
  let ?b = "upd_sampling (\<lambda>p. p\<lparr>round_cur := Some ?r\<rparr>) a"
  have cancel: "adm_inv (cancelRoundLocked q ?b)" for q
    using cancelRound_stored_inv [OF inv] by (simp add: upd_sampling_def)
  have store: "adm_inv ?b" if "\<not> acquisitionOutOfBounds ?r x"
    using assms that round_inv_store [of r i x]
    by (auto simp: adm_inv_defs Let_def set_round_sample_def acquisitionOutOfBounds_def)
  have "round_id ?r \<noteq> 0" using assms(3) by (simp add: set_round_sample_def)
  then have pair: "adm_inv (snd (pairRound retry ?r x y ?b))" if "\<not> acquisitionOutOfBounds ?r x" for y
    by (intro pairRound_inv store that)
  show ?thesis
    by (cases "acquisitionOutOfBounds ?r x") (simp_all add: deliverAcquisition_def Let_def cancel store pair)
qed

lemma observeAcquisition_inv: "adm_inv a \<Longrightarrow> adm_inv (snd (observeAcquisition i n x a))"
proof -
  assume "adm_inv a"
  let ?b = "upd_slot i (\<lambda>s. s\<lparr>observedRound := n\<rparr>) (observeLocked i (acq_data x) (acq_complete x) a)"
  have "adm_inv (observeLocked i (acq_data x) (acq_complete x) a)"
    by (rule observe_inv) fact
  then have b: "adm_inv ?b"
    by (rule upd_slot_inv) (auto simp: slot_inv_def intro: slot_facts [OF \<open>adm_inv (observeLocked _ _ _ _)\<close>]
        dest: slot_facts(6,7) [OF \<open>adm_inv (observeLocked _ _ _ _)\<close>])
  then have "round_id r = next_id (sampling ?b)" if "round_cur (sampling ?b) = Some r" for r
    using that unfolding adm_inv_def sampling_inv_def by blast
  with b show ?thesis
    unfolding observeAcquisition_def Let_def
    by (auto intro!: deliverAcquisition_inv split: option.split)
qed

lemma observeMotion_inv: "adm_inv a \<Longrightarrow> adm_inv (observeMotionLocked st rc now a)"
  by (auto simp: observeMotionLocked_def Let_def adm_inv_defs slots_cancelRound)

lemma upd_motion_inv:
  "adm_inv a \<Longrightarrow> motion_stopped (f (motion a)) = motion_stopped (motion a) \<Longrightarrow>
   motion_at (f (motion a)) = motion_at (motion a) \<Longrightarrow>
   motion_since (f (motion a)) = motion_since (motion a) \<Longrightarrow> adm_inv (upd_motion f a)"
  by (auto simp: adm_inv_defs Let_def)

lemma applyMotion_inv: "adm_inv a \<Longrightarrow> adm_inv (snd (applyMotionEvidence e now a))"
  unfolding applyMotionEvidence_def Let_def
  by (rule complete_evidence_cases [where P = "\<lambda>x. adm_inv (snd x)"]) (auto intro: observeMotion_inv)

lemma acceptMotion_inv: "adm_inv a \<Longrightarrow> adm_inv (snd (acceptMotionEvidence e now a))"
  unfolding acceptMotionEvidence_def Let_def by (auto intro!: applyMotion_inv upd_motion_inv)

lemma receiveMotion_inv: "adm_inv a \<Longrightarrow> adm_inv (snd (receiveMotionEvidence js msg now a))"
  by (auto simp: receiveMotionEvidence_def Let_def intro!: upd_motion_inv acceptMotion_inv)

lemma resetMotion_inv: "adm_inv a \<Longrightarrow> adm_inv (resetMotionStream a)"
  by (auto simp: resetMotionStream_def intro!: upd_motion_inv)

lemma episode_outcome_inv: "adm_inv a \<Longrightarrow> episode_outcome a b \<Longrightarrow> adm_inv b"
  by (auto simp: episode_outcome_def fresh_episode_def intro!: isolation_update_inv)

lemma reconcile_inv: "adm_inv a \<Longrightarrow> adm_inv (reconcileLocked now md a)"
  by (rule episode_outcome_inv [OF _ reconcile_outcome])

lemma markAttempted_inv: "adm_inv a \<Longrightarrow> adm_inv (markAttempted i a)"
  by (auto simp: markAttempted_def intro!: isolation_update_inv dest: adm_inv_isolation split: option.split)

lemma offAttempt_inv: "adm_inv a \<Longrightarrow> adm_inv (offAttemptLocked i now a)"
  unfolding offAttemptLocked_def Let_def
  by (intro clear_histories_inv upd_slot_inv cancelRound_inv markAttempted_inv)
    (auto simp: slot_inv_def intro: slot_facts dest: slot_facts(6,7))

lemma isolationOffAttempt_inv: "adm_inv a \<Longrightarrow> adm_inv (snd (isolationOffAttempt i now a))"
  by (auto simp: isolationOffAttempt_def intro!: offAttempt_inv markAttempted_inv split: option.split)

lemma shouldIsolate_inv: "adm_inv a \<Longrightarrow> adm_inv (snd (shouldIsolate i now md a))"
  by (auto simp: shouldIsolate_def Let_def intro!: reconcile_inv split: option.split)

lemma checkPeer_inv: "adm_inv a \<Longrightarrow> adm_inv (snd (checkPeer i now md a))"
  using checkPeer_state [of i now md a] by auto

lemma grantOn_inv:
  "adm_inv a \<Longrightarrow> eligible (slots a i) \<Longrightarrow> valid (slots a i) \<Longrightarrow> adm_inv (snd (grantOn i now a))"
  by (auto simp: grantOn_def Let_def slot_inv_def intro!: upd_slot_inv intro: slot_facts dest: slot_facts(7))


lemma earlyDecision_None_eligible: "earlyDecision i now a = None \<Longrightarrow> eligible (slots a i)"
  by (rule ccontr) (simp add: earlyDecision_def)

lemma earlyDecision_None_valid: "earlyDecision i now a = None \<Longrightarrow> valid (slots a i)"
  unfolding earlyDecision_def Let_def
  by (simp only: split: if_split_asm option.split_asm) (simp_all add: fresh_def)

lemma decideOn_inv: "adm_inv a \<Longrightarrow> adm_inv (snd (decideOn i now md a))"
  by (cases rule: decideOn_cases [of i now a md])
    (auto intro!: grantOn_inv checkPeer_inv simp: earlyDecision_None_eligible earlyDecision_None_valid)

lemma requestOn_inv: "adm_inv a \<Longrightarrow> adm_inv (snd (requestOn i now md a))"
proof -
  assume "adm_inv a"
  obtain al r b where b: "decideOn i now md (reconcileLocked now md a) = ((al, r), b)"
    by (metis prod.exhaust)
  with \<open>adm_inv a\<close> have "adm_inv b"
    using decideOn_inv [OF reconcile_inv, of a i now md now md] by simp
  then show ?thesis
    by (auto simp: requestOn_def b slot_inv_def intro!: upd_slot_inv intro: slot_facts dest: slot_facts(6,7))
qed

lemma adm_exec_inv: "adm_inv a \<Longrightarrow> adm_inv (adm_exec js c a)"
  by (cases c) (simp_all add: setRole_inv setVehicle_inv setSeatbox_inv tag_inv failAcquisition_inv
      observeAbsent_inv observe_def observe_inv observeAcquisition_inv beginRound_inv claimRound_inv
      stopSampling_inv observeMotion_def observeMotion_inv invalidateMotion_def invalidateMotion_inv
      resetMotion_inv receiveMotion_inv requestOn_inv offAttempt_def offAttempt_inv shouldIsolate_inv
      isolationOffAttempt_inv)

section \<open>The initial state\<close>

text \<open>
  The invariant but for the sampling flag, which \<open>loadAdmissionSetting\<close> sets last.
\<close>

definition config_inv :: "packAdmission \<Rightarrow> bool" where
  "config_inv a \<longleftrightarrow>
     (\<forall>i. slot_inv (slots a i)) \<and> (\<forall>i. eligible (slots a i) \<longrightarrow> monitored (slots a i)) \<and>
     (\<forall>i. history (slots a i) = []) \<and> isolation a = None \<and> round_cur (sampling a) = None \<and> motion_inv a"

lemma configureReader_inv: "config_inv a \<Longrightarrow> config_inv (configureReader a r)"
  by (auto simp: configureReader_def setRole_def config_inv_def slot_inv_def motion_inv_def
      slots_cancelRound Let_def)

lemma newPackAdmission_inv: "config_inv (newPackAdmission config)"
proof -
  have "config_inv (zeroAdmission\<lparr>conservative := True\<rparr>)"
    by (simp add: config_inv_def zeroAdmission_def zeroSlot_def slot_inv_def zeroSampling_def
        motion_inv_def zeroMotion_def)
  then have "config_inv (foldl configureReader (zeroAdmission\<lparr>conservative := True\<rparr>) config)"
    by (rule foldl_inv) (rule configureReader_inv)
  then show ?thesis
    by (simp add: newPackAdmission_def Let_def config_inv_def motion_inv_def)
qed

lemma newPackAdmission_coordinated:
  "coordinated (newPackAdmission config) \<longleftrightarrow>
     monitored (slots (newPackAdmission config) Slot0) \<and> monitored (slots (newPackAdmission config) Slot1)"
  by (simp add: newPackAdmission_def Let_def)

lemma initial_inv: "adm_initial a \<Longrightarrow> adm_inv a"
proof -
  assume "adm_initial a"
  then obtain config raw where a: "a = loadAdmissionSetting config raw"
    by (auto simp: adm_initial_def)
  from newPackAdmission_inv [of config] newPackAdmission_coordinated [of config] show ?thesis
    unfolding a
    by (auto simp: loadAdmissionSetting_def config_inv_def adm_inv_defs Let_def
        split: option.split prod.split)
qed

interpretation adm: machine adm_initial "adm_exec js" adm_inv for js
  by unfold_locales (simp_all add: initial_inv adm_exec_inv)

end
