(* ===== verification/Supply_Ledger.thy ===== *)
theory Supply_Ledger
  imports Admission_Invariant
begin

text \<open>
  The contract of the activation guard about what each slot may be supplying: an abstract ledger
  with three supply states, the events it allows, and the forward simulation of every guard
  operation by at most one event.
\<close>

section \<open>The abstract ledger\<close>

text \<open>
  \<open>Reserved\<close> is an ON that was granted but not confirmed (or whose confirmation was forgotten
  when the tag changed); \<open>Live\<close> is a confirmed supply. An OFF stays unconfirmed until the
  release.
\<close>

datatype supply_state = Off | Reserved | Live

record ledger =
  supply_st :: supply_state
  off_unconfirmed :: bool

datatype ledger_event = Stutter | Reserve | Confirm | Forget | MarkOff | Release

inductive ledger_step :: "ledger_event \<Rightarrow> ledger \<Rightarrow> ledger \<Rightarrow> bool" where
  stutter: "ledger_step Stutter l l"
| reserve: "supply_st l = Off \<Longrightarrow> ledger_step Reserve l (l\<lparr>supply_st := Reserved\<rparr>)"
| confirm: "ledger_step Confirm l (l\<lparr>supply_st := Live\<rparr>)"
| forget: "supply_st l = Live \<Longrightarrow> ledger_step Forget l (l\<lparr>supply_st := Reserved\<rparr>)"
| mark_off: "supply_st l \<noteq> Off \<Longrightarrow> ledger_step MarkOff l (l\<lparr>off_unconfirmed := True\<rparr>)"
| release: "ledger_step Release l \<lparr>supply_st = Off, off_unconfirmed = False\<rparr>"

inductive_cases ledger_stepE: "ledger_step ev l l'"

definition abs_ledger :: "admissionSlot \<Rightarrow> ledger" where
  "abs_ledger s =
     \<lparr>supply_st = (if \<not> held s then Off else if active s then Live else Reserved),
      off_unconfirmed = offPending s\<rparr>"

text \<open>
  The events each operation may cause on slot \<open>j\<close>. Only an observation of an active frame
  confirms, only one of an inactive frame releases, only a request for that slot reserves and
  only an OFF attempt on it marks it; everything else leaves the ledger alone.
\<close>

definition frame_events :: "BMSData \<Rightarrow> ledger_event set" where
  "frame_events d =
     (if State d = BMSStateActive then {Stutter, Forget, Confirm}
      else if inactive_state (State d) then {Stutter, Forget, Release}
      else {Stutter, Forget})"

fun allowed_events :: "adm_op \<Rightarrow> slot \<Rightarrow> ledger_event set" where
  "allowed_events (OpRequestOn i now d) j = (if j = i then {Stutter, Reserve} else {Stutter})"
| "allowed_events (OpOffAttempt i now) j = (if j = i then {Stutter, MarkOff} else {Stutter})"
| "allowed_events (OpIsolationOffAttempt i now) j = (if j = i then {Stutter, MarkOff} else {Stutter})"
| "allowed_events (OpTag i u) j = (if j = i then {Stutter, Forget} else {Stutter})"
| "allowed_events (OpObserve i d now) j = (if j = i then frame_events d else {Stutter})"
| "allowed_events (OpObserveAcquisition i n x) j = (if j = i then frame_events (acq_data x) else {Stutter})"
| "allowed_events _ _ = {Stutter}"

definition ledger_allows :: "slot \<Rightarrow> adm_op \<Rightarrow> ledger \<Rightarrow> ledger \<Rightarrow> bool" where
  "ledger_allows j c l l' \<longleftrightarrow> (\<exists>ev \<in> allowed_events c j. ledger_step ev l l')"

section \<open>Operations that leave the ledger alone\<close>

lemma abs_ledger_cong:
  "held s = held t \<Longrightarrow> active s = active t \<Longrightarrow> offPending s = offPending t \<Longrightarrow> abs_ledger s = abs_ledger t"
  by (simp add: abs_ledger_def)

definition keeps_power :: "packAdmission \<Rightarrow> packAdmission \<Rightarrow> bool" where
  "keeps_power a b \<longleftrightarrow>
     (\<forall>j. held (slots b j) = held (slots a j) \<and> active (slots b j) = active (slots a j) \<and>
          offPending (slots b j) = offPending (slots a j))"

lemma setRole_power: "keeps_power a (setRole i el a)"
  by (simp add: keeps_power_def setRole_def Let_def)

lemma setVehicle_power: "keeps_power a (setVehicleAt v now a)"
  by (simp add: keeps_power_def setVehicleAt_def stoppedMotionFreshLocked_def Let_def)

lemma setSeatbox_power: "keeps_power a (setSeatbox c a)"
  by (simp add: keeps_power_def setSeatbox_def invalidateSeatboxLocked_def invalidateSeatboxSlot_def Let_def)

lemma failAcquisition_power: "keeps_power a (failAcquisition i n x a)"
  by (simp add: keeps_power_def failAcquisition_def Let_def split: option.split)

lemma observeAbsent_power: "keeps_power a (observeAbsent i now a)"
  by (simp add: keeps_power_def observeAbsent_def Let_def)

lemma beginRound_power: "keeps_power a (snd (beginRound now a))"
  by (simp add: keeps_power_def beginRound_def openRound_def Let_def split: option.split)

lemma claimRound_power: "keeps_power a (snd (claimRound i now a))"
  by (simp add: keeps_power_def claimRound_def split: option.split)

lemma stopSampling_power: "keeps_power a (stopSampling a)"
  by (simp add: keeps_power_def stopSampling_def)

lemma observeMotion_power: "keeps_power a (observeMotionLocked st rc now a)"
  by (simp add: keeps_power_def observeMotionLocked_def Let_def)

lemma keeps_power_trans: "keeps_power a b \<Longrightarrow> keeps_power b c \<Longrightarrow> keeps_power a c"
  by (simp add: keeps_power_def)

lemma same_slots_power: "slots b = slots a \<Longrightarrow> keeps_power a b"
  by (simp add: keeps_power_def)

lemma applyMotion_power: "keeps_power a (snd (applyMotionEvidence e now a))"
  unfolding applyMotionEvidence_def Let_def
  by (rule complete_evidence_cases [where P = "\<lambda>x. keeps_power a (snd x)"])
    (simp_all add: observeMotion_power same_slots_power)

lemma acceptMotion_power: "keeps_power a (snd (acceptMotionEvidence e now a))"
  unfolding acceptMotionEvidence_def Let_def
  by (simp add: same_slots_power keeps_power_trans [OF same_slots_power applyMotion_power])

lemma receiveMotion_power: "keeps_power a (snd (receiveMotionEvidence js msg now a))"
  unfolding receiveMotionEvidence_def Let_def
  by (simp add: same_slots_power keeps_power_trans [OF same_slots_power acceptMotion_power])

text \<open>Observing a frame: its effect on the ledger of the observed slot.\<close>

lemma observeIdentity_power:
  "held (slots (observeIdentity i d a) j) = held (slots a j)"
  "offPending (slots (observeIdentity i d a) j) = offPending (slots a j)"
  "active (slots (observeIdentity i d a) j) = active (slots a j) \<or>
   (j = i \<and> \<not> active (slots (observeIdentity i d a) j))"
  "j \<noteq> i \<Longrightarrow> active (slots (observeIdentity i d a) j) = active (slots a j)"
  by (simp_all add: observeIdentity_def Let_def)

text \<open>A pack whose identity just changed has no confirmed frame.\<close>

lemma observeIdentity_forgets:
  "active (slots (observeIdentity i d a) i) \<noteq> active (slots a i) \<Longrightarrow>
   \<not> valid (observeFrame d now (slots (observeIdentity i d a) i))"
  by (auto simp: observeIdentity_def observeFrame_def Let_def split: if_splits)

lemma observePower_power:
  "j \<noteq> i \<Longrightarrow> held (slots (observePower i d now a) j) = held (slots a j)"
  "j \<noteq> i \<Longrightarrow> active (slots (observePower i d now a) j) = active (slots a j)"
  "j \<noteq> i \<Longrightarrow> offPending (slots (observePower i d now a) j) = offPending (slots a j)"
  "held (slots (observePower i d now a) i) \<longleftrightarrow>
     State d = BMSStateActive \<or> (held (slots a i) \<and> \<not> inactiveConfirmed now (slots a i))"
  "active (slots (observePower i d now a) i) \<longleftrightarrow>
     State d = BMSStateActive \<or> (active (slots a i) \<and> \<not> inactiveConfirmed now (slots a i))"
  "offPending (slots (observePower i d now a) i) \<longleftrightarrow>
     offPending (slots a i) \<and> (State d = BMSStateActive \<or> \<not> inactiveConfirmed now (slots a i))"
  by (simp_all add: observePower_def Let_def split: option.split)

lemma observe_other_power:
  assumes "j \<noteq> i"
  shows "held (slots (observeLocked i d now a) j) = held (slots a j)"
    "active (slots (observeLocked i d now a) j) = active (slots a j)"
    "offPending (slots (observeLocked i d now a) j) = offPending (slots a j)"
  using assms by (simp_all add: observeLocked_def Let_def observePower_power observeIdentity_power)

lemma observe_ledger:
  "\<exists>ev \<in> frame_events d.
     ledger_step ev (abs_ledger (slots a i)) (abs_ledger (slots (observeLocked i d now a) i))"
proof -
  let ?b = "upd_slot i (observeFrame d now) (observeIdentity i d a)"
  show ?thesis
  proof (cases "valid (slots ?b i)")
    case False
    then have res: "abs_ledger (slots (observeLocked i d now a) i) = abs_ledger (slots (observeIdentity i d a) i)"
      by (simp add: observeLocked_def Let_def abs_ledger_def)
    show ?thesis
    proof (cases "active (slots (observeIdentity i d a) i) = active (slots a i)")
      case True
      then have "abs_ledger (slots (observeIdentity i d a) i) = abs_ledger (slots a i)"
        by (intro abs_ledger_cong) (simp_all add: observeIdentity_power)
      with res show ?thesis by (auto simp: frame_events_def intro: ledger_step.stutter)
    next
      case False
      with observeIdentity_power(3) [of i d a i] have "\<not> active (slots (observeIdentity i d a) i)" "active (slots a i)"
        by auto
      then have "ledger_step (if held (slots a i) then Forget else Stutter)
          (abs_ledger (slots a i)) (abs_ledger (slots (observeIdentity i d a) i))"
        using ledger_step.forget [of "abs_ledger (slots a i)"]
        by (cases "held (slots a i)") (simp_all add: abs_ledger_def observeIdentity_power ledger_step.stutter)
      with res show ?thesis by (auto simp: frame_events_def split: if_splits)
    qed
  next
    case True
    with observeIdentity_forgets [of i d a now]
    have act: "active (slots (observeIdentity i d a) i) = active (slots a i)" by auto
    from True have st: "State d = BMSStateActive \<or> inactive_state (State d)"
      by (simp add: observeFrame_valid)
    let ?c = "observePower i d now ?b"
    have res: "abs_ledger (slots (observeLocked i d now a) i) = abs_ledger (slots ?c i)"
      using True by (simp add: observeLocked_def Let_def abs_ledger_def)
    have b: "held (slots ?b i) = held (slots a i)" "active (slots ?b i) = active (slots a i)"
        "offPending (slots ?b i) = offPending (slots a i)"
      by (simp_all add: observeIdentity_power act)
    show ?thesis
    proof (cases "State d = BMSStateActive")
      case True
      then have "abs_ledger (slots ?c i) = (abs_ledger (slots a i))\<lparr>supply_st := Live\<rparr>"
        by (simp add: abs_ledger_def observePower_power observeIdentity_power)
      with res True show ?thesis
        by (auto simp: frame_events_def intro: ledger_step.confirm)
    next
      case False
      with st res show ?thesis
        by (cases "inactiveConfirmed now (slots ?b i)")
          (auto simp: abs_ledger_def observePower_power observeIdentity_power act frame_events_def
            intro: ledger_step.release ledger_step.stutter)
    qed
  qed
qed



text \<open>The ON decision: at most the requested slot is reserved, and only when allowed.\<close>

lemma maintainHandover_facts:
  assumes "maintainHandoverLocked i now a"
  shows "held (slots a i)" "active (slots a i)" "\<not> requiresAdmission (slots a i)"
    "vehicle a = VehicleStateReadyToDrive" "State (frame (slots a i)) = BMSStateActive"
    "\<exists>e. isolation a = Some e \<and> victim e = i \<and> handover e \<and> attempted e \<and> \<not> offConfirmed e \<and>
         \<not> held (slots a (survivor e)) \<and> \<not> offPending (slots a (survivor e))"
  using assms by (simp_all add: maintainHandoverLocked_def Let_def split: option.splits if_split_asm)

lemma early_allowed:
  assumes "earlyDecision i now a = Some (True, r)"
  shows "eligible (slots a i) \<and>
         (offPending (slots a i) \<and> maintainHandoverLocked i now a \<and> r = MaintainingHandover \<or>
          held (slots a i) \<and> active (slots a i) \<and> \<not> requiresAdmission (slots a i) \<and>
          \<not> offPending (slots a i) \<and> r = MaintainingSupply)"
  using assms unfolding earlyDecision_def Let_def
  by (simp only: split: if_split_asm option.split_asm) simp_all

lemma early_allowed_held: "earlyDecision i now a = Some (True, r) \<Longrightarrow> held (slots a i)"
  using early_allowed maintainHandover_facts(1) by blast

lemma grantOn_power:
  "held (slots (snd (grantOn i now a)) j) \<longleftrightarrow> held (slots a j) \<or> j = i"
  "active (slots (snd (grantOn i now a)) j) = active (slots a j)"
  "offPending (slots (snd (grantOn i now a)) j) = offPending (slots a j)"
  by (auto simp: grantOn_def Let_def)

lemma decideOn_power:
  "held (slots (snd (decideOn i now md a)) j) \<longleftrightarrow>
     held (slots a j) \<or> (j = i \<and> fst (fst (decideOn i now md a)))"
  "active (slots (snd (decideOn i now md a)) j) = active (slots a j)"
  "offPending (slots (snd (decideOn i now md a)) j) = offPending (slots a j)"
proof -
  have "fst d \<Longrightarrow> held (slots a i)" if "earlyDecision i now a = Some d" for d
    using that early_allowed_held [of i now a "snd d"] by (cases d) auto
  then show "held (slots (snd (decideOn i now md a)) j) \<longleftrightarrow>
     held (slots a j) \<or> (j = i \<and> fst (fst (decideOn i now md a)))"
    by (cases rule: decideOn_cases [of i now a md]) (auto simp: grantOn_power)
  show "active (slots (snd (decideOn i now md a)) j) = active (slots a j)"
    "offPending (slots (snd (decideOn i now md a)) j) = offPending (slots a j)"
    by (cases rule: decideOn_cases [of i now a md]; simp add: grantOn_power)+
qed

text \<open>The whole request, in terms of the state it starts from.\<close>

lemma requestOn_eq:
  "requestOn i now md a =
     (let (d, b) = decideOn i now md (reconcileLocked now md a)
      in (d, if fst d then upd_slot i (\<lambda>s. s\<lparr>lastOnAt := now, requiresAdmission := False\<rparr>) b else b))"
  by (simp add: requestOn_def split: prod.split)

lemma requestOn_fst: "fst (requestOn i now md a) = fst (decideOn i now md (reconcileLocked now md a))"
  by (simp add: requestOn_def split: prod.split)

lemma requestOn_power:
  "held (slots (snd (requestOn i now md a)) j) \<longleftrightarrow>
     held (slots a j) \<or> (j = i \<and> fst (fst (requestOn i now md a)))"
  "active (slots (snd (requestOn i now md a)) j) = active (slots a j)"
  "offPending (slots (snd (requestOn i now md a)) j) = offPending (slots a j)"
proof -
  obtain d b where b: "decideOn i now md (reconcileLocked now md a) = (d, b)" by fastforce
  from decideOn_power [of i now md "reconcileLocked now md a" j]
  show "held (slots (snd (requestOn i now md a)) j) \<longleftrightarrow>
     held (slots a j) \<or> (j = i \<and> fst (fst (requestOn i now md a)))"
    "active (slots (snd (requestOn i now md a)) j) = active (slots a j)"
    "offPending (slots (snd (requestOn i now md a)) j) = offPending (slots a j)"
    by (auto simp: requestOn_eq b)
qed

lemma pairRound_power: "keeps_power a (snd (pairRound retry r x y a))"
  by (simp add: keeps_power_def pairRound_def Let_def)

lemma deliver_power: "keeps_power a (snd (deliverAcquisition i retry r x a))"
proof -
  let ?b = "upd_sampling (\<lambda>p. p\<lparr>round_cur := Some (set_round_sample i x r)\<rparr>) a"
  have "keeps_power a (snd (pairRound retry s y z ?b))" for s y z
    using pairRound_power [of ?b] by (simp add: keeps_power_def)
  then show ?thesis
    unfolding deliverAcquisition_def Let_def
    by (auto simp: keeps_power_def)
qed

lemma observeAcquisition_power:
  "keeps_power (observeLocked i (acq_data x) (acq_complete x) a) (snd (observeAcquisition i n x a))"
proof -
  let ?o = "observeLocked i (acq_data x) (acq_complete x) a"
  let ?b = "upd_slot i (\<lambda>s. s\<lparr>observedRound := n\<rparr>) ?o"
  have "keeps_power ?o ?b" by (simp add: keeps_power_def)
  moreover have "keeps_power ?b (cancelRoundLocked q ?b)" for q by (simp add: keeps_power_def)
  ultimately show ?thesis
    unfolding observeAcquisition_def Let_def
    by (auto intro: keeps_power_trans deliver_power split: option.split)
qed

lemma tag_ledger:
  "ledger_step (if active (slots a i) \<and> held (slots a i) \<and> uid (slots a i) \<noteq> u then Forget else Stutter)
     (abs_ledger (slots a i)) (abs_ledger (slots (tag i u a) i))"
  using ledger_step.forget [of "abs_ledger (slots a i)"]
  by (auto simp: tag_def Let_def abs_ledger_def replaceIdentity_def zeroSlot_def intro: ledger_step.stutter)

lemma tag_other: "j \<noteq> i \<Longrightarrow> abs_ledger (slots (tag i u a) j) = abs_ledger (slots a j)"
  by (simp add: tag_def Let_def abs_ledger_def)

lemma requestOn_ledger:
  "ledger_step (if fst (fst (requestOn i now md a)) \<and> \<not> held (slots a i) then Reserve else Stutter)
     (abs_ledger (slots a i)) (abs_ledger (slots (snd (requestOn i now md a)) i))"
  if "adm_inv a"
  using ledger_step.reserve [of "abs_ledger (slots a i)"] slot_facts(1) [OF that, of i]
  by (auto simp: abs_ledger_def requestOn_power intro: ledger_step.stutter)

lemma offAttempt_ledger:
  "ledger_step (if held (slots a i) \<and> \<not> offPending (slots a i) then MarkOff else Stutter)
     (abs_ledger (slots a i)) (abs_ledger (slots (offAttemptLocked i now a) i))"
  using ledger_step.mark_off [of "abs_ledger (slots a i)"]
  by (auto simp: abs_ledger_def slots_offAttempt intro: ledger_step.stutter)

lemma offAttempt_other:
  "j \<noteq> i \<Longrightarrow> abs_ledger (slots (offAttemptLocked i now a) j) = abs_ledger (slots a j)"
  by (simp add: abs_ledger_def slots_offAttempt)

lemma isolationOff_state:
  "snd (isolationOffAttempt i now a) = a \<or>
   snd (isolationOffAttempt i now a) = offAttemptLocked i now (markAttempted i a)"
  by (simp add: isolationOffAttempt_def split: option.split)

lemma shouldIsolate_power: "keeps_power a (snd (shouldIsolate i now md a))"
  by (rule same_slots_power) (simp add: shouldIsolate_def Let_def split: option.split)

lemma keeps_power_ledger: "keeps_power a b \<Longrightarrow> abs_ledger (slots b j) = abs_ledger (slots a j)"
  by (intro abs_ledger_cong) (simp_all add: keeps_power_def)

lemmas op_power =
  setRole_power setVehicle_power setSeatbox_power failAcquisition_power observeAbsent_power
  beginRound_power claimRound_power stopSampling_power observeMotion_power receiveMotion_power
  shouldIsolate_power

section \<open>The simulation\<close>

lemma exec_event:
  assumes inv: "adm_inv a"
  shows "\<exists>ev \<in> allowed_events c j.
           ledger_step ev (abs_ledger (slots a j)) (abs_ledger (slots (adm_exec js c a) j))"
proof -
  note st = ledger_step.stutter [of "abs_ledger (slots a j)"]
  have stutter: "ledger_step Stutter (abs_ledger (slots a j)) (abs_ledger (slots b j))" if "keeps_power a b" for b
    using st by (simp add: keeps_power_ledger [OF that])
  have mo: "abs_ledger (slots (offAttemptLocked i now (markAttempted i a)) j) =
            abs_ledger (slots (offAttemptLocked i now a) j)" for i j now
    by (simp add: slots_offAttempt)
  show ?thesis
  proof (cases c)
    case (OpTag i u)
    with tag_ledger [of a i u] st show ?thesis
      by (cases "j = i") (auto simp: tag_other split: if_splits)
  next
    case (OpObserve i d now)
    with observe_ledger [of d a i now] st show ?thesis
      by (cases "j = i") (auto simp: observe_def observe_other_power abs_ledger_def)
  next
    case (OpObserveAcquisition i n x)
    with observe_ledger [of "acq_data x" a i "acq_complete x"] st show ?thesis
      using keeps_power_ledger [OF observeAcquisition_power [of i x a n], of j]
      by (cases "j = i") (auto simp: observe_other_power abs_ledger_def)
  next
    case (OpRequestOn i now md)
    with requestOn_ledger [OF inv, of i now md] st show ?thesis
      by (cases "j = i") (auto simp: requestOn_power abs_ledger_def split: if_splits)
  next
    case (OpOffAttempt i now)
    with offAttempt_ledger [of a i now] st show ?thesis
      by (cases "j = i") (auto simp: offAttempt_def offAttempt_other split: if_splits)
  next
    case (OpIsolationOffAttempt i now)
    with offAttempt_ledger [of a i now] st isolationOff_state [of i now a] show ?thesis
      by (cases "j = i") (auto simp: mo offAttempt_other split: if_splits)
  qed (simp_all add: stutter op_power same_slots_power observeMotion_def invalidateMotion_def resetMotionStream_def)
qed

interpretation ledger: simulation adm_initial "adm_exec js" adm_inv
    "\<lambda>a. abs_ledger (slots a j)" "ledger_allows j" for js j
  by unfold_locales (simp add: ledger_allows_def exec_event)

text \<open>Nothing is supplied before the first observation or request.\<close>

lemma configured_off:
  "\<not> held (slots (newPackAdmission config) i) \<and> \<not> offPending (slots (newPackAdmission config) i)"
proof -
  let ?P = "\<lambda>a. \<forall>i. \<not> held (slots a i) \<and> \<not> offPending (slots a i)"
  have "?P (foldl configureReader (zeroAdmission\<lparr>conservative := True\<rparr>) config)"
    by (rule foldl_inv)
      (auto simp: zeroAdmission_def zeroSlot_def configureReader_def setRole_def Let_def slots_cancelRound)
  then show ?thesis by (simp add: newPackAdmission_def Let_def)
qed

lemma slots_loadAdmission [simp]:
  "slots (loadAdmissionSetting config raw) = slots (newPackAdmission config)"
  by (simp add: loadAdmissionSetting_def Let_def split: option.split prod.split)

lemma initial_off:
  assumes "adm_initial s"
  shows "\<not> held (slots s j)" "\<not> offPending (slots s j)"
    "abs_ledger (slots s j) = \<lparr>supply_st = Off, off_unconfirmed = False\<rparr>"
  using assms configured_off by (auto simp: adm_initial_def abs_ledger_def)

end
