(* ===== verification/Admission_Safety.thy ===== *)
theory Admission_Safety
  imports Supply_Ledger
begin

text \<open>
  What the activation guard promises about power: when a pack may join a running one, what can
  be switched on while driving, how long a reservation lives, how a mismatched pair is taken
  apart, that the guard does not deadlock, and that the diagnostics preview is the decision.
\<close>

section \<open>What a grant rests on\<close>

text \<open>What \<open>earlyDecision\<close> has established when it lets a request through to the peer.\<close>

lemma early_through:
  assumes "earlyDecision i now a = None"
  shows "eligible (slots a i)" "\<not> offPending (slots a i)" "fresh now (slots a i)" "usable (slots a i)"
    "\<not> sampling_stopped (sampling a)"
    "nonDrivingVehicle (vehicle a) \<or>
     vehicle a = VehicleStateReadyToDrive \<and> \<not> held (slots a (other i)) \<and> \<not> offPending (slots a (other i))"
    "\<not> (held (slots a i) \<and> active (slots a i) \<and> \<not> requiresAdmission (slots a i))"
  using assms unfolding earlyDecision_def Let_def
  by (simp_all only: split: if_split_asm option.split_asm) blast+

lemma requestOn_granted:
  assumes "requestOn i now md a = ((True, r), b)" and "r \<noteq> MaintainingSupply" "r \<noteq> MaintainingHandover"
  shows "earlyDecision i now (reconcileLocked now md a) = None"
    "fst (checkPeer i now md (reconcileLocked now md a)) = None"
proof -
  let ?a = "reconcileLocked now md a"
  from assms(1) have d: "fst (decideOn i now md ?a) = (True, r)"
    by (metis requestOn_fst fst_conv)
  have "earlyDecision i now ?a = None \<and> fst (checkPeer i now md ?a) = None"
  proof (cases rule: decideOn_cases [of i now ?a md])
    case (early d)
    with \<open>fst (decideOn i now md ?a) = (True, r)\<close> early_allowed [of i now ?a r] assms(2,3)
    show ?thesis by simp
  qed (use d in simp_all)
  then show "earlyDecision i now ?a = None" "fst (checkPeer i now md ?a) = None" by auto
qed

text \<open>The evidence about a running peer that the last checks of \<open>requestOn\<close> ask for.\<close>

definition no_recent_movement :: "gotime \<Rightarrow> stoppedAdmission \<Rightarrow> bool" where
  "no_recent_movement now m \<longleftrightarrow>
     IsZero (motion_at m) \<or> Before now (motion_at m) \<or> Sub now (motion_at m) > stoppedMotionMaxAge \<or>
     motion_stopped m"

definition paired_current :: "gotime \<Rightarrow> slot \<Rightarrow> packAdmission \<Rightarrow> bool" where
  "paired_current now i a \<longleftrightarrow>
     (let p = sampling a
      in \<not> IsZero (pairedAt p) \<and> Sub now (pairedAt p) \<le> admissionMaxAge \<and>
         observedRound (slots a i) = pairedID p \<and> observedRound (slots a (other i)) = pairedID p)"

definition windows_close :: "nat \<Rightarrow> admissionSlot \<Rightarrow> admissionSlot \<Rightarrow> bool" where
  "windows_close limit s t \<longleftrightarrow>
     (\<forall>x \<in> set (history s). \<forall>y \<in> set (history t).
        voltageDistance (Voltage (smp_data x)) (Voltage (smp_data y)) \<le> limit)"

lemma qualifyPair_None:
  assumes "qualifyPair i now md a = None"
  shows "active (slots a (other i))" "\<not> offPending (slots a (other i))"
    "FaultCode (frame (slots a (other i))) = 0"
    "\<not> (LowSOC (frame (slots a (other i))) \<and> Charge (frame (slots a (other i))) = 0)"
    "sampling_enabled (sampling a) \<Longrightarrow> paired_current now i a"
    "\<bar>Sub (observed (slots a i)) (observed (slots a (other i)))\<bar> \<le> admissionMaxSkew"
    "md > 0 \<Longrightarrow> voltageDistance (Voltage (frame (slots a i))) (Voltage (frame (slots a (other i)))) \<le> md"
    "conservative a \<Longrightarrow> stable now (slots a i) \<and> stable now (slots a (other i)) \<and>
       (md > 0 \<longrightarrow> windows_close (conservativeLimit md) (slots a i) (slots a (other i)))"
  using assms unfolding qualifyPair_def Let_def paired_current_def windows_close_def
  by (simp_all only: split: if_split_asm) (auto simp: abs_le_iff list_ex_iff not_less)

lemma running_peer_checked:
  assumes "adm_inv a" and "earlyDecision i now a = None" and "fst (checkPeer i now md a) = None"
    and "held (slots a (other i))" "monitored (slots a (other i))"
  shows "fresh now (slots a (other i))"
    "no_recent_movement now (motion a)" "nonDrivingVehicle (vehicle a)" "qualifyPair i now md a = None"
proof -
  from early_through(6) [OF assms(2)] assms(4) show nd: "nonDrivingVehicle (vehicle a)" by blast
  from nd have st: "secondPackStationaryLocked now a = (no_recent_movement now (motion a), a)"
    by (simp add: secondPackStationaryLocked_def no_recent_movement_def Let_def)
  from slot_facts(6) [OF assms(1)] assms(4) have "\<not> absent (slots a (other i))" by blast
  with assms(3-5) st show "fresh now (slots a (other i))"
    "no_recent_movement now (motion a)" "qualifyPair i now md a = None"
    by (simp_all add: checkPeer_def checkRunningPeer_def Let_def split: if_split_asm)
qed

text \<open>
  C4: Every state the guard can reach, from any configuration and by any interleaving of the calls
  of the readers and the service, satisfies the guard's invariant: a supply flag is only set on a
  reserved and tracked slot, an absent slot is neither reserved nor qualified, an isolation episode
  has two distinct slots, stored round results were claimed and in bounds, sample windows do not
  outlive their pair, and a stopped report always carries its instants.
\<close>

theorem admission_invariant:
  assumes "adm_initial s"
  shows "adm_inv (fold (adm_exec js) cs s)"
  by (rule adm.inv_reachable) fact

text \<open>
  C3: The guard refines the abstract supply ledger: along every execution the supply record of each
  slot moves only by the events the executed operation allows (a request for the slot reserves it,
  an active frame confirms, a tag or serial change forgets the confirmation, an OFF attempt marks
  it, an inactive frame releases), starting from off.
\<close>

theorem admission_refines_ledger:
  assumes "adm_initial s"
  shows "path (ledger_allows j) cs \<lparr>supply_st = Off, off_unconfirmed = False\<rparr>
           (abs_ledger (slots (fold (adm_exec js) cs s) j))"
  using ledger.sim_reachable [OF assms, of j cs js] initial_off(3) [OF assms, of j] by simp

text \<open>
  C1: An ON that joins a running, monitored pack is granted only when the vehicle is in a non-
  driving state with no recent report of movement, the running pack is confirmed, not being
  switched off and unfaulted, both readings are fresh and come from the same current acquisition
  round with at most three seconds between them, and the voltages differ by at most the
  configured limit; in conservative mode both sample windows are also stable and every two
  samples of them lie within the tightened limit.
\<close>

theorem second_pack_grant:
  assumes "adm_inv a" and "requestOn i now md a = ((True, r), b)"
    and "r \<noteq> MaintainingSupply" "r \<noteq> MaintainingHandover"
    and "held (slots a (other i))" "monitored (slots a (other i))"
  shows "nonDrivingVehicle (vehicle a) \<and> no_recent_movement now (motion a) \<and>
         active (slots a (other i)) \<and> \<not> offPending (slots a (other i)) \<and>
         fresh now (slots a i) \<and> usable (slots a i) \<and> fresh now (slots a (other i)) \<and>
         FaultCode (frame (slots a (other i))) = 0 \<and>
         paired_current now i a \<and>
         \<bar>Sub (observed (slots a i)) (observed (slots a (other i)))\<bar> \<le> admissionMaxSkew \<and>
         (md > 0 \<longrightarrow>
            voltageDistance (Voltage (frame (slots a i))) (Voltage (frame (slots a (other i)))) \<le> md) \<and>
         (conservative a \<longrightarrow>
            stable now (slots a i) \<and> stable now (slots a (other i)) \<and>
            (md > 0 \<longrightarrow> windows_close (conservativeLimit md) (slots a i) (slots a (other i))))"
proof -
  let ?a = "reconcileLocked now md a"
  note g = requestOn_granted [OF assms(2-4)]
  have q: "fresh now (slots a (other i))" "nonDrivingVehicle (vehicle a)" "no_recent_movement now (motion a)" "qualifyPair i now md ?a = None"
    using running_peer_checked [OF reconcile_inv [OF assms(1)] g] assms(5,6) by simp_all
  have en: "sampling_enabled (sampling a)" using assms(1) by (simp add: adm_inv_def sampling_inv_def)
  show ?thesis
    using q early_through [OF g(1)] qualifyPair_None [OF q(4)] en by (simp add: paired_current_def)
qed

text \<open>
  C5: In a driving or unknown vehicle state no request switches on a supply next to another one:
  a granted request either maintains a pack that is already confirmed active, or the vehicle is
  ready-to-drive and the other pack is neither reserved nor awaiting OFF.
\<close>

theorem no_new_supply_while_driving:
  assumes "requestOn i now md a = ((True, r), b)" and "\<not> nonDrivingVehicle (vehicle a)"
  shows "(held (slots a i) \<and> active (slots a i) \<and> \<not> requiresAdmission (slots a i)) \<or>
         (vehicle a = VehicleStateReadyToDrive \<and> \<not> held (slots a (other i)) \<and>
          \<not> offPending (slots a (other i)) \<and> fresh now (slots a i) \<and> usable (slots a i))"
proof -
  let ?a = "reconcileLocked now md a"
  from assms(1) have d: "fst (decideOn i now md ?a) = (True, r)"
    by (metis requestOn_fst fst_conv)
  show ?thesis
  proof (cases rule: decideOn_cases [of i now ?a md])
    case (early d)
    with \<open>fst (decideOn i now md ?a) = (True, r)\<close> early_allowed [of i now ?a r]
      maintainHandover_facts [of i now ?a]
    show ?thesis by auto
  next
    case granted
    with early_through [OF granted(1)] assms(2) show ?thesis by auto
  qed (use d in simp)
qed

text \<open>
  A refused activation changes no slot's supply record: a denial is never turned into an OFF
  and never drops a reservation.
\<close>

lemma refusal_keeps_ledger:
  assumes "fst (fst (requestOn i now md a)) = False"
  shows "\<forall>j. abs_ledger (slots (snd (requestOn i now md a)) j) = abs_ledger (slots a j)"
  using assms by (auto simp: abs_ledger_def requestOn_power)

section \<open>Isolation\<close>

definition corrective :: "isolationEpisode \<Rightarrow> packAdmission \<Rightarrow> bool" where
  "corrective e a \<longleftrightarrow> isolation a = Some e \<and> attempted e \<and> \<not> offConfirmed e"

text \<open>An observation that confirms slot \<open>j\<close> switched off in state \<open>t\<close>.\<close>

definition confirms_off :: "slot \<Rightarrow> adm_op \<Rightarrow> packAdmission \<Rightarrow> bool" where
  "confirms_off j c t \<longleftrightarrow>
     (\<exists>d now. (c = OpObserve j d now \<or>
               (\<exists>n x. c = OpObserveAcquisition j n x \<and> d = acq_data x \<and> now = acq_complete x)) \<and>
        inactive_state (State d) \<and> valid (observeFrame d now (slots t j)) \<and>
        inactiveConfirmed now (observeFrame d now (slots t j)))"

lemma observeIdentity_isolation [simp]: "isolation (observeIdentity i d a) = isolation a"
  by (simp add: observeIdentity_def Let_def)

text \<open>A change of serial number leaves nothing to confirm; otherwise the slot's evidence is kept.\<close>

lemma observeIdentity_cases:
  obtains (replaced) "\<not> haveFrame (slots (observeIdentity i d a) i)" "IsZero (written (slots (observeIdentity i d a) i))"
  | (same) p :: bool and n :: string where "slots (observeIdentity i d a) i = (slots a i)\<lparr>powerTracked := p, serial := n\<rparr>"
proof (cases "serial (slots a i) \<noteq> [] \<and> SerialNumber d \<noteq> [] \<and> serial (slots a i) \<noteq> SerialNumber d")
  case True
  then show ?thesis
    by (intro replaced) (simp_all add: observeIdentity_def Let_def replaceIdentity_def zeroSlot_def)
next
  case False
  then show ?thesis
    by (intro same [where p = "State d = BMSStateActive \<or> powerTracked (slots a i)"
          and n = "if SerialNumber d \<noteq> [] then SerialNumber d else serial (slots a i)"])
      (auto simp: observeIdentity_def Let_def)
qed

lemma observeIdentity_evidence:
  assumes "valid (observeFrame d now (slots (observeIdentity i d a) i))"
  shows "valid (observeFrame d now (slots a i)) \<and>
    inactiveConfirmed now (observeFrame d now (slots (observeIdentity i d a) i)) =
    inactiveConfirmed now (observeFrame d now (slots a i))"
proof (cases rule: observeIdentity_cases [of i d a])
  case replaced
  with assms show ?thesis by (simp add: observeFrame_valid observeFrame_written)
next
  case (same p n)
  with assms show ?thesis
    by (auto simp: observeFrame_valid observeFrame_written inactiveConfirmed_def split: if_split_asm)
qed

lemma observe_release:
  assumes "held (slots a i)" "\<not> held (slots (observeLocked i d now a) i)"
  shows "inactive_state (State d) \<and> valid (observeFrame d now (slots a i)) \<and>
         inactiveConfirmed now (observeFrame d now (slots a i))"
proof -
  let ?b = "upd_slot i (observeFrame d now) (observeIdentity i d a)"
  have v: "valid (slots ?b i)"
    using assms by (rule_tac ccontr) (simp add: observeLocked_def Let_def observeIdentity_power)
  have "\<not> held (slots (observePower i d now ?b) i)"
    using assms(2) v by (simp add: observeLocked_def Let_def split: if_split_asm)
  with assms(1) have "State d \<noteq> BMSStateActive" "inactiveConfirmed now (slots ?b i)"
    by (simp_all add: observePower_power observeIdentity_power)
  with v observeIdentity_evidence [of d now i a] show ?thesis
    by (simp add: observeFrame_valid)
qed

lemma held_step:
  assumes inv: "adm_inv a" and "held (slots a j)"
  shows "held (slots (adm_exec js c a) j) \<or> confirms_off j c a"
proof (rule ccontr)
  assume "\<not> (held (slots (adm_exec js c a) j) \<or> confirms_off j c a)"
  then have off: "\<not> held (slots (adm_exec js c a) j)" and no: "\<not> confirms_off j c a" by auto
  from exec_event [OF inv, of c j js] obtain ev where ev: "ev \<in> allowed_events c j"
    "ledger_step ev (abs_ledger (slots a j)) (abs_ledger (slots (adm_exec js c a) j))" by blast
  from ev(2) off assms(2) have "ev = Release"
    by (cases rule: ledger_step.cases) (auto simp: abs_ledger_def split: if_splits)
  with ev(1) have "(\<exists>d now. c = OpObserve j d now) \<or> (\<exists>n x. c = OpObserveAcquisition j n x)"
    by (cases "(c, j)" rule: allowed_events.cases) (auto split: if_splits)
  then show False
  proof (elim disjE exE)
    fix d now assume c: "c = OpObserve j d now"
    with off observe_release [OF assms(2), of d now] no show False
      by (auto simp: confirms_off_def observe_def)
  next
    fix n x assume c: "c = OpObserveAcquisition j n x"
    with off have "\<not> held (slots (observeLocked j (acq_data x) (acq_complete x) a) j)"
      using observeAcquisition_power [of j x a n] by (simp add: keeps_power_def)
    from c observe_release [OF assms(2) this] no show False
      by (auto simp: confirms_off_def)
  qed
qed

text \<open>
  C2: A reservation, once made, survives every further sequence of operations until an
  observation of that very slot shows a valid inactive frame that was written after the last
  command (and after the settle time).
\<close>

theorem supply_kept_until_confirmed_off:
  assumes "adm_inv a" and "held (slots a j)"
  shows "held (slots (fold (adm_exec js) cs a) j) \<or>
         (\<exists>ds c es. cs = ds @ c # es \<and> held (slots (fold (adm_exec js) ds a) j) \<and>
            confirms_off j c (fold (adm_exec js) ds a))"
  by (rule adm.kept_or_ended [where Q = "\<lambda>t. held (slots t j)"])
    (use assms held_step in blast)+

text \<open>The episode is touched by observations, decisions and OFF attempts only.\<close>

lemma isolation_motion [simp]:
  "isolation (observeMotionLocked st rc now a) = isolation a"
  "isolation (snd (applyMotionEvidence e now a)) = isolation a"
  "isolation (snd (acceptMotionEvidence e now a)) = isolation a"
  "isolation (snd (receiveMotionEvidence js msg now a)) = isolation a"
proof -
  show m: "isolation (observeMotionLocked st rc now a) = isolation a" for st rc now a
    by (simp add: observeMotionLocked_def Let_def)
  show ap: "isolation (snd (applyMotionEvidence e now a)) = isolation a" for e now a
    unfolding applyMotionEvidence_def Let_def
    by (rule complete_evidence_cases [where P = "\<lambda>x. isolation (snd x) = isolation a"]) (simp_all add: m)
  show ac: "isolation (snd (acceptMotionEvidence e now a)) = isolation a" for e now a
    unfolding acceptMotionEvidence_def Let_def by (simp add: ap)
  show "isolation (snd (receiveMotionEvidence js msg now a)) = isolation a"
    unfolding receiveMotionEvidence_def Let_def by (simp add: ac)
qed

lemma isolation_records [simp]:
  "isolation (setRole i el a) = isolation a"
  "isolation (setVehicleAt v now a) = isolation a"
  "isolation (setSeatbox cl a) = isolation a"
  "isolation (tag i u a) = isolation a"
  "isolation (failAcquisition i n x a) = isolation a"
  "isolation (observeAbsent i now a) = isolation a"
  "isolation (snd (beginRound now a)) = isolation a"
  "isolation (snd (claimRound i now a)) = isolation a"
  "isolation (stopSampling a) = isolation a"
  by (simp_all add: setRole_def setVehicleAt_def stoppedMotionFreshLocked_def setSeatbox_def
      invalidateSeatboxLocked_def tag_def failAcquisition_def observeAbsent_def beginRound_def
      openRound_def claimRound_def stopSampling_def Let_def split: option.split)

lemma isolation_deliver [simp]: "isolation (snd (deliverAcquisition i retry r x a)) = isolation a"
  by (simp add: deliverAcquisition_def pairRound_def Let_def)

lemma isolation_observeAcquisition [simp]:
  "isolation (snd (observeAcquisition i n x a)) =
   isolation (observeLocked i (acq_data x) (acq_complete x) a)"
  by (simp add: observeAcquisition_def Let_def split: option.split)

lemma isolation_decideOn [simp]: "isolation (snd (decideOn i now md a)) = isolation a"
  by (cases rule: decideOn_cases [of i now a md]) (simp_all add: grantOn_def Let_def)

lemma isolation_requestOn [simp]:
  "isolation (snd (requestOn i now md a)) = isolation (reconcileLocked now md a)"
  by (simp add: requestOn_eq split: prod.split) (metis isolation_decideOn snd_conv)

lemma corrective_reconcile: "corrective e a \<Longrightarrow> reconcileLocked now md a = a"
  by (simp add: corrective_def reconcileLocked_def reconcileEpisode_def Let_def)

lemma corrective_observe:
  assumes "corrective e a"
  shows "isolation (observeLocked i d now a) = Some e \<or>
     (i = victim e \<and> inactive_state (State d) \<and> valid (observeFrame d now (slots a i)) \<and>
      inactiveConfirmed now (observeFrame d now (slots a i)))"
proof -
  let ?b = "upd_slot i (observeFrame d now) (observeIdentity i d a)"
  have b: "isolation ?b = Some e" using assms by (simp add: corrective_def)
  have p: "isolation (observePower i d now ?b) = Some e \<or>
      (i = victim e \<and> State d \<noteq> BMSStateActive \<and> inactiveConfirmed now (slots ?b i))"
    using assms b by (auto simp: observePower_def corrective_def isolationAfterOff_def Let_def)
  show ?thesis
  proof (cases "valid (slots ?b i)")
    case True
    with p observeIdentity_evidence [of d now i a] show ?thesis
      by (auto simp: observeLocked_def Let_def observeFrame_valid)
  next
    case False
    with b show ?thesis by (simp add: observeLocked_def Let_def)
  qed
qed

lemma corrective_step:
  assumes cor: "corrective e a"
  shows "corrective e (adm_exec js c a) \<or> confirms_off (victim e) c a"
proof -
  from cor have iso: "isolation a = Some e" "attempted e" "\<not> offConfirmed e"
    by (auto simp: corrective_def)
  have same: "corrective e b" if "isolation b = Some e" for b
    using that iso by (simp add: corrective_def)
  have mark: "isolation (markAttempted i a) = Some e" for i
    using iso by (simp add: isolation_markAttempted)
  have mark2: "isolation (markAttempted i (markAttempted i a)) = Some e" for i
    using iso by (simp add: isolation_markAttempted)
  show ?thesis
  proof (cases c)
    case (OpObserve i d now)
    with corrective_observe [OF cor, of i d now] show ?thesis
      by (auto simp: observe_def confirms_off_def intro: same)
  next
    case (OpObserveAcquisition i n x)
    with corrective_observe [OF cor, of i "acq_data x" "acq_complete x"] show ?thesis
      by (auto simp: confirms_off_def intro: same)
  next
    case (OpShouldIsolate i now md)
    then show ?thesis
      by (auto intro!: same simp: shouldIsolate_def corrective_reconcile [OF cor] iso Let_def)
  next
    case (OpIsolationOffAttempt i now)
    then show ?thesis
      by (auto intro!: same simp: isolationOffAttempt_def iso mark mark2)
  qed (auto intro!: same simp: iso observeMotion_def invalidateMotion_def resetMotionStream_def
        offAttempt_def mark corrective_reconcile [OF cor])
qed

lemma requestOn_early:
  "earlyDecision i now (reconcileLocked now md a) = Some d \<Longrightarrow> fst (requestOn i now md a) = d"
  by (simp add: requestOn_fst decideOn_def)

lemma corrective_refuses:
  assumes cor: "corrective e a"
  shows "fst (fst (requestOn (victim e) now md a)) \<Longrightarrow> maintainHandoverLocked (victim e) now a"
    and "handover e \<Longrightarrow> adm_inv a \<Longrightarrow> \<not> fst (fst (requestOn (survivor e) now md a))"
proof -
  from cor have iso: "isolation a = Some e" "attempted e" "\<not> offConfirmed e"
    by (auto simp: corrective_def)
  have "\<exists>r. earlyDecision (victim e) now a = Some (False, r)" if "\<not> maintainHandoverLocked (victim e) now a"
    using iso that by (simp add: earlyDecision_def Let_def)
  then show "fst (fst (requestOn (victim e) now md a)) \<Longrightarrow> maintainHandoverLocked (victim e) now a"
    using requestOn_early [of "victim e" now md a] by (fastforce simp: corrective_reconcile [OF cor])
  assume ho: "handover e" and "adm_inv a"
  then have "survivor e = other (victim e)" using iso(1) adm_inv_isolation by blast
  then have "\<not> maintainHandoverLocked (survivor e) now a"
    using iso(1) by (simp add: maintainHandoverLocked_def)
  then have "\<exists>r. earlyDecision (survivor e) now a = Some (False, r)"
    using iso ho by (simp add: earlyDecision_def Let_def)
  then show "\<not> fst (fst (requestOn (survivor e) now md a))"
    using requestOn_early [of "survivor e" now md a] by (fastforce simp: corrective_reconcile [OF cor])
qed


text \<open>A handed-over or live survivor: what a corrective OFF leaves the vehicle with.\<close>

definition survivor_ready :: "gotime \<Rightarrow> isolationEpisode \<Rightarrow> packAdmission \<Rightarrow> bool" where
  "survivor_ready now e a \<longleftrightarrow>
     (let s = slots a (survivor e)
      in survivor e = other (victim e) \<and> fresh now s \<and> usable s \<and> \<not> offPending s \<and>
         (if handover e then \<not> held s \<and> inactive_state (State (frame s)) \<and> \<not> offConfirmed e
          else held s \<and> active s \<and> \<not> requiresAdmission s \<and> State (frame s) = BMSStateActive))"

lemma isolationReady_survivor:
  assumes "adm_inv a" "isolation a = Some e" "isolationReadyLocked now a"
  shows "survivor_ready now e a" "nonDrivingVehicle (vehicle a)"
  using assms adm_inv_isolation [OF assms(1,2)]
  by (auto simp: isolationReadyLocked_def survivor_ready_def isolationVehicle_def Let_def split: if_split_asm)


text \<open>
  C8: After a corrective OFF of one slot, and until that slot is confirmed off, no sequence of
  operations leads to a state in which the other slot would be isolated.
\<close>

theorem one_corrective_off_at_a_time:
  assumes inv: "adm_inv a" and "isolationOffAttempt i now a = (True, b)"
    and none: "\<forall>ds c es. cs = ds @ c # es \<longrightarrow> \<not> confirms_off i c (fold (adm_exec js) ds b)"
  shows "\<not> fst (shouldIsolate (other i) later md (fold (adm_exec js) cs b)) \<and>
         \<not> fst (isolationOffAttempt (other i) later (fold (adm_exec js) cs b))"
proof -
  from assms(2) obtain e where e: "isolation a = Some e" "victim e = i" "isolationReadyLocked now a"
      "b = offAttemptLocked i now (markAttempted i a)"
    by (auto simp: isolationOffAttempt_def split: option.split_asm if_split_asm)
  let ?e = "e\<lparr>attempted := True\<rparr>"
  have "\<not> offConfirmed e"
    using isolationReady_survivor(1) [OF inv e(1,3)] adm_inv_isolation [OF inv e(1)]
    by (auto simp: survivor_ready_def Let_def)
  with e have b: "corrective ?e b" by (simp add: corrective_def isolation_markAttempted)
  have "adm_inv b" unfolding e(4) by (intro offAttempt_inv markAttempted_inv inv)
  then have "corrective ?e (fold (adm_exec js) cs b) \<or>
        (\<exists>ds c es. cs = ds @ c # es \<and> corrective ?e (fold (adm_exec js) ds b) \<and>
           confirms_off i c (fold (adm_exec js) ds b))"
    by (intro adm.kept_or_ended [where Q = "corrective ?e"]) (use b e(2) corrective_step [of ?e] in fastforce)+
  with none have c: "corrective ?e (fold (adm_exec js) cs b)" by blast
  show ?thesis
    using c e(2) corrective_reconcile [OF c]
    by (auto simp: shouldIsolate_def isolationOffAttempt_def corrective_def Let_def)
qed

section \<open>Progress\<close>

text \<open>A request nothing stands in the way of.\<close>

definition ready_to_supply :: "slot \<Rightarrow> gotime \<Rightarrow> packAdmission \<Rightarrow> bool" where
  "ready_to_supply i now a \<longleftrightarrow>
     eligible (slots a i) \<and> fresh now (slots a i) \<and> usable (slots a i) \<and> \<not> held (slots a i)"

lemma reconcile_no_supply:
  assumes "isolation a = None" "\<not> held (slots a i)"  "\<not> held (slots a (other i))"
  shows "reconcileLocked now md a = a"
proof -
  have "\<not> held (slots a j)" for j using assms(2,3) all_slot_of [of "\<lambda>j. \<not> held (slots a j)" i] by blast
  then have "startEpisode sv now a = a" for sv by (simp add: startEpisode_def Let_def)
  with assms(1) show ?thesis by (simp add: reconcileLocked_def split: option.split)
qed

lemma ready_through:
  assumes "adm_inv a" "ready_to_supply i now a" "isolation a = None" "nonDrivingVehicle (vehicle a)"
    "\<not> sampling_stopped (sampling a)"
  shows "earlyDecision i now a = None"
  using assms slot_facts(2,3) [OF assms(1), of i]
  by (auto simp: earlyDecision_def ready_to_supply_def Let_def)

lemma checkIdlePeer_total: "checkIdlePeer i a = None \<longleftrightarrow> checkIdlePeer (other i) a \<noteq> None"
  by (cases i) (auto simp: checkIdlePeer_def less_slot_def Let_def)

text \<open>
  C9: Of two off packs that are both ready, exactly one request is granted: the guard neither
  lets both start nor blocks both.
\<close>

theorem idle_pair_selects_one:
  assumes "adm_inv a" "ready_to_supply Slot0 now a" "ready_to_supply Slot1 now a"
    and "monitored (slots a Slot0)" "monitored (slots a Slot1)" and "isolation a = None"
    and "nonDrivingVehicle (vehicle a)" "\<not> sampling_stopped (sampling a)"
  shows "fst (fst (requestOn Slot0 now md a)) \<longleftrightarrow> \<not> fst (fst (requestOn Slot1 now md a))"
proof -
  have rec: "reconcileLocked now md a = a"
    using assms(2,3,6) by (intro reconcile_no_supply [of _ Slot0]) (auto simp: ready_to_supply_def)
  have rd: "ready_to_supply j now a" "monitored (slots a j)" for j
    using assms(2-5) by (cases j; simp)+
  have gate: "fst (fst (requestOn i now md a)) \<longleftrightarrow> checkIdlePeer i a = None" for i
  proof -
    have "\<not> absent (slots a (other i))"
      using slot_facts(7) [OF assms(1)] rd(1) [of "other i"] by (auto simp: ready_to_supply_def fresh_def)
    then have "checkPeer i now md a = (checkIdlePeer i a, a)"
      using rd [of "other i"] slot_facts(4) [OF assms(1), of "other i"]
      by (auto simp: checkPeer_def ready_to_supply_def Let_def)
    moreover have "earlyDecision i now a = None"
      by (rule ready_through) (use assms rd in auto)
    ultimately show ?thesis
      by (simp add: requestOn_fst rec decideOn_def split: option.split prod.split)
  qed
  show ?thesis unfolding gate using checkIdlePeer_total [of Slot0 a] by simp
qed

text \<open>
  C10: A ready pack whose peer is not monitored, only stored, or known absent is admitted at once
  in a non-driving state, and the grant is a reservation awaiting confirmation.
\<close>

theorem single_pack_admitted:
  assumes "adm_inv a" "ready_to_supply i now a" "\<not> held (slots a (other i))"
    and "\<not> monitored (slots a (other i)) \<or> \<not> powerTracked (slots a (other i)) \<or>
         (absent (slots a (other i)) \<and> Sub now (observed (slots a (other i))) \<le> admissionMaxAge)"
    and "isolation a = None" "nonDrivingVehicle (vehicle a)" "\<not> sampling_stopped (sampling a)"
  shows "fst (requestOn i now md a) = (True, ActivationAdmitted) \<and>
         abs_ledger (slots (snd (requestOn i now md a)) i) = \<lparr>supply_st = Reserved, off_unconfirmed = False\<rparr>"
proof -
  have nh: "\<not> held (slots a i)" "\<not> active (slots a i)" "\<not> offPending (slots a i)" "\<not> offPending (slots a (other i))"
    using assms(2,3) slot_facts [OF assms(1)] by (auto simp: ready_to_supply_def)
  have rec: "reconcileLocked now md a = a"
    by (rule reconcile_no_supply) (use assms nh in auto)
  have "checkPeer i now md a = (None, a)"
    using assms(3,4) nh(4) by (auto simp: checkPeer_def Let_def)
  moreover have "earlyDecision i now a = None"
    by (rule ready_through) (use assms in auto)
  ultimately have "fst (requestOn i now md a) = (True, ActivationAdmitted)"
    by (simp add: requestOn_fst rec decideOn_def grantOn_def nh Let_def)
  with nh show ?thesis by (simp add: abs_ledger_def requestOn_power)
qed

section \<open>Previews\<close>

lemma clone_eq: "cloneLocked a = a\<lparr>seatboxKnown := False, seatboxClosed := False\<rparr>"
  by (simp add: cloneLocked_def zeroAdmission_def)

text \<open>No part of the decision looks at the seatbox fields that a clone leaves zero.\<close>

definition unseat :: "packAdmission \<Rightarrow> packAdmission" where
  "unseat a = a\<lparr>seatboxKnown := False, seatboxClosed := False\<rparr>"

lemma unseat_fields [simp]:
  "coordinated (unseat a) = coordinated a" "conservative (unseat a) = conservative a"
  "isolation (unseat a) = isolation a" "vehicle (unseat a) = vehicle a" "slots (unseat a) = slots a"
  "sampling (unseat a) = sampling a" "motion (unseat a) = motion a"
  by (simp_all add: unseat_def)

lemma unseat_isolation: "(unseat a)\<lparr>isolation := x\<rparr> = unseat (a\<lparr>isolation := x\<rparr>)"
  by (simp add: unseat_def)

lemma unseat_queries [simp]:
  "pairCurrentLocked now (unseat a) = pairCurrentLocked now a"
  "isolationReadyLocked now (unseat a) = isolationReadyLocked now a"
  "maintainHandoverLocked i now (unseat a) = maintainHandoverLocked i now a"
  "earlyDecision i now (unseat a) = earlyDecision i now a"
  "qualifyPair i now md (unseat a) = qualifyPair i now md a"
  "checkIdlePeer i (unseat a) = checkIdlePeer i a"
proof -
  show p: "pairCurrentLocked now (unseat a) = pairCurrentLocked now a"
    by (simp add: pairCurrentLocked_def)
  show r: "isolationReadyLocked now (unseat a) = isolationReadyLocked now a"
    by (simp only: isolationReadyLocked_def unseat_fields p)
  show h: "maintainHandoverLocked i now (unseat a) = maintainHandoverLocked i now a"
    by (simp only: maintainHandoverLocked_def unseat_fields)
  show "earlyDecision i now (unseat a) = earlyDecision i now a"
    by (simp only: earlyDecision_def unseat_fields r h)
  show "qualifyPair i now md (unseat a) = qualifyPair i now md a"
    "checkIdlePeer i (unseat a) = checkIdlePeer i a"
    by (simp_all only: qualifyPair_def checkIdlePeer_def unseat_fields)
qed

lemma unseat_reconcile: "reconcileLocked now md (unseat a) = unseat (reconcileLocked now md a)"
proof -
  have "startEpisode sv now (unseat a) = unseat (startEpisode sv now a)" for sv
    by (simp only: startEpisode_def unseat_fields unseat_isolation Let_def if_distrib [of unseat])
  moreover have "reconcileEpisode e now md (unseat a) = unseat (reconcileEpisode e now md a)" for e
    by (simp only: reconcileEpisode_def unseat_fields unseat_queries unseat_isolation Let_def if_distrib [of unseat])
  moreover have "selectSurvivor (unseat a) = selectSurvivor a"
    by (simp only: selectSurvivor_def unseat_fields)
  ultimately show ?thesis
    by (simp only: reconcileLocked_def unseat_fields unseat_queries if_distrib [of unseat] option.case_distrib [of unseat])
qed

lemma unseat_checkPeer:
  "checkPeer i now md (unseat a) = (fst (checkPeer i now md a), unseat (snd (checkPeer i now md a)))"
proof -
  have "invalidateMotionLocked (unseat a) = unseat (invalidateMotionLocked a)"
    by (simp add: invalidateMotionLocked_def upd_motion_def unseat_def)
  then have fr: "stoppedMotionFreshLocked now (unseat a) =
      (fst (stoppedMotionFreshLocked now a), unseat (snd (stoppedMotionFreshLocked now a)))"
    by (simp add: stoppedMotionFreshLocked_def Let_def)
  have ok: "stoppedPairSlotOK (unseat b) j = stoppedPairSlotOK b j" for b j
    by (simp add: stoppedPairSlotOK_def)
  have "secondPackStationaryLocked now (unseat a) =
      (fst (secondPackStationaryLocked now a), unseat (snd (secondPackStationaryLocked now a)))"
    by (simp add: secondPackStationaryLocked_def stoppedPairReadyLocked_def fr ok Let_def split: prod.split)
  then show ?thesis
    by (auto simp: checkPeer_def checkRunningPeer_def Let_def split: prod.split)
qed

lemma grantOn_reason: "slots b = slots a \<Longrightarrow> fst (grantOn i now b) = fst (grantOn i now a)"
  by (simp add: grantOn_def Let_def)

lemma unseat_requestOn: "fst (requestOn i now md (unseat a)) = fst (requestOn i now md a)"
proof -
  let ?a = "reconcileLocked now md a"
  have "fst (decideOn i now md (unseat ?a)) = fst (decideOn i now md ?a)"
    by (simp add: decideOn_def unseat_checkPeer split: option.split prod.split)
      (metis grantOn_reason fst_conv unseat_fields(5))
  then show ?thesis by (simp add: requestOn_fst unseat_reconcile)
qed

text \<open>
  C14: The diagnostics preview of a command, computed on a clone, is exactly the decision the
  real request would return on the same state.
\<close>

theorem preview_is_decision:
  "previewOn i now md False (conservative a) a = fst (requestOn i now md a)"
proof -
  have "(cloneLocked a)\<lparr>conservative := conservative a\<rparr> = unseat a"
    by (simp add: clone_eq unseat_def)
  then show ?thesis by (simp add: previewOn_def unseat_requestOn)
qed

end
