(* ===== verification/Admission_Evidence.thy ===== *)
theory Admission_Evidence
  imports Admission_Safety
begin

text \<open>
  What the evidence behind a decision is worth: the sample window and its stability test, the
  simultaneity of a recorded pair, and what a motion message can establish.
\<close>

section \<open>Sample windows\<close>

text \<open>
  C12: The stability test with its running minimum and maximum decides exactly the intended
  window property: a fresh frame, at least three samples over at least six seconds, every
  current within one ampere, and no two voltages of the window and the frame more than 100 mV
  apart.
\<close>

theorem stable_iff:
  "stable now s \<longleftrightarrow>
     valid s \<and> Sub now (observed s) \<le> admissionMaxAge \<and> 3 \<le> length (history s) \<and>
     Sub (smp_at (last (history s))) (smp_at (hd (history s))) \<ge> admissionStableTime \<and>
     (\<forall>x \<in> set (history s). \<bar>Current (smp_data x)\<bar> \<le> admissionMaxCurrent) \<and>
     (\<forall>v \<in> insert (Voltage (frame s)) ((Voltage \<circ> smp_data) ` set (history s)).
      \<forall>w \<in> insert (Voltage (frame s)) ((Voltage \<circ> smp_data) ` set (history s)).
        voltageDistance v w \<le> admissionVoltageSpan)"
proof -
  have "(\<forall>v \<in> A. \<forall>w \<in> A. v - w \<le> n) \<longleftrightarrow> (\<forall>v \<in> A. \<forall>w \<in> A. voltageDistance v w \<le> n)"
    for A :: "nat set" and n
    by (auto simp: voltageDistance_def) (metis diff_is_0_eq le0 linorder_not_less order_less_imp_le)
  then show ?thesis
    by (auto simp: stable_def fresh_def stableLoop_iff not_less simp del: ball_simps)
qed

lemma history_appendHistory:
  "history (appendHistory d now s) =
     trimHistory now ((if history s \<noteq> [] \<and> Sub now (smp_at (last (history s))) > admissionMaxAge
                       then [] else history s) @ [\<lparr>smp_data = d, smp_at = now\<rparr>])"
  by (simp add: appendHistory_def Let_def)

text \<open>
  Appending a sample keeps the window a suffix of what was recorded ending in the new
  sample, drops it entirely only after a gap longer than the freshness limit, keeps three
  samples whenever there are three, and lets more than three remain only when they are needed to
  cover the stable time.
\<close>

lemma history_window:
  "last (history (appendHistory d now s)) = \<lparr>smp_data = d, smp_at = now\<rparr> \<and>
   (\<exists>old. history (appendHistory d now s) \<noteq> [] \<and>
      old @ history (appendHistory d now s) = history s @ [\<lparr>smp_data = d, smp_at = now\<rparr>]) \<and>
   (3 < length (history (appendHistory d now s)) \<longrightarrow>
      Sub now (smp_at (history (appendHistory d now s) ! 1)) < admissionStableTime) \<and>
   (history s \<noteq> [] \<and> Sub now (smp_at (last (history s))) \<le> admissionMaxAge \<longrightarrow>
      min 3 (length (history s) + 1) \<le> length (history (appendHistory d now s)))"
proof -
  let ?x = "\<lparr>smp_data = d, smp_at = now\<rparr>"
  let ?h = "if history s \<noteq> [] \<and> Sub now (smp_at (last (history s))) > admissionMaxAge then [] else history s"
  have "\<exists>old. old @ trimHistory now (h @ [?x]) = history s @ [?x]" if "h = [] \<or> h = history s" for h
  proof -
    obtain ys where "history s @ [?x] = ys @ trimHistory now (history s @ [?x])"
      using trimHistory_suffix by blast
    with that show ?thesis by (elim disjE) (auto intro: exI [of _ ys] exI [of _ "history s"])
  qed
  then have "\<exists>old. old @ trimHistory now (?h @ [?x]) = history s @ [?x]" by presburger
  moreover have "trimHistory now (?h @ [?x]) \<noteq> []"
    using trimHistory_length [of "?h @ [?x]" now] by auto
  moreover have "min 3 (length (history s) + 1) \<le> length (trimHistory now (?h @ [?x]))"
    if "Sub now (smp_at (last (history s))) \<le> admissionMaxAge"
    using trimHistory_length [of "?h @ [?x]" now] that by auto
  ultimately show ?thesis
    unfolding history_appendHistory using trimHistory_window [of now "?h @ [?x]"] by auto
qed

section \<open>Paired acquisitions\<close>

text \<open>Instants read from one monotonic clock, and the interval of an acquisition's STATUS0 read.\<close>

definition monotonic :: "gotime \<Rightarrow> bool" where
  "monotonic t \<longleftrightarrow> mono_ns t \<noteq> None"

definition within :: "gotime \<Rightarrow> acquisition \<Rightarrow> bool" where
  "within t x \<longleftrightarrow> monotonic t \<and> \<not> Before t (acq_start x) \<and> \<not> After t (acq_end x)"

lemma raw_diff_mono: "monotonic t \<Longrightarrow> monotonic u \<Longrightarrow> raw_diff t u = the (mono_ns t) - the (mono_ns u)"
  by (auto simp: monotonic_def raw_diff_def)

text \<open>
  The acquisition span bounds every possible pair of sampling instants: whatever moments the
  two STATUS0 reads really sampled at within their intervals, they are no further apart than the
  reported skew.
\<close>

lemma span_bounds:
  assumes "\<And>z. z \<in> {x, y} \<Longrightarrow> monotonic (acq_start z) \<and> monotonic (acq_end z)"
    and "within t x" "within u y" and "snd (acquisitionSpan x y) \<le> d" "0 \<le> d" "d < maxDuration"
  shows "\<bar>Sub t u\<bar> \<le> d"
proof -
  note m = assms(1) [of x] assms(1) [of y]
  from assms(2,3) have t: "monotonic t" "monotonic u" by (auto simp: within_def)
  have "\<bar>raw_diff t u\<bar> \<le> d"
    using assms(2-6) m t
    by (auto simp: within_def acquisitionSpan_def Let_def Before_def After_def raw_diff_mono Sub_le_iff
        abs_le_iff split: if_split_asm)
  then show ?thesis using assms(5,6) by (auto simp: Sub_def const_defs abs_le_iff)
qed

text \<open>What recording a pair means for the two acquisitions of its round.\<close>

definition pair_sound :: "samplingRound \<Rightarrow> slot \<Rightarrow> acquisition \<Rightarrow> packAdmission \<Rightarrow> bool" where
  "pair_sound r i x b \<longleftrightarrow>
     (let y = samples r (other i); p = sampling b
      in claimed r i \<and> claimed r (other i) \<and>
         \<not> acquisitionOutOfBounds r x \<and> \<not> acquisitionOutOfBounds r y \<and>
         snd (acquisitionSpan x y) \<le> samplingMaxSkew \<and>
         pairedID p = round_id r \<and> pairedAt p = fst (acquisitionSpan x y) \<and>
         (\<forall>j. fresh (acq_complete x) (slots b j)) \<and>
         Equal (observed (slots b i)) (acq_complete x) \<and>
         Equal (observed (slots b (other i))) (acq_complete y))"

text \<open>An operation leaves the round alone, or ends it for a reason other than a pair.\<close>

definition round_kept_or_dropped :: "packAdmission \<Rightarrow> packAdmission \<Rightarrow> bool" where
  "round_kept_or_dropped a b \<longleftrightarrow>
     (round_cur (sampling b) = round_cur (sampling a) \<and> report (sampling b) = report (sampling a)) \<or>
     (round_cur (sampling b) = None \<and> round_cur (sampling a) \<noteq> None \<and> rep_reason (report (sampling b)) \<noteq> Paired)"

lemma round_kept_trans:
  "round_kept_or_dropped a b \<Longrightarrow> round_kept_or_dropped b c \<Longrightarrow> round_kept_or_dropped a c"
  unfolding round_kept_or_dropped_def by metis

lemma round_kept_upd_slot [simp]: "round_kept_or_dropped a (upd_slot i f a)"
  by (simp add: round_kept_or_dropped_def)

lemma round_kept_cancel: "q \<noteq> Paired \<Longrightarrow> round_kept_or_dropped a (cancelRoundLocked q a)"
  by (auto simp: round_kept_or_dropped_def cancelRoundLocked_def roundReport_def Let_def split: option.split)

lemma observeIdentity_round: "round_kept_or_dropped a (observeIdentity i d a)"
  by (auto simp: observeIdentity_def Let_def round_kept_or_dropped_def cancelRoundLocked_def roundReport_def
      split: option.split)

lemma observePower_round: "round_kept_or_dropped a (observePower i d now a)"
  by (auto simp: observePower_def Let_def round_kept_or_dropped_def cancelRoundLocked_def roundReport_def
      split: option.split)

lemma observe_round: "round_kept_or_dropped a (observeLocked i d now a)"
proof -
  let ?b = "upd_slot i (observeFrame d now) (observeIdentity i d a)"
  have b: "round_kept_or_dropped a ?b"
    by (rule round_kept_trans [OF observeIdentity_round round_kept_upd_slot])
  then have c: "round_kept_or_dropped a (observePower i d now ?b)"
    by (rule round_kept_trans) (rule observePower_round)
  show ?thesis
    unfolding observeLocked_def Let_def
    using b c round_kept_trans [OF _ round_kept_upd_slot] by auto
qed

lemma pairRound_sound:
  assumes "pairRound retry r x y a = (rt, b)" "round_cur (sampling a) = Some r"
    and "rep_reason (report (sampling b)) = Paired"
  shows "snd (acquisitionSpan x y) \<le> samplingMaxSkew" "pairedID (sampling b) = round_id r"
    "pairedAt (sampling b) = fst (acquisitionSpan x y)"
    "\<forall>j. fresh (acq_complete x) (slots b j) \<and> Equal (observed (slots b j)) (acq_complete (samples r j))"
  using assms by (auto simp: pairRound_def Let_def cancelRoundLocked_def roundReport_def fresh_def
      appendHistory_def split: if_split_asm)

lemma deliver_sound:
  assumes "round_inv r" and "claimed r i"
    and dl: "deliverAcquisition i retry r x a = (rt, b)"
    and "round_cur (sampling b) = None" "rep_reason (report (sampling b)) = Paired"
  shows "pair_sound r i x b"
proof -
  let ?r = "set_round_sample i x r"
  let ?b = "upd_sampling (\<lambda>p. p\<lparr>round_cur := Some ?r\<rparr>) a"
  let ?y = "samples r (other i)"
  have y: "samples ?r (other i) = ?y" "samples ?r i = x" "round_id ?r = round_id r"
      "acquisitionOutOfBounds ?r = acquisitionOutOfBounds r"
    by (auto simp: set_round_sample_def acquisitionOutOfBounds_def)
  have no_cancel: "\<not> (round_cur (sampling (cancelRoundLocked q ?b)) = None \<and>
       rep_reason (report (sampling (cancelRoundLocked q ?b))) = Paired)" if "q \<noteq> Paired" for q
    using that by (simp add: cancelRoundLocked_def roundReport_def Let_def)
  have core: "\<not> acquisitionOutOfBounds r x \<and> \<not> IsZero (acq_complete ?y) \<and> pairRound retry ?r x ?y ?b = (rt, b)"
    using dl no_cancel [of SlowOrStale] no_cancel [of SingleSupplyAcquired] assms(4,5)
    by (auto simp: deliverAcquisition_def y Let_def split: if_split_asm)
  with pairRound_sound [of retry ?r x ?y ?b rt b] assms(5)
  have "snd (acquisitionSpan x ?y) \<le> samplingMaxSkew" "pairedID (sampling b) = round_id r"
    "pairedAt (sampling b) = fst (acquisitionSpan x ?y)"
    "\<forall>j. fresh (acq_complete x) (slots b j) \<and> Equal (observed (slots b j)) (acq_complete (samples ?r j))"
    by (simp_all add: y)
  moreover have "claimed r (other i)" "\<not> acquisitionOutOfBounds r ?y"
    using assms(1) core by (auto simp: round_inv_def)
  ultimately show ?thesis
    using core assms(2) y(1,2) by (simp add: pair_sound_def Let_def) metis
qed

text \<open>
  C11: A pair is recorded only when both readers claimed this very round, both reads kept the
  limits of the round (started after it was opened, at most two seconds long, within ten seconds
  of opening), the union of the reads is at most one second, and both slots still hold exactly
  these frames and are fresh.
\<close>

theorem pairing_sound:
  assumes "adm_inv a" and cur: "round_cur (sampling a) = Some r"
    and oa: "observeAcquisition i n x a = (rt, b)"
    and b: "round_cur (sampling b) = None" "rep_reason (report (sampling b)) = Paired"
  shows "n = round_id r \<and> pair_sound r i x b"
proof -
  let ?o = "observeLocked i (acq_data x) (acq_complete x) a"
  let ?b = "upd_slot i (\<lambda>s. s\<lparr>observedRound := n\<rparr>) ?o"
  have rd: "round_kept_or_dropped a ?b" by (rule round_kept_trans [OF observe_round round_kept_upd_slot])
  have rinv: "round_inv r" using assms(1) cur by (simp add: adm_inv_def sampling_inv_def)
  have nc: "round_kept_or_dropped a (cancelRoundLocked UnpairedOrLate ?b)"
    by (rule round_kept_trans [OF rd]) (rule round_kept_cancel, simp)
  have bad: False if "round_kept_or_dropped a b"
    using that b cur by (simp add: round_kept_or_dropped_def)
  obtain retry where "b = ?b \<or> b = cancelRoundLocked UnpairedOrLate ?b \<or>
      (\<exists>r'. round_cur (sampling ?b) = Some r' \<and> n = round_id r' \<and> claimed r' i \<and>
            deliverAcquisition i retry r' x ?b = (rt, b))"
    using oa unfolding observeAcquisition_def Let_def
    by (simp split: if_split_asm option.split_asm) blast
  with bad rd nc obtain r' where r': "round_cur (sampling ?b) = Some r'" "n = round_id r'" "claimed r' i"
      "deliverAcquisition i retry r' x ?b = (rt, b)" by blast
  with rd cur have "r' = r" by (auto simp: round_kept_or_dropped_def)
  with r' deliver_sound [OF rinv _ _ b] show ?thesis by blast
qed

section \<open>Motion messages\<close>

text \<open>A report that says the vehicle stands still: every measurement present and zero.\<close>

definition standstill :: "motionEvidence \<Rightarrow> bool" where
  "standstill e \<longleftrightarrow> ev_RPM e = Some 0 \<and> ev_RawSpeed e = Some 0 \<and> ev_ThrottleOn e = Some False"

definition complete_report :: "motionEvidence \<Rightarrow> bool" where
  "complete_report e \<longleftrightarrow>
     ev_Valid e = Some True \<and> ev_RPM e \<noteq> None \<and> ev_RawSpeed e \<noteq> None \<and> ev_ThrottleOn e \<noteq> None"

definition no_evidence :: "packAdmission \<Rightarrow> bool" where
  "no_evidence a \<longleftrightarrow>
     IsZero (motion_at (motion a)) \<and> IsZero (motion_since (motion a)) \<and> \<not> motion_stopped (motion a)"

lemma no_evidence_invalidate [simp]: "no_evidence (invalidateMotionLocked a)"
  by (simp add: no_evidence_def)

text \<open>Recording an observation: rejected, or stored with the window it continues or restarts.\<close>

lemma observeMotion_outcome:
  "no_evidence (observeMotionLocked st rc now a) \<or>
   (\<not> IsZero rc \<and> motion_at (motion (observeMotionLocked st rc now a)) = rc \<and>
    motion_stopped (motion (observeMotionLocked st rc now a)) = st \<and>
    (st \<and> no_evidence a \<longrightarrow> motion_since (motion (observeMotionLocked st rc now a)) = rc))"
  unfolding observeMotionLocked_def Let_def
  by (auto simp: no_evidence_def)

lemma applyMotion_outcome:
  assumes "applyMotionEvidence e now a = (ok, b)"
  shows "if ok
         then complete_report e \<and>
              (\<exists>ob. ev_ObservedAt e = Some ob \<and> \<not> IsZero ob \<and> 0 \<le> Sub now ob \<and> Sub now ob \<le> stoppedMotionMaxAge \<and>
                    motion_at (motion b) = AddDur now (- Sub now ob)) \<and>
              motion_stopped (motion b) = standstill e \<and>
              (standstill e \<and> no_evidence a \<longrightarrow> motion_since (motion b) = motion_at (motion b))
         else no_evidence b"
proof (cases "complete_report e \<and> ev_ObservedAt e \<noteq> None")
  case False
  then have "applyMotionEvidence e now a = (False, invalidateMotionLocked a)"
    by (auto simp: applyMotionEvidence_def complete_report_def split: option.split bool.split)
  with assms show ?thesis by auto
next
  case True
  then obtain ob rpm rs th where f: "ev_Valid e = Some True" "ev_ObservedAt e = Some ob" "ev_RPM e = Some rpm"
      "ev_RawSpeed e = Some rs" "ev_ThrottleOn e = Some th"
    by (auto simp: complete_report_def)
  let ?b = "observeMotionLocked (standstill e) (AddDur now (- Sub now ob)) now a"
  have st: "(rpm = 0 \<and> rs = 0 \<and> \<not> th) = standstill e" by (simp add: standstill_def f)
  show ?thesis
  proof (cases "IsZero ob \<or> Sub now ob < 0 \<or> Sub now ob > stoppedMotionMaxAge")
    case True
    with f assms show ?thesis by (auto simp: applyMotionEvidence_def)
  next
    case False
    with f assms have b: "b = ?b" "ok = (\<not> IsZero (motion_at (motion ?b)))"
      by (auto simp: applyMotionEvidence_def st Let_def)
    with False f True observeMotion_outcome [of "standstill e" "AddDur now (- Sub now ob)" now a]
    show ?thesis by (auto simp: no_evidence_def)
  qed
qed

lemma motion_stream [simp]:
  "motion_source (motion (observeMotionLocked st rc now a)) = motion_source (motion a)"
  "motion_sequence (motion (observeMotionLocked st rc now a)) = motion_sequence (motion a)"
  "motion_source (motion (snd (applyMotionEvidence e now a))) = motion_source (motion a)"
  "motion_sequence (motion (snd (applyMotionEvidence e now a))) = motion_sequence (motion a)"
proof -
  show o: "motion_source (motion (observeMotionLocked st rc now a)) = motion_source (motion a)"
    "motion_sequence (motion (observeMotionLocked st rc now a)) = motion_sequence (motion a)" for st rc now a
    by (simp_all add: observeMotionLocked_def Let_def)
  have "motion_source (motion (snd (applyMotionEvidence e now a))) = motion_source (motion a) \<and>
        motion_sequence (motion (snd (applyMotionEvidence e now a))) = motion_sequence (motion a)"
    unfolding applyMotionEvidence_def Let_def
    by (rule complete_evidence_cases [where P = "\<lambda>x. motion_source (motion (snd x)) = motion_source (motion a) \<and>
          motion_sequence (motion (snd x)) = motion_sequence (motion a)"]) (simp_all add: o)
  then show "motion_source (motion (snd (applyMotionEvidence e now a))) = motion_source (motion a)"
    "motion_sequence (motion (snd (applyMotionEvidence e now a))) = motion_sequence (motion a)"
    by simp_all
qed

lemma acceptMotion_outcome:
  assumes "acceptMotionEvidence e now a = (ok, b)"
  shows "if ok
         then complete_report e \<and>
              (\<exists>ob. ev_ObservedAt e = Some ob \<and> 0 \<le> Sub now ob \<and> Sub now ob \<le> stoppedMotionMaxAge) \<and>
              motion_stopped (motion b) = standstill e \<and>
              motion_source (motion b) = ev_Source e \<and> motion_sequence (motion b) = ev_Sequence e \<and>
              (ev_Source e = motion_source (motion a) \<longrightarrow> motion_sequence (motion a) < ev_Sequence e) \<and>
              (standstill e \<and> (ev_Source e \<noteq> motion_source (motion a) \<or>
                               ev_Sequence e \<noteq> motion_sequence (motion a) + 1) \<longrightarrow>
                 motion_since (motion b) = motion_at (motion b))
         else no_evidence b"
proof (cases "ev_Source e = motion_source (motion a) \<and> ev_Sequence e \<le> motion_sequence (motion a)")
  case True
  with assms show ?thesis by (auto simp: acceptMotionEvidence_def)
next
  case False
  let ?gap = "ev_Source e \<noteq> motion_source (motion a) \<or> ev_Sequence e \<noteq> motion_sequence (motion a) + 1"
  let ?a = "upd_motion (\<lambda>m. m\<lparr>motion_source := ev_Source e, motion_sequence := ev_Sequence e\<rparr>)
              (if ?gap then invalidateMotionLocked a else a)"
  from False assms have ap: "applyMotionEvidence e now ?a = (ok, b)"
    by (simp only: acceptMotionEvidence_def Let_def if_False)
  have gap: "?gap \<Longrightarrow> no_evidence ?a" by (simp add: no_evidence_def)
  have "motion_source (motion b) = ev_Source e" "motion_sequence (motion b) = ev_Sequence e"
    using motion_stream(3,4) [of e now ?a] unfolding ap by simp_all
  with applyMotion_outcome [OF ap] gap False show ?thesis by (auto split: if_split_asm)
qed

text \<open>
  C13: A motion message either is accepted, and then it decoded, names a valid source, is
  complete, recent, newer than the last one of its source, and the stored stopped flag says
  exactly that RPM, speed and throttle are all zero, with the standstill window restarted after
  any gap in the stream; or it is rejected and no motion evidence at all remains.
\<close>

theorem motion_message_outcome:
  assumes "receiveMotionEvidence js payload now a = (ok, b)"
  shows "if ok
         then \<exists>e. js payload = Some e \<and> length payload \<le> 1024 \<and> sourceValid (ev_Source e) \<and> ev_Version e = 1 \<and>
              complete_report e \<and>
              (\<exists>ob. ev_ObservedAt e = Some ob \<and> 0 \<le> Sub now ob \<and> Sub now ob \<le> stoppedMotionMaxAge) \<and>
              motion_stopped (motion b) = standstill e \<and>
              motion_source (motion b) = ev_Source e \<and> motion_sequence (motion b) = ev_Sequence e \<and>
              (ev_Source e = motion_source (motion a) \<longrightarrow> motion_sequence (motion a) < ev_Sequence e) \<and>
              (standstill e \<and> (ev_Source e \<noteq> motion_source (motion a) \<or>
                               ev_Sequence e \<noteq> motion_sequence (motion a) + 1) \<longrightarrow>
                 motion_since (motion b) = motion_at (motion b))
         else no_evidence b"
proof -
  let ?a = "upd_motion (\<lambda>m. m\<lparr>lastCheck := now\<rparr>)
              (if motionClockJump (lastCheck (motion a)) now then invalidateMotionLocked a else a)"
  consider "ok = False" "b = invalidateMotionLocked ?a"
    | e where "length payload \<le> 1024" "js payload = Some e" "sourceValid (ev_Source e)" "ev_Version e = 1"
        "acceptMotionEvidence e now ?a = (ok, b)"
    using assms unfolding receiveMotionEvidence_def Let_def
    by (auto split: if_split_asm option.split_asm)
  then show ?thesis
  proof cases
    case (2 e)
    with acceptMotion_outcome [OF 2(5)] show ?thesis by (auto split: if_split_asm)
  qed simp
qed

end
