(* ===== verification/Admission_Witnesses.thy ===== *)
theory Admission_Witnesses
  imports Admission_Evidence
begin

text \<open>
  Concrete states of the guard (two 40 V packs read at second 100 while parked) and the properties
  of the guard evaluated on them.
\<close>

section \<open>A parked vehicle with two packs\<close>

definition sec :: "int \<Rightarrow> gotime" where
  "sec t = \<lparr>wall_ns = unixToInternal + t * Second, mono_ns = Some (t * Second)\<rparr>"

definition demo_frame :: "nat \<Rightarrow> BMSState \<Rightarrow> BMSData" where
  "demo_frame v st =
     zeroBMSData\<lparr>SampleTime := sec 100, SampleValid := True, Present := True, Voltage := v,
       Charge := 80, State := st, SerialNumber := ''LS0001''\<rparr>"

definition demo_slot :: "nat \<Rightarrow> bool \<Rightarrow> admissionSlot" where
  "demo_slot v on =
     zeroSlot\<lparr>monitored := True, eligible := True, powerTracked := True, observed := sec 100,
       observedRound := 7, frame := demo_frame v (if on then BMSStateActive else BMSStateIdle),
       haveFrame := True, written := sec 95, valid := True, held := on, active := on\<rparr>"

text \<open>Two monitored packs, the first possibly running, just paired in round 7 while parked.\<close>

definition demo_pair :: "nat \<Rightarrow> bool \<Rightarrow> nat \<Rightarrow> bool \<Rightarrow> packAdmission" where
  "demo_pair v0 on0 v1 on1 =
     zeroAdmission\<lparr>coordinated := True, vehicle := VehicleStateParked,
       slots := (\<lambda>i. case i of Slot0 \<Rightarrow> demo_slot v0 on0 | Slot1 \<Rightarrow> demo_slot v1 on1),
       sampling := zeroSampling\<lparr>sampling_enabled := True, next_id := 7, pairedAt := sec 99, pairedID := 7\<rparr>,
       motion := zeroMotion\<lparr>motion_enabled := True\<rparr>\<rparr>"

lemma demo_pair_fields [simp]:
  "slots (demo_pair v0 on0 v1 on1) Slot0 = demo_slot v0 on0"
  "slots (demo_pair v0 on0 v1 on1) Slot1 = demo_slot v1 on1"
  "coordinated (demo_pair v0 on0 v1 on1)" "\<not> conservative (demo_pair v0 on0 v1 on1)"
  "vehicle (demo_pair v0 on0 v1 on1) = VehicleStateParked" "isolation (demo_pair v0 on0 v1 on1) = None"
  "sampling (demo_pair v0 on0 v1 on1) =
     zeroSampling\<lparr>sampling_enabled := True, next_id := 7, pairedAt := sec 99, pairedID := 7\<rparr>"
  "motion (demo_pair v0 on0 v1 on1) = zeroMotion\<lparr>motion_enabled := True\<rparr>"
  by (simp_all add: demo_pair_def zeroAdmission_def)

lemma demo_slot_fields [simp]:
  "monitored (demo_slot v on)" "eligible (demo_slot v on)" "powerTracked (demo_slot v on)"
  "\<not> absent (demo_slot v on)" "observed (demo_slot v on) = sec 100" "observedRound (demo_slot v on) = 7"
  "frame (demo_slot v on) = demo_frame v (if on then BMSStateActive else BMSStateIdle)"
  "valid (demo_slot v on)" "history (demo_slot v on) = []" "held (demo_slot v on) = on" "active (demo_slot v on) = on"
  "\<not> offPending (demo_slot v on)" "\<not> identityUncertain (demo_slot v on)" "\<not> requiresAdmission (demo_slot v on)"
  "haveFrame (demo_slot v on)" "written (demo_slot v on) = sec 95" "onAt (demo_slot v on) = zeroTime"
  "lastOnAt (demo_slot v on) = zeroTime" "offAt (demo_slot v on) = zeroTime"
  by (simp_all add: demo_slot_def zeroSlot_def)

lemma demo_frame_fields [simp]:
  "Voltage (demo_frame v st) = v" "Charge (demo_frame v st) = 80" "State (demo_frame v st) = st"
  "FaultCode (demo_frame v st) = 0" "\<not> LowSOC (demo_frame v st)" "Present (demo_frame v st)"
  "SerialNumber (demo_frame v st) = ''LS0001''"
  by (simp_all add: demo_frame_def zeroBMSData_def)

lemma Sub_sec [simp]: "\<bar>s - t\<bar> < 1000000 \<Longrightarrow> Sub (sec s) (sec t) = (s - t) * Second"
  by (auto simp: Sub_def raw_diff_def sec_def const_defs)

lemma IsZero_sec [simp]: "0 \<le> t \<Longrightarrow> \<not> IsZero (sec t)"
  by (simp add: IsZero_def sec_def const_defs)

lemma demo_fresh [simp]: "100 \<le> t \<Longrightarrow> t \<le> 110 \<Longrightarrow> fresh (sec t) (demo_slot v on)"
  by (simp add: fresh_def const_defs)

lemma demo_usable [simp]: "usable (demo_slot v on)"
  by (simp add: usable_def)

lemma demo_pair_inv: "adm_inv (demo_pair v0 on0 v1 on1)"
  by (auto simp: adm_inv_defs demo_pair_def zeroAdmission_def zeroSampling_def zeroMotion_def
      demo_slot_def zeroSlot_def split: slot.split)

lemmas demo_decision =
  requestOn_fst reconcileLocked_def pairCurrentLocked_def voltageDistance_def decideOn_def earlyDecision_def
  checkPeer_def checkRunningPeer_def secondPackStationaryLocked_def zeroMotion_def qualifyPair_def
  zeroSampling_def isolationVehicle_def ex_slot grantOn_def const_defs Let_def

lemma demo_join:
  "fst (requestOn Slot1 (sec 101) 1000 (demo_pair 40000 True 40500 False)) = (True, ActivationAdmitted)"
  by (simp add: demo_decision)

section \<open>Witnesses of the safety properties\<close>

theorem admission_invariant_witness:
  "adm_inv (fold (adm_exec (\<lambda>_. None))
     [OpSetVehicle VehicleStateParked (sec 1), OpSetSeatbox True, OpRequestOn Slot0 (sec 2) 1000]
     (loadAdmissionSetting [\<lparr>Index = 0, Role = BatteryRoleActive, Enabled = True, DeviceName = ''/dev/pn5xx_i2c0'', LogLevel = 3\<rparr>] None))"
  by (rule admission_invariant) (auto simp: adm_initial_def)

theorem admission_refines_ledger_witness:
  "path (ledger_allows Slot0)
     [OpSetVehicle VehicleStateParked (sec 1), OpRequestOn Slot0 (sec 2) 1000, OpOffAttempt Slot0 (sec 3)]
     \<lparr>supply_st = Off, off_unconfirmed = False\<rparr>
     (abs_ledger (slots (fold (adm_exec (\<lambda>_. None))
       [OpSetVehicle VehicleStateParked (sec 1), OpRequestOn Slot0 (sec 2) 1000, OpOffAttempt Slot0 (sec 3)]
       (loadAdmissionSetting [\<lparr>Index = 0, Role = BatteryRoleActive, Enabled = True, DeviceName = ''/dev/pn5xx_i2c0'', LogLevel = 3\<rparr>] None)) Slot0))"
  by (rule admission_refines_ledger) (auto simp: adm_initial_def)

theorem second_pack_grant_witness:
  "nonDrivingVehicle (vehicle (demo_pair 40000 True 40500 False)) \<and>
   paired_current (sec 101) Slot1 (demo_pair 40000 True 40500 False) \<and>
   voltageDistance (Voltage (frame (demo_slot 40500 False))) (Voltage (frame (demo_slot 40000 True))) \<le> 1000"
  using second_pack_grant [OF demo_pair_inv, of Slot1 "sec 101" 1000 40000 True 40500 False ActivationAdmitted
    "snd (requestOn Slot1 (sec 101) 1000 (demo_pair 40000 True 40500 False))"] demo_join
  by (simp add: prod_eq_iff)

definition demo_drive :: packAdmission where
  "demo_drive = (demo_pair 40000 False 40500 False)\<lparr>vehicle := VehicleStateReadyToDrive\<rparr>"

lemma demo_drive_request: "fst (requestOn Slot0 (sec 101) 1000 demo_drive) = (True, ActivationAdmitted)"
  by (simp add: demo_decision demo_drive_def checkIdlePeer_def less_slot_def)

theorem no_new_supply_while_driving_witness:
  "\<not> nonDrivingVehicle (vehicle demo_drive) \<and> \<not> held (slots demo_drive (other Slot0))"
  using no_new_supply_while_driving [of Slot0 "sec 101" 1000 demo_drive ActivationAdmitted
    "snd (requestOn Slot0 (sec 101) 1000 demo_drive)"] demo_drive_request
  by (simp add: prod_eq_iff demo_drive_def)

lemma demo_refused:
  "fst (requestOn Slot1 (sec 101) 1000 (demo_pair 40000 True 45000 False)) = (False, VoltageDifference)"
  by (simp add: demo_decision selectSurvivor_def startEpisode_def)

theorem supply_kept_until_confirmed_off_witness:
  "held (slots (fold (adm_exec (\<lambda>_. None)) [OpTag Slot0 ''04AB'', OpOffAttempt Slot0 (sec 102)]
     (demo_pair 40000 True 40500 False)) Slot0)"
proof -
  have no: "\<not> confirms_off Slot0 c t" if "c \<in> {OpTag Slot0 ''04AB'', OpOffAttempt Slot0 (sec 102)}" for c t
    using that by (auto simp: confirms_off_def)
  have mem: "c \<in> {OpTag Slot0 ''04AB'', OpOffAttempt Slot0 (sec 102)}"
    if "[OpTag Slot0 ''04AB'', OpOffAttempt Slot0 (sec 102)] = ds @ c # es" for c ds es
  proof -
    have "c \<in> set (ds @ c # es)" by simp
    then show ?thesis unfolding that [symmetric] by simp
  qed
  show ?thesis
    using supply_kept_until_confirmed_off [OF demo_pair_inv, of 40000 True 40500 False Slot0 "\<lambda>_. None"
        "[OpTag Slot0 ''04AB'', OpOffAttempt Slot0 (sec 102)]"] no mem
    unfolding demo_pair_fields demo_slot_fields by blast
qed

definition demo_iso :: "bool \<Rightarrow> packAdmission" where
  "demo_iso att = (demo_pair 45000 True 40000 True)
     \<lparr>isolation := Some \<lparr>survivor = Slot0, victim = Slot1, attempted = att, handover = False, offConfirmed = False\<rparr>\<rparr>"

lemma demo_iso_inv: "adm_inv (demo_iso att)"
  unfolding demo_iso_def by (rule isolation_update_inv [OF demo_pair_inv]) auto

lemma demo_iso_off: "fst (isolationOffAttempt Slot1 (sec 101) (demo_iso False))"
  by (simp add: isolationOffAttempt_def isolationReadyLocked_def demo_iso_def isolationVehicle_def)

lemma corrective_demo: "corrective \<lparr>survivor = Slot0, victim = Slot1, attempted = True, handover = False, offConfirmed = False\<rparr> (demo_iso True)"
  by (simp add: corrective_def demo_iso_def)



theorem one_corrective_off_at_a_time_witness:
  "\<not> fst (shouldIsolate Slot0 (sec 103) 1000
      (fold (adm_exec (\<lambda>_. None)) [OpSetSeatbox True] (snd (isolationOffAttempt Slot1 (sec 101) (demo_iso False)))))"
  using one_corrective_off_at_a_time [OF demo_iso_inv, of Slot1 "sec 101" False
    "snd (isolationOffAttempt Slot1 (sec 101) (demo_iso False))" "[OpSetSeatbox True]" "\<lambda>_. None" "sec 103" 1000] demo_iso_off
  by (auto simp: prod_eq_iff confirms_off_def Cons_eq_append_conv)

theorem idle_pair_selects_one_witness:
  "fst (fst (requestOn Slot0 (sec 101) 1000 (demo_pair 40000 False 40500 False))) \<longleftrightarrow>
   \<not> fst (fst (requestOn Slot1 (sec 101) 1000 (demo_pair 40000 False 40500 False)))"
  by (rule idle_pair_selects_one [OF demo_pair_inv])
    (simp_all add: ready_to_supply_def zeroSampling_def)

definition demo_single :: packAdmission where
  "demo_single = (demo_pair 40000 False 40500 False)\<lparr>slots := (\<lambda>i. case i of Slot0 \<Rightarrow> demo_slot 40000 False | Slot1 \<Rightarrow> zeroSlot)\<rparr>"

lemma demo_single_fields [simp]:
  "slots demo_single Slot0 = demo_slot 40000 False" "slots demo_single Slot1 = zeroSlot"
  "isolation demo_single = None" "vehicle demo_single = VehicleStateParked" "sampling demo_single = sampling (demo_pair 40000 False 40500 False)"
  by (simp_all add: demo_single_def)

lemma demo_single_inv: "adm_inv demo_single"
  by (auto simp: adm_inv_defs demo_single_def zeroSampling_def zeroMotion_def zeroSlot_def all_slot Let_def)

theorem single_pack_admitted_witness:
  "fst (requestOn Slot0 (sec 101) 1000 demo_single) = (True, ActivationAdmitted)"
  using single_pack_admitted [OF demo_single_inv, of Slot0 "sec 101" 1000]
  by (simp add: ready_to_supply_def zeroSampling_def zeroSlot_def)

section \<open>Witnesses of the evidence properties\<close>

definition demo_stable :: admissionSlot where
  "demo_stable = (demo_slot 40000 False)
     \<lparr>history := [\<lparr>smp_data = demo_frame 40000 BMSStateIdle, smp_at = sec 94\<rparr>,
                   \<lparr>smp_data = demo_frame 40050 BMSStateIdle, smp_at = sec 97\<rparr>,
                   \<lparr>smp_data = demo_frame 39980 BMSStateIdle, smp_at = sec 100\<rparr>]\<rparr>"

lemma demo_frame_current [simp]: "Current (demo_frame v st) = 0"
  by (simp add: demo_frame_def zeroBMSData_def)

theorem stable_iff_witness: "stable (sec 101) demo_stable"
  by (subst stable_iff) (simp add: demo_stable_def voltageDistance_def const_defs)

definition demo_acq :: "nat \<Rightarrow> BMSState \<Rightarrow> acquisition" where
  "demo_acq v st =
     \<lparr>acq_start = sec 102, acq_end = sec 103, acq_complete = sec 103, acq_data = demo_frame v st\<rparr>"

lemma demo_acq_fields [simp]:
  "acq_start (demo_acq v st) = sec 102" "acq_end (demo_acq v st) = sec 103"
  "acq_complete (demo_acq v st) = sec 103" "acq_data (demo_acq v st) = demo_frame v st"
  by (simp_all add: demo_acq_def)

lemma Before_sec [simp]: "Before (sec s) (sec t) \<longleftrightarrow> s < t" "After (sec s) (sec t) \<longleftrightarrow> t < s"
  "Equal (sec s) (sec t) \<longleftrightarrow> s = t"
  by (simp_all add: Before_def After_def Equal_def raw_diff_def sec_def)

lemma demo_monotonic [simp]: "monotonic (sec t)"
  by (simp add: monotonic_def sec_def)

definition demo_round :: samplingRound where
  "demo_round = \<lparr>round_id = 8, opened = sec 102, claimed = (\<lambda>_. True),
     samples = (\<lambda>i. case i of Slot0 \<Rightarrow> demo_acq 40000 BMSStateActive | Slot1 \<Rightarrow> zeroAcquisition)\<rparr>"

definition demo_sampling :: packAdmission where
  "demo_sampling = (demo_pair 40000 True 40500 False)
     \<lparr>slots := (\<lambda>i. case i of Slot0 \<Rightarrow> (demo_slot 40000 True)\<lparr>observed := sec 103\<rparr> | Slot1 \<Rightarrow> demo_slot 40500 False),
      sampling := zeroSampling\<lparr>sampling_enabled := True, next_id := 8, round_cur := Some demo_round\<rparr>\<rparr>"

lemma demo_sampling_fields [simp]:
  "slots demo_sampling Slot0 = (demo_slot 40000 True)\<lparr>observed := sec 103\<rparr>" "slots demo_sampling Slot1 = demo_slot 40500 False"
  "isolation demo_sampling = None" "vehicle demo_sampling = VehicleStateParked" "coordinated demo_sampling"
  "sampling demo_sampling = zeroSampling\<lparr>sampling_enabled := True, next_id := 8, round_cur := Some demo_round\<rparr>"
  by (simp_all add: demo_sampling_def)

lemma demo_sampling_inv: "adm_inv demo_sampling"
  by (auto simp: adm_inv_defs demo_sampling_def zeroSampling_def zeroMotion_def demo_round_def round_inv_def
      zeroAcquisition_def acquisitionOutOfBounds_def all_slot const_defs Let_def)

lemma After_zero [simp]: "0 \<le> t \<Longrightarrow> After (sec t) zeroTime"
  by (simp add: After_def raw_diff_def sec_def zeroTime_def const_defs)

lemma Sub_zero [simp]: "0 \<le> t \<Longrightarrow> Sub (sec t) zeroTime = maxDuration"
  by (simp add: Sub_def raw_diff_def sec_def zeroTime_def const_defs)

lemma demo_paired:
  "round_cur (sampling (snd (observeAcquisition Slot1 8 (demo_acq 40500 BMSStateIdle) demo_sampling))) = None"
  "rep_reason (report (sampling (snd (observeAcquisition Slot1 8 (demo_acq 40500 BMSStateIdle) demo_sampling)))) = Paired"
proof -
  have o: "observeLocked Slot1 (demo_frame 40500 BMSStateIdle) (sec 103) demo_sampling =
     upd_slot Slot1 (\<lambda>s. s\<lparr>observed := sec 103, observedRound := 0, serial := ''LS0001''\<rparr>) demo_sampling"
    by (simp add: observeLocked_def observeIdentity_def observeFrame_def observePower_def inactiveConfirmed_def
        demo_slot_def zeroSlot_def upd_slot_def const_defs zeroSampling_def Let_def)
  show "round_cur (sampling (snd (observeAcquisition Slot1 8 (demo_acq 40500 BMSStateIdle) demo_sampling))) = None"
  "rep_reason (report (sampling (snd (observeAcquisition Slot1 8 (demo_acq 40500 BMSStateIdle) demo_sampling)))) = Paired"
    by (simp_all add: observeAcquisition_def o deliverAcquisition_def demo_round_def set_round_sample_def
      zeroSampling_def zeroAcquisition_def acquisitionOutOfBounds_def fresh_def pairRound_def acquisitionSpan_def
      ex_slot roundReport_def zeroReport_def const_defs Let_def)
qed

theorem pairing_sound_witness: "pair_sound demo_round Slot1 (demo_acq 40500 BMSStateIdle)
   (snd (observeAcquisition Slot1 8 (demo_acq 40500 BMSStateIdle) demo_sampling))"
  using pairing_sound [OF demo_sampling_inv, of demo_round Slot1 8 "demo_acq 40500 BMSStateIdle"
      "fst (observeAcquisition Slot1 8 (demo_acq 40500 BMSStateIdle) demo_sampling)"
      "snd (observeAcquisition Slot1 8 (demo_acq 40500 BMSStateIdle) demo_sampling)"] demo_paired
  by simp

definition demo_evidence :: motionEvidence where
  "demo_evidence = \<lparr>ev_Version = 1, ev_Source = ''0123456789abcdef0123456789abcdef'', ev_Sequence = 5,
     ev_ObservedAt = Some (sec 100), ev_Valid = Some True, ev_RPM = Some 0, ev_RawSpeed = Some 0,
     ev_ThrottleOn = Some False, ev_Reason = []\<rparr>"

lemma demo_source: "sourceValid ''0123456789abcdef0123456789abcdef''"
  by (simp add: sourceValid_def hexVal_def toLowerChar_def)

lemma AddDur_sec [simp]: "\<bar>t\<bar> < 1000000 \<Longrightarrow> AddDur (sec t) 0 = sec t"
  by (auto simp: AddDur_def sec_def)

lemma demo_apply:
  "fst (applyMotionEvidence demo_evidence (sec 100) a)"
  if "IsZero (motion_at (motion a))" "lastCheck (motion a) = sec 100"
proof -
  have "\<not> motionClockJump (sec 100) (sec 100)"
    by (simp add: motionClockJump_def wrap64_def)
  then have "\<not> IsZero (motion_at (motion (observeMotionLocked True (sec 100) (sec 100) a)))"
    using that by (simp add: observeMotionLocked_def const_defs Let_def)
  then show ?thesis
    by (simp add: applyMotionEvidence_def demo_evidence_def const_defs Let_def)
qed

lemma demo_motion:
  "fst (receiveMotionEvidence (\<lambda>_. Some demo_evidence) ''{}'' (sec 100) (demo_pair 40000 True 40500 False))"
proof -
  have ev: "sourceValid (ev_Source demo_evidence)" "ev_Version demo_evidence = 1" "ev_Sequence demo_evidence \<noteq> 0"
      "ev_Valid demo_evidence \<noteq> None" "ev_Source demo_evidence \<noteq> []"
    by (simp_all add: demo_evidence_def demo_source)
  then show ?thesis
    by (simp add: receiveMotionEvidence_def motionClockJump_def acceptMotionEvidence_def zeroMotion_def demo_apply Let_def)
qed

theorem motion_message_outcome_witness:
  "motion_stopped (motion (snd (receiveMotionEvidence (\<lambda>_. Some demo_evidence) ''{}'' (sec 100)
     (demo_pair 40000 True 40500 False))))"
  using motion_message_outcome [of "\<lambda>_. Some demo_evidence" "''{}''" "sec 100" "demo_pair 40000 True 40500 False" True
    "snd (receiveMotionEvidence (\<lambda>_. Some demo_evidence) ''{}'' (sec 100) (demo_pair 40000 True 40500 False))"] demo_motion
  by (auto simp: prod_eq_iff standstill_def demo_evidence_def)

end
