(* ===== verification/Reader_State.thy ===== *)
theory Reader_State
  imports Admission
begin

text \<open>
  The state of one battery reader (\<open>BatteryReader\<close> in \<open>types.go\<close>), the fault numbers and the
  fault table of \<open>fault.go\<close>, the events of \<open>fsm/events.go\<close>, and the two outboxes through
  which a reader acts on its environment: the Redis commands it issues and the events it sends to
  its state machine. Timers are represented by the instant they expire at.
\<close>

section \<open>Faults\<close>

type_synonym BMSFault = nat

definition BMSFaultNone :: BMSFault where "BMSFaultNone = 0"
definition BMSFaultChgTempOverHighProt :: BMSFault where "BMSFaultChgTempOverHighProt = 1"
definition BMSFaultChgTempOverLowProt :: BMSFault where "BMSFaultChgTempOverLowProt = 2"
definition BMSFaultDsgTempOverHighProt :: BMSFault where "BMSFaultDsgTempOverHighProt = 3"
definition BMSFaultDsgTempOverLowProt :: BMSFault where "BMSFaultDsgTempOverLowProt = 4"
definition BMSFaultSignalWireBrokeProt :: BMSFault where "BMSFaultSignalWireBrokeProt = 5"
definition BMSFaultSecondLvlOverTemp :: BMSFault where "BMSFaultSecondLvlOverTemp = 6"
definition BMSFaultPackVoltHighProt :: BMSFault where "BMSFaultPackVoltHighProt = 7"
definition BMSFaultMosTempOverHighProt :: BMSFault where "BMSFaultMosTempOverHighProt = 8"
definition BMSFaultCellVoltHighProt :: BMSFault where "BMSFaultCellVoltHighProt = 9"
definition BMSFaultPackVoltLowProt :: BMSFault where "BMSFaultPackVoltLowProt = 10"
definition BMSFaultCellVoltLowProt :: BMSFault where "BMSFaultCellVoltLowProt = 11"
definition BMSFaultCrgOverCurrentProt :: BMSFault where "BMSFaultCrgOverCurrentProt = 12"
definition BMSFaultDsgOverCurrentProt :: BMSFault where "BMSFaultDsgOverCurrentProt = 13"
definition BMSFaultShortCircuitProt :: BMSFault where "BMSFaultShortCircuitProt = 14"
definition BMSFaultReserved :: BMSFault where "BMSFaultReserved = 15"
definition BMSFaultReserved2 :: BMSFault where "BMSFaultReserved2 = 16"
definition BMSFaultBMSNotFollowingCmd :: BMSFault where "BMSFaultBMSNotFollowingCmd = 32"
definition BMSFaultBMSZeroData :: BMSFault where "BMSFaultBMSZeroData = 33"
definition BMSFaultBMSCommsError :: BMSFault where "BMSFaultBMSCommsError = 34"
definition BMSFaultNFCReaderError :: BMSFault where "BMSFaultNFCReaderError = 35"
definition BMSFaultUnexpectedPowerOff :: BMSFault where "BMSFaultUnexpectedPowerOff = 36"
definition BMSFaultNum :: BMSFault where "BMSFaultNum = 64"

lemmas BMSFault_defs =
  BMSFaultNone_def BMSFaultSecondLvlOverTemp_def BMSFaultBMSNotFollowingCmd_def
  BMSFaultBMSZeroData_def BMSFaultBMSCommsError_def BMSFaultNFCReaderError_def
  BMSFaultUnexpectedPowerOff_def

lemmas hardwareFault_defs =
  BMSFaultChgTempOverHighProt_def BMSFaultChgTempOverLowProt_def BMSFaultDsgTempOverHighProt_def
  BMSFaultDsgTempOverLowProt_def BMSFaultSignalWireBrokeProt_def BMSFaultSecondLvlOverTemp_def
  BMSFaultPackVoltHighProt_def BMSFaultMosTempOverHighProt_def BMSFaultCellVoltHighProt_def
  BMSFaultPackVoltLowProt_def BMSFaultCellVoltLowProt_def BMSFaultCrgOverCurrentProt_def
  BMSFaultDsgOverCurrentProt_def BMSFaultShortCircuitProt_def BMSFaultReserved_def
  BMSFaultReserved2_def

record FaultConfig =
  Description :: string
  DebounceTimeSet :: duration
  DebounceTimeReset :: duration
  IsCritical :: bool

text \<open>
  The table of \<open>fault.go\<close> in key order; the sixteen hardware faults have the numbers 1 to 16.
\<close>

definition faultTable :: "(BMSFault \<times> FaultConfig) list" where
  "faultTable =
     (let hw = (\<lambda>text crit. \<lparr>Description = text, DebounceTimeSet = 0, DebounceTimeReset = 0, IsCritical = crit\<rparr>)
      in [(1, hw ''High temperature during charging'' False),
          (2, hw ''Low temperature during charging'' False),
          (3, hw ''High temperature during discharge'' False),
          (4, hw ''Low temperature during discharge'' False),
          (5, hw ''Signal wire disconnected'' False),
          (6, hw ''Critical temperature level'' True),
          (7, hw ''Battery pack overvoltage'' False),
          (8, hw ''Power transistor overheating'' False),
          (9, hw ''Cell overvoltage'' False),
          (10, hw ''Battery pack undervoltage'' False),
          (11, hw ''Cell undervoltage'' False),
          (12, hw ''Charging overcurrent'' False),
          (13, hw ''Discharge overcurrent'' False),
          (14, hw ''Short circuit detected'' False),
          (15, hw ''Reserved fault 1'' False),
          (16, hw ''Reserved fault 2'' False),
          (32, \<lparr>Description = ''Battery not responding to commands'', DebounceTimeSet = 5 * Second,
                DebounceTimeReset = 10 * Second, IsCritical = False\<rparr>),
          (33, hw ''Battery data unavailable'' True),
          (34, \<lparr>Description = ''Battery communication failed'', DebounceTimeSet = 5 * Second,
                DebounceTimeReset = 10 * Second, IsCritical = True\<rparr>),
          (35, \<lparr>Description = ''NFC reader malfunction'', DebounceTimeSet = 30 * Second,
                DebounceTimeReset = 0, IsCritical = True\<rparr>),
          (36, hw ''Battery switched off unexpectedly'' False)])"

definition faultConfigs :: "BMSFault \<Rightarrow> FaultConfig option" where
  "faultConfigs f = map_of faultTable f"

definition BMSFault_IsCritical :: "BMSFault \<Rightarrow> bool" where
  "BMSFault_IsCritical f = (case faultConfigs f of None \<Rightarrow> False | Some c \<Rightarrow> IsCritical c)"

definition faultKeys :: "BMSFault list" where
  "faultKeys = map fst faultTable"

record FaultState =
  fs_Present :: bool
  PendingSet :: bool
  PendingReset :: bool
  SetTimer :: "gotime option"
  ResetTimer :: "gotime option"
  PublishedToRedis :: bool

definition zeroFaultState :: FaultState where
  "zeroFaultState =
     \<lparr>fs_Present = False, PendingSet = False, PendingReset = False, SetTimer = None,
      ResetTimer = None, PublishedToRedis = False\<rparr>"

section \<open>Events and Redis commands\<close>

datatype EventID =
    EvInitComplete | EvReinit | EvTagArrived | EvTagDeparted | EvRestart | EvHeartbeatTimeout
  | EvAdmissionPoll | EvSeatboxOpened | EvSeatboxClosed | EvVehicleStateChanged
  | EvDepartureTimeout | EvCheckPresenceTimeout | EvCheckPresenceReady | EvLastCmdTimeout
  | EvClosedTimeout | EvOnOffTimeout | EvInsertedClosedTimeout | EvOffTimeout
  | EvOffConfirmedInactive | EvOffRetry | EvOpenedTimeout | EvInsertedOpenTimeout
  | EvCheckReaderTimeout

text \<open>
  The commands a reader issues; keys and channels are those of its own index. \<open>TxExec\<close> is a
  \<open>MULTI\<close>/\<open>EXEC\<close> transaction with the commands queued in it. \<open>XAddFault\<close> and
  \<open>XAddFaultCleared\<close> append to the stream \<open>events:faults\<close>; of the values of an entry the group,
  the code and the description follow from the reader and the fault, and the others are recorded.
\<close>

datatype redis_cmd =
    HMSet "(string \<times> string) list"
  | SAddFault BMSFault
  | SRemFault BMSFault
  | Publish string
  | XAddFault BMSFault "(string \<times> string) list"
  | XAddFaultCleared BMSFault
  | TxExec "redis_cmd list"

section \<open>Configuration\<close>

text \<open>\<open>ServiceConfig\<close>; voltages are in mV.\<close>

record ServiceConfig =
  RedisServerAddress :: string
  RedisServerPort :: "16 word"
  HeartbeatTimeout :: duration
  OffUpdateTime :: duration
  KeepActiveOnSeatboxOpen :: bool
  MaxVoltageDelta :: nat
  AuxLowKeepActiveEnterMv :: nat
  AuxLowKeepActiveExitMv :: nat
  AuxLowKeepActive :: bool
  AuxLowKeepActiveEvaluated :: bool

definition EffectiveKeepActiveOnSeatboxOpen :: "ServiceConfig \<Rightarrow> bool" where
  "EffectiveKeepActiveOnSeatboxOpen c \<longleftrightarrow> KeepActiveOnSeatboxOpen c \<or> AuxLowKeepActive c"

section \<open>The reader\<close>

record discoveryEvidence =
  quiet :: bool
  uncertain :: bool

text \<open>
  The fields of \<open>BatteryReader\<close> the modelled operations use, prefixed with \<open>rd_\<close>. The last
  group is the environment: what the state machine answers to \<open>IsInState(StateTagPresent)\<close>,
  whether the n-th transaction succeeds, the commands issued so far, the events sent, and whether
  a restart request is queued in \<open>restartChan\<close>.
\<close>

record BatteryReader =
  rd_role :: BatteryRole
  rd_data :: BMSData
  rd_previousData :: BMSData
  rd_previousFields :: "string \<rightharpoonup> string"
  rd_powerSample :: BMSData
  rd_heartbeatRunning :: bool
  rd_heartbeatTimer :: "gotime option"
  rd_enabled :: bool
  rd_vehicleState :: VehicleState
  rd_seatboxLockClosed :: bool
  rd_latchedSeatboxLockClosed :: bool
  rd_lastCmdTime :: gotime
  rd_initVehicleState :: bool
  rd_initSeatboxLock :: bool
  rd_initCompleteSent :: bool
  rd_previousTagPresent :: bool
  rd_tagsDiscovered :: bool
  rd_discovery :: discoveryEvidence
  rd_currentTagUID :: string
  rd_fresh :: tagFreshness
  rd_lastGoodSensors01 :: sensors01Sample
  rd_lastGoodSensors01Time :: gotime
  rd_sensors01Artifacts :: nat
  rd_faultStates :: "BMSFault \<rightharpoonup> FaultState"
  rd_nfcReaderErrorRaised :: bool
  rd_commFailureCount :: nat
  rd_lastSuccessfulComm :: gotime
  rd_commsFaultCount :: nat
  rd_inTagPresent :: bool
  rd_txn :: "nat \<Rightarrow> bool"
  rd_txns :: nat
  rd_redis :: "redis_cmd list"
  rd_events :: "EventID list"
  rd_restartQueued :: bool

definition SendEvent :: "EventID \<Rightarrow> BatteryReader \<Rightarrow> BatteryReader" where
  "SendEvent ev r = r\<lparr>rd_events := rd_events r @ [ev]\<rparr>"

definition redisDo :: "redis_cmd \<Rightarrow> BatteryReader \<Rightarrow> BatteryReader" where
  "redisDo c r = r\<lparr>rd_redis := rd_redis r @ [c]\<rparr>"

definition initializeFaultManagement :: "BatteryReader \<Rightarrow> BatteryReader" where
  "initializeFaultManagement r =
     r\<lparr>rd_faultStates := (\<lambda>f. if f \<in> set faultKeys then Some zeroFaultState else None)\<rparr>"

text \<open>The state a fault is in; a fault that was never mentioned is in its zero state.\<close>

definition fault_state :: "BMSFault \<Rightarrow> BatteryReader \<Rightarrow> FaultState" where
  "fault_state f r = (case rd_faultStates r f of None \<Rightarrow> zeroFaultState | Some s \<Rightarrow> s)"

definition upd_fault :: "BMSFault \<Rightarrow> (FaultState \<Rightarrow> FaultState) \<Rightarrow> BatteryReader \<Rightarrow> BatteryReader" where
  "upd_fault f g r = r\<lparr>rd_faultStates := (rd_faultStates r)(f \<mapsto> g (fault_state f r))\<rparr>"

lemma fault_state_upd [simp]:
  "fault_state f (upd_fault h g r) = (if f = h then g (fault_state h r) else fault_state f r)"
  by (simp add: fault_state_def upd_fault_def)

text \<open>The keys of the table by their names; all are below \<open>BMSFaultNum\<close>.\<close>

lemma faultKeys_named:
  "faultKeys =
     [BMSFaultChgTempOverHighProt, BMSFaultChgTempOverLowProt, BMSFaultDsgTempOverHighProt, BMSFaultDsgTempOverLowProt,
      BMSFaultSignalWireBrokeProt, BMSFaultSecondLvlOverTemp, BMSFaultPackVoltHighProt, BMSFaultMosTempOverHighProt,
      BMSFaultCellVoltHighProt, BMSFaultPackVoltLowProt, BMSFaultCellVoltLowProt, BMSFaultCrgOverCurrentProt,
      BMSFaultDsgOverCurrentProt, BMSFaultShortCircuitProt, BMSFaultReserved, BMSFaultReserved2,
      BMSFaultBMSNotFollowingCmd, BMSFaultBMSZeroData, BMSFaultBMSCommsError, BMSFaultNFCReaderError,
      BMSFaultUnexpectedPowerOff]"
  "f \<in> set faultKeys \<Longrightarrow> f < BMSFaultNum"
  by (auto simp: faultKeys_def faultTable_def BMSFault_defs hardwareFault_defs BMSFaultNum_def Let_def)

lemma faultConfigs_keys: "faultConfigs f \<noteq> None \<longleftrightarrow> f \<in> set faultKeys"
  by (simp add: faultConfigs_def faultKeys_def map_of_eq_None_iff)

end
