(* ===== verification/Go_Text.thy ===== *)
theory Go_Text
  imports Prelude
begin

text \<open>
  Text as Go's \<open>fmt\<close>, \<open>strconv\<close> and \<open>time\<close> packages make it: decimal numbers, truth values, quoted
  strings and durations, as far as the sources print them.
\<close>

section \<open>Numbers and truth values\<close>

text \<open>\<open>fmt.Sprintf\<close> with \<open>%d\<close> and \<open>%v\<close> on the types the sources pass.\<close>

fun fmt_nat :: "nat \<Rightarrow> string" where
  "fmt_nat n = (if n < 10 then [char_of (48 + n)] else fmt_nat (n div 10) @ [char_of (48 + n mod 10)])"

declare fmt_nat.simps [simp del]

definition fmt_int :: "int \<Rightarrow> string" where
  "fmt_int i = (if i < 0 then CHR ''-'' # fmt_nat (nat (- i)) else fmt_nat (nat i))"

definition fmt_bool :: "bool \<Rightarrow> string" where
  "fmt_bool b = (if b then ''true'' else ''false'')"

text \<open>
  \<open>%q\<close> of a text of printable ASCII characters, the only ones the sources quote: quotes and
  backslashes are escaped.
\<close>

definition quoteChar :: "char \<Rightarrow> string" where
  "quoteChar c = (if c = CHR 0x22 \<or> c = CHR 0x5C then [CHR 0x5C, c] else [c])"

definition fmt_quoted :: "string \<Rightarrow> string" where
  "fmt_quoted s = CHR 0x22 # concat (map quoteChar s) @ [CHR 0x22]"

section \<open>Durations\<close>

text \<open>\<open>Duration.Round\<close>: to the nearest multiple, halves away from zero, saturating.\<close>

definition roundDur :: "duration \<Rightarrow> duration \<Rightarrow> duration" where
  "roundDur d m =
     (if m \<le> 0 then d
      else let r = \<bar>d\<bar> mod m
           in if d < 0
              then (if r + r < m then d + r
                    else if minDuration \<le> d - m + r then d - m + r else minDuration)
              else (if r + r < m then d - r
                    else if d + m - r \<le> maxDuration then d + m - r else maxDuration))"

text \<open>The decimals of \<open>v / 10 ^ prec\<close> without trailing zeros, and the whole part.\<close>

fun fmtFrac :: "nat \<Rightarrow> nat \<Rightarrow> bool \<Rightarrow> string \<Rightarrow> string \<times> nat" where
  "fmtFrac 0 v started acc = (if started then CHR ''.'' # acc else acc, v)"
| "fmtFrac (Suc prec) v started acc =
     (let digit = v mod 10; started' = (started \<or> digit \<noteq> 0)
      in fmtFrac prec (v div 10) started' (if started' then char_of (48 + digit) # acc else acc))"

definition fmtSmall :: "nat \<Rightarrow> nat \<Rightarrow> string \<Rightarrow> string" where
  "fmtSmall prec u unit = (case fmtFrac prec u False unit of (s, n) \<Rightarrow> fmt_nat n @ s)"

text \<open>\<open>Duration.String\<close>.\<close>

definition fmt_duration :: "duration \<Rightarrow> string" where
  "fmt_duration d =
     (let u = nat \<bar>d\<bar>; sign = (if d < 0 then ''-'' else [])
      in if u = 0 then ''0s''
         else if u < 1000 then sign @ fmtSmall 0 u ''ns''
         else if u < 1000000 then sign @ fmtSmall 3 u [char_of (194 :: nat), char_of (181 :: nat), CHR ''s'']
         else if u < 1000000000 then sign @ fmtSmall 6 u ''ms''
         else case fmtFrac 9 u False ''s'' of (s, n) \<Rightarrow>
           let sec = fmt_nat (n mod 60) @ s; m = n div 60
           in sign @ (if m = 0 then sec
                      else let mins = fmt_nat (m mod 60) @ ''m'' @ sec; h = m div 60
                           in if h = 0 then mins else fmt_nat h @ ''h'' @ mins))"

section \<open>Facts\<close>

lemma fmt_nat_not_Nil [simp]: "fmt_nat n \<noteq> []"
  by (subst fmt_nat.simps) simp

lemma digit_not_colon: "k < 10 \<Longrightarrow> char_of (48 + k :: nat) \<noteq> CHR '':''"
  by (auto dest!: arg_cong [where f = "of_char :: char \<Rightarrow> nat"])

lemma digit_not_minus: "k < 10 \<Longrightarrow> char_of (48 + k :: nat) \<noteq> CHR ''-''"
  by (auto dest!: arg_cong [where f = "of_char :: char \<Rightarrow> nat"])

lemma fmt_nat_chars: "CHR '':'' \<notin> set (fmt_nat n)" "CHR ''-'' \<notin> set (fmt_nat n)"
proof (induction n rule: fmt_nat.induct)
  case (1 n)
  {
    case 1
    then show ?case using \<open>\<not> n < 10 \<Longrightarrow> CHR '':'' \<notin> set (fmt_nat (n div 10))\<close> digit_not_colon [of n] digit_not_colon [of "n mod 10"] by (subst fmt_nat.simps) auto
  next
    case 2
    then show ?case using \<open>\<not> n < 10 \<Longrightarrow> CHR ''-'' \<notin> set (fmt_nat (n div 10))\<close> digit_not_minus [of n] digit_not_minus [of "n mod 10"] by (subst fmt_nat.simps) auto
  }
qed

text \<open>The number a decimal text stands for.\<close>

definition decimal :: "string \<Rightarrow> nat" where
  "decimal s = foldl (\<lambda>n c. 10 * n + (of_char c - 48)) 0 s"

lemma decimal_fmt [simp]: "decimal (fmt_nat n) = n"
proof (induction n rule: fmt_nat.induct)
  case (1 n)
  then show ?case by (subst fmt_nat.simps) (simp add: decimal_def)
qed

lemma fmt_int_inj: "fmt_int i = fmt_int j \<Longrightarrow> i = j"
proof -
  assume e: "fmt_int i = fmt_int j"
  have h: "fmt_nat n \<noteq> CHR ''-'' # xs" for n xs using fmt_nat_chars(2) [of n] by auto
  have d: "fmt_nat m = fmt_nat n \<Longrightarrow> m = n" for m n using decimal_fmt by metis
  from e h h [symmetric] show ?thesis by (auto simp: fmt_int_def dest!: d split: if_split_asm)
qed

lemma roundDur_near:
  assumes "0 < m" "minDuration + m \<le> d" "d \<le> maxDuration - m"
  shows "m dvd roundDur d m \<and> 2 * \<bar>roundDur d m - d\<bar> \<le> m"
proof (cases "d < 0")
  case True
  define r where "r = - d mod m"
  have r: "0 \<le> r" "r < m" using assms(1) by (simp_all add: r_def)
  have "m dvd - (- d - r)" unfolding r_def dvd_minus_iff by (rule dvd_minus_mod)
  then have dv: "m dvd d + r" by (simp add: add.commute)
  then have "m dvd d - m + r" by (metis add_diff_eq diff_add_eq dvd_diff dvd_refl)
  moreover have "roundDur d m = (if 2 * r < m then d + r else d - m + r)"
    using True r assms by (simp add: roundDur_def Let_def r_def)
  ultimately show ?thesis using r dv by auto
next
  case False
  define r where "r = d mod m"
  have r: "0 \<le> r" "r < m" using assms(1) by (simp_all add: r_def)
  have dv: "m dvd d - r" unfolding r_def by (rule dvd_minus_mod)
  then have "m dvd d + m - r" by (metis add_diff_eq add.commute dvd_add dvd_refl)
  moreover have "roundDur d m = (if 2 * r < m then d - r else d + m - r)"
    using False r assms by (simp add: roundDur_def Let_def r_def)
  ultimately show ?thesis using r dv by auto
qed

end
