(* ===== verification/Publication.thy ===== *)
theory Publication
  imports Reader_State Go_Text
begin

text \<open>
  Publishing a reader's status (\<open>battery_status.go\<close> from \<open>statusFrameChanged\<close> on, and the tag
  freshness methods of \<open>types.go\<close>): the fields of the Redis hash, the fault set update inside the
  transaction, and the bookkeeping that happens only when the transaction succeeds.
\<close>

section \<open>Tag freshness\<close>

definition stopTimer :: "tagFreshness \<Rightarrow> tagFreshness" where
  "stopTimer f = f\<lparr>timer := False\<rparr>"

definition confirm :: "tagFreshness \<Rightarrow> tagFreshness" where
  "confirm f = stopTimer (f\<lparr>unconfirmed := False\<rparr>)"

definition expired :: "gotime \<Rightarrow> tagFreshness \<Rightarrow> bool" where
  "expired now f \<longleftrightarrow> Sub now (since f) \<ge> tagConfirmDeadline"

definition upd_fresh :: "(tagFreshness \<Rightarrow> tagFreshness) \<Rightarrow> BatteryReader \<Rightarrow> BatteryReader" where
  "upd_fresh g r = r\<lparr>rd_fresh := g (rd_fresh r)\<rparr>"

definition armConfirmRead :: "BatteryReader \<Rightarrow> BatteryReader" where
  "armConfirmRead r = upd_fresh (\<lambda>f. (stopTimer f)\<lparr>timer := True\<rparr>) r"

definition noteFrameFreshness :: "gotime \<Rightarrow> BatteryReader \<Rightarrow> BatteryReader" where
  "noteFrameFreshness now r =
     (if \<not> unconfirmed (rd_fresh r) then r
      else if \<not> fr_haveFrame (rd_fresh r)
      then upd_fresh (\<lambda>f. f\<lparr>fr_frame := rd_data r, fr_haveFrame := True\<rparr>) r
      else if statusFrameChanged (rd_data r) (fr_frame (rd_fresh r)) then upd_fresh confirm r
      else if expired now (rd_fresh r) then upd_fresh confirm r
      else armConfirmRead r)"

section \<open>The published fields\<close>

definition UnixMilli :: "gotime \<Rightarrow> int" where
  "UnixMilli t = wrap64 ((wall_ns t - unixToInternal) div Millisecond)"

definition energySampleFields :: "BatteryReader \<Rightarrow> int \<times> bool" where
  "energySampleFields r =
     (if IsZero (SampleTime (rd_data r)) then (0, False)
      else (UnixMilli (SampleTime (rd_data r)),
            SampleValid (rd_data r) \<and> Present (rd_data r) \<and> \<not> unconfirmed (rd_fresh r)))"

fun temperatureStateString :: "BMSTemperatureState \<Rightarrow> string" where
  "temperatureStateString BMSTemperatureStateCold = ''cold''"
| "temperatureStateString BMSTemperatureStateHot = ''hot''"
| "temperatureStateString BMSTemperatureStateIdeal = ''ideal''"
| "temperatureStateString BMSTemperatureStateUnknown = ''unknown''"

definition statusFields :: "BatteryReader \<Rightarrow> (string \<times> string) list" where
  "statusFields r =
     (let d = rd_data r; smp = energySampleFields r
      in [(''sample:timestamp'', fmt_int (fst smp)),
          (''sample:valid'', fmt_bool (snd smp)),
          (''present'', fmt_bool (Present d)),
          (''state'', BMSState_String (State d)),
          (''voltage'', fmt_nat (Voltage d)),
          (''current'', fmt_int (Current d)),
          (''charge'', fmt_nat (Charge d)),
          (''temperature:0'', fmt_int (Temperature d ! 0)),
          (''temperature:1'', fmt_int (Temperature d ! 1)),
          (''temperature:2'', fmt_int (Temperature d ! 2)),
          (''temperature:3'', fmt_int (Temperature d ! 3)),
          (''temperature-state'', temperatureStateString (TemperatureState d)),
          (''cycle-count'', fmt_nat (CycleCount d)),
          (''state-of-health'', fmt_nat (StateOfHealth d)),
          (''remaining-capacity'', fmt_nat (RemainingCapacity d)),
          (''full-capacity'', fmt_nat (FullCapacity d)),
          (''fault-code'', fmt_nat (FaultCode d)),
          (''low-soc'', fmt_bool (LowSOC d)),
          (''serial-number'', SerialNumber d),
          (''manufacturing-date'', ManufacturingDate d),
          (''fw-version'', FwVersion d)])"

text \<open>
  The faults whose published flag is out of date. The source ranges over a map, so the order of
  the queued commands is unspecified there; here it is the order of the fault numbers.
\<close>

definition changedFaults :: "BatteryReader \<Rightarrow> BMSFault list" where
  "changedFaults r =
     filter (\<lambda>f. rd_faultStates r f \<noteq> None \<and>
                 fs_Present (fault_state f r) \<noteq> PublishedToRedis (fault_state f r)) faultKeys"

definition updateFaultSetInTransaction :: "BatteryReader \<Rightarrow> redis_cmd list" where
  "updateFaultSetInTransaction r =
     map (\<lambda>f. if fs_Present (fault_state f r) then SAddFault f else SRemFault f) (changedFaults r) @
     (if changedFaults r \<noteq> [] then [Publish ''fault''] else [])"

definition changedFields :: "BatteryReader \<Rightarrow> redis_cmd list" where
  "changedFields r =
     map (\<lambda>(k, v). Publish k) (filter (\<lambda>(k, v). rd_previousFields r k \<noteq> Some v) (statusFields r))"

text \<open>After a successful transaction: the published flags and the values to compare with next time.\<close>

definition markPublished :: "BatteryReader \<Rightarrow> BatteryReader" where
  "markPublished r =
     r\<lparr>rd_faultStates :=
          (\<lambda>f. if f \<in> set (changedFaults r)
               then Some ((fault_state f r)\<lparr>PublishedToRedis := fs_Present (fault_state f r)\<rparr>)
               else rd_faultStates r f),
        rd_previousFields := map_of (statusFields r),
        rd_previousData := rd_data r\<rparr>"

definition sendStatusUpdate :: "gotime \<Rightarrow> BatteryReader \<Rightarrow> BatteryReader" where
  "sendStatusUpdate now r0 =
     (let r1 = noteFrameFreshness now r0;
          ok = rd_txn r1 (rd_txns r1);
          r2 = (redisDo (TxExec (HMSet (statusFields r1) # updateFaultSetInTransaction r1 @ changedFields r1)) r1)
                 \<lparr>rd_txns := Suc (rd_txns r1)\<rparr>
      in if \<not> ok then r2 else markPublished r2)"

section \<open>Facts\<close>

lemma noteFrameFreshness_frame:
  "\<exists>f. noteFrameFreshness now r = r\<lparr>rd_fresh := f\<rparr>"
  by (auto simp: noteFrameFreshness_def upd_fresh_def armConfirmRead_def intro: exI [of _ "rd_fresh r"])

text \<open>Publishing changes neither the frame nor whether a fault is present or pending.\<close>

definition same_fault :: "FaultState \<Rightarrow> FaultState \<Rightarrow> bool" where
  "same_fault s t \<longleftrightarrow> t\<lparr>PublishedToRedis := PublishedToRedis s\<rparr> = s"

lemma same_fault_refl [simp]: "same_fault s s"
  by (simp add: same_fault_def)

lemma same_fault_fields:
  assumes "same_fault s t"
  shows "fs_Present t = fs_Present s" "PendingSet t = PendingSet s" "PendingReset t = PendingReset s"
    "SetTimer t = SetTimer s" "ResetTimer t = ResetTimer s"
  using assms unfolding same_fault_def by (metis FaultState.select_convs FaultState.surjective FaultState.update_convs)+

end
