(* ===== verification/Faults.thy ===== *)
theory Faults
  imports Publication
begin

text \<open>
  Fault management (\<open>fault.go\<close>): debounced setting and clearing with timers, activation of
  critical faults, the NFC reader error episode and the hardware fault bits. \<open>now\<close> is the clock
  reading of the call; a timer is pending as long as its expiry instant is stored, and its
  callback is an operation of its own.
\<close>

section \<open>Reports\<close>

text \<open>What the stream entry of an unexpected power-off says about the pack.\<close>

definition powerOffValues :: "BMSFault \<Rightarrow> BatteryReader \<Rightarrow> (string \<times> string) list" where
  "powerOffValues f r =
     (if f = BMSFaultUnexpectedPowerOff
      then [(''state'', BMSState_String (State (rd_data r))),
            (''voltage-mv'', fmt_nat (Voltage (rd_data r))),
            (''current-ma'', fmt_int (Current (rd_data r))),
            (''charge'', fmt_nat (Charge (rd_data r))),
            (''bms-fault-code'', fmt_nat (FaultCode (rd_data r))),
            (''serial-number'', SerialNumber (rd_data r)),
            (''vehicle-state'', rd_vehicleState r)]
      else [])"

definition reportFault :: "BMSFault \<Rightarrow> bool \<Rightarrow> BatteryReader \<Rightarrow> BatteryReader" where
  "reportFault f present r =
     (if present
      then redisDo (Publish ''fault'') (redisDo (XAddFault f (powerOffValues f r)) (redisDo (SAddFault f) r))
      else redisDo (Publish ''fault'') (redisDo (XAddFaultCleared f) (redisDo (SRemFault f) r)))"

definition deactivateFaultLocked :: "BMSFault \<Rightarrow> BatteryReader \<Rightarrow> BatteryReader" where
  "deactivateFaultLocked f r = reportFault f False r"

section \<open>Setting and clearing\<close>

text \<open>Cancelling both timers at the top of \<open>setFaultLocked\<close>.\<close>

definition cancelTimers :: "FaultState \<Rightarrow> FaultState" where
  "cancelTimers s =
     (let s1 = (if SetTimer s \<noteq> None then s\<lparr>SetTimer := None, PendingSet := False\<rparr> else s)
      in if ResetTimer s1 \<noteq> None then s1\<lparr>ResetTimer := None, PendingReset := False\<rparr> else s1)"

definition settled :: "FaultState \<Rightarrow> bool \<Rightarrow> bool" where
  "settled s present \<longleftrightarrow> fs_Present s = present \<and> \<not> PendingSet s \<and> \<not> PendingReset s"

text \<open>\<open>setFaultLocked(fault, false)\<close>.\<close>

definition clearFaultLocked :: "gotime \<Rightarrow> BMSFault \<Rightarrow> BatteryReader \<Rightarrow> BatteryReader" where
  "clearFaultLocked now f r0 =
     (case faultConfigs f of
        None \<Rightarrow> r0
      | Some config \<Rightarrow>
          let r = upd_fault f (\<lambda>s. s) r0
          in if settled (fault_state f r) False then r
             else let r1 = upd_fault f cancelTimers r
                  in if \<not> fs_Present (fault_state f r1) then r1
                     else if DebounceTimeReset config = 0
                     then upd_fault f (\<lambda>s. s\<lparr>fs_Present := False\<rparr>) (deactivateFaultLocked f r1)
                     else upd_fault f (\<lambda>s. s\<lparr>PendingReset := True,
                                             ResetTimer := Some (AddDur now (DebounceTimeReset config))\<rparr>) r1)"

text \<open>
  \<open>clearLesserFaultsLocked\<close>. The source ranges over a map; each iteration touches the state of
  one fault only, so the order matters for the order of the reports alone.
\<close>

definition clearLesserFaultsLocked :: "gotime \<Rightarrow> BMSFault \<Rightarrow> bool \<Rightarrow> BatteryReader \<Rightarrow> BatteryReader" where
  "clearLesserFaultsLocked now ref includeReference r =
     foldl (\<lambda>r f. if (f < ref \<or> (includeReference \<and> f = ref)) \<and> fs_Present (fault_state f r)
                  then clearFaultLocked now f r else r)
       r faultKeys"

definition sendNotPresent :: "gotime \<Rightarrow> BatteryReader \<Rightarrow> BatteryReader" where
  "sendNotPresent now r = sendStatusUpdate now (r\<lparr>rd_data := zeroBMSData\<rparr>)"

definition activateFaultLocked :: "gotime \<Rightarrow> BMSFault \<Rightarrow> FaultConfig \<Rightarrow> BatteryReader \<Rightarrow> BatteryReader" where
  "activateFaultLocked now f config r =
     (if f = BMSFaultBMSCommsError \<and> \<not> rd_inTagPresent r then r
      else let r1 = (if IsCritical config
                     then sendNotPresent now (clearLesserFaultsLocked now f False r) else r)
           in reportFault f True r1)"

text \<open>\<open>setFaultLocked(fault, true)\<close>.\<close>

definition raiseFaultLocked :: "gotime \<Rightarrow> BMSFault \<Rightarrow> BatteryReader \<Rightarrow> BatteryReader" where
  "raiseFaultLocked now f r0 =
     (case faultConfigs f of
        None \<Rightarrow> r0
      | Some config \<Rightarrow>
          let r = upd_fault f (\<lambda>s. s) r0
          in if settled (fault_state f r) True then r
             else let r1 = upd_fault f cancelTimers r
                  in if DebounceTimeSet config = 0
                     then upd_fault f (\<lambda>s. s\<lparr>fs_Present := True\<rparr>) (activateFaultLocked now f config r1)
                     else upd_fault f (\<lambda>s. s\<lparr>PendingSet := True,
                                             SetTimer := Some (AddDur now (DebounceTimeSet config))\<rparr>) r1)"

definition setFaultLocked :: "gotime \<Rightarrow> BMSFault \<Rightarrow> bool \<Rightarrow> BatteryReader \<Rightarrow> BatteryReader" where
  "setFaultLocked now f present r =
     (if present then raiseFaultLocked now f r else clearFaultLocked now f r)"

definition setFault :: "gotime \<Rightarrow> BMSFault \<Rightarrow> bool \<Rightarrow> BatteryReader \<Rightarrow> BatteryReader" where
  "setFault now f present r = setFaultLocked now f present r"

text \<open>The timer callbacks.\<close>

definition setTimerFired :: "gotime \<Rightarrow> BMSFault \<Rightarrow> BatteryReader \<Rightarrow> BatteryReader" where
  "setTimerFired now f r =
     (case faultConfigs f of
        None \<Rightarrow> r
      | Some config \<Rightarrow>
          upd_fault f (\<lambda>s. s\<lparr>fs_Present := True, PendingSet := False, SetTimer := None\<rparr>)
            (activateFaultLocked now f config r))"

definition resetTimerFired :: "BMSFault \<Rightarrow> BatteryReader \<Rightarrow> BatteryReader" where
  "resetTimerFired f r =
     upd_fault f (\<lambda>s. s\<lparr>fs_Present := False, PendingReset := False, ResetTimer := None\<rparr>)
       (deactivateFaultLocked f r)"

section \<open>Sources of faults\<close>

definition raiseNFCReaderError :: "gotime \<Rightarrow> BatteryReader \<Rightarrow> BatteryReader" where
  "raiseNFCReaderError now r =
     (if rd_nfcReaderErrorRaised r then r
      else setFault now BMSFaultNFCReaderError True (r\<lparr>rd_nfcReaderErrorRaised := True\<rparr>))"

definition clearNFCReaderError :: "gotime \<Rightarrow> BatteryReader \<Rightarrow> BatteryReader" where
  "clearNFCReaderError now r =
     (if \<not> rd_nfcReaderErrorRaised r then r
      else setFault now BMSFaultNFCReaderError False (r\<lparr>rd_nfcReaderErrorRaised := False\<rparr>))"

definition maxCommsFailureBeforeFault :: nat where
  [const_defs]: "maxCommsFailureBeforeFault = 3"

definition noteCommsFailure :: "gotime \<Rightarrow> BatteryReader \<Rightarrow> BatteryReader" where
  "noteCommsFailure now r =
     (let r1 = r\<lparr>rd_commsFaultCount := Suc (rd_commsFaultCount r)\<rparr>
      in if rd_commsFaultCount r1 \<ge> maxCommsFailureBeforeFault
         then setFault now BMSFaultBMSCommsError True r1 else r1)"

definition noteCommsSuccess :: "gotime \<Rightarrow> BatteryReader \<Rightarrow> BatteryReader" where
  "noteCommsSuccess now r = setFault now BMSFaultBMSCommsError False (r\<lparr>rd_commsFaultCount := 0\<rparr>)"

text \<open>
  The hardware fault bits: bit \<open>b\<close> of the fault code is fault \<open>b + 1\<close>, and only bits that
  changed against the previous frame are processed.
\<close>

definition parseHardwareFaults :: "gotime \<Rightarrow> nat \<Rightarrow> nat \<Rightarrow> BatteryReader \<Rightarrow> BatteryReader" where
  "parseHardwareFaults now faultCode previousFaultCode r =
     foldl (\<lambda>r b. if bit faultCode b \<noteq> bit previousFaultCode b
                  then setFault now (b + 1) (bit faultCode b) r else r)
       r [0..<16]"

definition updateFaultsFromBatteryData :: "gotime \<Rightarrow> BatteryReader \<Rightarrow> BatteryReader" where
  "updateFaultsFromBatteryData now r =
     (let r1 = parseHardwareFaults now (FaultCode (rd_data r)) (FaultCode (rd_previousData r)) r;
          wasZeroData = EmptyOr0Data (rd_previousData r1) > 0;
          isZeroData = EmptyOr0Data (rd_data r1) > 0
      in if wasZeroData \<noteq> isZeroData then setFault now BMSFaultBMSZeroData isZeroData r1 else r1)"

end
