(* ===== verification/Fault_Safety.thy ===== *)
theory Fault_Safety
  imports Faults
begin

text \<open>
  What fault management guarantees: the debounce invariant over every order of calls and timers,
  that a debounced fault needs its timer, what a critical fault publishes, and that the hardware
  faults follow the fault code bits.
\<close>

section \<open>One fault at a time\<close>

text \<open>What clearing and raising do to the state of the fault itself.\<close>

definition fs_clear :: "gotime \<Rightarrow> FaultConfig \<Rightarrow> FaultState \<Rightarrow> FaultState" where
  "fs_clear now c s =
     (if settled s False then s
      else let s1 = cancelTimers s
           in if \<not> fs_Present s1 then s1
              else if DebounceTimeReset c = 0 then s1\<lparr>fs_Present := False\<rparr>
              else s1\<lparr>PendingReset := True, ResetTimer := Some (AddDur now (DebounceTimeReset c))\<rparr>)"

definition fs_raise :: "gotime \<Rightarrow> FaultConfig \<Rightarrow> FaultState \<Rightarrow> FaultState" where
  "fs_raise now c s =
     (if settled s True then s
      else let s1 = cancelTimers s
           in if DebounceTimeSet c = 0 then s1\<lparr>fs_Present := True\<rparr>
              else s1\<lparr>PendingSet := True, SetTimer := Some (AddDur now (DebounceTimeSet c))\<rparr>)"

lemma fault_state_redisDo [simp]: "fault_state f (redisDo c r) = fault_state f r"
  by (simp add: fault_state_def redisDo_def)

lemma fault_state_report [simp]: "fault_state f (reportFault g b r) = fault_state f r"
  by (simp add: reportFault_def)

lemma fault_state_clear:
  assumes "faultConfigs f = Some c"
  shows "fault_state g (clearFaultLocked now f r) =
    (if g = f then fs_clear now c (fault_state f r) else fault_state g r)"
  using assms by (simp add: clearFaultLocked_def fs_clear_def deactivateFaultLocked_def Let_def)

lemma fault_state_sendStatus: "same_fault (fault_state f r) (fault_state f (sendStatusUpdate now r))"
proof -
  obtain x where x: "noteFrameFreshness now r = r\<lparr>rd_fresh := x\<rparr>" using noteFrameFreshness_frame by blast
  show ?thesis
    by (auto simp: sendStatusUpdate_def x markPublished_def fault_state_def redisDo_def same_fault_def Let_def
        split: option.split)
qed

lemma faultKeys_distinct: "distinct faultKeys"
  by (simp add: faultKeys_def faultTable_def Let_def)

lemma faultKeys_config: "f \<in> set faultKeys \<Longrightarrow> \<exists>c. faultConfigs f = Some c"
  using faultConfigs_keys by auto

lemma clear_foldl:
  assumes "distinct fs" "set fs \<subseteq> set faultKeys"
  shows "fault_state g (foldl (\<lambda>r f. if P f \<and> fs_Present (fault_state f r) then clearFaultLocked now f r else r) r fs) =
    (if g \<in> set fs \<and> P g \<and> fs_Present (fault_state g r)
     then fs_clear now (the (faultConfigs g)) (fault_state g r) else fault_state g r)"
  using assms
proof (induction fs arbitrary: r)
  case (Cons f fs)
  from Cons.prems obtain c where c: "faultConfigs f = Some c" using faultKeys_config by auto
  let ?r = "if P f \<and> fs_Present (fault_state f r) then clearFaultLocked now f r else r"
  have s: "fault_state h ?r = (if h = f \<and> P f \<and> fs_Present (fault_state f r) then fs_clear now c (fault_state f r) else fault_state h r)" for h
    by (simp add: fault_state_clear [OF c])
  from Cons show ?case by (auto simp: s c fault_state_clear [OF c])
qed simp

lemma fault_state_clearLesser:
  "fault_state g (clearLesserFaultsLocked now ref False r) =
    (if g \<in> set faultKeys \<and> g < ref \<and> fs_Present (fault_state g r)
     then fs_clear now (the (faultConfigs g)) (fault_state g r) else fault_state g r)"
  unfolding clearLesserFaultsLocked_def
  using clear_foldl [OF faultKeys_distinct subset_refl, of g "\<lambda>f. f < ref \<or> (False \<and> f = ref)"] by simp

lemma fault_state_notPresent: "same_fault (fault_state f r) (fault_state f (sendNotPresent now r))"
  using fault_state_sendStatus [of f "r\<lparr>rd_data := zeroBMSData\<rparr>" now]
  by (simp add: sendNotPresent_def fault_state_def)

text \<open>Whether activating \<open>f\<close> really happens: communication faults only while a tag is present.\<close>

definition activates :: "BMSFault \<Rightarrow> BatteryReader \<Rightarrow> bool" where
  "activates f r \<longleftrightarrow> f \<noteq> BMSFaultBMSCommsError \<or> rd_inTagPresent r"

lemma fault_state_activate:
  "same_fault
     (if activates f r \<and> IsCritical c \<and> g \<in> set faultKeys \<and> g < f \<and> fs_Present (fault_state g r)
      then fs_clear now (the (faultConfigs g)) (fault_state g r) else fault_state g r)
     (fault_state g (activateFaultLocked now f c r))"
  using fault_state_notPresent [of g "clearLesserFaultsLocked now f False r" now]
  by (auto simp: activateFaultLocked_def activates_def fault_state_clearLesser Let_def)

lemma fault_state_raise:
  assumes c: "faultConfigs f = Some c"
  shows "same_fault (fs_raise now c (fault_state f r)) (fault_state f (raiseFaultLocked now f r))"
    and "g \<noteq> f \<Longrightarrow>
      same_fault (fault_state g r) (fault_state g (raiseFaultLocked now f r)) \<or>
      (IsCritical c \<and> DebounceTimeSet c = 0 \<and> g < f \<and> g \<in> set faultKeys \<and> fs_Present (fault_state g r) \<and>
       same_fault (fs_clear now (the (faultConfigs g)) (fault_state g r)) (fault_state g (raiseFaultLocked now f r)))"
proof -
  let ?r = "upd_fault f cancelTimers (upd_fault f (\<lambda>s. s) r)"
  have "same_fault (fault_state f ?r) (fault_state f (activateFaultLocked now f c ?r))"
    using fault_state_activate [of f ?r c f now] by simp
  then have "same_fault ((cancelTimers (fault_state f r))\<lparr>fs_Present := True\<rparr>)
      ((fault_state f (activateFaultLocked now f c ?r))\<lparr>fs_Present := True\<rparr>)"
    by (simp add: same_fault_def) (metis FaultState.update_convs FaultState.surjective)
  then show "same_fault (fs_raise now c (fault_state f r)) (fault_state f (raiseFaultLocked now f r))"
    by (simp add: raiseFaultLocked_def fs_raise_def c Let_def)
  assume g: "g \<noteq> f"
  have "fault_state g (raiseFaultLocked now f r) =
      (if settled (fault_state f r) True \<or> DebounceTimeSet c \<noteq> 0 then fault_state g r
       else fault_state g (activateFaultLocked now f c ?r))"
    using g by (simp add: raiseFaultLocked_def c Let_def)
  with fault_state_activate [of f ?r c g now] g
  show "same_fault (fault_state g r) (fault_state g (raiseFaultLocked now f r)) \<or>
      (IsCritical c \<and> DebounceTimeSet c = 0 \<and> g < f \<and> g \<in> set faultKeys \<and> fs_Present (fault_state g r) \<and>
       same_fault (fs_clear now (the (faultConfigs g)) (fault_state g r)) (fault_state g (raiseFaultLocked now f r)))"
    by (auto split: if_split_asm)
qed

section \<open>The debounce invariant\<close>

text \<open>
  A pending flag goes with its timer and with a debounce time, a fault is not waiting in both
  directions, and only a present fault waits to be cleared.
\<close>

definition fs_inv :: "FaultConfig \<Rightarrow> FaultState \<Rightarrow> bool" where
  "fs_inv c s \<longleftrightarrow>
     (PendingSet s \<longleftrightarrow> SetTimer s \<noteq> None) \<and> (PendingReset s \<longleftrightarrow> ResetTimer s \<noteq> None) \<and>
     \<not> (PendingSet s \<and> PendingReset s) \<and> (PendingReset s \<longrightarrow> fs_Present s) \<and>
     (PendingSet s \<longrightarrow> DebounceTimeSet c > 0) \<and> (PendingReset s \<longrightarrow> DebounceTimeReset c > 0)"

definition fault_inv :: "BatteryReader \<Rightarrow> bool" where
  "fault_inv r \<longleftrightarrow> (\<forall>f c. faultConfigs f = Some c \<longrightarrow> fs_inv c (fault_state f r))"

lemma fs_inv_same: "same_fault s t \<Longrightarrow> fs_inv c s \<Longrightarrow> fs_inv c t"
  by (auto simp: fs_inv_def same_fault_fields)

lemma debounce_nonneg: "faultConfigs f = Some c \<Longrightarrow> 0 \<le> DebounceTimeSet c \<and> 0 \<le> DebounceTimeReset c"
  by (auto simp: faultConfigs_def faultTable_def Let_def split: if_split_asm)

lemma cancelTimers_fields:
  assumes "fs_inv c s"
  shows "fs_Present (cancelTimers s) = fs_Present s" "\<not> PendingSet (cancelTimers s)" "\<not> PendingReset (cancelTimers s)"
    "SetTimer (cancelTimers s) = None" "ResetTimer (cancelTimers s) = None"
    "PublishedToRedis (cancelTimers s) = PublishedToRedis s"
  using assms by (auto simp: cancelTimers_def fs_inv_def Let_def)

lemma fs_clear_inv: "fs_inv c s \<Longrightarrow> 0 \<le> DebounceTimeReset c \<Longrightarrow> fs_inv c (fs_clear now c s)"
  using cancelTimers_fields [of c s] by (auto simp: fs_clear_def Let_def) (auto simp: fs_inv_def)

lemma fs_raise_inv: "fs_inv c s \<Longrightarrow> 0 \<le> DebounceTimeSet c \<Longrightarrow> fs_inv c (fs_raise now c s)"
  using cancelTimers_fields [of c s] by (auto simp: fs_raise_def Let_def) (auto simp: fs_inv_def)

lemma fault_invD: "fault_inv r \<Longrightarrow> faultConfigs f = Some c \<Longrightarrow> fs_inv c (fault_state f r)"
  by (simp add: fault_inv_def)

lemma clearFault_inv: "fault_inv r \<Longrightarrow> fault_inv (clearFaultLocked now f r)"
proof (cases "faultConfigs f")
  case None
  moreover assume "fault_inv r"
  ultimately show ?thesis by (simp add: clearFaultLocked_def)
next
  case (Some c)
  moreover assume "fault_inv r"
  ultimately show ?thesis
    using debounce_nonneg [OF Some] by (auto simp: fault_inv_def fault_state_clear [OF Some] intro: fs_clear_inv)
qed

lemma sendStatus_inv: "fault_inv r \<Longrightarrow> fault_inv (sendStatusUpdate now r)"
  using fault_state_sendStatus fs_inv_same by (fastforce simp: fault_inv_def)

lemma activate_inv: "fault_inv r \<Longrightarrow> fault_inv (activateFaultLocked now f c r)"
  unfolding fault_inv_def
proof (intro allI impI)
  fix g d assume inv: "\<forall>f c. faultConfigs f = Some c \<longrightarrow> fs_inv c (fault_state f r)" and d: "faultConfigs g = Some d"
  then have "fs_inv d (fault_state g r)" "fs_inv d (fs_clear now (the (faultConfigs g)) (fault_state g r))"
    using debounce_nonneg [OF d] by (auto intro: fs_clear_inv)
  with fault_state_activate [of f r c g now]
  show "fs_inv d (fault_state g (activateFaultLocked now f c r))"
    by (auto intro: fs_inv_same split: if_split_asm)
qed

lemma raiseFault_inv: "fault_inv r \<Longrightarrow> fault_inv (raiseFaultLocked now f r)"
proof (cases "faultConfigs f")
  case None
  moreover assume "fault_inv r"
  ultimately show ?thesis by (simp add: raiseFaultLocked_def)
next
  case (Some c)
  assume inv: "fault_inv r"
  show ?thesis unfolding fault_inv_def
  proof (intro allI impI)
    fix g d assume d: "faultConfigs g = Some d"
    show "fs_inv d (fault_state g (raiseFaultLocked now f r))"
    proof (cases "g = f")
      case True
      with Some d have "fs_inv d (fs_raise now c (fault_state f r))"
        using fs_raise_inv fault_invD [OF inv Some] debounce_nonneg [OF Some] by auto
      with fault_state_raise(1) [OF Some, of now r] True show ?thesis by (auto intro: fs_inv_same)
    next
      case False
      have "fs_inv d (fault_state g r)" "fs_inv d (fs_clear now (the (faultConfigs g)) (fault_state g r))"
        using fault_invD [OF inv d] debounce_nonneg [OF d] d by (auto intro: fs_clear_inv)
      with fault_state_raise(2) [OF Some False, of r now] show ?thesis by (auto intro: fs_inv_same)
    qed
  qed
qed

lemma deactivate_inv: "fault_inv r \<Longrightarrow> fault_inv (deactivateFaultLocked f r)"
  by (simp add: fault_inv_def deactivateFaultLocked_def)

lemma upd_fault_inv:
  "fault_inv r \<Longrightarrow> (\<And>c. faultConfigs f = Some c \<Longrightarrow> fs_inv c (fault_state f r) \<Longrightarrow> fs_inv c (g (fault_state f r))) \<Longrightarrow>
   fault_inv (upd_fault f g r)"
  by (simp add: fault_inv_def)

lemma setTimerFired_inv:
  assumes "fault_inv r" "SetTimer (fault_state f r) \<noteq> None"
  shows "fault_inv (setTimerFired now f r)"
proof (cases "faultConfigs f")
  case None
  with assms show ?thesis by (simp add: setTimerFired_def)
next
  case (Some c)
  have "same_fault (fault_state f r) (fault_state f (activateFaultLocked now f c r))"
    using fault_state_activate [of f r c f now] by simp
  moreover have "PendingSet (fault_state f r)"
    using fault_invD [OF assms(1) Some] assms(2) by (auto simp: fs_inv_def)
  ultimately have "PendingSet (fault_state f (activateFaultLocked now f c r))"
    by (simp add: same_fault_fields)
  then show ?thesis
    using activate_inv [OF assms(1), of now f c] Some
    by (auto simp: setTimerFired_def fs_inv_def intro!: upd_fault_inv)
qed

lemma resetTimerFired_inv:
  assumes "fault_inv r" "ResetTimer (fault_state f r) \<noteq> None"
  shows "fault_inv (resetTimerFired f r)"
  using assms deactivate_inv [OF assms(1), of f] unfolding resetTimerFired_def
  by (intro upd_fault_inv) (auto simp: fs_inv_def deactivateFaultLocked_def)

section \<open>Fault management as a machine\<close>

text \<open>
  Calls of \<open>setFault\<close>, expired timers, publications, new frames and state machine changes in any
  order. A timer callback runs only while its timer is stored and not before it expires.
\<close>

datatype fault_op =
    FaultSet BMSFault bool gotime
  | FaultSetTimer BMSFault gotime
  | FaultResetTimer BMSFault gotime
  | FaultPublish gotime
  | FaultFrame BMSData
  | FaultTagPresent bool

definition timerDue :: "gotime \<Rightarrow> gotime option \<Rightarrow> bool" where
  "timerDue now t = (case t of None \<Rightarrow> False | Some at \<Rightarrow> \<not> Before now at)"

fun fault_exec :: "fault_op \<Rightarrow> BatteryReader \<Rightarrow> BatteryReader" where
  "fault_exec (FaultSet f present now) r = setFault now f present r"
| "fault_exec (FaultSetTimer f now) r =
     (if timerDue now (SetTimer (fault_state f r)) then setTimerFired now f r else r)"
| "fault_exec (FaultResetTimer f now) r =
     (if timerDue now (ResetTimer (fault_state f r)) then resetTimerFired f r else r)"
| "fault_exec (FaultPublish now) r = sendStatusUpdate now r"
| "fault_exec (FaultFrame d) r = r\<lparr>rd_data := d\<rparr>"
| "fault_exec (FaultTagPresent b) r = r\<lparr>rd_inTagPresent := b\<rparr>"

definition fault_initial :: "BatteryReader \<Rightarrow> bool" where
  "fault_initial r \<longleftrightarrow> (\<exists>r0. r = initializeFaultManagement r0)"

lemma fault_initial_state: "fault_initial r \<Longrightarrow> fault_state f r = zeroFaultState"
  by (auto simp: fault_initial_def initializeFaultManagement_def fault_state_def)

lemma fault_exec_inv: "fault_inv r \<Longrightarrow> fault_inv (fault_exec c r)"
proof (cases c)
  case (FaultFrame d)
  moreover assume "fault_inv r"
  ultimately show ?thesis by (simp add: fault_inv_def fault_state_def)
next
  case (FaultTagPresent b)
  moreover assume "fault_inv r"
  ultimately show ?thesis by (simp add: fault_inv_def fault_state_def)
qed (auto simp: setFault_def setFaultLocked_def raiseFault_inv clearFault_inv sendStatus_inv timerDue_def
    intro: setTimerFired_inv resetTimerFired_inv split: option.split_asm)

lemma fault_initial_inv: "fault_initial r \<Longrightarrow> fault_inv r"
  by (simp add: fault_inv_def fault_initial_state fs_inv_def zeroFaultState_def)

interpretation flt: machine fault_initial fault_exec fault_inv
  by unfold_locales (simp_all add: fault_initial_inv fault_exec_inv)

text \<open>
  C34: Over every sequence of fault requests, expired timers, publications, frames and state
  machine changes, a pending flag goes with a stored timer and a debounce time, no fault waits
  in both directions, and only a present fault waits to be cleared.
\<close>

theorem fault_debounce_invariant:
  assumes "fault_initial r"
  shows "fault_inv (fold fault_exec cs r)"
  by (rule flt.inv_reachable) fact

lemma Present_clear: "fs_inv c s \<Longrightarrow> fs_Present (fs_clear now c s) \<Longrightarrow> fs_Present s"
  using cancelTimers_fields(1) [of c s] by (auto simp: fs_clear_def Let_def split: if_split_asm)

lemma Present_raise_debounced:
  "fs_inv c s \<Longrightarrow> DebounceTimeSet c > 0 \<Longrightarrow> fs_Present (fs_raise now c s) = fs_Present s"
  using cancelTimers_fields(1) [of c s] by (auto simp: fs_raise_def settled_def Let_def)

text \<open>
  A fault with a set debounce becomes present only when its own set timer has expired; no
  request, publication or activation of another fault makes it present.
\<close>

lemma debounced_fault_needs_timer:
  assumes inv: "fault_inv r" and c: "faultConfigs f = Some c" "DebounceTimeSet c > 0"
    and "\<not> fs_Present (fault_state f r)" "fs_Present (fault_state f (fault_exec op r))"
  shows "\<exists>now t. op = FaultSetTimer f now \<and> SetTimer (fault_state f r) = Some t \<and> \<not> Before now t"
proof -
  have act: "\<not> fs_Present (fault_state f (activateFaultLocked now g d r))" for now g d
    using fault_state_activate [of g r d f now] assms(4) by (simp add: same_fault_fields split: if_split_asm)
  have raise: "\<not> fs_Present (fault_state f (raiseFaultLocked now g r))" for now g
  proof (cases "faultConfigs g")
    case None
    then show ?thesis using assms(4) by (simp add: raiseFaultLocked_def)
  next
    case (Some d)
    show ?thesis
    proof (cases "g = f")
      case True
      then show ?thesis
        using fault_state_raise(1) [OF c(1), of now r] Present_raise_debounced [OF fault_invD [OF inv c(1)] c(2)] assms(4)
        by (simp add: same_fault_fields)
    next
      case False
      then show ?thesis
        using fault_state_raise(2) [OF Some, of f r now] assms(4) by (auto simp: same_fault_fields)
    qed
  qed
  have clear: "\<not> fs_Present (fault_state f (clearFaultLocked now g r))" for now g
    using assms(4) Present_clear [OF fault_invD [OF inv c(1)]] c(1)
    by (cases "faultConfigs g") (auto simp: fault_state_clear, simp add: clearFaultLocked_def)
  show ?thesis
  proof (cases op)
    case (FaultSet g b now)
    with assms(5) raise clear show ?thesis by (auto simp: setFault_def setFaultLocked_def split: if_split_asm)
  next
    case (FaultSetTimer g now)
    with assms(4,5) act show ?thesis
      by (auto simp: setTimerFired_def timerDue_def split: if_split_asm option.split_asm)
  next
    case (FaultResetTimer g now)
    with assms(4,5) show ?thesis
      by (auto simp: resetTimerFired_def deactivateFaultLocked_def split: if_split_asm)
  next
    case (FaultPublish now)
    with assms(4,5) fault_state_sendStatus [of f r now] show ?thesis by (simp add: same_fault_fields)
  qed (use assms(4,5) in \<open>simp_all add: fault_state_def\<close>)
qed

section \<open>Critical faults\<close>

lemma rd_data_frame [simp]:
  "rd_data (redisDo c r) = rd_data r" "rd_data (reportFault f b r) = rd_data r"
  "rd_data (upd_fault f g r) = rd_data r" "rd_data (sendStatusUpdate now r) = rd_data r"
proof -
  show "rd_data (redisDo c r) = rd_data r" "rd_data (reportFault f b r) = rd_data r" "rd_data (upd_fault f g r) = rd_data r"
    by (simp_all add: redisDo_def reportFault_def upd_fault_def)
  obtain x where "noteFrameFreshness now r = r\<lparr>rd_fresh := x\<rparr>" using noteFrameFreshness_frame by blast
  then show "rd_data (sendStatusUpdate now r) = rd_data r"
    by (simp add: sendStatusUpdate_def markPublished_def redisDo_def Let_def)
qed

text \<open>A status transaction that publishes the pack as not present.\<close>

definition publishes_absent :: "redis_cmd \<Rightarrow> bool" where
  "publishes_absent c \<longleftrightarrow>
     (\<exists>fields cmds. c = TxExec (HMSet fields # cmds) \<and> map_of fields ''present'' = Some ''false'' \<and>
        map_of fields ''sample:valid'' = Some ''false'' \<and> map_of fields ''charge'' = Some ''0'')"

lemma digit_zero: "char_of (48 :: nat) = CHR ''0''"
  by code_simp

lemma sendNotPresent_publishes: "\<exists>c \<in> set (rd_redis (sendNotPresent now r)). publishes_absent c"
proof -
  let ?z = "r\<lparr>rd_data := zeroBMSData\<rparr>"
  obtain x where x: "noteFrameFreshness now ?z = ?z\<lparr>rd_fresh := x\<rparr>" using noteFrameFreshness_frame by blast
  let ?c = "TxExec (HMSet (statusFields (?z\<lparr>rd_fresh := x\<rparr>)) #
     updateFaultSetInTransaction (?z\<lparr>rd_fresh := x\<rparr>) @ changedFields (?z\<lparr>rd_fresh := x\<rparr>))"
  have "?c \<in> set (rd_redis (sendNotPresent now r))"
    by (simp add: sendNotPresent_def sendStatusUpdate_def x redisDo_def markPublished_def Let_def)
  moreover have "publishes_absent ?c"
    by (simp add: publishes_absent_def statusFields_def energySampleFields_def zeroBMSData_def fmt_bool_def
        fmt_nat.simps [of 0] digit_zero Let_def)
  ultimately show ?thesis by blast
qed

lemma critical_activation:
  assumes "IsCritical c" "activates f r"
  shows "rd_data (activateFaultLocked now f c r) = zeroBMSData"
    "\<exists>x \<in> set (rd_redis (activateFaultLocked now f c r)). publishes_absent x"
    "\<exists>vs. XAddFault f vs \<in> set (rd_redis (activateFaultLocked now f c r))"
proof -
  let ?n = "sendNotPresent now (clearLesserFaultsLocked now f False r)"
  have a: "activateFaultLocked now f c r = reportFault f True ?n"
    using assms by (auto simp: activateFaultLocked_def activates_def)
  show "rd_data (activateFaultLocked now f c r) = zeroBMSData"
    by (simp add: a sendNotPresent_def)
  show "\<exists>x \<in> set (rd_redis (activateFaultLocked now f c r)). publishes_absent x"
    using sendNotPresent_publishes [of now "clearLesserFaultsLocked now f False r"]
    by (auto simp: a reportFault_def redisDo_def)
  show "\<exists>vs. XAddFault f vs \<in> set (rd_redis (activateFaultLocked now f c r))"
    by (auto simp: a reportFault_def redisDo_def)
qed

text \<open>
  Activating a critical fault zeroes the frame, publishes the pack as not present with an
  invalid sample, reports the fault, and clears every lesser fault at once unless its reset is
  debounced, in which case the clearing is pending.
\<close>

lemma critical_fault_reports_absent:
  assumes "fault_inv r" and "IsCritical c" and "activates f r"
  shows "rd_data (activateFaultLocked now f c r) = zeroBMSData \<and>
         (\<exists>x \<in> set (rd_redis (activateFaultLocked now f c r)). publishes_absent x) \<and>
         (\<exists>vs. XAddFault f vs \<in> set (rd_redis (activateFaultLocked now f c r))) \<and>
         (\<forall>g d. faultConfigs g = Some d \<and> g < f \<and> fs_Present (fault_state g (activateFaultLocked now f c r)) \<longrightarrow>
            DebounceTimeReset d > 0 \<and> PendingReset (fault_state g (activateFaultLocked now f c r)))"
proof (intro conjI allI impI critical_activation [OF assms(2,3)])
  fix g d assume g: "faultConfigs g = Some d \<and> g < f \<and> fs_Present (fault_state g (activateFaultLocked now f c r))"
  then have k: "g \<in> set faultKeys" using faultConfigs_keys by auto
  have cl: "same_fault (if fs_Present (fault_state g r) then fs_clear now d (fault_state g r) else fault_state g r)
      (fault_state g (activateFaultLocked now f c r))"
    using fault_state_activate [of f r c g now] assms(2,3) g k by auto
  have "fs_inv d (fault_state g r)" using fault_invD [OF assms(1)] g by blast
  with cl g cancelTimers_fields(1-3) [OF this] debounce_nonneg [of g d]
  show "DebounceTimeReset d > 0" "PendingReset (fault_state g (activateFaultLocked now f c r))"
    by (auto simp: same_fault_fields fs_clear_def settled_def Let_def split: if_split_asm)
qed

section \<open>Hardware fault bits\<close>

lemma hw_config:
  "b < 16 \<Longrightarrow> \<exists>c. faultConfigs (Suc b) = Some c \<and> DebounceTimeSet c = 0 \<and> DebounceTimeReset c = 0 \<and> (IsCritical c \<longleftrightarrow> b = 5)"
  by (auto simp: faultConfigs_def faultTable_def Let_def) presburger

lemma hw_set:
  assumes "fault_inv r" "b < 16" "present \<longrightarrow> b \<noteq> 5 \<or> fs_Present (fault_state 6 r)"
  shows "fs_Present (fault_state (Suc g) (setFault now (Suc b) present r)) =
         (if g = b then present else fs_Present (fault_state (Suc g) r))"
proof -
  obtain c where c: "faultConfigs (Suc b) = Some c" "DebounceTimeSet c = 0" "DebounceTimeReset c = 0" "IsCritical c \<longleftrightarrow> b = 5"
    using hw_config [OF assms(2)] by blast
  note inv = fault_invD [OF assms(1) c(1)]
  have nopend: "\<not> PendingSet (fault_state (Suc b) r)" "\<not> PendingReset (fault_state (Suc b) r)"
    using inv c by (auto simp: fs_inv_def)
  show ?thesis
  proof (cases present)
    case False
    then show ?thesis
      using cancelTimers_fields(1) [OF inv] c
      by (auto simp: setFault_def setFaultLocked_def fault_state_clear [OF c(1)] fs_clear_def settled_def Let_def)
  next
    case True
    show ?thesis
    proof (cases "g = b")
      case True
      with \<open>present\<close> fault_state_raise(1) [OF c(1), of now r] show ?thesis
        by (simp add: setFault_def setFaultLocked_def same_fault_fields fs_raise_def settled_def c Let_def)
    next
      case False
      consider "b \<noteq> 5" | "b = 5" "fs_Present (fault_state 6 r)" using assms(3) \<open>present\<close> by blast
      then show ?thesis
      proof cases
        case 1
        with False \<open>present\<close> fault_state_raise(2) [OF c(1), of "Suc g" r now] c show ?thesis
          by (auto simp: setFault_def setFaultLocked_def same_fault_fields)
      next
        case 2
        then have "settled (fault_state (Suc b) r) True" using nopend by (simp add: settled_def)
        with False \<open>present\<close> c show ?thesis
          by (simp add: setFault_def setFaultLocked_def raiseFaultLocked_def Let_def)
      qed
    qed
  qed
qed

lemma setFault_inv: "fault_inv r \<Longrightarrow> fault_inv (setFault now f b r)"
  by (simp add: setFault_def setFaultLocked_def raiseFault_inv clearFault_inv)

lemma hw_foldl:
  assumes "fault_inv r" "distinct bs" "set bs \<subseteq> {..<16}"
    and "bit n 5 \<longrightarrow> bit p 5 \<or> fs_Present (fault_state 6 r) \<or> 5 \<notin> set bs"
  shows "fs_Present (fault_state (Suc g)
           (foldl (\<lambda>r b. if bit n b \<noteq> bit p b then setFault now (b + 1) (bit n b) r else r) r bs)) =
         (if g \<in> set bs \<and> bit n g \<noteq> bit p g then bit n g else fs_Present (fault_state (Suc g) r))"
  using assms
proof (induction bs arbitrary: r)
  case (Cons b bs)
  let ?r = "if bit n b \<noteq> bit p b then setFault now (b + 1) (bit n b) r else r"
  have b: "b < 16" using Cons.prems by auto
  have inv: "fault_inv ?r" using Cons.prems(1) by (simp add: setFault_inv)
  have ok: "bit n b \<longrightarrow> b \<noteq> 5 \<or> fs_Present (fault_state 6 r)" if "bit n b \<noteq> bit p b"
    using Cons.prems(4) that by auto
  have st: "fs_Present (fault_state (Suc h) ?r) =
      (if h = b \<and> bit n b \<noteq> bit p b then bit n b else fs_Present (fault_state (Suc h) r))" for h
    using hw_set [OF Cons.prems(1) b, of "bit n b" h now] ok by auto
  have "bit n 5 \<longrightarrow> bit p 5 \<or> fs_Present (fault_state 6 ?r) \<or> 5 \<notin> set bs"
    using Cons.prems(2,4) st [of 5] by (auto simp: eval_nat_numeral)
  then have "fs_Present (fault_state (Suc g) (foldl (\<lambda>r b. if bit n b \<noteq> bit p b then setFault now (b + 1) (bit n b) r else r) ?r bs)) =
      (if g \<in> set bs \<and> bit n g \<noteq> bit p g then bit n g else fs_Present (fault_state (Suc g) ?r))"
    using Cons.prems inv by (intro Cons.IH) auto
  then show ?case using Cons.prems(2) st [of g] by auto
qed simp

text \<open>
  When the recorded hardware faults agree with the previous fault code and the fuse fault is
  not newly raised, then after a frame they agree with the new fault code, bit by bit.
\<close>

lemma hardware_faults_follow_bits:
  assumes "fault_inv r" and "\<forall>b < 16. fs_Present (fault_state (Suc b) r) \<longleftrightarrow> bit previousFaultCode b"
    and "bit faultCode 5 \<longrightarrow> bit previousFaultCode 5"
  shows "\<forall>b < 16. fs_Present (fault_state (Suc b) (parseHardwareFaults now faultCode previousFaultCode r)) \<longleftrightarrow>
                  bit faultCode b"
proof (intro allI impI)
  fix b :: nat assume "b < 16"
  moreover have "set [0..<16] \<subseteq> {..<16 :: nat}" by auto
  ultimately show "fs_Present (fault_state (Suc b) (parseHardwareFaults now faultCode previousFaultCode r)) \<longleftrightarrow> bit faultCode b"
    using assms(2,3) hw_foldl [OF assms(1), of "[0..<16]" faultCode previousFaultCode b now]
    unfolding parseHardwareFaults_def by (simp split: if_split_asm)
qed

section \<open>Two shortcomings of the communication fault\<close>

text \<open>
  Below are facts about the code as it is: a communication fault that is skipped because no tag is
  present is still recorded as present, so a later failure with a tag present does not activate it;
  and every successful operation restarts the ten seconds after which the fault would be cleared.
\<close>

lemma comms_config: "\<exists>c. faultConfigs BMSFaultBMSCommsError = Some c \<and> IsCritical c \<and>
    DebounceTimeSet c = 5 * Second \<and> DebounceTimeReset c = 10 * Second"
  by (simp add: faultConfigs_def faultTable_def BMSFault_defs Let_def)

lemma skipped_comms_fault_recorded:
  assumes "\<not> rd_inTagPresent r"
  shows "fs_Present (fault_state BMSFaultBMSCommsError (setTimerFired now BMSFaultBMSCommsError r)) \<and>
         rd_redis (setTimerFired now BMSFaultBMSCommsError r) = rd_redis r"
  using assms comms_config
  by (auto simp: setTimerFired_def activateFaultLocked_def upd_fault_def fault_state_def)

lemma recorded_comms_fault_not_activated:
  assumes "settled (fault_state BMSFaultBMSCommsError r) True"
  shows "rd_redis (setFault now BMSFaultBMSCommsError True r) = rd_redis r \<and>
         rd_data (setFault now BMSFaultBMSCommsError True r) = rd_data r"
  using assms comms_config
  by (auto simp: setFault_def setFaultLocked_def raiseFaultLocked_def upd_fault_def fault_state_def)

text \<open>A successful operation at \<open>now\<close>, with the reset timer fired first if it is due.\<close>

definition comms_poll :: "gotime \<Rightarrow> BatteryReader \<Rightarrow> BatteryReader" where
  "comms_poll now r = noteCommsSuccess now (fault_exec (FaultResetTimer BMSFaultBMSCommsError now) r)"

fun gaps_below :: "duration \<Rightarrow> gotime \<Rightarrow> gotime list \<Rightarrow> bool" where
  "gaps_below d t [] \<longleftrightarrow> True"
| "gaps_below d t (u # us) \<longleftrightarrow> Before u (AddDur t d) \<and> gaps_below d u us"

definition comms_clearing :: "gotime \<Rightarrow> BatteryReader \<Rightarrow> bool" where
  "comms_clearing t r \<longleftrightarrow>
     fault_inv r \<and> fs_Present (fault_state BMSFaultBMSCommsError r) \<and>
     ResetTimer (fault_state BMSFaultBMSCommsError r) = Some (AddDur t (10 * Second))"

lemma fault_state_count [simp]: "fault_state f (r\<lparr>rd_commsFaultCount := n\<rparr>) = fault_state f r"
  by (simp add: fault_state_def)

lemma comms_poll_clearing:
  assumes "comms_clearing t r" "Before u (AddDur t (10 * Second))"
  shows "comms_clearing u (comms_poll u r)"
proof -
  obtain c where c: "faultConfigs BMSFaultBMSCommsError = Some c" "DebounceTimeReset c = 10 * Second"
    using comms_config by blast
  have inv: "fault_inv (r\<lparr>rd_commsFaultCount := 0\<rparr>)"
    using assms(1) by (simp add: comms_clearing_def fault_inv_def)
  have "\<not> timerDue u (ResetTimer (fault_state BMSFaultBMSCommsError r))"
    using assms by (simp add: comms_clearing_def timerDue_def)
  then have p: "comms_poll u r = clearFaultLocked u BMSFaultBMSCommsError (r\<lparr>rd_commsFaultCount := 0\<rparr>)"
    by (simp add: comms_poll_def noteCommsSuccess_def setFault_def setFaultLocked_def)
  have s: "fs_inv c (fault_state BMSFaultBMSCommsError r)" "fs_Present (fault_state BMSFaultBMSCommsError r)"
    using assms(1) c by (auto simp: comms_clearing_def intro: fault_invD)
  then show ?thesis
    using clearFault_inv [OF inv, of u BMSFaultBMSCommsError] cancelTimers_fields(1) [OF s(1)] c
    by (simp add: comms_clearing_def p fault_state_clear [OF c(1)] fs_clear_def settled_def Let_def)
qed

theorem comms_fault_clears_only_after_silence:
  assumes "comms_clearing t r" "gaps_below (10 * Second) t us"
  shows "fs_Present (fault_state BMSFaultBMSCommsError (fold comms_poll us r))"
  using assms
proof (induction us arbitrary: t r)
  case Nil
  then show ?case by (simp add: comms_clearing_def)
next
  case (Cons u us)
  then show ?case using comms_poll_clearing [of t r u] by (auto intro: Cons.IH)
qed

end
