(* ===== verification/Status_Frame.thy ===== *)
theory Status_Frame
  imports Fault_Safety
begin

unbundle bit_operations_syntax

text \<open>
  Decoding the three status blocks of a pack (\<open>battery_status.go\<close>: \<open>parseStatusData\<close>, the
  guard for temperature sensors 0 and 1, and the temperature state).
\<close>

section \<open>Bytes\<close>

type_synonym byte = "8 word"

text \<open>\<open>uint(a) | uint(b)<<8\<close>, its 16 bit signed reading, and \<open>uint32\<close> from four bytes.\<close>

definition leUint :: "byte \<Rightarrow> byte \<Rightarrow> nat" where
  "leUint a b = unat ((ucast a :: 64 word) OR push_bit 8 (ucast b))"

definition leInt16 :: "byte \<Rightarrow> byte \<Rightarrow> int" where
  "leInt16 a b = sint ((ucast a :: 16 word) OR push_bit 8 (ucast b))"

definition leUint32 :: "byte \<Rightarrow> byte \<Rightarrow> byte \<Rightarrow> byte \<Rightarrow> 32 word" where
  "leUint32 a b c d =
     (ucast a OR push_bit 8 (ucast b)) OR push_bit 16 (ucast c) OR push_bit 24 (ucast d)"

definition byteChar :: "byte \<Rightarrow> char" where
  "byteChar b = char_of (unat b)"

text \<open>\<open>%c\<close> of a byte prints the code point in UTF-8, which takes two bytes from 128 on.\<close>

definition fmt_c :: "byte \<Rightarrow> string" where
  "fmt_c b =
     (let n = unat b
      in if n < 128 then [char_of n] else [char_of (192 + n div 64), char_of (128 + n mod 64)])"

section \<open>Sensors 0 and 1\<close>

definition sensors01Suspect :: "int \<Rightarrow> int \<Rightarrow> sensors01Sample \<Rightarrow> duration \<Rightarrow> bool" where
  "sensors01Suspect t0 t1 prev prevAge =
     (let atHot = (t0 = sensors01ExtremeHot \<and> t1 = sensors01ExtremeHot);
          atCold = (t0 = sensors01ExtremeCold \<and> t1 = sensors01ExtremeCold)
      in if \<not> atHot \<and> \<not> atCold then False
         else if \<not> s01_valid prev \<or> prevAge > sensors01PreviousMaxAge then True
         else if atHot
         then fst (s01_temperature prev) < sensors01HotCredibleFrom \<and>
              snd (s01_temperature prev) < sensors01HotCredibleFrom
         else fst (s01_temperature prev) > sensors01ColdCredibleTo \<and>
              snd (s01_temperature prev) > sensors01ColdCredibleTo)"

definition applySensors01Guard :: "gotime \<Rightarrow> BatteryReader \<Rightarrow> bool \<times> BatteryReader" where
  "applySensors01Guard now r =
     (let d = rd_data r; good = rd_lastGoodSensors01 r
      in if \<not> sensors01Suspect (Temperature d ! 0) (Temperature d ! 1) good (Sub now (rd_lastGoodSensors01Time r))
         then (True,
               r\<lparr>rd_lastGoodSensors01 :=
                    \<lparr>s01_valid = True, s01_temperature = (Temperature d ! 0, Temperature d ! 1),
                     s01_voltage = Voltage d, s01_current = Current d\<rparr>,
                  rd_lastGoodSensors01Time := now\<rparr>)
         else
           let r1 = r\<lparr>rd_sensors01Artifacts := Suc (rd_sensors01Artifacts r)\<rparr>
           in if \<not> s01_valid good then (False, r1)
              else (True,
                    r1\<lparr>rd_data :=
                        d\<lparr>Temperature := (Temperature d)[0 := fst (s01_temperature good), 1 := snd (s01_temperature good)],
                          Voltage := s01_voltage good, Current := s01_current good\<rparr>\<rparr>))"

section \<open>Temperature state\<close>

text \<open>The loop: the first channel out of range decides.\<close>

fun temperatureLoop :: "int list \<Rightarrow> BMSTemperatureState" where
  "temperatureLoop [] = BMSTemperatureStateIdeal"
| "temperatureLoop (t # ts) =
     (if t \<le> BMSTemperatureStateColdLimit then BMSTemperatureStateCold
      else if t \<ge> BMSTemperatureStateHotLimit then BMSTemperatureStateHot
      else temperatureLoop ts)"

definition updateTemperatureState :: "bool \<Rightarrow> BatteryReader \<Rightarrow> BatteryReader" where
  "updateTemperatureState useSensors01 r =
     (let d = rd_data r; channels = (if \<not> useSensors01 then drop 2 (Temperature d) else Temperature d)
      in r\<lparr>rd_data := d\<lparr>TemperatureState :=
              (if Temperature d = [] then BMSTemperatureStateUnknown else temperatureLoop channels)\<rparr>\<rparr>)"

section \<open>Decoding\<close>

definition chargeOf :: "nat \<Rightarrow> nat \<Rightarrow> nat" where
  "chargeOf remaining full = (if full = 0 then 0 else (remaining * 100 + full div 2) div full)"

text \<open>The three blocks; a block shorter than 16 bytes leaves its fields as they are.\<close>

definition parseStatus0 :: "byte list \<Rightarrow> BMSData \<Rightarrow> BMSData" where
  "parseStatus0 s d =
     (if length s \<ge> 16
      then d\<lparr>Voltage := leUint (s ! 0) (s ! 1),
             Current := leInt16 (s ! 2) (s ! 3),
             FwVersion := fmt_nat (unat (s ! 4)) @ ''.'' @ fmt_nat (unat (s ! 5)),
             RemainingCapacity := leUint (s ! 6) (s ! 7),
             FullCapacity := leUint (s ! 8) (s ! 9),
             Charge := chargeOf (leUint (s ! 6) (s ! 7)) (leUint (s ! 8) (s ! 9)),
             FaultCode := leUint (s ! 10) (s ! 11),
             Temperature := (Temperature d)[0 := sint (s ! 12), 1 := sint (s ! 13)],
             StateOfHealth := unat (s ! 14),
             LowSOC := (s ! 15 \<noteq> 0)\<rparr>
      else d)"

definition parseStatus1 :: "byte list \<Rightarrow> BMSData \<Rightarrow> BMSData" where
  "parseStatus1 s d =
     (if length s \<ge> 16
      then d\<lparr>State := leUint32 (s ! 0) (s ! 1) (s ! 2) (s ! 3),
             SerialNumber := map byteChar (take 12 (drop 4 s))\<rparr>
      else d)"

definition parseStatus2 :: "byte list \<Rightarrow> BMSData \<Rightarrow> BMSData" where
  "parseStatus2 s d =
     (if length s \<ge> 16
      then d\<lparr>SerialNumber :=
               (if length (SerialNumber d) \<ge> 12 then SerialNumber d @ map byteChar (take 4 s)
                else SerialNumber d),
             ManufacturingDate :=
               concat (map fmt_c (take 4 (drop 4 s))) @ ''-'' @ concat (map fmt_c (take 2 (drop 8 s))) @
               ''-'' @ concat (map fmt_c (take 2 (drop 10 s))),
             CycleCount := leUint (s ! 12) (s ! 13),
             Temperature := (Temperature d)[2 := sint (s ! 14), 3 := sint (s ! 15)]\<rparr>
      else d)"

definition noStatusData :: "byte list \<Rightarrow> byte list \<Rightarrow> byte list \<Rightarrow> bool" where
  "noStatusData s0 s1 s2 \<longleftrightarrow>
     s0 = [] \<or> s1 = [] \<or> s2 = [] \<or> list_all (\<lambda>b. b = 0) (s0 @ s1 @ s2)"

definition upd_data :: "(BMSData \<Rightarrow> BMSData) \<Rightarrow> BatteryReader \<Rightarrow> BatteryReader" where
  "upd_data f r = r\<lparr>rd_data := f (rd_data r)\<rparr>"

definition parseStatusData ::
  "gotime \<Rightarrow> byte list \<Rightarrow> byte list \<Rightarrow> byte list \<Rightarrow> BatteryReader \<Rightarrow> bool \<times> BatteryReader" where
  "parseStatusData now s0 s1 s2 r =
     (if noStatusData s0 s1 s2
      then (False,
            setFault now BMSFaultBMSZeroData True
              (upd_data (\<lambda>d. d\<lparr>EmptyOr0Data := Suc (EmptyOr0Data d)\<rparr>) r))
      else
        let r1 = setFault now BMSFaultBMSZeroData False
                   (upd_data (\<lambda>d. d\<lparr>Present := True, EmptyOr0Data := 0\<rparr>) r);
            r2 = upd_data (parseStatus2 s2 \<circ> parseStatus1 s1 \<circ> parseStatus0 s0) r1;
            r3 = (case applySensors01Guard now r2 of (use, r') \<Rightarrow> updateTemperatureState use r')
        in (True, updateFaultsFromBatteryData now r3))"

end
