(* ===== verification/Status_Safety.thy ===== *)
theory Status_Safety
  imports Status_Frame
begin

text \<open>
  What decoding guarantees: little-endian numbers and whole frames round trip, the charge is the
  nearest percentage, the temperature state is decided by the first channel out of range, isolated
  extremes of sensors 0 and 1 are filtered, and missing data is reported.
\<close>

unbundle bit_operations_syntax

section \<open>Little-endian numbers\<close>

lemma bit_unat_byte: "bit (unat (a :: byte)) n \<longleftrightarrow> n < 8 \<and> bit a n"
  by (auto simp: bit_unsigned_iff dest: bit_imp_le_length)

lemma byte_or_shift: "unat (a :: byte) OR push_bit 8 m = unat a + 256 * m"
proof -
  have "unat a + push_bit 8 m = unat a OR push_bit 8 m"
    by (rule disjunctive_add) (auto simp: bit_unat_byte bit_push_bit_iff)
  then show ?thesis by (simp add: push_bit_eq_mult)
qed

lemma unat_byte_less: "unat (a :: byte) < 256"
  using unsigned_less [of a] by simp

lemma unat_ucast_byte: "unat (ucast a :: 64 word) = unat (a :: byte)"
  using unat_byte_less [of a] by (simp add: unsigned_ucast_eq take_bit_nat_eq_self)

lemma leUint_eq: "leUint a b = unat a + 256 * unat b"
proof -
  have "unat b * 256 < 2 ^ 64" using unat_byte_less [of b] by simp
  then have "unat (push_bit 8 (ucast b :: 64 word)) = push_bit 8 (unat b)"
    by (simp only: unsigned_push_bit_eq unat_ucast_byte) (simp add: push_bit_eq_mult take_bit_nat_eq_self)
  then show ?thesis
    by (simp add: leUint_def unsigned_or_eq unat_ucast_byte byte_or_shift)
qed

lemma leUint_bound: "leUint a b < 65536"
  using unat_byte_less [of a] unat_byte_less [of b] by (simp add: leUint_eq)

text \<open>The inverse: the low and high byte of a 16 bit value, and the four bytes of a 32 bit one.\<close>

definition lo8 :: "'a::len word \<Rightarrow> byte" where "lo8 w = ucast w"
definition hi8 :: "'a::len word \<Rightarrow> byte" where "hi8 w = ucast (drop_bit 8 w)"

lemma le16_word: "(ucast (lo8 w) :: 16 word) OR push_bit 8 (ucast (hi8 w)) = w" for w :: "16 word"
  by (rule bit_word_eqI) (auto simp: lo8_def hi8_def bit_simps)

lemma leInt16_bytes: "leInt16 (lo8 w) (hi8 w) = sint w" for w :: "16 word"
  by (simp add: leInt16_def le16_word)

lemma leUint_bytes: "leUint (lo8 w) (hi8 w) = unat w" for w :: "16 word"
proof -
  have "(ucast (lo8 w) :: 64 word) OR push_bit 8 (ucast (hi8 w)) = ucast w"
    by (rule bit_word_eqI) (auto simp: lo8_def hi8_def bit_simps dest: bit_imp_le_length)
  moreover have "unat (ucast w :: 64 word) = unat w"
  proof -
    have "unat w < 65536" using unsigned_less [of w] by simp
    then show ?thesis by (simp add: unsigned_ucast_eq take_bit_nat_eq_self)
  qed
  ultimately show ?thesis by (simp add: leUint_def)
qed

lemma leUint32_bytes:
  "leUint32 (ucast w) (ucast (drop_bit 8 w)) (ucast (drop_bit 16 w)) (ucast (drop_bit 24 w)) = w" for w :: "32 word"
proof (rule bit_word_eqI)
  fix n assume "n < LENGTH(32)"
  then consider "n < 8" | "8 \<le> n" "n < 16" | "16 \<le> n" "n < 24" | "24 \<le> n" "n < 32" by fastforce
  then show "bit (leUint32 (ucast w) (ucast (drop_bit 8 w)) (ucast (drop_bit 16 w)) (ucast (drop_bit 24 w))) n = bit w n"
    by cases (auto simp: leUint32_def bit_simps)
qed

section \<open>Temperature state\<close>

text \<open>
  The temperature state is decided by the first channel at or below the cold limit or at or
  above the hot limit, and is ideal exactly when every channel lies strictly between the limits.
\<close>

lemma temperature_state_spec:
  "temperatureLoop ts =
     (case find (\<lambda>t. t \<le> BMSTemperatureStateColdLimit \<or> t \<ge> BMSTemperatureStateHotLimit) ts of
        None \<Rightarrow> BMSTemperatureStateIdeal
      | Some t \<Rightarrow> if t \<le> BMSTemperatureStateColdLimit then BMSTemperatureStateCold else BMSTemperatureStateHot) \<and>
   (temperatureLoop ts = BMSTemperatureStateIdeal \<longleftrightarrow>
      (\<forall>t \<in> set ts. BMSTemperatureStateColdLimit < t \<and> t < BMSTemperatureStateHotLimit))"
  by (induction ts) auto

section \<open>Charge\<close>

text \<open>
  The reported charge is the remaining capacity rounded to the nearest whole percentage of
  the full capacity, and never more than 100 unless the pack reports more remaining than full.
\<close>

lemma charge_rounds:
  assumes "0 < full"
  shows "\<bar>2 * (int (chargeOf remaining full) * int full - 100 * int remaining)\<bar> \<le> int full \<and>
         (remaining \<le> full \<longrightarrow> chargeOf remaining full \<le> 100)"
proof -
  let ?n = "remaining * 100 + full div 2"
  have e: "chargeOf remaining full * full + ?n mod full = ?n"
    using assms by (simp add: chargeOf_def)
  have "?n mod full < full" using assms by simp
  moreover have "2 * (full div 2) \<le> full" "full \<le> 2 * (full div 2) + 1" by auto
  ultimately have "2 * (chargeOf remaining full * full) \<le> 2 * (remaining * 100) + full"
    "2 * (remaining * 100) \<le> 2 * (chargeOf remaining full * full) + full"
    using e by linarith+
  then have "int (2 * (chargeOf remaining full * full)) \<le> int (2 * (remaining * 100) + full)"
    "int (2 * (remaining * 100)) \<le> int (2 * (chargeOf remaining full * full) + full)"
    by (simp_all only: of_nat_le_iff)
  then have "\<bar>2 * (int (chargeOf remaining full * full) - int (remaining * 100))\<bar> \<le> int full"
    by (simp add: abs_le_iff)
  moreover have "chargeOf remaining full \<le> 100" if "remaining \<le> full"
  proof -
    have "?n < 101 * full" using that assms by linarith
    then have "?n div full < 101" using assms by (simp add: less_mult_imp_div_less)
    then show ?thesis using assms by (simp add: chargeOf_def)
  qed
  ultimately show ?thesis by (simp add: mult.commute)
qed

section \<open>Decoding an encoded frame\<close>

text \<open>What a pack writes into its three blocks.\<close>

record pack_image =
  im_voltage :: "16 word"
  im_current :: "16 word"
  im_fw :: "byte \<times> byte"
  im_remaining :: "16 word"
  im_full :: "16 word"
  im_faults :: "16 word"
  im_temps :: "byte \<times> byte \<times> byte \<times> byte"
  im_soh :: byte
  im_lowsoc :: bool
  im_state :: "32 word"
  im_serial :: "byte list"
  im_date :: "byte list"
  im_cycles :: "16 word"

definition encode0 :: "pack_image \<Rightarrow> byte list" where
  "encode0 p =
     [lo8 (im_voltage p), hi8 (im_voltage p), lo8 (im_current p), hi8 (im_current p),
      fst (im_fw p), snd (im_fw p), lo8 (im_remaining p), hi8 (im_remaining p), lo8 (im_full p), hi8 (im_full p),
      lo8 (im_faults p), hi8 (im_faults p), fst (im_temps p), fst (snd (im_temps p)), im_soh p,
      if im_lowsoc p then 1 else 0]"

definition encode1 :: "pack_image \<Rightarrow> byte list" where
  "encode1 p =
     [ucast (im_state p), ucast (drop_bit 8 (im_state p)), ucast (drop_bit 16 (im_state p)), ucast (drop_bit 24 (im_state p))] @
     take 12 (im_serial p)"

definition encode2 :: "pack_image \<Rightarrow> byte list" where
  "encode2 p = drop 12 (im_serial p) @ im_date p @
     [lo8 (im_cycles p), hi8 (im_cycles p), fst (snd (snd (im_temps p))), snd (snd (snd (im_temps p)))]"

lemma list4: "length xs = 4 \<Longrightarrow> \<exists>a b c d. xs = [a, b, c, d]"
  by (auto simp: length_Suc_conv eval_nat_numeral)

lemma nth_encode2:
  assumes "length (im_serial p) = 16" "length (im_date p) = 8"
  shows "encode2 p ! 12 = lo8 (im_cycles p)" "encode2 p ! 13 = hi8 (im_cycles p)"
    "encode2 p ! 14 = fst (snd (snd (im_temps p)))" "encode2 p ! 15 = snd (snd (snd (im_temps p)))"
    "take 4 (encode2 p) = drop 12 (im_serial p)" "take 4 (drop 4 (encode2 p)) = take 4 (im_date p)"
    "take 2 (drop 8 (encode2 p)) = take 2 (drop 4 (im_date p))" "take 2 (drop 10 (encode2 p)) = drop 6 (im_date p)"
  using assms by (simp_all add: encode2_def nth_append)

text \<open>
  C36: Decoding the three blocks a pack writes recovers every field it encoded: voltage, signed
  current, firmware, capacities, fault code, the four signed temperatures, health, low-SOC flag,
  state, the 16 byte serial number, date and cycle count.
\<close>

theorem status_roundtrip:
  assumes "length (im_serial p) = 16" "length (im_date p) = 8" "length (Temperature d) = 4"
  shows "parseStatus2 (encode2 p) (parseStatus1 (encode1 p) (parseStatus0 (encode0 p) d)) =
    d\<lparr>Voltage := unat (im_voltage p), Current := sint (im_current p),
      FwVersion := fmt_nat (unat (fst (im_fw p))) @ ''.'' @ fmt_nat (unat (snd (im_fw p))),
      RemainingCapacity := unat (im_remaining p), FullCapacity := unat (im_full p),
      Charge := chargeOf (unat (im_remaining p)) (unat (im_full p)), FaultCode := unat (im_faults p),
      Temperature := [sint (fst (im_temps p)), sint (fst (snd (im_temps p))),
                      sint (fst (snd (snd (im_temps p)))), sint (snd (snd (snd (im_temps p))))],
      StateOfHealth := unat (im_soh p), LowSOC := im_lowsoc p, State := im_state p,
      SerialNumber := map byteChar (im_serial p),
      ManufacturingDate := concat (map fmt_c (take 4 (im_date p))) @ ''-'' @
        concat (map fmt_c (take 2 (drop 4 (im_date p)))) @ ''-'' @ concat (map fmt_c (drop 6 (im_date p))),
      CycleCount := unat (im_cycles p)\<rparr>"
proof -
  obtain t0 t1 t2 t3 where t: "Temperature d = [t0, t1, t2, t3]" using list4 [OF assms(3)] by blast
  let ?d0 = "parseStatus0 (encode0 p) d"
  have d0: "?d0 = d\<lparr>Voltage := unat (im_voltage p), Current := sint (im_current p),
      FwVersion := fmt_nat (unat (fst (im_fw p))) @ ''.'' @ fmt_nat (unat (snd (im_fw p))),
      RemainingCapacity := unat (im_remaining p), FullCapacity := unat (im_full p),
      Charge := chargeOf (unat (im_remaining p)) (unat (im_full p)), FaultCode := unat (im_faults p),
      Temperature := [sint (fst (im_temps p)), sint (fst (snd (im_temps p))), t2, t3],
      StateOfHealth := unat (im_soh p), LowSOC := im_lowsoc p\<rparr>"
    by (simp add: parseStatus0_def encode0_def leUint_bytes leInt16_bytes t)
  have d1: "parseStatus1 (encode1 p) x = x\<lparr>State := im_state p, SerialNumber := map byteChar (take 12 (im_serial p))\<rparr>" for x
    using assms(1) by (simp add: parseStatus1_def encode1_def leUint32_bytes)
  have serial: "map byteChar (take 12 (im_serial p)) @ map byteChar (drop 12 (im_serial p)) = map byteChar (im_serial p)"
    by (simp flip: map_append)
  have "length (encode2 p) = 16" using assms by (simp add: encode2_def)
  then show ?thesis
    using assms by (simp add: d1 d0 parseStatus2_def nth_encode2 leUint_bytes serial)
qed

section \<open>The sensor guard\<close>

text \<open>Readings of sensors 0 and 1 away from both extremes, and the artifact's signature.\<close>

definition calm :: "int \<times> int \<Rightarrow> bool" where
  "calm t \<longleftrightarrow> sensors01ColdCredibleTo < fst t \<and> fst t < sensors01HotCredibleFrom \<and>
              sensors01ColdCredibleTo < snd t \<and> snd t < sensors01HotCredibleFrom"

definition pegged :: "int \<times> int \<Rightarrow> bool" where
  "pegged t \<longleftrightarrow> t = (sensors01ExtremeHot, sensors01ExtremeHot) \<or> t = (sensors01ExtremeCold, sensors01ExtremeCold)"

definition temps01 :: "BMSData \<Rightarrow> int \<times> int" where
  "temps01 d = (Temperature d ! 0, Temperature d ! 1)"

text \<open>A frame arriving at \<open>now\<close> and passing the guard.\<close>

definition guard_frame :: "BatteryReader \<Rightarrow> gotime \<times> BMSData \<Rightarrow> BatteryReader" where
  "guard_frame r x = snd (applySensors01Guard (fst x) (r\<lparr>rd_data := snd x\<rparr>))"

definition guarded :: "BatteryReader \<Rightarrow> bool" where
  "guarded r \<longleftrightarrow> s01_valid (rd_lastGoodSensors01 r) \<and> calm (s01_temperature (rd_lastGoodSensors01 r)) \<and>
     calm (temps01 (rd_data r))"

lemma guard_frame_calm:
  assumes "s01_valid (rd_lastGoodSensors01 r)" "calm (s01_temperature (rd_lastGoodSensors01 r))"
    and "calm (temps01 (snd x)) \<or> pegged (temps01 (snd x))" "length (Temperature (snd x)) = 4"
  shows "guarded (guard_frame r x) \<and>
    (pegged (temps01 (snd x)) \<longrightarrow>
       Voltage (rd_data (guard_frame r x)) = s01_voltage (rd_lastGoodSensors01 r) \<and>
       Current (rd_data (guard_frame r x)) = s01_current (rd_lastGoodSensors01 r) \<and>
       rd_lastGoodSensors01 (guard_frame r x) = rd_lastGoodSensors01 r)"
proof -
  obtain a b c d where t: "Temperature (snd x) = [a, b, c, d]" using list4 [OF assms(4)] by blast
  have pc: "\<not> (calm p \<and> pegged p)" for p by (auto simp: calm_def pegged_def const_defs)
  have "sensors01Suspect a b (rd_lastGoodSensors01 r) age \<longleftrightarrow> pegged (a, b)" for age
    using assms(1,2) by (auto simp: sensors01Suspect_def pegged_def calm_def const_defs Let_def)
  then show ?thesis
    using assms pc [of "(a, b)"] t
    by (auto simp: guard_frame_def applySensors01Guard_def guarded_def temps01_def Let_def)
qed

text \<open>
  C39: From a credible reference, no sequence of frames whose sensors 0 and 1 are either in the
  credible range or both pegged at an extreme ever lets the extreme through to the decoded data
  or into the reference sample.
\<close>

theorem sensors01_artifacts_filtered:
  assumes "guarded r"
    and "\<forall>x \<in> set xs. (calm (temps01 (snd x)) \<or> pegged (temps01 (snd x))) \<and> length (Temperature (snd x)) = 4"
  shows "calm (temps01 (rd_data (foldl guard_frame r xs))) \<and>
         calm (s01_temperature (rd_lastGoodSensors01 (foldl guard_frame r xs)))"
proof -
  have "guarded (foldl guard_frame r xs)"
    using assms
  proof (induction xs arbitrary: r)
    case (Cons x xs)
    then show ?case using guard_frame_calm [of r x] by (auto simp: guarded_def)
  qed simp
  then show ?thesis by (simp add: guarded_def)
qed

section \<open>Zero data and republication\<close>

lemma zero_config: "\<exists>c. faultConfigs BMSFaultBMSZeroData = Some c \<and> IsCritical c \<and>
    DebounceTimeSet c = 0 \<and> DebounceTimeReset c = 0"
  by (simp add: faultConfigs_def faultTable_def BMSFault_defs Let_def)

lemma fault_state_data [simp]: "fault_state f (upd_data g r) = fault_state f r"
  by (simp add: fault_state_def upd_data_def)

lemma fault_inv_data [simp]: "fault_inv (upd_data g r) = fault_inv r"
  by (simp add: fault_inv_def)

text \<open>Raising an undebounced critical fault that is not present yet.\<close>

lemma raise_critical:
  assumes "fault_inv r" "faultConfigs f = Some c" "IsCritical c" "DebounceTimeSet c = 0"
    and "f \<noteq> BMSFaultBMSCommsError" "\<not> fs_Present (fault_state f r)"
  shows "rd_data (setFault now f True r) = zeroBMSData"
    "\<exists>x \<in> set (rd_redis (setFault now f True r)). publishes_absent x"
proof -
  let ?r = "upd_fault f cancelTimers (upd_fault f (\<lambda>s. s) r)"
  have "activates f ?r" using assms(5) by (simp add: activates_def)
  moreover have e: "setFault now f True r = upd_fault f (\<lambda>s. s\<lparr>fs_Present := True\<rparr>) (activateFaultLocked now f c ?r)"
    using assms by (simp add: setFault_def setFaultLocked_def raiseFaultLocked_def settled_def)
  ultimately show "rd_data (setFault now f True r) = zeroBMSData"
    "\<exists>x \<in> set (rd_redis (setFault now f True r)). publishes_absent x"
    using critical_activation [OF assms(3), of f ?r now] by (simp_all add: e upd_fault_def)
qed

text \<open>
  Empty or all-zero blocks are rejected, leave the zero-data fault present, and when it was
  not present before zero the frame and publish the pack as not present.
\<close>

lemma zero_data_reported:
  assumes "fault_inv r" and "noStatusData s0 s1 s2"
  shows "\<not> fst (parseStatusData now s0 s1 s2 r) \<and>
         fs_Present (fault_state BMSFaultBMSZeroData (snd (parseStatusData now s0 s1 s2 r))) \<and>
         (\<not> fs_Present (fault_state BMSFaultBMSZeroData r) \<longrightarrow>
            rd_data (snd (parseStatusData now s0 s1 s2 r)) = zeroBMSData \<and>
            (\<exists>x \<in> set (rd_redis (snd (parseStatusData now s0 s1 s2 r))). publishes_absent x))"
proof -
  let ?r = "upd_data (\<lambda>d. d\<lparr>EmptyOr0Data := Suc (EmptyOr0Data d)\<rparr>) r"
  obtain c where c: "faultConfigs BMSFaultBMSZeroData = Some c" "IsCritical c" "DebounceTimeSet c = 0"
    using zero_config by blast
  have "fs_Present (fault_state BMSFaultBMSZeroData (setFault now BMSFaultBMSZeroData True ?r))"
    using fault_state_raise(1) [OF c(1), of now ?r] c(3)
    by (auto simp: setFault_def setFaultLocked_def same_fault_fields fs_raise_def settled_def Let_def)
  moreover have "BMSFaultBMSZeroData \<noteq> BMSFaultBMSCommsError" by (simp add: BMSFault_defs)
  ultimately show ?thesis
    using assms raise_critical [of ?r BMSFaultBMSZeroData c now] c
    by (simp add: parseStatusData_def)
qed

text \<open>
  The fuse fault is only acted upon when it is first recorded: while it stays recorded, the next
  complete frame with its bit set makes the reader's data present again.
\<close>

lemma clearFault_data [simp]: "rd_data (clearFaultLocked now f r) = rd_data r"
  by (simp add: clearFaultLocked_def deactivateFaultLocked_def Let_def split: option.split)

lemma hw_data:
  assumes "fault_inv r" "b < 16" "present \<longrightarrow> b \<noteq> 5 \<or> fs_Present (fault_state 6 r)"
  shows "rd_data (setFault now (Suc b) present r) = rd_data r"
proof -
  obtain c where c: "faultConfigs (Suc b) = Some c" "DebounceTimeSet c = 0" "DebounceTimeReset c = 0" "IsCritical c \<longleftrightarrow> b = 5"
    using hw_config [OF assms(2)] by blast
  have "settled (fault_state (Suc b) r) True" if "b = 5" "present"
    using fault_invD [OF assms(1) c(1)] that assms(3) c by (auto simp: settled_def fs_inv_def)
  with c show ?thesis
    by (auto simp: setFault_def setFaultLocked_def raiseFaultLocked_def activateFaultLocked_def Let_def)
qed

lemma hw_foldl_data:
  assumes "fault_inv r" "set bs \<subseteq> {..<16}" "fs_Present (fault_state 6 r)" "bit n 5"
  shows "rd_data (foldl (\<lambda>r b. if bit n b \<noteq> bit p b then setFault now (b + 1) (bit n b) r else r) r bs) = rd_data r"
  using assms
proof (induction bs arbitrary: r)
  case (Cons b bs)
  let ?r = "if bit n b \<noteq> bit p b then setFault now (b + 1) (bit n b) r else r"
  have b: "b < 16" using Cons.prems by auto
  have six: "fault_state (Suc 5) x = fault_state 6 x" for x by simp
  note hw_set [OF Cons.prems(1) b, of "bit n b" 5 now, unfolded six]
  then have "fs_Present (fault_state 6 ?r)"
    using Cons.prems(3,4) by (auto split: if_split_asm)
  moreover have "fault_inv ?r" using Cons.prems(1) by (simp add: setFault_inv)
  moreover have "rd_data ?r = rd_data r"
    using hw_data [OF Cons.prems(1) b, of "bit n b" now] Cons.prems(3) by auto
  ultimately show ?case using Cons.IH [of ?r] Cons.prems by simp
qed simp

lemma guard_keeps:
  "Present (rd_data (snd (applySensors01Guard now r))) = Present (rd_data r)"
  "FaultCode (rd_data (snd (applySensors01Guard now r))) = FaultCode (rd_data r)"
  "EmptyOr0Data (rd_data (snd (applySensors01Guard now r))) = EmptyOr0Data (rd_data r)"
  "fault_state f (snd (applySensors01Guard now r)) = fault_state f r"
  by (simp_all add: applySensors01Guard_def fault_state_def Let_def)

lemma temperature_keeps:
  "Present (rd_data (updateTemperatureState u r)) = Present (rd_data r)"
  "FaultCode (rd_data (updateTemperatureState u r)) = FaultCode (rd_data r)"
  "EmptyOr0Data (rd_data (updateTemperatureState u r)) = EmptyOr0Data (rd_data r)"
  "fault_state f (updateTemperatureState u r) = fault_state f r"
  by (simp_all add: updateTemperatureState_def fault_state_def Let_def)

lemma parse_keeps:
  "Present (parseStatus2 s2 (parseStatus1 s1 (parseStatus0 s0 d))) = Present d"
  "EmptyOr0Data (parseStatus2 s2 (parseStatus1 s1 (parseStatus0 s0 d))) = EmptyOr0Data d"
  "length s0 \<ge> 16 \<Longrightarrow> FaultCode (parseStatus2 s2 (parseStatus1 s1 (parseStatus0 s0 d))) = leUint (s0 ! 10) (s0 ! 11)"
  by (simp_all add: parseStatus0_def parseStatus1_def parseStatus2_def)

lemma fuse_fault_republished:
  assumes inv: "fault_inv r" and fuse: "fs_Present (fault_state BMSFaultSecondLvlOverTemp r)"
    and "\<not> noStatusData s0 s1 s2" "length s0 \<ge> 16" "bit (leUint (s0 ! 10) (s0 ! 11)) 5"
  shows "fst (parseStatusData now s0 s1 s2 r) \<and> Present (rd_data (snd (parseStatusData now s0 s1 s2 r)))"
proof -
  let ?r1 = "setFault now BMSFaultBMSZeroData False (upd_data (\<lambda>d. d\<lparr>Present := True, EmptyOr0Data := 0\<rparr>) r)"
  let ?r2 = "upd_data (parseStatus2 s2 \<circ> parseStatus1 s1 \<circ> parseStatus0 s0) ?r1"
  let ?r3 = "updateTemperatureState (fst (applySensors01Guard now ?r2)) (snd (applySensors01Guard now ?r2))"
  obtain c where c: "faultConfigs BMSFaultBMSZeroData = Some c" using zero_config by blast
  have f1: "fault_inv ?r1" using inv by (intro setFault_inv) simp
  have "fs_Present (fault_state 6 ?r1)"
    using fuse fault_state_clear [OF c, of 6 now] by (simp add: setFault_def setFaultLocked_def BMSFault_defs)
  then have f3: "fault_inv ?r3" "fs_Present (fault_state 6 ?r3)"
    using f1 by (simp_all add: fault_inv_def guard_keeps temperature_keeps)
  have d1: "Present (rd_data ?r1)" "EmptyOr0Data (rd_data ?r1) = 0"
    by (simp_all add: setFault_def setFaultLocked_def upd_data_def)
  then have d3: "Present (rd_data ?r3)" "EmptyOr0Data (rd_data ?r3) = 0"
      "FaultCode (rd_data ?r3) = leUint (s0 ! 10) (s0 ! 11)"
    using assms(4) by (simp_all add: guard_keeps temperature_keeps upd_data_def parse_keeps)
  have "set [0..<16] \<subseteq> {..<16 :: nat}" by auto
  with f3 assms(5) d3(3)
  have "rd_data (parseHardwareFaults now (FaultCode (rd_data ?r3)) (FaultCode (rd_previousData ?r3)) ?r3) = rd_data ?r3"
    unfolding parseHardwareFaults_def by (intro hw_foldl_data) simp_all
  with d3 assms(3) show ?thesis
    by (simp add: parseStatusData_def updateFaultsFromBatteryData_def case_prod_beta setFault_def setFaultLocked_def Let_def)
qed

end
