(* ===== verification/Nfc.thy ===== *)
theory Nfc
  imports Status_Safety
begin

text \<open>
  NFC operations (\<open>nfc_operations.go\<close>, \<open>admission_reader.go\<close>, \<open>discovery.go\<close>,
  \<open>handleDeparture\<close>, and the suspend inhibitor calls of \<open>battery_commands.go\<close>). The
  controller, the inhibitor socket and the clock are parameters: a record of functions on an
  arbitrary environment state. While such a call is in progress the other goroutines may use the
  guard, so each call also yields the guard operations that happened meanwhile.
\<close>

section \<open>The environment\<close>

text \<open>
  What the sources ask of an error: the answers of \<open>errors.As(err, *TagDepartedError)\<close> (with the
  message of the departed error) and of the predicates of the controller library.
\<close>

record nfc_error =
  err_text :: string
  err_departed :: "string option"
  err_hal :: bool
  err_multiple :: bool
  err_busy :: bool

datatype DiscoveryKind = DiscoveryPending | DiscoveryQuiet | DiscoveryTags | DiscoveryOther

record DiscoveryResult =
  disc_Kind :: DiscoveryKind
  disc_Tags :: "string list"

record 'h hal_ops =
  hal_StartDiscovery :: "nat \<Rightarrow> 'h \<Rightarrow> nfc_error option \<times> 'h"
  hal_StopDiscovery :: "'h \<Rightarrow> nfc_error option \<times> 'h"
  hal_FullReinitialize :: "'h \<Rightarrow> nfc_error option \<times> 'h"
  hal_PollDiscovery :: "'h \<Rightarrow> (nfc_error + DiscoveryResult) \<times> 'h"
  hal_ReadBinary :: "nat \<Rightarrow> 'h \<Rightarrow> (nfc_error + byte list) \<times> 'h"
  hal_WriteBinary :: "nat \<Rightarrow> byte list \<Rightarrow> 'h \<Rightarrow> nfc_error option \<times> 'h"
  hal_SelectTag :: "nat \<Rightarrow> 'h \<Rightarrow> nfc_error option \<times> 'h"
  hal_Initialize :: "'h \<Rightarrow> nfc_error option \<times> 'h"
  hal_Deinitialize :: "'h \<Rightarrow> unit \<times> 'h"
  hal_Inhibit :: "'h \<Rightarrow> bool \<times> 'h"
  hal_Now :: "'h \<Rightarrow> gotime \<times> 'h"
  hal_Meanwhile :: "'h \<Rightarrow> adm_op list \<times> 'h"

text \<open>
  What a reader operation works on. \<open>w_slot\<close> is the reader's slot in the guard
  (\<open>packAdmission()\<close> is nil for any other index), \<open>w_config\<close> the service configuration,
  \<open>w_inhibitor\<close> whether the suspend inhibitor is held, \<open>w_demand\<close> what
  \<open>notifyAdmissionReady\<close> does to the poller, and \<open>w_trace\<close> records the decisions and writes.
\<close>

datatype nfc_step =
    Admitted BMSCommand packAdmission gotime
  | Refused BMSCommand packAdmission gotime
  | Wrote "byte list" "nfc_error option"

record 'h world =
  w_reader :: BatteryReader
  w_slot :: "slot option"
  w_adm :: packAdmission
  w_config :: ServiceConfig
  w_inhibitor :: bool
  w_demand :: bool
  w_ready :: bool
  w_hal :: 'h
  w_trace :: "nfc_step list"

abbreviation w_maxDelta :: "'h world \<Rightarrow> nat" where
  "w_maxDelta w \<equiv> MaxVoltageDelta (w_config w)"

definition upd_reader :: "(BatteryReader \<Rightarrow> BatteryReader) \<Rightarrow> 'h world \<Rightarrow> 'h world" where
  "upd_reader f w = w\<lparr>w_reader := f (w_reader w)\<rparr>"

definition traceStep :: "nfc_step \<Rightarrow> 'h world \<Rightarrow> 'h world" where
  "traceStep x w = w\<lparr>w_trace := w_trace w @ [x]\<rparr>"

text \<open>A call that leaves the process: its result, and what happened to the guard meanwhile.\<close>

definition callout ::
  "(string \<Rightarrow> motionEvidence option) \<Rightarrow> 'h hal_ops \<Rightarrow> ('h \<Rightarrow> 'x \<times> 'h) \<Rightarrow> 'h world \<Rightarrow> 'x \<times> 'h world" where
  "callout js H f w =
     (case f (w_hal w) of (x, h1) \<Rightarrow>
        case hal_Meanwhile H h1 of (ops, h2) \<Rightarrow>
          (x, w\<lparr>w_hal := h2, w_adm := fold (adm_exec js) ops (w_adm w)\<rparr>))"

definition nowOf :: "'h hal_ops \<Rightarrow> 'h world \<Rightarrow> gotime \<times> 'h world" where
  "nowOf H w = (case hal_Now H (w_hal w) of (t, h) \<Rightarrow> (t, w\<lparr>w_hal := h\<rparr>))"

section \<open>Errors\<close>

definition hasPrefix :: "string \<Rightarrow> string \<Rightarrow> bool" where
  "hasPrefix s p \<longleftrightarrow> take (length p) s = p"

fun containsStr :: "string \<Rightarrow> string \<Rightarrow> bool" where
  "containsStr [] p \<longleftrightarrow> p = []"
| "containsStr (c # s) p \<longleftrightarrow> hasPrefix (c # s) p \<or> containsStr s p"

definition isNFCResponseTimeout :: "nfc_error \<Rightarrow> bool" where
  "isNFCResponseTimeout e =
     (case err_departed e of
        None \<Rightarrow> False
      | Some message \<Rightarrow>
          hasPrefix message ''timeout waiting for notification 0x'' \<or>
          message = ''timeout waiting for response after credit notification'')"

definition isTagDepartedError :: "nfc_error \<Rightarrow> bool" where
  "isTagDepartedError e \<longleftrightarrow> err_departed e \<noteq> None \<and> \<not> isNFCResponseTimeout e"

definition isMultipleTagsError :: "nfc_error \<Rightarrow> bool" where "isMultipleTagsError e = err_multiple e"
definition isArbiterBusyError :: "nfc_error \<Rightarrow> bool" where "isArbiterBusyError e = err_busy e"

definition isHALError :: "nfc_error \<Rightarrow> bool" where
  "isHALError e \<longleftrightarrow> isNFCResponseTimeout e \<or> err_hal e"

definition handleNFCError :: "nfc_error \<Rightarrow> BatteryReader \<Rightarrow> BatteryReader" where
  "handleNFCError e r =
     (if isTagDepartedError e then SendEvent EvTagDeparted (r\<lparr>rd_tagsDiscovered := False\<rparr>)
      else if isMultipleTagsError e then r
      else if isHALError e
      then SendEvent EvReinit (r\<lparr>rd_commFailureCount := Suc (rd_commFailureCount r)\<rparr>)
      else r)"

section \<open>Tags and discovery\<close>

definition DiscoveryPollFast :: nat where [const_defs]: "DiscoveryPollFast = 100"
definition DiscoveryPollSlow :: nat where [const_defs]: "DiscoveryPollSlow = 2500"

definition zeroFreshness :: tagFreshness where
  "zeroFreshness =
     \<lparr>unconfirmed = False, fr_haveFrame = False, since = zeroTime, fr_frame = zeroBMSData, timer = False\<rparr>"

definition withSlot :: "(slot \<Rightarrow> packAdmission \<Rightarrow> packAdmission) \<Rightarrow> 'h world \<Rightarrow> 'h world" where
  "withSlot f w = (case w_slot w of None \<Rightarrow> w | Some i \<Rightarrow> w\<lparr>w_adm := f i (w_adm w)\<rparr>)"

definition noteTagPresent :: "gotime \<Rightarrow> string \<Rightarrow> 'h world \<Rightarrow> 'h world" where
  "noteTagPresent now u w =
     (if u = [] \<or> u = rd_currentTagUID (w_reader w) then w
      else upd_reader
             (\<lambda>r. armConfirmRead
                    (r\<lparr>rd_powerSample := zeroBMSData, rd_currentTagUID := u,
                       rd_fresh := zeroFreshness\<lparr>unconfirmed := True, since := now\<rparr>\<rparr>))
             (withSlot (\<lambda>i. tag i u) w))"

definition startDiscovery ::
  "(string \<Rightarrow> motionEvidence option) \<Rightarrow> 'h hal_ops \<Rightarrow> 'h world \<Rightarrow> bool \<times> 'h world" where
  "startDiscovery js H w0 =
     (let w = upd_reader (\<lambda>r. r\<lparr>rd_tagsDiscovered := False,
                                rd_discovery := \<lparr>quiet = False, uncertain = False\<rparr>\<rparr>) w0;
          pollPeriod = (if rd_seatboxLockClosed (w_reader w) then DiscoveryPollSlow else DiscoveryPollFast)
      in case callout js H (hal_StartDiscovery H pollPeriod) w of
           (None, w1) \<Rightarrow> (True, w1)
         | (Some e, w1) \<Rightarrow>
             if containsStr (err_text e) ''status: 06''
             then (case callout js H (hal_FullReinitialize H) w1 of
                     (Some e', w2) \<Rightarrow> (False, upd_reader (handleNFCError e') w2)
                   | (None, w2) \<Rightarrow>
                       (case callout js H (hal_StartDiscovery H pollPeriod) w2 of
                          (Some e', w3) \<Rightarrow> (False, upd_reader (handleNFCError e') w3)
                        | (None, w3) \<Rightarrow> (True, w3)))
             else (False, upd_reader (handleNFCError e) w1))"

definition stopDiscovery :: "(string \<Rightarrow> motionEvidence option) \<Rightarrow> 'h hal_ops \<Rightarrow> 'h world \<Rightarrow> 'h world" where
  "stopDiscovery js H w =
     (case callout js H (hal_StopDiscovery H) w of
        (None, w1) \<Rightarrow> upd_reader (\<lambda>r. r\<lparr>rd_tagsDiscovered := False\<rparr>) w1
      | (Some e, w1) \<Rightarrow>
          if containsStr (err_text e) ''invalid state for stopping discovery''
          then upd_reader (\<lambda>r. r\<lparr>rd_tagsDiscovered := False\<rparr>) w1
          else upd_reader (\<lambda>r. (handleNFCError e r)\<lparr>rd_tagsDiscovered := False\<rparr>) w1)"

definition discoverBatteryTag ::
  "(string \<Rightarrow> motionEvidence option) \<Rightarrow> 'h hal_ops \<Rightarrow> 'h world \<Rightarrow> bool \<times> 'h world" where
  "discoverBatteryTag js H w =
     (if rd_tagsDiscovered (w_reader w) then (True, w)
      else case startDiscovery js H w of
             (False, w1) \<Rightarrow> (False, w1)
           | (True, w1) \<Rightarrow>
               (case callout js H (hal_PollDiscovery H) w1 of
                  (Inl e, w2) \<Rightarrow> (False, upd_reader (handleNFCError e) w2)
                | (Inr res, w2) \<Rightarrow>
                    if disc_Kind res \<noteq> DiscoveryTags \<or> disc_Tags res = []
                    then (False, upd_reader (SendEvent EvTagDeparted) w2)
                    else (case nowOf H w2 of (now, w3) \<Rightarrow>
                            (True, noteTagPresent now (hd (disc_Tags res))
                               (upd_reader (\<lambda>r. r\<lparr>rd_previousTagPresent := True, rd_tagsDiscovered := True\<rparr>) w3)))))"

section \<open>Verified reads\<close>

text \<open>
  \<open>readWithVerification\<close>: up to five reads, accepting a value only when two successful reads in a
  row agree. \<open>checkBuffer\<close> is \<open>None\<close> while \<open>check\<close> is false.
\<close>

fun readLoop ::
  "(string \<Rightarrow> motionEvidence option) \<Rightarrow> 'h hal_ops \<Rightarrow> nat \<Rightarrow> nat \<Rightarrow> byte list option \<Rightarrow> nfc_error option \<Rightarrow>
   'h world \<Rightarrow> (nfc_error option + byte list) \<times> 'h world" where
  "readLoop js H address 0 checkBuffer lastErr w = (Inl lastErr, w)"
| "readLoop js H address (Suc n) checkBuffer lastErr w =
     (case callout js H (hal_ReadBinary H address) w of
        (Inr data, w1) \<Rightarrow>
          if checkBuffer = Some data then (Inr data, w1)
          else readLoop js H address n (Some data) lastErr w1
      | (Inl e, w1) \<Rightarrow>
          if isTagDepartedError e \<or> isHALError e then (Inl (Some e), w1)
          else if isArbiterBusyError e
          then (case callout js H (hal_SelectTag H 0) w1 of
                  (Some e', w2) \<Rightarrow>
                    if isTagDepartedError e' \<or> isHALError e' then (Inl (Some e'), w2)
                    else readLoop js H address n None (Some e) w2
                | (None, w2) \<Rightarrow> readLoop js H address n None (Some e) w2)
          else readLoop js H address n checkBuffer (Some e) w1)"

definition maxRetries :: nat where [const_defs]: "maxRetries = 5"

text \<open>\<open>Inl None\<close> is the "read failed after 5 retries" error, which has no controller error inside.\<close>

definition readWithVerification ::
  "(string \<Rightarrow> motionEvidence option) \<Rightarrow> 'h hal_ops \<Rightarrow> nat \<Rightarrow> 'h world \<Rightarrow>
   (nfc_error option + byte list) \<times> 'h world" where
  "readWithVerification js H address w = readLoop js H address maxRetries None None w"

text \<open>The error \<open>fmt.Errorf\<close> makes: no predicate of the library recognizes it.\<close>

definition plainError :: nfc_error where
  "plainError =
     \<lparr>err_text = ''read failed after 5 retries'', err_departed = None, err_hal = False,
      err_multiple = False, err_busy = False\<rparr>"

definition errorOf :: "nfc_error option \<Rightarrow> nfc_error" where
  "errorOf e = (case e of None \<Rightarrow> plainError | Some x \<Rightarrow> x)"

section \<open>The command gate\<close>

definition isBatteryEmpty :: "BatteryReader \<Rightarrow> bool" where
  "isBatteryEmpty r \<longleftrightarrow> LowSOC (rd_data r) \<and> Charge (rd_data r) \<le> BMSMinSOC"

definition admitCommandPolicy :: "BMSCommand \<Rightarrow> gotime \<Rightarrow> bool \<Rightarrow> 'h world \<Rightarrow> bool \<times> 'h world" where
  "admitCommandPolicy cmd now correctiveOff w =
     (case w_slot w of
        None \<Rightarrow> (True, w)
      | Some i \<Rightarrow>
          if cmd = BMSCmdOn
          then (case requestOn i now (w_maxDelta w) (w_adm w) of ((ok, reason), a) \<Rightarrow> (ok, w\<lparr>w_adm := a\<rparr>))
          else if cmd = BMSCmdOff
          then (if correctiveOff
                then (case isolationOffAttempt i now (w_adm w) of (ok, a) \<Rightarrow> (ok, w\<lparr>w_adm := a\<rparr>))
                else (True, w\<lparr>w_adm := offAttempt i now (w_adm w)\<rparr>))
          else (True, w))"

definition admitCommand :: "BMSCommand \<Rightarrow> gotime \<Rightarrow> 'h world \<Rightarrow> bool \<times> 'h world" where
  "admitCommand cmd now w = admitCommandPolicy cmd now False w"

text \<open>The gate with its decision recorded.\<close>

definition gate :: "BMSCommand \<Rightarrow> gotime \<Rightarrow> bool \<Rightarrow> 'h world \<Rightarrow> bool \<times> 'h world" where
  "gate cmd now correctiveOff w =
     (case admitCommandPolicy cmd now correctiveOff w of (ok, w1) \<Rightarrow>
        (ok, traceStep (if ok then Admitted cmd (w_adm w) now else Refused cmd (w_adm w) now) w1))"

section \<open>Writing a command\<close>

definition cmdBytes :: "BMSCommand \<Rightarrow> byte list" where
  "cmdBytes cmd = [ucast cmd, ucast (drop_bit 8 cmd), ucast (drop_bit 16 cmd), ucast (drop_bit 24 cmd)]"

text \<open>Five attempts to take the suspend inhibitor; the pauses between them are not modelled.\<close>

fun inhibitLoop :: "'h hal_ops \<Rightarrow> nat \<Rightarrow> 'h world \<Rightarrow> bool \<times> 'h world" where
  "inhibitLoop H 0 w = (False, w)"
| "inhibitLoop H (Suc n) w =
     (case hal_Inhibit H (w_hal w) of (ok, h) \<Rightarrow>
        if ok then (True, w\<lparr>w_hal := h, w_inhibitor := True\<rparr>) else inhibitLoop H n (w\<lparr>w_hal := h\<rparr>))"

definition takeInhibitor :: "'h hal_ops \<Rightarrow> 'h world \<Rightarrow> bool \<times> 'h world" where
  "takeInhibitor H w = (if w_inhibitor w then (True, w) else inhibitLoop H 5 w)"

definition releaseInhibitor :: "'h world \<Rightarrow> 'h world" where
  "releaseInhibitor w = w\<lparr>w_inhibitor := False\<rparr>"

datatype write_result =
    Written | TagUnavailable | Deferred | WriteFailed nfc_error

text \<open>The retry loop of \<open>writeCommand\<close>: every write is preceded by its own pass through the gate.\<close>

fun writeLoop ::
  "(string \<Rightarrow> motionEvidence option) \<Rightarrow> 'h hal_ops \<Rightarrow> BMSCommand \<Rightarrow> bool \<Rightarrow> nat \<Rightarrow> nfc_error option \<Rightarrow>
   'h world \<Rightarrow> write_result \<times> 'h world" where
  "writeLoop js H cmd correctiveOff 0 lastErr w = (WriteFailed (errorOf lastErr), w)"
| "writeLoop js H cmd correctiveOff (Suc n) lastErr w =
     (case nowOf H w of (now, w1) \<Rightarrow>
        case gate cmd now correctiveOff w1 of
          (False, w2) \<Rightarrow> (Deferred, w2)
        | (True, w2) \<Rightarrow>
            (case callout js H (hal_WriteBinary H 0x0330 (cmdBytes cmd)) w2 of
               (err, w3) \<Rightarrow>
                 (case (err, traceStep (Wrote (cmdBytes cmd) err) w3) of
                    (None, w4) \<Rightarrow> (Written, w4)
                  | (Some e, w4) \<Rightarrow>
                      if isArbiterBusyError e
                      then (case callout js H (hal_SelectTag H 0) w4 of
                              (Some e', w5) \<Rightarrow>
                                if isTagDepartedError e' \<or> isHALError e' then (WriteFailed e', w5)
                                else writeLoop js H cmd correctiveOff n (Some e) w5
                            | (None, w5) \<Rightarrow> writeLoop js H cmd correctiveOff n (Some e) w5)
                      else (WriteFailed e, w4))))"

text \<open>What follows the loop, inside the deferred release of the inhibitor.\<close>

definition finishWrite ::
  "(string \<Rightarrow> motionEvidence option) \<Rightarrow> 'h hal_ops \<Rightarrow> BMSCommand \<Rightarrow> write_result \<Rightarrow> 'h world \<Rightarrow> 'h world" where
  "finishWrite js H cmd res w0 =
     (case nowOf H w0 of (now, w) \<Rightarrow>
        case res of
          Written \<Rightarrow>
            stopDiscovery js H
              (upd_reader
                 (\<lambda>r. noteCommsSuccess now
                        (r\<lparr>rd_powerSample := (if cmd = BMSCmdOff then zeroBMSData else rd_powerSample r),
                           rd_lastCmdTime := now, rd_commFailureCount := 0, rd_lastSuccessfulComm := now\<rparr>)) w)
        | WriteFailed e \<Rightarrow>
            stopDiscovery js H (upd_reader (\<lambda>r. handleNFCError e (noteCommsFailure now r)) w)
        | _ \<Rightarrow> w0)"

definition writeCommand ::
  "(string \<Rightarrow> motionEvidence option) \<Rightarrow> 'h hal_ops \<Rightarrow> BMSCommand \<Rightarrow> bool \<Rightarrow> 'h world \<Rightarrow>
   write_result \<times> 'h world" where
  "writeCommand js H cmd correctiveOff w =
     (case (if rd_tagsDiscovered (w_reader w) then (True, w) else discoverBatteryTag js H w) of
        (False, w1) \<Rightarrow> (TagUnavailable, stopDiscovery js H w1)
      | (True, w1) \<Rightarrow>
          (case takeInhibitor H w1 of (_, w2) \<Rightarrow>
             case writeLoop js H cmd correctiveOff maxRetries None w2 of
               (res, w3) \<Rightarrow> (res, releaseInhibitor (finishWrite js H cmd res w3))))"

definition WriteCommand ::
  "(string \<Rightarrow> motionEvidence option) \<Rightarrow> 'h hal_ops \<Rightarrow> BMSCommand \<Rightarrow> 'h world \<Rightarrow> 'h world" where
  "WriteCommand js H cmd w =
     snd (writeCommand js H cmd
       (cmd = BMSCmdOff \<and> rd_enabled (w_reader w) \<and> rd_role (w_reader w) = BatteryRoleActive \<and>
        \<not> isBatteryEmpty (w_reader w)) w)"

definition WriteOffCommand ::
  "(string \<Rightarrow> motionEvidence option) \<Rightarrow> 'h hal_ops \<Rightarrow> 'h world \<Rightarrow> write_result \<times> 'h world" where
  "WriteOffCommand js H w = writeCommand js H BMSCmdOff False w"

end
