(* ===== verification/Nfc_Read.thy ===== *)
theory Nfc_Read
  imports Nfc
begin

text \<open>
  Reading status (\<open>readStatusLocked\<close>), detecting a supply that switched itself off, departures
  and the evidence for an empty slot, on top of the controller calls of \<open>Nfc\<close>; and the queries of
  \<open>actions.go\<close> that look at the last reading.
\<close>

section \<open>Queries\<close>

text \<open>\<open>ShouldSendOn\<close> asks the guard, which may start or end an isolation episode.\<close>

definition ShouldSendOn :: "gotime \<Rightarrow> 'h world \<Rightarrow> bool \<times> 'h world" where
  "ShouldSendOn now w =
     (if \<not> rd_enabled (w_reader w) \<or> isBatteryEmpty (w_reader w) then (False, w)
      else case w_slot w of
             None \<Rightarrow> (True, w)
           | Some i \<Rightarrow>
               (case shouldIsolate i now (w_maxDelta w) (w_adm w) of (isolate, a) \<Rightarrow> (\<not> isolate, w\<lparr>w_adm := a\<rparr>)))"

definition CheckStateCorrect :: "'h world \<Rightarrow> bool" where
  "CheckStateCorrect w =
     (let r = w_reader w; st = State (rd_data r)
      in if rd_enabled r \<and> \<not> isBatteryEmpty r
         then (case w_slot w of
                 Some i \<Rightarrow> if waiting i st (w_adm w) then True else st = BMSStateActive
               | None \<Rightarrow> st = BMSStateActive)
         else inactive_state st)"

definition IsInactive :: "BatteryReader \<Rightarrow> bool" where
  "IsInactive r \<longleftrightarrow> State (rd_data r) \<noteq> BMSStateActive"

definition ZeroRetryCounters :: "BatteryReader \<Rightarrow> BatteryReader" where
  "ZeroRetryCounters r = upd_data (\<lambda>d. d\<lparr>EmptyOr0Data := 0\<rparr>) r"

section \<open>Unexpected loss of power\<close>

definition observePowerState :: "gotime \<Rightarrow> 'h world \<Rightarrow> 'h world" where
  "observePowerState now w =
     (let d = rd_data (w_reader w)
      in if \<not> Present d \<or> \<not> SampleValid d then w
         else if State d \<noteq> BMSStateActive \<and> State d \<noteq> BMSStateIdle \<and> State d \<noteq> BMSStateAsleep then w
         else
           let previous = rd_powerSample (w_reader w)
           in (case (if rd_role (w_reader w) = BatteryRoleActive then ShouldSendOn now w else (False, w)) of
                 (expectedOn, w1) \<Rightarrow>
                   let w2 = upd_reader (\<lambda>r. r\<lparr>rd_powerSample := (if expectedOn then d else zeroBMSData)\<rparr>) w1
                   in if State d = BMSStateActive
                      then upd_reader (setFault now BMSFaultUnexpectedPowerOff False) w2
                      else if State previous \<noteq> BMSStateActive \<or> SerialNumber previous \<noteq> SerialNumber d \<or> \<not> expectedOn
                      then w2
                      else upd_reader (setFault now BMSFaultUnexpectedPowerOff True) w2))"

section \<open>Reading status\<close>

definition notifyAdmissionReady :: "'h world \<Rightarrow> 'h world" where
  "notifyAdmissionReady w = (if w_demand w then w\<lparr>w_ready := True\<rparr> else w)"

text \<open>The failed branch shared by the three block reads.\<close>

definition readFailed :: "'h hal_ops \<Rightarrow> nfc_error option \<Rightarrow> 'h world \<Rightarrow> 'h world" where
  "readFailed H e w =
     (case nowOf H w of (now, w1) \<Rightarrow> upd_reader (\<lambda>r. handleNFCError (errorOf e) (noteCommsFailure now r)) w1)"

text \<open>The deferred call at the end of a read whose sample did not reach the guard.\<close>

definition failSample :: "'h hal_ops \<Rightarrow> 64 word \<Rightarrow> gotime \<Rightarrow> gotime \<Rightarrow> 'h world \<Rightarrow> 'h world" where
  "failSample H rid st en w =
     (case nowOf H w of (now, w1) \<Rightarrow>
        withSlot (\<lambda>i. failAcquisition i rid
                    \<lparr>acq_start = st, acq_end = en, acq_complete = now, acq_data = zeroBMSData\<rparr>) w1)"

text \<open>
  The end of \<open>readStatusLocked\<close> for decoded blocks: the power observation, the guard's
  observation, the publication. The second result says whether a new state was decoded.
\<close>

definition deliverSample ::
  "'h hal_ops \<Rightarrow> 64 word \<Rightarrow> gotime \<Rightarrow> gotime \<Rightarrow> bool \<Rightarrow> 'h world \<Rightarrow> 'h world" where
  "deliverSample H rid st en sampleOK w0 =
     (case nowOf H w0 of (now, w) \<Rightarrow>
        let w1 = upd_reader (upd_data (\<lambda>d. d\<lparr>SampleTime := st, SampleValid := sampleOK\<rparr>)) w;
            w2 = observePowerState now w1;
            w3 = (if sampleOK
                  then (case nowOf H w2 of (complete, w2') \<Rightarrow>
                          (case w_slot w2' of
                             None \<Rightarrow> w2'
                           | Some i \<Rightarrow>
                               (case observeAcquisition i rid
                                       \<lparr>acq_start = st, acq_end = en, acq_complete = complete,
                                        acq_data = rd_data (w_reader w2')\<rparr> (w_adm w2') of
                                  (retry, a) \<Rightarrow>
                                    let w3 = w2'\<lparr>w_adm := a\<rparr> in if retry then notifyAdmissionReady w3 else w3)))
                  else w2)
        in upd_reader (sendStatusUpdate now) w3)"

definition decodeStatus ::
  "'h hal_ops \<Rightarrow> 64 word \<Rightarrow> gotime \<Rightarrow> gotime \<Rightarrow> byte list \<Rightarrow> byte list \<Rightarrow> byte list \<Rightarrow> 'h world \<Rightarrow>
   (bool \<times> bool) \<times> 'h world" where
  "decodeStatus H rid st en s0 s1 s2 w0 =
     (case nowOf H w0 of (now, w) \<Rightarrow>
        let w1 = upd_reader (\<lambda>r. (noteCommsSuccess now r)\<lparr>rd_commFailureCount := 0, rd_lastSuccessfulComm := now\<rparr>) w;
            artifacts = rd_sensors01Artifacts (w_reader w1)
        in (case parseStatusData now s0 s1 s2 (w_reader w1) of
              (False, r) \<Rightarrow> ((True, False), failSample H rid st en (w1\<lparr>w_reader := r\<rparr>))
            | (True, r) \<Rightarrow>
                let sampleOK = (length s0 \<ge> 16 \<and> length s1 \<ge> 16 \<and> length s2 \<ge> 16 \<and>
                                artifacts = rd_sensors01Artifacts r);
                    w2 = deliverSample H rid st en sampleOK (w1\<lparr>w_reader := r\<rparr>)
                in ((True, length s1 \<ge> 16), if sampleOK then w2 else failSample H rid st en w2)))"

definition readBlocks ::
  "(string \<Rightarrow> motionEvidence option) \<Rightarrow> 'h hal_ops \<Rightarrow> 64 word \<Rightarrow> 'h world \<Rightarrow> (bool \<times> bool) \<times> 'h world" where
  "readBlocks js H rid w0 =
     (case nowOf H w0 of (st, w1) \<Rightarrow>
        case readWithVerification js H 0x0300 w1 of (res0, w2) \<Rightarrow>
          case nowOf H w2 of (en, w3) \<Rightarrow>
            (case res0 of
               Inl e \<Rightarrow> ((False, False), failSample H rid st en (readFailed H e w3))
             | Inr s0 \<Rightarrow>
                 (case readWithVerification js H 0x0310 w3 of
                    (Inl e, w4) \<Rightarrow> ((False, False), failSample H rid st en (readFailed H e w4))
                  | (Inr s1, w4) \<Rightarrow>
                      (case readWithVerification js H 0x0320 w4 of
                         (Inl e, w5) \<Rightarrow> ((False, False), failSample H rid st en (readFailed H e w5))
                       | (Inr s2, w5) \<Rightarrow> decodeStatus H rid st en s0 s1 s2 w5))))"

definition readStatusLocked ::
  "(string \<Rightarrow> motionEvidence option) \<Rightarrow> 'h hal_ops \<Rightarrow> 'h world \<Rightarrow> (bool \<times> bool) \<times> 'h world" where
  "readStatusLocked js H w0 =
     (case nowOf H w0 of (now, w) \<Rightarrow>
        let claim = (case w_slot w of
                       None \<Rightarrow> (0, w)
                     | Some i \<Rightarrow> (case claimRound i now (w_adm w) of (n, a) \<Rightarrow> (n, w\<lparr>w_adm := a\<rparr>)));
            rid = fst claim; w1 = snd claim
        in (case (if rd_tagsDiscovered (w_reader w1) then (True, w1) else discoverBatteryTag js H w1) of
              (False, w2) \<Rightarrow> ((False, False), failSample H rid zeroTime zeroTime w2)
            | (True, w2) \<Rightarrow> readBlocks js H rid w2))"

definition readStatus ::
  "(string \<Rightarrow> motionEvidence option) \<Rightarrow> 'h hal_ops \<Rightarrow> 'h world \<Rightarrow> bool \<times> 'h world" where
  "readStatus js H w = (case readStatusLocked js H w of ((ok, _), w1) \<Rightarrow> (ok, w1))"

datatype OffState = OffStateUnknown | OffStateActive | OffStateInactive

text \<open>\<open>ReadFreshOffState\<close>: \<open>Inl ()\<close> is the read error.\<close>

definition ReadFreshOffState ::
  "(string \<Rightarrow> motionEvidence option) \<Rightarrow> 'h hal_ops \<Rightarrow> 'h world \<Rightarrow> (unit + OffState) \<times> 'h world" where
  "ReadFreshOffState js H w =
     (case readStatusLocked js H w of
        ((ok, stateDecoded), w1) \<Rightarrow>
          if \<not> ok \<or> \<not> stateDecoded then (Inl (), w1)
          else let st = State (rd_data (w_reader w1))
               in (Inr (if inactive_state st then OffStateInactive
                        else if st = BMSStateActive then OffStateActive else OffStateUnknown), w1))"

section \<open>Departure\<close>

definition clearPackFaults :: "gotime \<Rightarrow> BatteryReader \<Rightarrow> BatteryReader" where
  "clearPackFaults now r =
     foldl (\<lambda>r f. if f < BMSFaultNFCReaderError then setFaultLocked now f False r else r) r faultKeys"

definition handleDeparture :: "gotime \<Rightarrow> 'h world \<Rightarrow> 'h world" where
  "handleDeparture now w =
     upd_reader
       (\<lambda>r. sendStatusUpdate now
              (clearPackFaults now
                 (setFault now BMSFaultUnexpectedPowerOff False
                    (r\<lparr>rd_currentTagUID := [], rd_fresh := zeroFreshness, rd_data := zeroBMSData,
                       rd_powerSample := zeroBMSData\<rparr>))))
       (withSlot (\<lambda>i. observeAbsent i now) w)"

definition hasCachedBattery :: "BatteryReader \<Rightarrow> bool" where
  "hasCachedBattery r \<longleftrightarrow> rd_previousTagPresent r \<or> Present (rd_data r) \<or> Present (rd_previousData r)"

definition searchQuiet :: "BatteryReader \<Rightarrow> bool" where
  "searchQuiet r \<longleftrightarrow> quiet (rd_discovery r) \<and> \<not> uncertain (rd_discovery r) \<and> hasCachedBattery r"

definition setUncertain :: "BatteryReader \<Rightarrow> BatteryReader" where
  "setUncertain r = r\<lparr>rd_discovery := (rd_discovery r)\<lparr>uncertain := True\<rparr>\<rparr>"

definition finishDiscovery :: "gotime \<Rightarrow> nfc_error + DiscoveryResult \<Rightarrow> 'h world \<Rightarrow> 'h world" where
  "finishDiscovery now final w =
     (if \<not> searchQuiet (w_reader w) then w
      else case final of
             Inl e \<Rightarrow> upd_reader setUncertain w
           | Inr res \<Rightarrow>
               if disc_Kind res \<noteq> DiscoveryQuiet then upd_reader setUncertain w
               else handleDeparture now
                      (upd_reader (\<lambda>r. r\<lparr>rd_previousTagPresent := False, rd_tagsDiscovered := False\<rparr>) w))"

definition FinishDiscovery :: "(string \<Rightarrow> motionEvidence option) \<Rightarrow> 'h hal_ops \<Rightarrow> 'h world \<Rightarrow> 'h world" where
  "FinishDiscovery js H w =
     (if \<not> searchQuiet (w_reader w) then w
      else case callout js H (hal_PollDiscovery H) w of (final, w1) \<Rightarrow>
             (case nowOf H w1 of (now, w2) \<Rightarrow> finishDiscovery now final w2))"

text \<open>One poll for a returning tag; the result says whether to keep polling.\<close>

definition processTagArrivalPoll :: "gotime \<Rightarrow> nfc_error + DiscoveryResult \<Rightarrow> 'h world \<Rightarrow> bool \<times> 'h world" where
  "processTagArrivalPoll now result w =
     (case result of
        Inl e \<Rightarrow>
          let w1 = upd_reader setUncertain w
          in if isHALError e
             then (False, upd_reader (\<lambda>r. SendEvent EvReinit (r\<lparr>rd_commFailureCount := Suc (rd_commFailureCount r)\<rparr>)) w1)
             else (True, w1)
      | Inr res \<Rightarrow>
          (True,
           case disc_Kind res of
             DiscoveryQuiet \<Rightarrow>
               withSlot (\<lambda>i. observeAbsent i now)
                 (upd_reader (\<lambda>r. r\<lparr>rd_discovery := (rd_discovery r)\<lparr>quiet := True\<rparr>\<rparr>) w)
           | DiscoveryTags \<Rightarrow>
               let w1 = upd_reader setUncertain w
               in if disc_Tags res = [] then w1
                  else upd_reader (SendEvent EvTagArrived)
                         (noteTagPresent now (hd (disc_Tags res))
                            (upd_reader (\<lambda>r. r\<lparr>rd_previousTagPresent := True, rd_tagsDiscovered := True\<rparr>) w1))
           | _ \<Rightarrow> upd_reader setUncertain w))"

text \<open>
  \<open>pollForTagArrival\<close>: \<open>cancelledBefore\<close> and \<open>cancelledAfter\<close> are what \<open>ctx.Err()\<close> says
  before and after the controller call.
\<close>

definition pollForTagArrival ::
  "(string \<Rightarrow> motionEvidence option) \<Rightarrow> 'h hal_ops \<Rightarrow> bool \<Rightarrow> bool \<Rightarrow> 'h world \<Rightarrow> bool \<times> 'h world" where
  "pollForTagArrival js H cancelledBefore cancelledAfter w =
     (if cancelledBefore then (False, w)
      else case callout js H (hal_PollDiscovery H) w of (result, w1) \<Rightarrow>
             if cancelledAfter
             then (False,
                   case result of
                     Inr res \<Rightarrow> if disc_Kind res = DiscoveryQuiet then w1 else upd_reader setUncertain w1
                   | Inl e \<Rightarrow> upd_reader setUncertain w1)
             else (case nowOf H w1 of (now, w2) \<Rightarrow> processTagArrivalPoll now result w2))"

end
