(* ===== verification/Reader_Policy.thy ===== *)
theory Reader_Policy
  imports Nfc_Read
begin

text \<open>
  What the event loop owns of a reader: role, enabling, vehicle state, seatbox with its latch, the
  start-up handshake, and the events only the loop sends. Faults, publication, decoding and the
  controller operations leave it alone.
\<close>

definition loop_event :: "EventID \<Rightarrow> bool" where
  "loop_event ev \<longleftrightarrow> ev = EvSeatboxOpened \<or> ev = EvSeatboxClosed \<or> ev = EvInitComplete"

lemma loop_event_simps [simp]:
  "\<not> loop_event EvReinit" "\<not> loop_event EvTagArrived" "\<not> loop_event EvTagDeparted"
  "\<not> loop_event EvCheckPresenceReady" "\<not> loop_event EvHeartbeatTimeout"
  by (simp_all add: loop_event_def)

record loop_state =
  lp_role :: BatteryRole
  lp_enabled :: bool
  lp_vehicle :: VehicleState
  lp_seatbox :: "bool \<times> bool"
  lp_init :: "bool \<times> bool \<times> bool"
  lp_events :: "EventID list"

definition policy :: "BatteryReader \<Rightarrow> loop_state" where
  "policy r =
     \<lparr>lp_role = rd_role r, lp_enabled = rd_enabled r, lp_vehicle = rd_vehicleState r,
      lp_seatbox = (rd_seatboxLockClosed r, rd_latchedSeatboxLockClosed r),
      lp_init = (rd_initVehicleState r, rd_initSeatboxLock r, rd_initCompleteSent r),
      lp_events = filter loop_event (rd_events r)\<rparr>"

lemma policy_basic [simp]:
  "\<not> loop_event ev \<Longrightarrow> policy (SendEvent ev r) = policy r" "policy (redisDo c r) = policy r" "policy (upd_fault f g r) = policy r"
  "policy (upd_data h r) = policy r" "policy (upd_fresh k r) = policy r" "policy (armConfirmRead r) = policy r"
  "policy (markPublished r) = policy r" "policy (setUncertain r) = policy r" "policy (ZeroRetryCounters r) = policy r"
  by (simp_all add: policy_def SendEvent_def redisDo_def upd_fault_def upd_data_def upd_fresh_def armConfirmRead_def
      markPublished_def setUncertain_def ZeroRetryCounters_def)

lemma policy_record [simp]:
  "policy (r\<lparr>rd_data := d\<rparr>) = policy r" "policy (r\<lparr>rd_txns := n\<rparr>) = policy r" "policy (r\<lparr>rd_powerSample := d\<rparr>) = policy r"
  "policy (r\<lparr>rd_nfcReaderErrorRaised := b\<rparr>) = policy r" "policy (r\<lparr>rd_commsFaultCount := n\<rparr>) = policy r"
  "policy (r\<lparr>rd_commFailureCount := n\<rparr>) = policy r" "policy (r\<lparr>rd_lastSuccessfulComm := t\<rparr>) = policy r"
  "policy (r\<lparr>rd_tagsDiscovered := b\<rparr>) = policy r" "policy (r\<lparr>rd_previousTagPresent := b\<rparr>) = policy r"
  "policy (r\<lparr>rd_discovery := e\<rparr>) = policy r" "policy (r\<lparr>rd_currentTagUID := u\<rparr>) = policy r"
  "policy (r\<lparr>rd_fresh := fr\<rparr>) = policy r" "policy (r\<lparr>rd_lastCmdTime := t\<rparr>) = policy r"
  "policy (r\<lparr>rd_lastGoodSensors01 := sm\<rparr>) = policy r" "policy (r\<lparr>rd_lastGoodSensors01Time := t\<rparr>) = policy r"
  "policy (r\<lparr>rd_sensors01Artifacts := n\<rparr>) = policy r" "policy (r\<lparr>rd_heartbeatRunning := b\<rparr>) = policy r"
  "policy (r\<lparr>rd_heartbeatTimer := tm\<rparr>) = policy r" "policy (r\<lparr>rd_inTagPresent := b\<rparr>) = policy r"
  by (simp_all add: policy_def)

lemma policy_foldl: "(\<And>r x. policy (f r x) = policy r) \<Longrightarrow> policy (foldl f r xs) = policy r"
  by (induction xs arbitrary: r) simp_all

lemma policy_publication [simp]: "policy (noteFrameFreshness now r) = policy r" "policy (sendStatusUpdate now r) = policy r"
  by (simp_all add: noteFrameFreshness_def sendStatusUpdate_def Let_def)

lemma policy_clear [simp]: "policy (clearFaultLocked now f r) = policy r"
  by (simp add: clearFaultLocked_def deactivateFaultLocked_def reportFault_def Let_def split: option.split)

lemma policy_faults [simp]:
  "policy (clearLesserFaultsLocked now f b r) = policy r" "policy (sendNotPresent now r) = policy r"
  "policy (reportFault f b r) = policy r" "policy (activateFaultLocked now f c r) = policy r"
  "policy (setFault now f b r) = policy r" "policy (setFaultLocked now f b r) = policy r"
  "policy (setTimerFired now f r) = policy r" "policy (resetTimerFired f r) = policy r"
  "policy (raiseNFCReaderError now r) = policy r" "policy (clearNFCReaderError now r) = policy r"
  "policy (noteCommsFailure now r) = policy r" "policy (noteCommsSuccess now r) = policy r"
  "policy (parseHardwareFaults now n m r) = policy r" "policy (updateFaultsFromBatteryData now r) = policy r"
proof -
  show a: "policy (clearLesserFaultsLocked now f b r) = policy r" for f b r
    by (simp add: clearLesserFaultsLocked_def policy_foldl)
  show n: "policy (sendNotPresent now r) = policy r" for r by (simp add: sendNotPresent_def)
  show p: "policy (reportFault f b r) = policy r" for f b r by (simp add: reportFault_def)
  show ac: "policy (activateFaultLocked now f c r) = policy r" for f c r by (simp add: activateFaultLocked_def a n p Let_def)
  show sl: "policy (setFaultLocked now f b r) = policy r" for f b r
    by (simp add: setFaultLocked_def raiseFaultLocked_def ac Let_def split: option.split)
  then show sf: "policy (setFault now f b r) = policy r" for f b r by (simp add: setFault_def)
  show "policy (setTimerFired now f r) = policy r" by (simp add: setTimerFired_def ac split: option.split)
  show "policy (resetTimerFired f r) = policy r" by (simp add: resetTimerFired_def deactivateFaultLocked_def p)
  show "policy (raiseNFCReaderError now r) = policy r" "policy (clearNFCReaderError now r) = policy r"
    "policy (noteCommsFailure now r) = policy r" "policy (noteCommsSuccess now r) = policy r"
    by (simp_all add: raiseNFCReaderError_def clearNFCReaderError_def noteCommsFailure_def noteCommsSuccess_def sf Let_def)
  show h: "policy (parseHardwareFaults now n m r) = policy r" for n m r by (simp add: parseHardwareFaults_def sf policy_foldl)
  show "policy (updateFaultsFromBatteryData now r) = policy r" by (simp add: updateFaultsFromBatteryData_def h sf Let_def)
qed

lemma policy_frames [simp]:
  "policy (snd (applySensors01Guard now r)) = policy r" "policy (updateTemperatureState u r) = policy r"
  "policy (snd (parseStatusData now s0 s1 s2 r)) = policy r" "policy (handleNFCError e r) = policy r"
  "policy (clearPackFaults now r) = policy r"
proof -
  show g: "policy (snd (applySensors01Guard now r)) = policy r" for r by (simp add: applySensors01Guard_def Let_def)
  show t: "policy (updateTemperatureState u r) = policy r" for u r by (simp add: updateTemperatureState_def Let_def)
  show "policy (snd (parseStatusData now s0 s1 s2 r)) = policy r"
    by (simp add: parseStatusData_def Let_def t g case_prod_beta)
  show "policy (handleNFCError e r) = policy r" by (simp add: handleNFCError_def)
  show "policy (clearPackFaults now r) = policy r" by (simp add: clearPackFaults_def policy_foldl)
qed

end
