(* ===== verification/Nfc_Guard.thy ===== *)
theory Nfc_Guard
  imports Reader_Policy Admission_Safety
begin

text \<open>
  The readers touch the guard only by calling its operations: every controller operation, with
  whatever the other goroutines do while it waits for hardware, takes the guard through a sequence
  of guard operations. So what the guard keeps along its own executions it keeps along those of
  the whole service.
\<close>

section \<open>Acting on the guard through its operations only\<close>

definition via_guard :: "(string \<Rightarrow> motionEvidence option) \<Rightarrow> packAdmission \<Rightarrow> packAdmission \<Rightarrow> bool" where
  "via_guard js a b \<longleftrightarrow> (\<exists>ops. b = fold (adm_exec js) ops a)"

lemma via_refl [simp, intro]: "via_guard js a a"
  unfolding via_guard_def by (rule exI [of _ "[]"]) simp

lemma via_trans: "via_guard js a b \<Longrightarrow> via_guard js b c \<Longrightarrow> via_guard js a c"
  unfolding via_guard_def by (metis fold_append comp_apply)

lemma via_op: "via_guard js a (adm_exec js c a)"
  unfolding via_guard_def by (rule exI [of _ "[c]"]) simp

lemmas via_ops =
  via_op [of js a "OpTag i u" for js a i u, simplified]
  via_op [of js a "OpFailAcquisition i n x" for js a i n x, simplified]
  via_op [of js a "OpObserveAbsent i now" for js a i now, simplified]
  via_op [of js a "OpObserveAcquisition i n x" for js a i n x, simplified]
  via_op [of js a "OpClaimRound i now" for js a i now, simplified]
  via_op [of js a "OpRequestOn i now d" for js a i now d, simplified]
  via_op [of js a "OpOffAttempt i now" for js a i now, simplified]
  via_op [of js a "OpShouldIsolate i now d" for js a i now d, simplified]
  via_op [of js a "OpIsolationOffAttempt i now" for js a i now, simplified]

text \<open>
  A world step that keeps the slot and what the event loop owns of the reader, and acts on the guard
  through its operations.
\<close>

definition guarded_step :: "(string \<Rightarrow> motionEvidence option) \<Rightarrow> 'h world \<Rightarrow> 'h world \<Rightarrow> bool" where
  "guarded_step js w w' \<longleftrightarrow>
     w_slot w' = w_slot w \<and> policy (w_reader w') = policy (w_reader w) \<and> via_guard js (w_adm w) (w_adm w')"

lemma step_refl [simp, intro]: "guarded_step js w w"
  by (simp add: guarded_step_def)

lemma step_trans: "guarded_step js u v \<Longrightarrow> guarded_step js v w \<Longrightarrow> guarded_step js u w"
  by (auto simp: guarded_step_def intro: via_trans)

lemma step_frame [simp]:
  "policy (f (w_reader w)) = policy (w_reader w) \<Longrightarrow> guarded_step js u (upd_reader f w) = guarded_step js u w"
  "guarded_step js u (traceStep x w) = guarded_step js u w" "guarded_step js u (releaseInhibitor w) = guarded_step js u w"
  "guarded_step js u (notifyAdmissionReady w) = guarded_step js u w"
  "policy r = policy (w_reader w) \<Longrightarrow> guarded_step js u (w\<lparr>w_reader := r\<rparr>) = guarded_step js u w"
  by (simp_all add: guarded_step_def upd_reader_def traceStep_def releaseInhibitor_def notifyAdmissionReady_def)

text \<open>Rules that follow a chain of calls from the starting world.\<close>

named_theorems chain \<open>one more call on a chain of guarded steps\<close>

lemma step_reader: "(\<And>r. policy (f r) = policy r) \<Longrightarrow> guarded_step js u w \<Longrightarrow> guarded_step js u (upd_reader f w)"
  by simp

lemma step_callout [chain]: "callout js H f w = (x, w') \<Longrightarrow> guarded_step js u w \<Longrightarrow> guarded_step js u w'"
  by (rule step_trans) (auto simp: callout_def guarded_step_def via_guard_def split: prod.split_asm)

lemma step_now [chain]: "nowOf H w = (t, w') \<Longrightarrow> guarded_step js u w \<Longrightarrow> guarded_step js u w'"
  by (rule step_trans) (auto simp: nowOf_def guarded_step_def split: prod.split_asm)

lemma step_withSlot: "(\<And>i. via_guard js (w_adm w) (f i (w_adm w))) \<Longrightarrow> guarded_step js u w \<Longrightarrow> guarded_step js u (withSlot f w)"
  by (erule step_trans) (simp add: guarded_step_def withSlot_def split: option.split)

lemma step_noteTag: "guarded_step js u w \<Longrightarrow> guarded_step js u (noteTagPresent now t w)"
  using step_withSlot [of js w "\<lambda>i. tag i t" u] by (simp add: noteTagPresent_def via_ops)

lemma step_startDiscovery [chain]:
  "startDiscovery js H w = (b, w') \<Longrightarrow> guarded_step js u w \<Longrightarrow> guarded_step js u w'"
proof -
  assume d: "startDiscovery js H w = (b, w')" and u: "guarded_step js u w"
  define v where "v = upd_reader (\<lambda>r. r\<lparr>rd_tagsDiscovered := False,
      rd_discovery := \<lparr>quiet = False, uncertain = False\<rparr>\<rparr>) w"
  from u have v: "guarded_step js u v" by (simp add: v_def)
  from d [unfolded startDiscovery_def Let_def, folded v_def] v show ?thesis
    by (auto split: prod.split_asm option.split_asm if_split_asm) (blast intro: step_callout)+
qed

lemma step_stopDiscovery: "guarded_step js u w \<Longrightarrow> guarded_step js u (stopDiscovery js H w)"
  unfolding stopDiscovery_def by (auto split: prod.split option.split intro: chain)

lemma step_discover [chain]:
  "discoverBatteryTag js H w = (b, w') \<Longrightarrow> guarded_step js u w \<Longrightarrow> guarded_step js u w'"
  unfolding discoverBatteryTag_def
  by (auto split: prod.split_asm bool.split_asm sum.split_asm if_split_asm intro!: step_noteTag) (blast intro: chain)+

lemma step_adm:
  "via_guard js (w_adm w) a \<Longrightarrow> guarded_step js u w \<Longrightarrow> guarded_step js u (w\<lparr>w_adm := a\<rparr>)"
  by (auto simp: guarded_step_def intro: via_trans)

lemma step_gate [chain]: "gate cmd now co w = (ok, w') \<Longrightarrow> guarded_step js u w \<Longrightarrow> guarded_step js u w'"
proof -
  assume "gate cmd now co w = (ok, w')" and u: "guarded_step js u w"
  then have "guarded_step js w w'"
    using via_ops(6) [of js "w_adm w"] via_ops(7) [of js "w_adm w"] via_ops(9) [of js "w_adm w"]
    by (auto simp: gate_def admitCommandPolicy_def split: prod.split_asm option.split_asm if_split_asm
        intro!: step_adm) (metis snd_conv)+
  with u show ?thesis by (rule step_trans)
qed

lemma step_writeLoop [chain]:
  "writeLoop js H cmd co n e w = (res, w') \<Longrightarrow> guarded_step js u w \<Longrightarrow> guarded_step js u w'"
proof (induction n arbitrary: e w)
  case (Suc n)
  obtain now w1 where w1: "nowOf H w = (now, w1)" by fastforce
  obtain ok w2 where w2: "gate cmd now co w1 = (ok, w2)" by fastforce
  obtain err w3 where w3: "callout js H (hal_WriteBinary H 0x0330 (cmdBytes cmd)) w2 = (err, w3)" by fastforce
  have g2: "guarded_step js u w2" by (rule step_gate [OF w2 step_now [OF w1 Suc.prems(2)]])
  have g3: "guarded_step js u (traceStep (Wrote (cmdBytes cmd) err) w3)"
    using step_callout [OF w3 g2] by simp
  obtain sel w5 where w5: "callout js H (hal_SelectTag H 0) (traceStep (Wrote (cmdBytes cmd) err) w3) = (sel, w5)"
    by fastforce
  have g5: "guarded_step js u w5" by (rule step_callout [OF w5 g3])
  show ?case
  proof (cases err)
    case None
    with Suc.prems(1) g2 g3 show ?thesis by (auto simp: w1 w2 w3 split: bool.split_asm)
  next
    case (Some e')
    with Suc.prems(1) g2 g3 g5 w5 Suc.IH [OF _ g5] show ?thesis
      by (auto simp: w1 w2 w3 split: bool.split_asm option.split_asm if_split_asm)
  qed
qed simp

lemma step_inhibit: "inhibitLoop H n w = (b, w') \<Longrightarrow> guarded_step js u w \<Longrightarrow> guarded_step js u w'"
proof (induction n arbitrary: w)
  case (Suc n)
  then show ?case by (auto simp: guarded_step_def split: prod.split_asm if_split_asm)
qed simp

lemma step_takeInhibitor [chain]: "takeInhibitor H w = (b, w') \<Longrightarrow> guarded_step js u w \<Longrightarrow> guarded_step js u w'"
  by (auto simp: takeInhibitor_def intro: step_inhibit split: if_split_asm)

lemma step_finishWrite: "guarded_step js u w \<Longrightarrow> guarded_step js u (finishWrite js H cmd res w)"
proof -
  assume u: "guarded_step js u w"
  obtain now w1 where w1: "nowOf H w = (now, w1)" by fastforce
  show ?thesis
    using u step_now [OF w1 u]
    by (cases res) (auto simp: finishWrite_def w1 intro!: step_stopDiscovery)
qed

lemma step_writeCommand [chain]:
  "writeCommand js H cmd co w = (res, w') \<Longrightarrow> guarded_step js u w \<Longrightarrow> guarded_step js u w'"
  unfolding writeCommand_def
  by (auto split: prod.split_asm bool.split_asm if_split_asm intro!: step_stopDiscovery step_finishWrite)
    (blast intro: chain)+

lemma step_readLoop [chain]:
  "readLoop js H ad n cb e w = (res, w') \<Longrightarrow> guarded_step js u w \<Longrightarrow> guarded_step js u w'"
proof (induction n arbitrary: cb e w)
  case (Suc n)
  obtain rd w1 where w1: "callout js H (hal_ReadBinary H ad) w = (rd, w1)" by fastforce
  have g1: "guarded_step js u w1" by (rule step_callout [OF w1 Suc.prems(2)])
  obtain sel w2 where w2: "callout js H (hal_SelectTag H 0) w1 = (sel, w2)" by fastforce
  have g2: "guarded_step js u w2" by (rule step_callout [OF w2 g1])
  show ?case
    using Suc.prems(1) g1 g2 Suc.IH
    by (auto simp: w1 w2 split: sum.split_asm option.split_asm if_split_asm)
qed simp

lemma step_read [chain]:
  "readWithVerification js H ad w = (res, w') \<Longrightarrow> guarded_step js u w \<Longrightarrow> guarded_step js u w'"
  unfolding readWithVerification_def by (rule step_readLoop)

lemma step_failSample: "guarded_step js u w \<Longrightarrow> guarded_step js u (failSample H rid st en w)"
proof -
  assume u: "guarded_step js u w"
  obtain now w1 where w1: "nowOf H w = (now, w1)" by fastforce
  show ?thesis
    using step_now [OF w1 u] by (auto simp: failSample_def w1 via_ops intro!: step_withSlot)
qed

lemma step_readFailed: "guarded_step js u w \<Longrightarrow> guarded_step js u (readFailed H e w)"
  by (auto simp: readFailed_def split: prod.split intro: chain)

lemma step_shouldSendOn [chain]: "ShouldSendOn now w = (b, w') \<Longrightarrow> guarded_step js u w \<Longrightarrow> guarded_step js u w'"
proof -
  assume d: "ShouldSendOn now w = (b, w')" and u: "guarded_step js u w"
  have g: "guarded_step js u (w\<lparr>w_adm := snd (shouldIsolate i now (w_maxDelta w) (w_adm w))\<rparr>)" for i
    by (rule step_adm [OF via_ops(8) u])
  show ?thesis
    using d u g by (auto simp: ShouldSendOn_def case_prod_beta split: option.split_asm if_split_asm)
qed

lemma step_observePower: "guarded_step js u w \<Longrightarrow> guarded_step js u (observePowerState now w)"
proof -
  assume u: "guarded_step js u w"
  obtain ex w1 where w1: "(if rd_role (w_reader w) = BatteryRoleActive then ShouldSendOn now w else (False, w)) = (ex, w1)"
    by fastforce
  then have "guarded_step js u w1"
    using u step_shouldSendOn [of now w _ w1 js u] by (auto split: if_split_asm)
  with u show ?thesis by (simp add: observePowerState_def w1 Let_def)
qed

lemma step_deliverSample: "guarded_step js u w \<Longrightarrow> guarded_step js u (deliverSample H rid st en ok w)"
proof -
  assume u: "guarded_step js u w"
  obtain now w1 where w1: "nowOf H w = (now, w1)" by fastforce
  let ?w2 = "observePowerState now (upd_reader (upd_data (\<lambda>d. d\<lparr>SampleTime := st, SampleValid := ok\<rparr>)) w1)"
  have g2: "guarded_step js u ?w2" using step_now [OF w1 u] by (intro step_observePower) simp
  obtain cp w3 where w3: "nowOf H ?w2 = (cp, w3)" by fastforce
  have g3: "guarded_step js u w3" by (rule step_now [OF w3 g2])
  have g4: "guarded_step js u (w3\<lparr>w_adm := snd (observeAcquisition i rid x (w_adm w3))\<rparr>)" for i x
    by (rule step_adm [OF via_ops(4) g3])
  show ?thesis
  proof (cases ok)
    case True
    with w3 g3 g4 show ?thesis
      by (auto simp: deliverSample_def w1 Let_def split: option.split prod.split) (metis snd_conv)+
  next
    case False
    with g2 show ?thesis by (simp add: deliverSample_def w1 Let_def)
  qed
qed

lemma step_decode [chain]:
  "decodeStatus H rid st en s0 s1 s2 w = (b, w') \<Longrightarrow> guarded_step js u w \<Longrightarrow> guarded_step js u w'"
proof -
  assume d: "decodeStatus H rid st en s0 s1 s2 w = (b, w')" and u: "guarded_step js u w"
  obtain now w1 where w1: "nowOf H w = (now, w1)" by fastforce
  let ?w1 = "upd_reader (\<lambda>r. (noteCommsSuccess now r)\<lparr>rd_commFailureCount := 0, rd_lastSuccessfulComm := now\<rparr>) w1"
  have g1: "guarded_step js u ?w1" using step_now [OF w1 u] by simp
  obtain ok r where r: "parseStatusData now s0 s1 s2 (w_reader ?w1) = (ok, r)" by fastforce
  have "policy r = policy (w_reader ?w1)" using policy_frames(3) [of now s0 s1 s2 "w_reader ?w1"] by (simp add: r)
  then have "guarded_step js u (?w1\<lparr>w_reader := r\<rparr>)" using g1 by simp
  with d show ?thesis
    unfolding decodeStatus_def w1 Let_def prod.case r
    by (auto split: bool.split_asm intro!: step_failSample step_deliverSample)
qed

lemma step_readBlocks [chain]:
  "readBlocks js H rid w = (b, w') \<Longrightarrow> guarded_step js u w \<Longrightarrow> guarded_step js u w'"
proof -
  assume d: "readBlocks js H rid w = (b, w')" and u: "guarded_step js u w"
  obtain st w1 where w1: "nowOf H w = (st, w1)" by fastforce
  obtain r0 w2 where w2: "readWithVerification js H 0x0300 w1 = (r0, w2)" by fastforce
  obtain en w3 where w3: "nowOf H w2 = (en, w3)" by fastforce
  obtain r1 w4 where w4: "readWithVerification js H 0x0310 w3 = (r1, w4)" by fastforce
  obtain r2 w5 where w5: "readWithVerification js H 0x0320 w4 = (r2, w5)" by fastforce
  have g3: "guarded_step js u w3" by (rule step_now [OF w3 step_read [OF w2 step_now [OF w1 u]]])
  have g4: "guarded_step js u w4" by (rule step_read [OF w4 g3])
  have g5: "guarded_step js u w5" by (rule step_read [OF w5 g4])
  show ?thesis
    using d g3 g4 g5 step_decode [OF _ g5]
    by (auto simp: readBlocks_def w1 w2 w3 w4 w5 split: sum.split_asm intro!: step_failSample step_readFailed)
qed

lemma step_claim:
  assumes "(case w_slot w of None \<Rightarrow> (0, w)
     | Some i \<Rightarrow> (case claimRound i now (w_adm w) of (n, a) \<Rightarrow> (n, w\<lparr>w_adm := a\<rparr>))) = (rid, w')"
    and u: "guarded_step js u w"
  shows "guarded_step js u w'"
proof -
  have "guarded_step js u (w\<lparr>w_adm := snd (claimRound i now (w_adm w))\<rparr>)" for i
    by (rule step_adm [OF via_ops(5) u])
  with assms show ?thesis by (auto simp: case_prod_beta split: option.split_asm)
qed

lemma step_readStatusLocked [chain]:
  "readStatusLocked js H w = (b, w') \<Longrightarrow> guarded_step js u w \<Longrightarrow> guarded_step js u w'"
proof -
  assume d: "readStatusLocked js H w = (b, w')" and u: "guarded_step js u w"
  obtain now w1 where w1: "nowOf H w = (now, w1)" by fastforce
  have g1: "guarded_step js u w1" by (rule step_now [OF w1 u])
  let ?cl = "case w_slot w1 of None \<Rightarrow> (0, w1)
     | Some i \<Rightarrow> (case claimRound i now (w_adm w1) of (n, a) \<Rightarrow> (n, w1\<lparr>w_adm := a\<rparr>))"
  obtain rid w2 where w2: "?cl = (rid, w2)" by fastforce
  have g2: "guarded_step js u w2" by (rule step_claim [OF w2 g1])
  obtain ok w3 where w3: "(if rd_tagsDiscovered (w_reader w2) then (True, w2) else discoverBatteryTag js H w2) = (ok, w3)"
    by fastforce
  have g3: "guarded_step js u w3" using w3 g2 step_discover [of js H w2 ok w3 u] by (auto split: if_split_asm)
  show ?thesis
    using d g3 step_readBlocks [OF _ g3] unfolding readStatusLocked_def w1 prod.case Let_def w2 fst_conv snd_conv w3
    by (auto split: bool.split_asm intro!: step_failSample)
qed

lemma step_departure: "guarded_step js u w \<Longrightarrow> guarded_step js u (handleDeparture now w)"
  using step_withSlot [of js w "\<lambda>i. observeAbsent i now" u] by (simp add: handleDeparture_def via_ops)

lemma step_finishDiscovery: "guarded_step js u w \<Longrightarrow> guarded_step js u (finishDiscovery now f w)"
  by (auto simp: finishDiscovery_def split: sum.split intro!: step_departure)

lemma step_FinishDiscovery: "guarded_step js u w \<Longrightarrow> guarded_step js u (FinishDiscovery js H w)"
  by (auto simp: FinishDiscovery_def split: prod.split intro!: step_finishDiscovery)
    (blast intro: chain)+

lemma step_poll [chain]:
  "pollForTagArrival js H c1 c2 w = (b, w') \<Longrightarrow> guarded_step js u w \<Longrightarrow> guarded_step js u w'"
proof -
  assume d: "pollForTagArrival js H c1 c2 w = (b, w')" and u: "guarded_step js u w"
  obtain res w1 where w1: "callout js H (hal_PollDiscovery H) w = (res, w1)" by fastforce
  obtain now w2 where w2: "nowOf H w1 = (now, w2)" by fastforce
  have g1: "guarded_step js u w1" by (rule step_callout [OF w1 u])
  have g2: "guarded_step js u w2" by (rule step_now [OF w2 g1])
  have "guarded_step js u (snd (processTagArrivalPoll now res w2))"
    using g2 by (auto simp: processTagArrivalPoll_def Let_def via_ops split: sum.split DiscoveryKind.split
        intro!: step_noteTag step_withSlot)
  with d u g1 show ?thesis
    by (auto simp: pollForTagArrival_def w1 w2 split: if_split_asm sum.split_asm)
qed

section \<open>The service\<close>

text \<open>What a reader's goroutines call, and the guard calls of the service around them.\<close>

datatype reader_op =
    RdStartDiscovery | RdStopDiscovery | RdDiscover
  | RdReadStatus | RdReadFreshOff
  | RdWriteCommand BMSCommand | RdWriteOff
  | RdFinishDiscovery | RdPollTagArrival bool bool
  | RdGuard adm_op

fun reader_exec ::
  "(string \<Rightarrow> motionEvidence option) \<Rightarrow> 'h hal_ops \<Rightarrow> reader_op \<Rightarrow> 'h world \<Rightarrow> 'h world" where
  "reader_exec js H RdStartDiscovery w = snd (startDiscovery js H w)"
| "reader_exec js H RdStopDiscovery w = stopDiscovery js H w"
| "reader_exec js H RdDiscover w = snd (discoverBatteryTag js H w)"
| "reader_exec js H RdReadStatus w = snd (readStatus js H w)"
| "reader_exec js H RdReadFreshOff w = snd (ReadFreshOffState js H w)"
| "reader_exec js H (RdWriteCommand cmd) w = WriteCommand js H cmd w"
| "reader_exec js H RdWriteOff w = snd (WriteOffCommand js H w)"
| "reader_exec js H RdFinishDiscovery w = FinishDiscovery js H w"
| "reader_exec js H (RdPollTagArrival before after) w = snd (pollForTagArrival js H before after w)"
| "reader_exec js H (RdGuard c) w = w\<lparr>w_adm := adm_exec js c (w_adm w)\<rparr>"

lemma reader_exec_guarded: "guarded_step js w (reader_exec js H c w)"
proof -
  have read: "guarded_step js w (snd (readStatusLocked js H w))"
    by (rule step_readStatusLocked [OF surjective_pairing step_refl])
  have wr: "guarded_step js w (snd (writeCommand js H cmd co w))" for cmd co
    by (rule step_writeCommand [OF surjective_pairing step_refl])
  have "guarded_step js w (snd (startDiscovery js H w))"
    by (rule step_startDiscovery [OF surjective_pairing step_refl])
  moreover have "guarded_step js w (snd (discoverBatteryTag js H w))"
    by (rule step_discover [OF surjective_pairing step_refl])
  moreover have "guarded_step js w (snd (pollForTagArrival js H x y w))" for x y
    by (rule step_poll [OF surjective_pairing step_refl])
  moreover have "guarded_step js w (w\<lparr>w_adm := adm_exec js d (w_adm w)\<rparr>)" for d
    by (rule step_adm [OF via_op step_refl])
  moreover have "guarded_step js w (snd (readStatus js H w))" "guarded_step js w (snd (ReadFreshOffState js H w))"
    using read by (simp_all add: readStatus_def ReadFreshOffState_def case_prod_beta Let_def)
  ultimately show ?thesis
    using wr by (cases c) (simp_all add: WriteCommand_def WriteOffCommand_def step_stopDiscovery step_FinishDiscovery)
qed

text \<open>A client of the guard, whatever its own state is.\<close>

locale guard_client =
  fixes js :: "string \<Rightarrow> motionEvidence option"
    and guard :: "'w \<Rightarrow> packAdmission"
    and step :: "'op \<Rightarrow> 'w \<Rightarrow> 'w"
  assumes acts_via_guard: "via_guard js (guard w) (guard (step c w))"
begin

lemma run_via: "via_guard js (guard w) (guard (fold step cs w))"
  by (induction cs arbitrary: w) (auto intro: via_trans acts_via_guard)

lemma client_inv: "adm_inv (guard w) \<Longrightarrow> adm_inv (guard (fold step cs w))"
  using run_via [of w cs] adm.inv_run by (auto simp: via_guard_def)

text \<open>
  A guard condition that only one kind of guard operation can end survives a run of the client or
  was ended by such an operation.
\<close>

lemma client_kept:
  assumes "\<And>c t. adm_inv t \<Longrightarrow> Q t \<Longrightarrow> Q (adm_exec js c t) \<or> ends c t"
    and "adm_inv (guard w)" "Q (guard w)"
  shows "\<exists>ops. guard (fold step cs w) = fold (adm_exec js) ops (guard w) \<and>
     (Q (guard (fold step cs w)) \<or> (\<exists>us c vs. ops = us @ c # vs \<and> ends c (fold (adm_exec js) us (guard w))))"
proof -
  obtain ops where ops: "guard (fold step cs w) = fold (adm_exec js) ops (guard w)"
    using run_via [of w cs] by (auto simp: via_guard_def)
  with adm.kept_or_ended [where Q = Q and ends = ends, OF assms] show ?thesis by metis
qed

end

interpretation rdr: guard_client js w_adm "reader_exec js H" for js H
  by unfold_locales (use reader_exec_guarded in \<open>auto simp: guarded_step_def\<close>)

end
