(* ===== verification/Nfc_Safety.thy ===== *)
theory Nfc_Safety
  imports Nfc_Guard
begin

text \<open>
  What the NFC operations guarantee: no command is written that the guard has not admitted, no
  block is decoded that was not read twice, a failed read withdraws the evidence of its slot, and
  the guard's own guarantees hold along every run of the service.
\<close>

section \<open>Every write is admitted\<close>

text \<open>What the gate answers for a command, as a function of the guard and the time.\<close>

definition grants :: "slot option \<Rightarrow> nat \<Rightarrow> bool \<Rightarrow> BMSCommand \<Rightarrow> packAdmission \<Rightarrow> gotime \<Rightarrow> bool" where
  "grants sl md correctiveOff cmd a now =
     (case sl of
        None \<Rightarrow> True
      | Some i \<Rightarrow>
          if cmd = BMSCmdOn then fst (fst (requestOn i now md a))
          else cmd = BMSCmdOff \<longrightarrow> correctiveOff \<longrightarrow> fst (isolationOffAttempt i now a))"

text \<open>
  A trace of one command: passes through the gate, each followed by the write it admitted; a
  refusal ends it, and a further pass follows only a write that failed with a busy arbiter.
\<close>

fun gated_trace :: "slot option \<Rightarrow> nat \<Rightarrow> bool \<Rightarrow> BMSCommand \<Rightarrow> nfc_step list \<Rightarrow> bool" where
  "gated_trace sl md co cmd [] \<longleftrightarrow> True"
| "gated_trace sl md co cmd [Refused c a now] \<longleftrightarrow> c = cmd \<and> \<not> grants sl md co cmd a now"
| "gated_trace sl md co cmd (Admitted c a now # Wrote bs e # ts) \<longleftrightarrow>
     c = cmd \<and> grants sl md co cmd a now \<and> bs = cmdBytes cmd \<and>
     (ts \<noteq> [] \<longrightarrow> (\<exists>x. e = Some x \<and> isArbiterBusyError x)) \<and> gated_trace sl md co cmd ts"
| "gated_trace sl md co cmd _ \<longleftrightarrow> False"

text \<open>The result the caller sees agrees with how the trace ends.\<close>

fun ends_as :: "write_result \<Rightarrow> nfc_step list \<Rightarrow> bool" where
  "ends_as Written ts \<longleftrightarrow> ts \<noteq> [] \<and> (\<exists>bs. last ts = Wrote bs None)"
| "ends_as Deferred ts \<longleftrightarrow> ts \<noteq> [] \<and> (\<exists>c a now. last ts = Refused c a now)"
| "ends_as (WriteFailed x) ts \<longleftrightarrow> ts \<noteq> [] \<and> (\<exists>bs y. last ts = Wrote bs (Some y))"
| "ends_as TagUnavailable ts \<longleftrightarrow> ts = []"

lemma ends_as_Cons [simp]: "ts \<noteq> [] \<Longrightarrow> ends_as res (x # ts) = ends_as res ts"
  by (cases res) simp_all

text \<open>Calls that leave the trace, the slot, the voltage limit and the inhibitor alone.\<close>

definition untraced :: "'h world \<Rightarrow> 'h world \<Rightarrow> bool" where
  "untraced w w' \<longleftrightarrow> w_trace w' = w_trace w \<and> w_slot w' = w_slot w \<and> w_maxDelta w' = w_maxDelta w \<and>
     w_inhibitor w' = w_inhibitor w"

lemma untraced_refl [simp]: "untraced w w"
  by (simp add: untraced_def)

lemma untraced_trans: "untraced u v \<Longrightarrow> untraced v w \<Longrightarrow> untraced u w"
  by (simp add: untraced_def)

lemma untraced_reader [simp]: "untraced u (upd_reader f w) = untraced u w" "untraced (upd_reader f u) w = untraced u w"
  by (simp_all add: untraced_def upd_reader_def)

lemma untraced_callout: "callout js H f w = (x, w') \<Longrightarrow> untraced w w'"
  by (auto simp: callout_def untraced_def split: prod.split_asm)

lemma untraced_now: "nowOf H w = (t, w') \<Longrightarrow> untraced w w'"
  by (auto simp: nowOf_def untraced_def split: prod.split_asm)

lemma untraced_noteTag [simp]: "untraced u (noteTagPresent now t w) = untraced u w"
  by (simp add: noteTagPresent_def withSlot_def untraced_def upd_reader_def split: option.split)

lemma untraced_startDiscovery: "startDiscovery js H w = (b, w') \<Longrightarrow> untraced w w'"
  unfolding startDiscovery_def Let_def
  by (auto split: prod.split_asm option.split_asm if_split_asm dest!: untraced_callout)
     (blast intro: untraced_trans)+

lemma untraced_stopDiscovery: "untraced w (stopDiscovery js H w)"
  unfolding stopDiscovery_def by (auto split: prod.split option.split dest: untraced_callout)

lemma untraced_discover: "discoverBatteryTag js H w = (b, w') \<Longrightarrow> untraced w w'"
  unfolding discoverBatteryTag_def
  by (auto split: prod.split_asm bool.split_asm sum.split_asm if_split_asm
      dest!: untraced_startDiscovery untraced_callout untraced_now)
     (blast intro: untraced_trans)+

lemma gate_grants:
  assumes "gate cmd now co w = (ok, w')"
  shows "ok = grants (w_slot w) (w_maxDelta w) co cmd (w_adm w) now"
    "w_trace w' = w_trace w @ [if ok then Admitted cmd (w_adm w) now else Refused cmd (w_adm w) now]"
    "w_slot w' = w_slot w" "w_maxDelta w' = w_maxDelta w" "w_inhibitor w' = w_inhibitor w"
  using assms
  by (auto simp: gate_def admitCommandPolicy_def traceStep_def grants_def split: prod.split_asm option.split_asm if_split_asm)

lemma writeLoop_gated:
  "writeLoop js H cmd co n le w = (res, w') \<Longrightarrow> n > 0 \<or> le \<noteq> None \<Longrightarrow>
   \<exists>ts. w_trace w' = w_trace w @ ts \<and> gated_trace (w_slot w) (w_maxDelta w) co cmd ts \<and> length ts \<le> 2 * n \<and>
        (if ts = [] then n = 0 \<and> (\<exists>x. res = WriteFailed x) else ends_as res ts) \<and> w_slot w' = w_slot w"
proof (induction n arbitrary: le w)
  case (Suc n)
  let ?P = "\<lambda>n w ts. w_trace w' = w_trace w @ ts \<and> gated_trace (w_slot w) (w_maxDelta w) co cmd ts \<and>
     length ts \<le> 2 * n \<and> (if ts = [] then n = 0 \<and> (\<exists>x. res = WriteFailed x) else ends_as res ts) \<and> w_slot w' = w_slot w"
  obtain now w1 where w1: "nowOf H w = (now, w1)" by fastforce
  obtain ok w2 where w2: "gate cmd now co w1 = (ok, w2)" by fastforce
  obtain err w3 where w3: "callout js H (hal_WriteBinary H 0x0330 (cmdBytes cmd)) w2 = (err, w3)" by fastforce
  define w4 where "w4 = traceStep (Wrote (cmdBytes cmd) err) w3"
  obtain sel w5 where w5: "callout js H (hal_SelectTag H 0) w4 = (sel, w5)" by fastforce
  note step = Suc.prems(1) [simplified, unfolded w1 prod.case w2 w3 w4_def [symmetric]]
  have u1: "untraced w w1" by (rule untraced_now [OF w1])
  note g = gate_grants [OF w2]
  show ?case
  proof (cases ok)
    case False
    with step have "res = Deferred" "w' = w2" by auto
    with False g u1 show ?thesis
      by (intro exI [of _ "[Refused cmd (w_adm w1) now]"]) (simp add: untraced_def)
  next
    case True
    let ?pre = "[Admitted cmd (w_adm w1) now, Wrote (cmdBytes cmd) err]"
    have t4: "w_trace w4 = w_trace w @ ?pre" "w_slot w4 = w_slot w" "w_maxDelta w4 = w_maxDelta w"
      using True g u1 untraced_callout [OF w3] by (simp_all add: w4_def traceStep_def untraced_def)
    have gr: "grants (w_slot w) (w_maxDelta w) co cmd (w_adm w1) now"
      using True g u1 by (simp add: untraced_def)
    have u5: "untraced w4 w5" by (rule untraced_callout [OF w5])
    have once: ?thesis if "w_trace w' = w_trace w4" "w_slot w' = w_slot w4" "ends_as res ?pre"
      using that t4 gr by (intro exI [of _ ?pre]) simp
    have again_ok: ?thesis if "err = Some e" "isArbiterBusyError e" "writeLoop js H cmd co n (Some e) w5 = (res, w')" for e
    proof -
      from Suc.IH [OF that(3)] obtain ts where "?P n w5 ts" by auto
      with that t4 gr u5 show ?thesis by (intro exI [of _ "?pre @ ts"]) (auto simp: untraced_def split: if_split_asm)
    qed
    show ?thesis
    proof (cases err)
      case None
      with True step once show ?thesis by simp
    next
      case (Some e)
      with True step w5 consider (again) "isArbiterBusyError e" "writeLoop js H cmd co n (Some e) w5 = (res, w')"
        | (stop) x where "res = WriteFailed x" "w' = w4 \<or> w' = w5"
        by (auto split: if_split_asm option.split_asm)
      then show ?thesis
      proof cases
        case again
        with Some show ?thesis by (rule again_ok)
      next
        case stop
        with Some u5 show ?thesis by (intro once) (auto simp: untraced_def)
      qed
    qed
  qed
qed auto

lemma inhibitLoop_trace:
  "inhibitLoop H n w = (b, w') \<Longrightarrow> w_trace w' = w_trace w \<and> w_slot w' = w_slot w \<and> w_maxDelta w' = w_maxDelta w"
proof (induction n arbitrary: w)
  case (Suc n)
  then show ?case by (fastforce split: prod.split_asm if_split_asm)
qed simp

lemma takeInhibitor_trace:
  "takeInhibitor H w = (b, w') \<Longrightarrow> w_trace w' = w_trace w \<and> w_slot w' = w_slot w \<and> w_maxDelta w' = w_maxDelta w"
  by (auto simp: takeInhibitor_def dest: inhibitLoop_trace split: if_split_asm)

lemma finishWrite_trace: "w_trace (finishWrite js H cmd res w) = w_trace w"
proof -
  obtain now w1 where w1: "nowOf H w = (now, w1)" by fastforce
  have "untraced w (stopDiscovery js H (upd_reader f w1))" for f
    using untraced_now [OF w1] untraced_stopDiscovery [of "upd_reader f w1" js H] by (auto intro: untraced_trans)
  then show ?thesis by (cases res) (simp_all add: finishWrite_def w1 untraced_def)
qed

text \<open>
  C15: Every command write is admitted first. Whatever a call of \<open>writeCommand\<close> puts on the tag is the
  four-byte encoding of its command, each write directly follows a decision of the guard that allows
  that command in the state the guard then has, a retry asks again and follows only a busy arbiter,
  a refusal ends the call with nothing further written, at most five writes are made, the result
  tells how the call ended, and the suspend inhibitor taken for the writes is released.
\<close>

theorem writes_are_gated:
  assumes "writeCommand js H cmd correctiveOff w = (res, w')"
  shows "\<exists>ts. w_trace w' = w_trace w @ ts \<and>
           gated_trace (w_slot w) (w_maxDelta w) correctiveOff cmd ts \<and> length ts \<le> 10 \<and>
           ends_as res ts \<and> (ts \<noteq> [] \<longrightarrow> \<not> w_inhibitor w')"
proof -
  obtain ok w1 where w1: "(if rd_tagsDiscovered (w_reader w) then (True, w) else discoverBatteryTag js H w) = (ok, w1)"
    by fastforce
  then have u1: "untraced w w1" using untraced_discover [of js H w ok w1] by (auto split: if_split_asm)
  show ?thesis
  proof (cases ok)
    case False
    with assms w1 have "res = TagUnavailable" "w' = stopDiscovery js H w1" by (auto simp: writeCommand_def)
    with u1 untraced_stopDiscovery [of w1 js H] show ?thesis by (simp add: untraced_def)
  next
    case True
    obtain b w2 where w2: "takeInhibitor H w1 = (b, w2)" by fastforce
    have u2: "w_trace w2 = w_trace w1" "w_slot w2 = w_slot w1" "w_maxDelta w2 = w_maxDelta w1"
      using takeInhibitor_trace [OF w2] by auto
    obtain res' w3 where w3: "writeLoop js H cmd correctiveOff maxRetries None w2 = (res', w3)" by fastforce
    from assms w1 True w2 w3 have res: "res' = res" and w': "w' = releaseInhibitor (finishWrite js H cmd res w3)"
      by (auto simp: writeCommand_def)
    from writeLoop_gated [OF w3 [unfolded res]] obtain ts where "w_trace w3 = w_trace w2 @ ts"
      "gated_trace (w_slot w2) (w_maxDelta w2) correctiveOff cmd ts" "length ts \<le> 10" "ends_as res ts"
      by (auto simp: maxRetries_def split: if_split_asm)
    moreover have "w_trace w' = w_trace w3" "\<not> w_inhibitor w'"
      using finishWrite_trace [of js H cmd res w3] by (simp_all add: w' releaseInhibitor_def)
    ultimately show ?thesis using u1 u2 by (auto simp: untraced_def)
  qed
qed

section \<open>Verified reads\<close>

text \<open>
  The controller calls of a verified read: reads of one block, and selecting the tag again after a
  busy arbiter.
\<close>

inductive block_calls ::
  "(string \<Rightarrow> motionEvidence option) \<Rightarrow> 'h hal_ops \<Rightarrow> nat \<Rightarrow> 'h world \<Rightarrow> 'h world \<Rightarrow> bool"
  for js :: "string \<Rightarrow> motionEvidence option" and H :: "'h hal_ops" and address :: nat where
  calls_none: "block_calls js H address w w"
| calls_read: "block_calls js H address w v \<Longrightarrow> callout js H (hal_ReadBinary H address) v = (r, v') \<Longrightarrow>
    block_calls js H address w v'"
| calls_select: "block_calls js H address w v \<Longrightarrow> callout js H (hal_SelectTag H 0) v = (r, v') \<Longrightarrow>
    block_calls js H address w v'"

text \<open>Two reads in a row that returned the same bytes, with only failed reads between them.\<close>

inductive failed_reads ::
  "(string \<Rightarrow> motionEvidence option) \<Rightarrow> 'h hal_ops \<Rightarrow> nat \<Rightarrow> 'h world \<Rightarrow> 'h world \<Rightarrow> bool"
  for js :: "string \<Rightarrow> motionEvidence option" and H :: "'h hal_ops" and address :: nat where
  failed_none: "failed_reads js H address w w"
| failed_read: "failed_reads js H address w v \<Longrightarrow> callout js H (hal_ReadBinary H address) v = (Inl e, v') \<Longrightarrow>
    failed_reads js H address w v'"

definition read_twice ::
  "(string \<Rightarrow> motionEvidence option) \<Rightarrow> 'h hal_ops \<Rightarrow> nat \<Rightarrow> byte list \<Rightarrow> 'h world \<Rightarrow> 'h world \<Rightarrow> bool" where
  "read_twice js H address data w w' \<longleftrightarrow>
     (\<exists>u u' v. block_calls js H address w u \<and> callout js H (hal_ReadBinary H address) u = (Inr data, u') \<and>
        failed_reads js H address u' v \<and> callout js H (hal_ReadBinary H address) v = (Inr data, w'))"

lemma readLoop_agrees:
  "readLoop js H address n cb le v = (Inr data, w') \<Longrightarrow> block_calls js H address w v \<Longrightarrow>
   (\<And>d. cb = Some d \<Longrightarrow> \<exists>u u'. block_calls js H address w u \<and>
      callout js H (hal_ReadBinary H address) u = (Inr d, u') \<and> failed_reads js H address u' v) \<Longrightarrow>
   read_twice js H address data w w'"
proof (induction n arbitrary: cb le v)
  case (Suc n)
  obtain r v1 where v1: "callout js H (hal_ReadBinary H address) v = (r, v1)" by fastforce
  have c1: "block_calls js H address w v1" by (rule calls_read [OF Suc.prems(2) v1])
  obtain sel v2 where v2: "callout js H (hal_SelectTag H 0) v1 = (sel, v2)" by fastforce
  have c2: "block_calls js H address w v2" by (rule calls_select [OF c1 v2])
  show ?case
  proof (cases r)
    case (Inr d)
    show ?thesis
    proof (cases "cb = Some d")
      case True
      with Suc.prems(1) v1 Inr have "d = data" "w' = v1" by auto
      with Suc.prems(3) [OF True] v1 Inr show ?thesis by (auto simp: read_twice_def)
    next
      case False
      with Suc.prems(1) v1 Inr have "readLoop js H address n (Some d) le v1 = (Inr data, w')" by simp
      then show ?thesis
        by (rule Suc.IH [OF _ c1]) (use v1 Inr Suc.prems(2) failed_none in blast)
    qed
  next
    case (Inl e)
    with Suc.prems(1) v1 v2 consider
        "readLoop js H address n None (Some e) v2 = (Inr data, w')"
      | "readLoop js H address n cb (Some e) v1 = (Inr data, w')"
      by (auto split: if_split_asm option.split_asm)
    then show ?thesis
    proof cases
      case 1
      then show ?thesis by (rule Suc.IH [OF _ c2]) simp
    next
      case 2
      then show ?thesis
      proof (rule Suc.IH [OF _ c1])
        fix d assume "cb = Some d"
        from Suc.prems(3) [OF this] obtain u u' where u: "block_calls js H address w u"
          "callout js H (hal_ReadBinary H address) u = (Inr d, u')" "failed_reads js H address u' v" by blast
        with failed_read [OF u(3) v1 [unfolded Inl]] show "\<exists>u u'. block_calls js H address w u \<and>
          callout js H (hal_ReadBinary H address) u = (Inr d, u') \<and> failed_reads js H address u' v1" by blast
      qed
    qed
  qed
qed simp

text \<open>
  C29: A block is accepted only when the controller returned it twice: \<open>readWithVerification\<close>
  gives bytes to the decoder only after two reads of that block that returned exactly those bytes,
  with nothing but failed reads between them.
\<close>

theorem verified_read_agrees:
  assumes "readWithVerification js H address w = (Inr data, w')"
  shows "read_twice js H address data w w'"
  using assms calls_none unfolding readWithVerification_def by (rule readLoop_agrees) simp

section \<open>Failed reads\<close>

lemma failSample_withdraws:
  assumes "w_slot w = Some i"
  shows "let s = slots (w_adm (failSample H rid st en w)) i in \<not> valid s \<and> \<not> absent s \<and> history s = []"
  using assms
  by (simp add: failSample_def nowOf_def withSlot_def failAcquisition_def Let_def split: prod.split)

lemma decodeStatus_ok: "decodeStatus H rid st en s0 s1 s2 w \<noteq> ((False, d), w')"
  by (simp add: decodeStatus_def Let_def split: prod.split bool.split)

lemma readBlocks_failed:
  assumes "readBlocks js H rid w = ((False, d), w')"
  shows "\<exists>v st en. guarded_step js w v \<and> w' = failSample H rid st en v"
proof -
  obtain st w1 where w1: "nowOf H w = (st, w1)" by fastforce
  obtain r0 w2 where w2: "readWithVerification js H 0x0300 w1 = (r0, w2)" by fastforce
  obtain en w3 where w3: "nowOf H w2 = (en, w3)" by fastforce
  obtain r1 w4 where w4: "readWithVerification js H 0x0310 w3 = (r1, w4)" by fastforce
  obtain r2 w5 where w5: "readWithVerification js H 0x0320 w4 = (r2, w5)" by fastforce
  have g3: "guarded_step js w w3" by (rule step_now [OF w3 step_read [OF w2 step_now [OF w1 step_refl]]])
  have g4: "guarded_step js w w4" by (rule step_read [OF w4 g3])
  have g5: "guarded_step js w w5" by (rule step_read [OF w5 g4])
  have "\<exists>v e. (v = w3 \<or> v = w4 \<or> v = w5) \<and> w' = failSample H rid st en (readFailed H e v)"
    using assms
    by (auto simp: decodeStatus_ok readBlocks_def w1 w2 w3 w4 w5 split: sum.split_asm)
  with g3 g4 g5 step_readFailed show ?thesis by blast
qed

lemma readStatusLocked_failed:
  assumes "readStatusLocked js H w = ((False, d), w')"
  shows "\<exists>v rid st en. guarded_step js w v \<and> w' = failSample H rid st en v"
proof -
  obtain now w1 where w1: "nowOf H w = (now, w1)" by fastforce
  have g1: "guarded_step js w w1" by (rule step_now [OF w1 step_refl])
  let ?cl = "case w_slot w1 of None \<Rightarrow> (0, w1)
     | Some i \<Rightarrow> (case claimRound i now (w_adm w1) of (n, a) \<Rightarrow> (n, w1\<lparr>w_adm := a\<rparr>))"
  obtain rid w2 where w2: "?cl = (rid, w2)" by fastforce
  have g2: "guarded_step js w w2" by (rule step_claim [OF w2 g1])
  obtain ok w3 where w3: "(if rd_tagsDiscovered (w_reader w2) then (True, w2) else discoverBatteryTag js H w2) = (ok, w3)"
    by fastforce
  have g3: "guarded_step js w w3" using w3 g2 step_discover [of js H w2 ok w3 w] by (auto split: if_split_asm)
  note st = assms [unfolded readStatusLocked_def w1 prod.case Let_def w2 fst_conv snd_conv w3]
  show ?thesis
  proof (cases ok)
    case True
    with st have "readBlocks js H rid w3 = ((False, d), w')" by simp
    from readBlocks_failed [OF this] g3 step_trans show ?thesis by blast
  next
    case False
    with st have "w' = failSample H rid zeroTime zeroTime w3" by simp
    with g3 show ?thesis by blast
  qed
qed

lemma fresh_valid: "fresh now s \<Longrightarrow> valid s"
  by (simp add: fresh_def)

text \<open>
  C28: A failed status read withdraws the evidence of its slot: the guard afterwards has no valid
  frame and no voltage history for it and does not count it absent, so until the next good read an
  ON for the slot is granted only to keep a supply that is already running.
\<close>

theorem failed_read_withdraws_evidence:
  assumes "readStatusLocked js H w = ((False, d), w')" and "w_slot w = Some i"
  shows "\<not> valid (slots (w_adm w') i) \<and> \<not> absent (slots (w_adm w') i) \<and> history (slots (w_adm w') i) = [] \<and>
         (\<forall>now md r b. requestOn i now md (w_adm w') = ((True, r), b) \<longrightarrow>
            r = MaintainingSupply \<or> r = MaintainingHandover)"
proof -
  from readStatusLocked_failed [OF assms(1)] obtain v rid st en where
    v: "guarded_step js w v" "w' = failSample H rid st en v" by blast
  with assms(2) have "w_slot v = Some i" by (simp add: guarded_step_def)
  from failSample_withdraws [OF this, of H rid st en] v(2)
  have e: "\<not> valid (slots (w_adm w') i)" "\<not> absent (slots (w_adm w') i)" "history (slots (w_adm w') i) = []"
    by (simp_all add: Let_def)
  have "r = MaintainingSupply \<or> r = MaintainingHandover" if "requestOn i now md (w_adm w') = ((True, r), b)" for now md r b
    using requestOn_granted(1) [OF that] early_through(3) [of i now "reconcileLocked now md (w_adm w')"]
      e(1) fresh_valid by fastforce
  with e show ?thesis by blast
qed

section \<open>Supply safety of the service\<close>

text \<open>
  What the guard guarantees holds for the whole service: along every sequence of controller
  operations of a reader, mixed with guard operations of the other goroutines between and during
  the calls, the guard invariant is kept, and a pack recorded as supplying stays recorded until a
  guard operation of the run confirms it off.
\<close>

lemma service_keeps_supply:
  assumes "adm_inv (w_adm w)" and "held (slots (w_adm w) j)"
  shows "adm_inv (w_adm (fold (reader_exec js H) cs w)) \<and>
         (\<exists>ops. w_adm (fold (reader_exec js H) cs w) = fold (adm_exec js) ops (w_adm w) \<and>
            (held (slots (w_adm (fold (reader_exec js H) cs w)) j) \<or>
             (\<exists>us c vs. ops = us @ c # vs \<and> confirms_off j c (fold (adm_exec js) us (w_adm w)))))"
proof (rule conjI)
  show "adm_inv (w_adm (fold (reader_exec js H) cs w))" by (rule rdr.client_inv) fact
  show "\<exists>ops. w_adm (fold (reader_exec js H) cs w) = fold (adm_exec js) ops (w_adm w) \<and>
          (held (slots (w_adm (fold (reader_exec js H) cs w)) j) \<or>
           (\<exists>us c vs. ops = us @ c # vs \<and> confirms_off j c (fold (adm_exec js) us (w_adm w))))"
    by (rule rdr.client_kept [where Q = "\<lambda>t. held (slots t j)"]) (use assms held_step in blast)+
qed

section \<open>Command bytes\<close>

lemma bits_of_command:
  "n < LENGTH(32) \<Longrightarrow> n < 8 \<or> (\<exists>k<8. n = 8 + k) \<or> (\<exists>k<8. n = 16 + k) \<or> (\<exists>k<8. n = 24 + k)"
  by simp presburger

text \<open>
  The bytes written for a command are its little-endian encoding: reading them back gives the
  command, and different commands are written differently.
\<close>

lemma command_roundtrip:
  "length (cmdBytes cmd) = 4 \<and>
   leUint32 (cmdBytes cmd ! 0) (cmdBytes cmd ! 1) (cmdBytes cmd ! 2) (cmdBytes cmd ! 3) = cmd"
proof -
  have "leUint32 (ucast cmd) (ucast (drop_bit 8 cmd)) (ucast (drop_bit 16 cmd)) (ucast (drop_bit 24 cmd)) = cmd"
  proof (rule bit_word_eqI)
    fix n assume "n < LENGTH(32)"
    then consider "n < 8" | k where "n = 8 + k" "k < 8" | k where "n = 16 + k" "k < 8" | k where "n = 24 + k" "k < 8"
      by (metis bits_of_command)
    then show "bit (leUint32 (ucast cmd) (ucast (drop_bit 8 cmd)) (ucast (drop_bit 16 cmd)) (ucast (drop_bit 24 cmd))) n =
        bit cmd n"
      by cases (auto simp: leUint32_def bit_simps)
  qed
  then show ?thesis by (simp add: cmdBytes_def)
qed

end
