(* ===== verification/Publication_Safety.thy ===== *)
theory Publication_Safety
  imports Fault_Safety
begin

text \<open>
  What the published commands amount to: an abstract fault set that the commands of the log
  determine, which every successful publication brings in line with the recorded faults, and the
  bookkeeping of changed fields, which loses nothing when a transaction fails.
\<close>

section \<open>The fault set in Redis\<close>

text \<open>
  What the issued commands make of the fault set: transactions are numbered in the order they are
  executed and one that fails has no effect; the direct commands are taken to succeed.
\<close>

fun redis_cmd_faults :: "redis_cmd \<Rightarrow> BMSFault set \<Rightarrow> BMSFault set" where
  "redis_cmd_faults (SAddFault f) S = insert f S"
| "redis_cmd_faults (SRemFault f) S = S - {f}"
| "redis_cmd_faults _ S = S"

fun redis_step :: "(nat \<Rightarrow> bool) \<Rightarrow> nat \<times> BMSFault set \<Rightarrow> redis_cmd \<Rightarrow> nat \<times> BMSFault set" where
  "redis_step txn (n, S) (TxExec cs) = (Suc n, if txn n then fold redis_cmd_faults cs S else S)"
| "redis_step txn (n, S) c = (n, redis_cmd_faults c S)"

definition redis_run :: "BMSFault set \<Rightarrow> BatteryReader \<Rightarrow> nat \<times> BMSFault set" where
  "redis_run S r = foldl (redis_step (rd_txn r)) (0, S) (rd_redis r)"

definition redis_faults :: "BMSFault set \<Rightarrow> BatteryReader \<Rightarrow> BMSFault set" where
  "redis_faults S r = snd (redis_run S r)"

text \<open>Executed transactions are counted as the reader counts them.\<close>

definition counted :: "BMSFault set \<Rightarrow> BatteryReader \<Rightarrow> bool" where
  "counted S r \<longleftrightarrow> fst (redis_run S r) = rd_txns r"

lemma redis_upd [simp]:
  "redis_run S (upd_fault f g r) = redis_run S r"
  "redis_run S (r\<lparr>rd_data := d\<rparr>) = redis_run S r"
  "redis_run S (r\<lparr>rd_fresh := x\<rparr>) = redis_run S r"
  "redis_run S (r\<lparr>rd_inTagPresent := b\<rparr>) = redis_run S r"
  "rd_txns (upd_fault f g r) = rd_txns r"
  by (simp_all add: redis_run_def upd_fault_def)

lemma redis_faults_upd [simp]:
  "redis_faults S (upd_fault f g r) = redis_faults S r"
  "redis_faults S (r\<lparr>rd_data := d\<rparr>) = redis_faults S r"
  "redis_faults S (r\<lparr>rd_fresh := x\<rparr>) = redis_faults S r"
  "redis_faults S (r\<lparr>rd_inTagPresent := b\<rparr>) = redis_faults S r"
  by (simp_all add: redis_faults_def)

lemma redis_report [simp]:
  "redis_faults S (reportFault f b r) = (if b then insert f (redis_faults S r) else redis_faults S r - {f})"
  "counted S (reportFault f b r) = counted S r"
proof -
  have s: "redis_run S (redisDo c r) = redis_step (rd_txn r) (redis_run S r) c" for c r
    by (simp add: redis_run_def redisDo_def)
  obtain n T where "redis_run S r = (n, T)" by fastforce
  then show "redis_faults S (reportFault f b r) = (if b then insert f (redis_faults S r) else redis_faults S r - {f})"
    "counted S (reportFault f b r) = counted S r"
    by (simp_all add: reportFault_def redis_faults_def counted_def s) (simp_all add: redisDo_def)
qed

text \<open>The commands of one transaction make the set follow the present faults that changed.\<close>

lemma redis_changes:
  assumes "distinct fs"
  shows "f \<in> fold redis_cmd_faults (map (\<lambda>f. if P f then SAddFault f else SRemFault f) fs) S \<longleftrightarrow>
         (if f \<in> set fs then P f else f \<in> S)"
  using assms by (induction fs arbitrary: S) auto

lemma redis_publishes: "\<forall>c \<in> set cs. \<exists>k. c = Publish k \<Longrightarrow> fold redis_cmd_faults cs S = S"
  by (induction cs arbitrary: S) auto

lemma changedFaults_distinct: "distinct (changedFaults r)"
  by (simp add: changedFaults_def faultKeys_distinct)

lemma redis_transaction:
  "f \<in> fold redis_cmd_faults (updateFaultSetInTransaction r @ changedFields r') S \<longleftrightarrow>
   (if f \<in> set (changedFaults r) then fs_Present (fault_state f r) else f \<in> S)"
proof -
  have "fold redis_cmd_faults (changedFields r') T = T" for T
    by (rule redis_publishes) (auto simp: changedFields_def)
  then show ?thesis
    by (simp add: updateFaultSetInTransaction_def redis_changes changedFaults_distinct)
qed

lemma redis_sendStatus:
  assumes "counted S r"
  shows "counted S (sendStatusUpdate now r)"
    "f \<in> redis_faults S (sendStatusUpdate now r) \<longleftrightarrow>
     (if rd_txn r (rd_txns r) \<and> f \<in> set (changedFaults r) then fs_Present (fault_state f r) else f \<in> redis_faults S r)"
proof -
  obtain x where x: "noteFrameFreshness now r = r\<lparr>rd_fresh := x\<rparr>" using noteFrameFreshness_frame by blast
  let ?r = "r\<lparr>rd_fresh := x\<rparr>"
  let ?c = "TxExec (HMSet (statusFields ?r) # updateFaultSetInTransaction ?r @ changedFields ?r)"
  have run: "redis_run S (sendStatusUpdate now r) = redis_step (rd_txn r) (redis_run S r) ?c"
    by (simp add: sendStatusUpdate_def x redis_run_def redisDo_def markPublished_def Let_def)
  have n: "rd_txns (sendStatusUpdate now r) = Suc (rd_txns r)"
    by (simp add: sendStatusUpdate_def x markPublished_def Let_def)
  obtain T where T: "redis_run S r = (rd_txns r, T)" using assms unfolding counted_def by (metis prod.collapse)
  show "counted S (sendStatusUpdate now r)" using run n T by (simp add: counted_def)
  have "changedFaults ?r = changedFaults r" "fault_state f ?r = fault_state f r"
    by (simp_all add: changedFaults_def fault_state_def)
  then show "f \<in> redis_faults S (sendStatusUpdate now r) \<longleftrightarrow>
     (if rd_txn r (rd_txns r) \<and> f \<in> set (changedFaults r) then fs_Present (fault_state f r) else f \<in> redis_faults S r)"
    using T by (simp add: redis_faults_def run redis_transaction del: fold_append)
qed

text \<open>
  The set agrees with the present faults wherever the published flag says so. The communication
  fault is left out: it is recorded as present without a report when no tag is present.
\<close>

definition tracks :: "BMSFault set \<Rightarrow> BatteryReader \<Rightarrow> BMSFault \<Rightarrow> bool" where
  "tracks S r f \<longleftrightarrow>
     (fs_Present (fault_state f r) = PublishedToRedis (fault_state f r) \<longrightarrow>
        (f \<in> redis_faults S r \<longleftrightarrow> fs_Present (fault_state f r)))"

definition pub_inv :: "BMSFault set \<Rightarrow> BatteryReader \<Rightarrow> bool" where
  "pub_inv S r \<longleftrightarrow> fault_inv r \<and> counted S r \<and> (\<forall>f \<in> set faultKeys. rd_faultStates r f \<noteq> None) \<and>
     (\<forall>f \<in> set faultKeys - {BMSFaultBMSCommsError}. tracks S r f)"

lemma changedFaults_iff:
  "\<forall>g \<in> set faultKeys. rd_faultStates r g \<noteq> None \<Longrightarrow>
   f \<in> set (changedFaults r) \<longleftrightarrow> f \<in> set faultKeys \<and> fs_Present (fault_state f r) \<noteq> PublishedToRedis (fault_state f r)"
  by (auto simp: changedFaults_def)

text \<open>A successful publication brings the set up to date.\<close>

lemma publish_agrees:
  assumes "pub_inv S r" "rd_txn r (rd_txns r)" "f \<in> set faultKeys" "f \<noteq> BMSFaultBMSCommsError"
  shows "f \<in> redis_faults S (sendStatusUpdate now r) \<longleftrightarrow> fs_Present (fault_state f r)"
  using assms redis_sendStatus(2) [of S r f now] changedFaults_iff [of r f]
  by (auto simp: pub_inv_def tracks_def)

lemma sendStatus_states:
  "rd_faultStates r f \<noteq> None \<Longrightarrow> rd_faultStates (sendStatusUpdate now r) f \<noteq> None"
  "PublishedToRedis (fault_state f (sendStatusUpdate now r)) =
     (if rd_txn r (rd_txns r) \<and> f \<in> set (changedFaults r) then fs_Present (fault_state f r)
      else PublishedToRedis (fault_state f r))"
proof -
  obtain x where x: "noteFrameFreshness now r = r\<lparr>rd_fresh := x\<rparr>" using noteFrameFreshness_frame by blast
  have c: "changedFaults (redisDo c (r\<lparr>rd_fresh := x\<rparr>)\<lparr>rd_txns := n\<rparr>) = changedFaults r" for c n
    by (simp add: changedFaults_def fault_state_def redisDo_def)
  show "rd_faultStates r f \<noteq> None \<Longrightarrow> rd_faultStates (sendStatusUpdate now r) f \<noteq> None"
    by (simp add: sendStatusUpdate_def x markPublished_def redisDo_def Let_def)
  show "PublishedToRedis (fault_state f (sendStatusUpdate now r)) =
     (if rd_txn r (rd_txns r) \<and> f \<in> set (changedFaults r) then fs_Present (fault_state f r)
      else PublishedToRedis (fault_state f r))"
    by (simp add: sendStatusUpdate_def x markPublished_def c Let_def) (simp add: fault_state_def redisDo_def)
qed

lemma Present_sendStatus [simp]: "fs_Present (fault_state f (sendStatusUpdate now r)) = fs_Present (fault_state f r)"
  by (rule same_fault_fields(1) [OF fault_state_sendStatus])

lemma sendStatus_pub: "pub_inv S r \<Longrightarrow> pub_inv S (sendStatusUpdate now r)"
  using redis_sendStatus [of S r] sendStatus_states [where r = r and now = now]
    changedFaults_iff [of r] sendStatus_inv [of r now]
  by (auto simp: pub_inv_def tracks_def)

lemma cancelTimers_keeps [simp]:
  "fs_Present (cancelTimers s) = fs_Present s" "PublishedToRedis (cancelTimers s) = PublishedToRedis s"
  by (simp_all add: cancelTimers_def Let_def)

text \<open>One operation on the fault \<open>f\<close>: the rest of the set and of the states stays.\<close>

lemma pub_inv_one:
  assumes "pub_inv S r" "fault_inv r'" "counted S r'"
    and "\<And>g. rd_faultStates r g \<noteq> None \<Longrightarrow> rd_faultStates r' g \<noteq> None"
    and "\<And>g. g \<noteq> f \<Longrightarrow> fault_state g r' = fault_state g r"
    and "\<And>g. g \<noteq> f \<Longrightarrow> g \<in> redis_faults S r' \<longleftrightarrow> g \<in> redis_faults S r"
    and "f \<noteq> BMSFaultBMSCommsError \<Longrightarrow> f \<in> set faultKeys \<Longrightarrow> tracks S r f \<Longrightarrow> tracks S r' f"
  shows "pub_inv S r'"
proof -
  have "tracks S r' g" if "g \<in> set faultKeys - {BMSFaultBMSCommsError}" for g
    using that assms(1,5-7) by (cases "g = f") (auto simp: pub_inv_def tracks_def)
  with assms(1-4) show ?thesis by (auto simp: pub_inv_def)
qed

lemma upd_fault_states [simp]:
  "rd_faultStates (upd_fault f h r) g = (if g = f then Some (h (fault_state f r)) else rd_faultStates r g)"
  by (simp add: upd_fault_def)

lemma report_states [simp]: "rd_faultStates (reportFault f b r) = rd_faultStates r"
  by (simp add: reportFault_def redisDo_def)

lemma counted_upd [simp]: "counted S (upd_fault f h r) = counted S r"
  by (simp add: counted_def)

lemma clear_pub: "pub_inv S r \<Longrightarrow> pub_inv S (clearFaultLocked now f r)"
proof (cases "faultConfigs f")
  case (Some c)
  assume inv: "pub_inv S r"
  show ?thesis
  proof (rule pub_inv_one [OF inv])
    show "fault_inv (clearFaultLocked now f r)" using inv by (simp add: pub_inv_def clearFault_inv)
    show "counted S (clearFaultLocked now f r)"
      using inv Some by (simp add: pub_inv_def clearFaultLocked_def deactivateFaultLocked_def Let_def)
    show "rd_faultStates (clearFaultLocked now f r) g \<noteq> None" if "rd_faultStates r g \<noteq> None" for g
      using that Some
      by (simp add: clearFaultLocked_def deactivateFaultLocked_def Let_def)
    show "fault_state g (clearFaultLocked now f r) = fault_state g r" if "g \<noteq> f" for g
      using that Some by (simp add: fault_state_clear)
    show "g \<in> redis_faults S (clearFaultLocked now f r) \<longleftrightarrow> g \<in> redis_faults S r" if "g \<noteq> f" for g
      using that Some by (simp add: clearFaultLocked_def deactivateFaultLocked_def Let_def)
    show "tracks S (clearFaultLocked now f r) f" if "tracks S r f"
      using that Some by (simp add: tracks_def clearFaultLocked_def deactivateFaultLocked_def Let_def)
  qed
qed (simp add: clearFaultLocked_def)

lemma clearLesser_pub: "pub_inv S r \<Longrightarrow> pub_inv S (clearLesserFaultsLocked now ref b r)"
  unfolding clearLesserFaultsLocked_def by (rule foldl_inv) (auto intro: clear_pub)

lemma notPresent_pub: "pub_inv S r \<Longrightarrow> pub_inv S (sendNotPresent now r)"
proof -
  assume "pub_inv S r"
  then have "pub_inv S (r\<lparr>rd_data := zeroBMSData\<rparr>)"
    by (simp add: pub_inv_def fault_inv_def tracks_def counted_def fault_state_def)
  then show ?thesis unfolding sendNotPresent_def by (rule sendStatus_pub)
qed

text \<open>
  Activating a fault whose state is then recorded as present: the state in between has the fault in
  the set but not yet in the record.
\<close>

lemma activate_pub:
  assumes inv: "pub_inv S r" and h: "\<And>s. fs_Present (h s)" "\<And>s. PublishedToRedis (h s) = PublishedToRedis s"
    and finv: "fault_inv (upd_fault f h (activateFaultLocked now f c r))"
  shows "pub_inv S (upd_fault f h (activateFaultLocked now f c r))"
proof (cases "f = BMSFaultBMSCommsError \<and> \<not> rd_inTagPresent r")
  case True
  with finv inv show ?thesis
    by (intro pub_inv_one [OF inv, where f = f])
      (auto simp: activateFaultLocked_def pub_inv_def)
next
  case False
  let ?r = "if IsCritical c then sendNotPresent now (clearLesserFaultsLocked now f False r) else r"
  have r: "pub_inv S ?r" using inv by (simp add: notPresent_pub clearLesser_pub)
  have a: "activateFaultLocked now f c r = reportFault f True ?r"
    using False by (auto simp: activateFaultLocked_def Let_def)
  show ?thesis
  proof (rule pub_inv_one [OF r, where f = f])
    show "fault_inv (upd_fault f h (activateFaultLocked now f c r))" by (rule finv)
    show "counted S (upd_fault f h (activateFaultLocked now f c r))" using r by (simp add: a pub_inv_def)
    show "tracks S (upd_fault f h (activateFaultLocked now f c r)) f" by (simp only: tracks_def a fault_state_upd redis_faults_upd redis_report) (simp add: h)
  qed (simp_all add: a)
qed

lemma raise_pub: "pub_inv S r \<Longrightarrow> pub_inv S (raiseFaultLocked now f r)"
proof (cases "faultConfigs f")
  case (Some c)
  assume inv: "pub_inv S r"
  have upd: "pub_inv S (upd_fault f h r')"
    if "pub_inv S r'" "fault_inv (upd_fault f h r')"
      "\<And>s. fs_Present (h s) = fs_Present s" "\<And>s. PublishedToRedis (h s) = PublishedToRedis s" for h r'
    using that by (intro pub_inv_one [OF that(1), where f = f]) (auto simp: pub_inv_def tracks_def)
  let ?r = "upd_fault f cancelTimers (upd_fault f (\<lambda>s. s) r)"
  have finv: "fault_inv (raiseFaultLocked now f r)" using inv by (simp add: pub_inv_def raiseFault_inv)
  have fs: "fs_inv c (fault_state f r)" using inv Some by (simp add: pub_inv_def fault_invD)
  have r0: "pub_inv S (upd_fault f (\<lambda>s. s) r)"
    using inv by (intro upd) (auto simp: pub_inv_def intro!: upd_fault_inv)
  have r1: "pub_inv S ?r"
  proof (rule upd [OF r0])
    have "fs_inv c (cancelTimers (fault_state f r))" using cancelTimers_fields [OF fs] by (simp add: fs_inv_def)
    with inv r0 Some show "fault_inv ?r" by (intro upd_fault_inv) (simp_all add: pub_inv_def)
  qed simp_all
  show ?thesis
  proof (cases "settled (fault_state f r) True")
    case True
    with Some r0 show ?thesis by (simp add: raiseFaultLocked_def)
  next
    case unsettled: False
    show ?thesis
    proof (cases "DebounceTimeSet c = 0")
      case True
      with unsettled Some have e: "raiseFaultLocked now f r =
          upd_fault f (\<lambda>s. s\<lparr>fs_Present := True\<rparr>) (activateFaultLocked now f c ?r)"
        by (simp add: raiseFaultLocked_def Let_def)
      show ?thesis unfolding e by (rule activate_pub [OF r1]) (use finv e in simp_all)
    next
      case False
      with unsettled Some have e: "raiseFaultLocked now f r =
          upd_fault f (\<lambda>s. s\<lparr>PendingSet := True, SetTimer := Some (AddDur now (DebounceTimeSet c))\<rparr>) ?r"
        by (simp add: raiseFaultLocked_def Let_def)
      show ?thesis unfolding e by (rule upd [OF r1]) (use finv e in simp_all)
    qed
  qed
qed (simp add: raiseFaultLocked_def)

lemma setTimer_pub:
  assumes "pub_inv S r" "SetTimer (fault_state f r) \<noteq> None"
  shows "pub_inv S (setTimerFired now f r)"
proof (cases "faultConfigs f")
  case (Some c)
  have "fault_inv (setTimerFired now f r)" using assms by (simp add: pub_inv_def setTimerFired_inv)
  with Some show ?thesis
    unfolding setTimerFired_def by (auto intro!: activate_pub assms(1))
qed (use assms in \<open>simp add: setTimerFired_def\<close>)

lemma resetTimer_pub:
  assumes "pub_inv S r" "ResetTimer (fault_state f r) \<noteq> None"
  shows "pub_inv S (resetTimerFired f r)"
proof (rule pub_inv_one [OF assms(1), where f = f])
  show "fault_inv (resetTimerFired f r)" using assms by (simp add: pub_inv_def resetTimerFired_inv)
  show "counted S (resetTimerFired f r)"
    using assms(1) by (simp add: pub_inv_def resetTimerFired_def deactivateFaultLocked_def)
qed (simp_all add: resetTimerFired_def deactivateFaultLocked_def tracks_def)

lemma fault_exec_pub: "pub_inv S r \<Longrightarrow> pub_inv S (fault_exec c r)"
proof (cases c)
  case (FaultFrame d)
  assume "pub_inv S r"
  with FaultFrame show ?thesis
    by (simp add: pub_inv_def fault_inv_def tracks_def counted_def fault_state_def)
next
  case (FaultTagPresent b)
  assume "pub_inv S r"
  with FaultTagPresent show ?thesis
    by (simp add: pub_inv_def fault_inv_def tracks_def counted_def fault_state_def)
qed (auto simp: setFault_def setFaultLocked_def timerDue_def clear_pub raise_pub sendStatus_pub
      setTimer_pub resetTimer_pub split: option.split_asm)

text \<open>
  A reader that starts: every fault in its zero state, no command issued, and none of its faults in
  the set that Redis holds (\<open>S\<close>).
\<close>

definition pub_initial :: "BMSFault set \<Rightarrow> BatteryReader \<Rightarrow> bool" where
  "pub_initial S r \<longleftrightarrow> fault_initial r \<and> rd_redis r = [] \<and> rd_txns r = 0 \<and> S \<inter> set faultKeys = {}"

lemma pub_initial_inv: "pub_initial S r \<Longrightarrow> pub_inv S r"
  by (auto simp: pub_initial_def pub_inv_def fault_initial_inv counted_def redis_run_def tracks_def redis_faults_def
      fault_initial_state zeroFaultState_def fault_initial_def initializeFaultManagement_def)

interpretation pub: machine "pub_initial S" fault_exec "pub_inv S" for S
  by unfold_locales (simp_all add: pub_initial_inv fault_exec_pub)


text \<open>
  A fault a previous run of the service left in the set is not one of the present faults, is not
  published and so is never removed by a publication.
\<close>

lemma stale_fault_kept:
  assumes "fault_initial r" "rd_redis r = []" "rd_txns r = 0" "f \<in> S"
  shows "f \<in> redis_faults S (sendStatusUpdate now r) \<and> \<not> fs_Present (fault_state f (sendStatusUpdate now r))"
proof -
  have "counted S r" "f \<in> redis_faults S r" using assms by (simp_all add: counted_def redis_faults_def redis_run_def)
  moreover have "f \<notin> set (changedFaults r)"
    using fault_initial_state [OF assms(1)] by (simp add: changedFaults_def zeroFaultState_def)
  ultimately show ?thesis
    using redis_sendStatus(2) [of S r f now] fault_initial_state [OF assms(1), of f] by (simp add: zeroFaultState_def)
qed

section \<open>Changed fields\<close>

lemma statusFields_distinct: "distinct (map fst (statusFields r))"
  by (simp add: statusFields_def Let_def)

lemma statusFields_cong:
  "rd_data r = rd_data r' \<Longrightarrow> rd_fresh r = rd_fresh r' \<Longrightarrow> statusFields r = statusFields r'"
  by (simp only: statusFields_def energySampleFields_def)

text \<open>
  No update is lost or repeated: after a publication whose transaction succeeds, no fault and
  no field is left to report, and after one that fails, everything that was to be reported still is,
  with the values of the frame then current.
\<close>

lemma publication_complete:
  "if rd_txn r (rd_txns r)
   then changedFaults (sendStatusUpdate now r) = [] \<and> changedFields (sendStatusUpdate now r) = []
   else changedFaults (sendStatusUpdate now r) = changedFaults r \<and>
        changedFields (sendStatusUpdate now r) = changedFields (noteFrameFreshness now r) \<and>
        rd_previousData (sendStatusUpdate now r) = rd_previousData r"
proof -
  obtain x where x: "noteFrameFreshness now r = r\<lparr>rd_fresh := x\<rparr>" using noteFrameFreshness_frame by blast
  define r2 where "r2 = (redisDo (TxExec (HMSet (statusFields (r\<lparr>rd_fresh := x\<rparr>)) #
     updateFaultSetInTransaction (r\<lparr>rd_fresh := x\<rparr>) @ changedFields (r\<lparr>rd_fresh := x\<rparr>))) (r\<lparr>rd_fresh := x\<rparr>))
       \<lparr>rd_txns := Suc (rd_txns r)\<rparr>"
  have e: "sendStatusUpdate now r = (if rd_txn r (rd_txns r) then markPublished r2 else r2)"
    by (simp add: sendStatusUpdate_def x r2_def Let_def)
  have sf: "statusFields (markPublished r2) = statusFields r2"
    by (rule statusFields_cong) (simp_all add: markPublished_def)
  have "rd_previousFields (markPublished r2) k = Some v" if "(k, v) \<in> set (statusFields r2)" for k v
    using that statusFields_distinct [of r2] by (simp add: markPublished_def)
  then have "changedFields (markPublished r2) = []"
    by (auto simp: changedFields_def sf filter_empty_conv)
  moreover have "changedFaults (markPublished r2) = []"
    by (auto simp: changedFaults_def markPublished_def fault_state_def filter_empty_conv split: option.split)
  moreover have "changedFaults r2 = changedFaults r" "rd_previousData r2 = rd_previousData r"
    by (simp_all add: r2_def changedFaults_def fault_state_def redisDo_def)
  moreover have "statusFields r2 = statusFields (r\<lparr>rd_fresh := x\<rparr>)" "rd_previousFields r2 = rd_previousFields r"
    by (rule statusFields_cong; simp add: r2_def redisDo_def) (simp add: r2_def redisDo_def)
  ultimately show ?thesis by (simp add: e x changedFields_def)
qed

end
