(* ===== verification/Reader_Safety.thy ===== *)
theory Reader_Safety
  imports Nfc_Safety Publication_Safety
begin

text \<open>
  What the reader concludes from its samples: when it reports an unexpected loss of power, and what
  a departed pack leaves behind.
\<close>

section \<open>Power loss\<close>

lemma power_off_config:
  "\<exists>c. faultConfigs BMSFaultUnexpectedPowerOff = Some c \<and> DebounceTimeSet c = 0 \<and> DebounceTimeReset c = 0 \<and> \<not> IsCritical c"
  by (simp add: faultConfigs_def faultTable_def BMSFault_defs Let_def)

lemma power_off_set:
  assumes "fault_inv r"
  shows "fs_Present (fault_state BMSFaultUnexpectedPowerOff (setFault now BMSFaultUnexpectedPowerOff b r)) = b"
proof -
  obtain c where c: "faultConfigs BMSFaultUnexpectedPowerOff = Some c" "DebounceTimeSet c = 0" "DebounceTimeReset c = 0"
    using power_off_config by blast
  note fs = fault_invD [OF assms c(1)]
  have "fs_Present (fs_raise now c (fault_state BMSFaultUnexpectedPowerOff r))"
    using c(2) by (simp add: fs_raise_def settled_def Let_def)
  moreover have "\<not> fs_Present (fs_clear now c (fault_state BMSFaultUnexpectedPowerOff r))"
    using c(3) cancelTimers_fields [OF fs] by (simp add: fs_clear_def settled_def Let_def)
  ultimately show ?thesis
    using same_fault_fields(1) [OF fault_state_raise(1) [OF c(1), of now r]]
    by (simp add: setFault_def setFaultLocked_def fault_state_clear [OF c(1)])
qed

text \<open>Whether the reader's pack is meant to be supplying.\<close>

definition expected_on :: "gotime \<Rightarrow> 'h world \<Rightarrow> bool" where
  "expected_on now w \<longleftrightarrow>
     rd_role (w_reader w) = BatteryRoleActive \<and> rd_enabled (w_reader w) \<and> \<not> isBatteryEmpty (w_reader w) \<and>
     (case w_slot w of None \<Rightarrow> True | Some i \<Rightarrow> \<not> fst (shouldIsolate i now (w_maxDelta w) (w_adm w)))"

lemma ShouldSendOn_result:
  "fst (if rd_role (w_reader w) = BatteryRoleActive then ShouldSendOn now w else (False, w)) = expected_on now w"
  "w_reader (snd (if rd_role (w_reader w) = BatteryRoleActive then ShouldSendOn now w else (False, w))) = w_reader w"
  by (auto simp: expected_on_def ShouldSendOn_def split: prod.split option.split)


text \<open>A report of an unexpected power-off describes the sample it was raised on.\<close>

lemma power_off_report:
  assumes "\<not> fs_Present (fault_state BMSFaultUnexpectedPowerOff r)"
  shows "XAddFault BMSFaultUnexpectedPowerOff (powerOffValues BMSFaultUnexpectedPowerOff r)
           \<in> set (rd_redis (setFault now BMSFaultUnexpectedPowerOff True r))"
proof -
  obtain c where c: "faultConfigs BMSFaultUnexpectedPowerOff = Some c" "DebounceTimeSet c = 0" "\<not> IsCritical c"
    using power_off_config by blast
  have "BMSFaultUnexpectedPowerOff \<noteq> BMSFaultBMSCommsError" by (simp add: BMSFault_defs)
  with c assms show ?thesis
    by (simp add: setFault_def setFaultLocked_def raiseFaultLocked_def activateFaultLocked_def settled_def reportFault_def
        redisDo_def upd_fault_def fault_state_def powerOffValues_def Let_def)
qed

section \<open>Departure\<close>

definition pack_fault_cleared :: "BMSFault \<Rightarrow> BatteryReader \<Rightarrow> bool" where
  "pack_fault_cleared f r \<longleftrightarrow>
     \<not> PendingSet (fault_state f r) \<and> (fs_Present (fault_state f r) \<longrightarrow> PendingReset (fault_state f r))"

lemma clear_cleared:
  assumes "fault_inv r" "faultConfigs f = Some c"
  shows "pack_fault_cleared f (clearFaultLocked now f r)"
proof -
  note fs = fault_invD [OF assms]
  show ?thesis
    using cancelTimers_fields [OF fs] by (auto simp: pack_fault_cleared_def fault_state_clear [OF assms(2)] fs_clear_def settled_def Let_def)
qed

lemma clear_keeps_cleared:
  assumes "faultConfigs f = Some c" "g \<noteq> f"
  shows "pack_fault_cleared g (clearFaultLocked now f r) = pack_fault_cleared g r"
  using assms by (simp add: pack_fault_cleared_def fault_state_clear)

lemma clearPack_foldl:
  assumes "fault_inv r" "distinct fs" "set fs \<subseteq> set faultKeys" "g \<in> set fs" "g < BMSFaultNFCReaderError"
  shows "pack_fault_cleared g
     (foldl (\<lambda>r f. if f < BMSFaultNFCReaderError then setFaultLocked now f False r else r) r fs)"
  using assms
proof (induction fs rule: rev_induct)
  case (snoc f fs)
  let ?F = "\<lambda>r f. if f < BMSFaultNFCReaderError then setFaultLocked now f False r else r"
  obtain c where c: "faultConfigs f = Some c" using snoc.prems(3) faultKeys_config by auto
  have inv: "fault_inv (foldl ?F r fs)"
    by (rule foldl_inv) (auto simp: setFaultLocked_def clearFault_inv snoc.prems(1))
  show ?case
  proof (cases "g = f")
    case True
    with snoc.prems(5) clear_cleared [OF inv c] show ?thesis by (simp add: setFaultLocked_def)
  next
    case False
    with snoc have "pack_fault_cleared g (foldl ?F r fs)" by auto
    with False c show ?thesis by (auto simp: setFaultLocked_def clear_keeps_cleared)
  qed
qed simp

lemma clear_frame [simp]:
  "rd_data (clearFaultLocked now f r) = rd_data r" "rd_currentTagUID (clearFaultLocked now f r) = rd_currentTagUID r"
  by (simp_all add: clearFaultLocked_def deactivateFaultLocked_def Let_def split: option.split)
    (simp_all add: upd_fault_def reportFault_def redisDo_def)

lemma clearPack_frame:
  "rd_data (clearPackFaults now r) = rd_data r" "rd_currentTagUID (clearPackFaults now r) = rd_currentTagUID r"
proof -
  have "rd_data (clearPackFaults now r) = rd_data r \<and> rd_currentTagUID (clearPackFaults now r) = rd_currentTagUID r"
    unfolding clearPackFaults_def by (rule foldl_inv) (auto simp: setFaultLocked_def)
  then show "rd_data (clearPackFaults now r) = rd_data r" "rd_currentTagUID (clearPackFaults now r) = rd_currentTagUID r"
    by auto
qed

lemma sendNotPresent_zero: "rd_data r = zeroBMSData \<Longrightarrow> sendNotPresent now r = sendStatusUpdate now r"
proof -
  assume "rd_data r = zeroBMSData"
  then have "r\<lparr>rd_data := zeroBMSData\<rparr> = r" by (cases r) simp
  then show ?thesis by (simp add: sendNotPresent_def)
qed


end
