(* ===== verification/Reader_Actions.thy ===== *)
theory Reader_Actions
  imports Nfc_Read
begin

text \<open>
  The operations a reader offers its state machine (\<open>actions.go\<close>) beside those of \<open>Nfc\<close> and
  \<open>Nfc_Read\<close>: controller start and stop, heartbeat timer, command timing and the policy queries.
  The mutex calls around them do nothing here: each operation is one step of its reader.
\<close>

section \<open>Controller\<close>

definition TakeInhibitor :: "'h hal_ops \<Rightarrow> 'h world \<Rightarrow> 'h world" where
  "TakeInhibitor H w = snd (takeInhibitor H w)"

definition ReleaseInhibitor :: "'h world \<Rightarrow> 'h world" where
  "ReleaseInhibitor w = releaseInhibitor w"

text \<open>The result says whether the call succeeded.\<close>

definition StartDiscovery ::
  "(string \<Rightarrow> motionEvidence option) \<Rightarrow> 'h hal_ops \<Rightarrow> 'h world \<Rightarrow> bool \<times> 'h world" where
  "StartDiscovery js H w = startDiscovery js H w"

definition StopDiscovery :: "(string \<Rightarrow> motionEvidence option) \<Rightarrow> 'h hal_ops \<Rightarrow> 'h world \<Rightarrow> 'h world" where
  "StopDiscovery js H w = stopDiscovery js H w"

definition SelectTag :: "(string \<Rightarrow> motionEvidence option) \<Rightarrow> 'h hal_ops \<Rightarrow> 'h world \<Rightarrow> 'h world" where
  "SelectTag js H w =
     (case callout js H (hal_SelectTag H 0) w of
        (None, w1) \<Rightarrow> w1
      | (Some e, w1) \<Rightarrow> upd_reader (handleNFCError e) w1)"

definition clearHeartbeatTimer :: "BatteryReader \<Rightarrow> BatteryReader" where
  "clearHeartbeatTimer r = r\<lparr>rd_heartbeatTimer := None, rd_heartbeatRunning := False\<rparr>"

definition Initialize ::
  "(string \<Rightarrow> motionEvidence option) \<Rightarrow> 'h hal_ops \<Rightarrow> 'h world \<Rightarrow> bool \<times> 'h world" where
  "Initialize js H w =
     (case callout js H (hal_Initialize H) w of
        (Some e, w1) \<Rightarrow> (False, w1)
      | (None, w1) \<Rightarrow> (case nowOf H w1 of (now, w2) \<Rightarrow> (True, upd_reader (clearNFCReaderError now) w2)))"

definition deinitializeNFC :: "(string \<Rightarrow> motionEvidence option) \<Rightarrow> 'h hal_ops \<Rightarrow> 'h world \<Rightarrow> 'h world" where
  "deinitializeNFC js H w = snd (callout js H (hal_Deinitialize H) w)"

definition Deinitialize :: "(string \<Rightarrow> motionEvidence option) \<Rightarrow> 'h hal_ops \<Rightarrow> 'h world \<Rightarrow> 'h world" where
  "Deinitialize js H w =
     (case nowOf H (deinitializeNFC js H w) of (now, w1) \<Rightarrow>
        upd_reader (\<lambda>r. raiseNFCReaderError now (clearHeartbeatTimer r)) w1)"

definition SendCheckPresenceReady :: "'h world \<Rightarrow> 'h world" where
  "SendCheckPresenceReady w = upd_reader (SendEvent EvCheckPresenceReady) w"

section \<open>Policy queries\<close>

definition GetEnabled :: "BatteryReader \<Rightarrow> bool" where "GetEnabled r = rd_enabled r"

definition GetSeatboxLockClosed :: "BatteryReader \<Rightarrow> bool" where
  "GetSeatboxLockClosed r = rd_latchedSeatboxLockClosed r"

definition GetVehicleActive :: "BatteryReader \<Rightarrow> bool" where
  "GetVehicleActive r \<longleftrightarrow> rd_vehicleState r = VehicleStateReadyToDrive"

definition IsRoleInactive :: "BatteryReader \<Rightarrow> bool" where
  "IsRoleInactive r \<longleftrightarrow> rd_role r = BatteryRoleInactive"

definition ShouldKeepActiveOnSeatboxOpen :: "'h world \<Rightarrow> bool" where
  "ShouldKeepActiveOnSeatboxOpen w =
     (if rd_role (w_reader w) \<noteq> BatteryRoleActive then False
      else EffectiveKeepActiveOnSeatboxOpen (w_config w))"

section \<open>Command timing\<close>

definition GetRemainingCmdTime :: "gotime \<Rightarrow> BatteryReader \<Rightarrow> duration" where
  "GetRemainingCmdTime now r =
     (let elapsed = Sub now (rd_lastCmdTime r)
      in if elapsed \<ge> BMSTimeCmd then 0 else wrap64 (BMSTimeCmd - elapsed))"

definition GetOpenedTime :: "bool \<Rightarrow> bool \<Rightarrow> BatteryReader \<Rightarrow> duration" where
  "GetOpenedTime justInserted justOpened r =
     (if justInserted then BMSTimeCmd
      else if justOpened
      then (if State (rd_data r) = BMSStateAsleep then BMSTimeCmdFirstOpenedAsleep else BMSTimeCmdFirstOpenedAwake)
      else BMSTimeCmdSlow)"

definition GetInsertedTime :: "bool \<Rightarrow> duration" where
  "GetInsertedTime justInserted = (if justInserted then BMSTimeCmd else BMSTimeCmdSlow)"

section \<open>Heartbeat\<close>

definition GetHeartbeatInterval :: "'h world \<Rightarrow> duration" where
  "GetHeartbeatInterval w =
     (if rd_role (w_reader w) = BatteryRoleInactive then OffUpdateTime (w_config w)
      else HeartbeatTimeout (w_config w))"

definition StopHeartbeatTimer :: "'h world \<Rightarrow> 'h world" where
  "StopHeartbeatTimer w = upd_reader (\<lambda>r. r\<lparr>rd_heartbeatRunning := False, rd_heartbeatTimer := None\<rparr>) w"

text \<open>The stored instant is when the timer sends \<open>EvHeartbeatTimeout\<close>.\<close>

definition StartHeartbeatTimer :: "'h hal_ops \<Rightarrow> 'h world \<Rightarrow> 'h world" where
  "StartHeartbeatTimer H w =
     (case nowOf H w of (now, w1) \<Rightarrow>
        upd_reader (\<lambda>r. r\<lparr>rd_heartbeatRunning := True,
                          rd_heartbeatTimer := Some (AddDur now (GetHeartbeatInterval w1))\<rparr>) w1)"

definition heartbeatTimerFired :: "gotime \<Rightarrow> BatteryReader \<Rightarrow> BatteryReader" where
  "heartbeatTimerFired now r =
     (case rd_heartbeatTimer r of
        None \<Rightarrow> r
      | Some at \<Rightarrow> if Before now at then r else SendEvent EvHeartbeatTimeout r)"

definition ClearHeartbeatTimer :: "'h world \<Rightarrow> 'h world" where
  "ClearHeartbeatTimer w = StopHeartbeatTimer w"

definition StopTimerIfBatteryEmpty :: "'h hal_ops \<Rightarrow> 'h world \<Rightarrow> 'h world" where
  "StopTimerIfBatteryEmpty H w =
     (if isBatteryEmpty (w_reader w)
      then (case nowOf H (StopHeartbeatTimer w) of (now, w1) \<Rightarrow>
              upd_reader (\<lambda>r. sendStatusUpdate now (upd_data (\<lambda>d. d\<lparr>State := BMSStateIdle\<rparr>) r)) w1)
      else w)"

definition updateLastCmdTime :: "gotime \<Rightarrow> BatteryReader \<Rightarrow> BatteryReader" where
  "updateLastCmdTime now r = r\<lparr>rd_lastCmdTime := now\<rparr>"

end
