(* ===== verification/Reader_Handlers.thy ===== *)
theory Reader_Handlers
  imports Reader_Actions
begin

text \<open>
  The reader's event loop (\<open>reader.go\<close>, \<open>channels.go\<close>): vehicle state, seatbox lock with its
  latch, enabling, restarts and the start-up handshake. Handlers take the configuration they read;
  Redis answers are arguments (\<open>None\<close> for a missing key or a failed read).
\<close>

section \<open>Construction\<close>

definition NewBatteryReader :: "BatteryRole \<Rightarrow> gotime \<Rightarrow> (nat \<Rightarrow> bool) \<Rightarrow> BatteryReader" where
  "NewBatteryReader role now txn =
     initializeFaultManagement
       \<lparr>rd_role = role, rd_data = zeroBMSData, rd_previousData = zeroBMSData, rd_previousFields = Map.empty,
        rd_powerSample = zeroBMSData, rd_heartbeatRunning = False, rd_heartbeatTimer = None,
        rd_enabled = (role = BatteryRoleActive), rd_vehicleState = [], rd_seatboxLockClosed = False,
        rd_latchedSeatboxLockClosed = False, rd_lastCmdTime = now, rd_initVehicleState = False,
        rd_initSeatboxLock = False, rd_initCompleteSent = False, rd_previousTagPresent = False,
        rd_tagsDiscovered = False, rd_discovery = \<lparr>quiet = False, uncertain = False\<rparr>, rd_currentTagUID = [],
        rd_fresh = zeroFreshness,
        rd_lastGoodSensors01 = \<lparr>s01_valid = False, s01_temperature = (0, 0), s01_voltage = 0, s01_current = 0\<rparr>,
        rd_lastGoodSensors01Time = zeroTime, rd_sensors01Artifacts = 0, rd_faultStates = Map.empty,
        rd_nfcReaderErrorRaised = False, rd_commFailureCount = 0, rd_lastSuccessfulComm = zeroTime,
        rd_commsFaultCount = 0, rd_inTagPresent = False, rd_txn = txn, rd_txns = 0, rd_redis = [],
        rd_events = [], rd_restartQueued = False\<rparr>"

section \<open>Channels\<close>

text \<open>A channel of capacity one: \<open>tryUpdateChannel\<close> drains it and then sends.\<close>

definition tryUpdateChannel :: "'a \<Rightarrow> 'a option \<Rightarrow> 'a option" where
  "tryUpdateChannel v ch = (let drained = (case ch of Some _ \<Rightarrow> None | None \<Rightarrow> ch) in
     case drained of None \<Rightarrow> Some v | Some _ \<Rightarrow> drained)"

definition triggerRestart :: "BatteryReader \<Rightarrow> BatteryReader" where
  "triggerRestart r = (if rd_restartQueued r then r else r\<lparr>rd_restartQueued := True\<rparr>)"

section \<open>Handlers\<close>

definition checkInitComplete :: "BatteryReader \<Rightarrow> BatteryReader" where
  "checkInitComplete r =
     (if rd_initCompleteSent r then r
      else if rd_initVehicleState r \<and> rd_initSeatboxLock r
      then SendEvent EvInitComplete (r\<lparr>rd_initCompleteSent := True\<rparr>)
      else r)"

text \<open>\<open>inCheckPresence\<close> is what the state machine answers to \<open>IsInState(StateCheckPresence)\<close>.\<close>

definition handleRestart :: "bool \<Rightarrow> BatteryReader \<Rightarrow> BatteryReader" where
  "handleRestart inCheckPresence r0 =
     (let r = r0\<lparr>rd_restartQueued := False\<rparr>
      in if rd_inTagPresent r \<and> \<not> inCheckPresence then SendEvent EvRestart r else r)"

definition handleVehicleStateChange :: "VehicleState \<Rightarrow> BatteryReader \<Rightarrow> BatteryReader" where
  "handleVehicleStateChange newState r0 =
     (let oldVehicleState = rd_vehicleState r0;
          r1 = r0\<lparr>rd_initVehicleState := True, rd_vehicleState := newState\<rparr>;
          r2 = (if oldVehicleState = VehicleStateReadyToDrive \<and> rd_vehicleState r1 \<noteq> VehicleStateReadyToDrive \<and>
                   \<not> rd_seatboxLockClosed r1 \<and> rd_latchedSeatboxLockClosed r1
                then let r = r1\<lparr>rd_latchedSeatboxLockClosed := False\<rparr>
                     in if rd_inTagPresent r then triggerRestart r else r
                else r1);
          r3 = (if oldVehicleState \<noteq> VehicleStateReadyToDrive \<and> newState \<noteq> VehicleStateReadyToDrive
                then upd_data (\<lambda>d. d\<lparr>EmptyOr0Data := 0\<rparr>) r2 else r2)
      in checkInitComplete r3)"

definition nextLatchedSeatboxClosed :: "VehicleState \<Rightarrow> bool \<Rightarrow> bool \<Rightarrow> bool" where
  "nextLatchedSeatboxClosed vehicleState currentLatch rawClosed =
     (if vehicleState \<noteq> VehicleStateReadyToDrive \<or> (rawClosed \<and> \<not> currentLatch) then rawClosed else currentLatch)"

text \<open>
  The parts of \<open>handleSeatboxLockChange\<close>: whether an active pack stays enabled, and the event for
  the state machine. A change of the latch carries its own event, any other change asks for a restart.
\<close>

definition applySeatboxPolicy :: "ServiceConfig \<Rightarrow> bool \<Rightarrow> bool \<Rightarrow> BatteryReader \<Rightarrow> BatteryReader" where
  "applySeatboxPolicy config latchClosed latchChanged r =
     (if rd_role r = BatteryRoleActive
      then let newEnabled = (if EffectiveKeepActiveOnSeatboxOpen config then True else latchClosed)
           in if rd_enabled r \<noteq> newEnabled
              then let r1 = r\<lparr>rd_enabled := newEnabled\<rparr>
                   in if \<not> latchChanged \<and> rd_inTagPresent r1 then triggerRestart r1 else r1
              else r
      else r)"

definition announceLatch :: "bool \<Rightarrow> bool \<Rightarrow> BatteryReader \<Rightarrow> BatteryReader" where
  "announceLatch oldLatch latchClosed r =
     (if \<not> latchClosed \<and> oldLatch then SendEvent EvSeatboxOpened r
      else if latchClosed \<and> \<not> oldLatch then SendEvent EvSeatboxClosed r else r)"

definition handleSeatboxLockChange :: "ServiceConfig \<Rightarrow> bool \<Rightarrow> BatteryReader \<Rightarrow> BatteryReader" where
  "handleSeatboxLockChange config closed r0 =
     (let oldLatch = rd_latchedSeatboxLockClosed r0;
          latchClosed = nextLatchedSeatboxClosed (rd_vehicleState r0) oldLatch closed;
          r1 = r0\<lparr>rd_initSeatboxLock := True, rd_seatboxLockClosed := closed,
                  rd_latchedSeatboxLockClosed := latchClosed\<rparr>;
          r2 = applySeatboxPolicy config latchClosed (latchClosed \<noteq> oldLatch) r1;
          r3 = (if rd_vehicleState r2 \<noteq> VehicleStateReadyToDrive \<or> \<not> latchClosed
                then upd_data (\<lambda>d. d\<lparr>EmptyOr0Data := 0\<rparr>) r2 else r2)
      in checkInitComplete (announceLatch oldLatch latchClosed r3))"

definition handleKeepActiveChange :: "ServiceConfig \<Rightarrow> BatteryReader \<Rightarrow> BatteryReader" where
  "handleKeepActiveChange config r =
     (if rd_role r = BatteryRoleActive then handleSeatboxLockChange config (rd_seatboxLockClosed r) r else r)"

definition handleEnabledChange :: "bool \<Rightarrow> BatteryReader \<Rightarrow> BatteryReader" where
  "handleEnabledChange en r =
     (if rd_enabled r \<noteq> en
      then let r1 = r\<lparr>rd_enabled := en\<rparr> in if rd_inTagPresent r1 then triggerRestart r1 else r1
      else r)"

section \<open>Start-up\<close>

definition fetchInitialRedisState ::
  "ServiceConfig \<Rightarrow> string option \<Rightarrow> string option \<Rightarrow> BatteryReader \<Rightarrow> BatteryReader" where
  "fetchInitialRedisState config vehicleKey seatboxKey r0 =
     (let r1 = (case vehicleKey of Some v \<Rightarrow> handleVehicleStateChange v r0 | None \<Rightarrow> r0)
      in case seatboxKey of Some l \<Rightarrow> handleSeatboxLockChange config (l = ''closed'') r1 | None \<Rightarrow> r1)"

text \<open>What \<open>run\<close> does before its loop, and the fallback that runs five seconds later.\<close>

definition runStart :: "ServiceConfig \<Rightarrow> gotime \<Rightarrow> string option \<Rightarrow> string option \<Rightarrow> BatteryReader \<Rightarrow> BatteryReader" where
  "runStart config now vehicleKey seatboxKey r =
     checkInitComplete (fetchInitialRedisState config vehicleKey seatboxKey (sendStatusUpdate now r))"

definition initTimeout :: "BatteryReader \<Rightarrow> BatteryReader" where
  "initTimeout r0 =
     (if rd_initCompleteSent r0 then r0
      else let r1 = (if \<not> rd_initVehicleState r0
                     then r0\<lparr>rd_vehicleState := VehicleStateStandby, rd_initVehicleState := True\<rparr> else r0);
               r2 = (if \<not> rd_initSeatboxLock r1
                     then r1\<lparr>rd_seatboxLockClosed := True, rd_initSeatboxLock := True\<rparr> else r1)
           in checkInitComplete r2)"

end
