(* ===== verification/Handler_Safety.thy ===== *)
theory Handler_Safety
  imports Reader_Handlers Fault_Safety
begin

text \<open>
  The event loop of a reader: the start-up handshake happens once, the seatbox latch is sound, and a
  ride is not interrupted by the seatbox sensor.
\<close>

section \<open>Handlers as a machine\<close>

datatype handler_op =
    HandleRestart bool
  | HandleVehicle VehicleState
  | HandleSeatbox ServiceConfig bool
  | HandleKeepActive ServiceConfig
  | HandleEnabled bool
  | HandleInitTimeout
  | HandleTagPresent bool

fun handler_exec :: "handler_op \<Rightarrow> BatteryReader \<Rightarrow> BatteryReader" where
  "handler_exec (HandleRestart c) r = handleRestart c r"
| "handler_exec (HandleVehicle v) r = handleVehicleStateChange v r"
| "handler_exec (HandleSeatbox cfg b) r = handleSeatboxLockChange cfg b r"
| "handler_exec (HandleKeepActive cfg) r = handleKeepActiveChange cfg r"
| "handler_exec (HandleEnabled b) r = handleEnabledChange b r"
| "handler_exec HandleInitTimeout r = initTimeout r"
| "handler_exec (HandleTagPresent b) r = r\<lparr>rd_inTagPresent := b\<rparr>"

text \<open>
  The handshake and the latch: the completion event has been sent once if both states are known
  and not before, and a latch that is closed while the seatbox is open means that the vehicle is
  being driven.
\<close>

definition handshake_inv :: "BatteryReader \<Rightarrow> bool" where
  "handshake_inv r \<longleftrightarrow>
     count_list (rd_events r) EvInitComplete = (if rd_initCompleteSent r then 1 else 0) \<and>
     (rd_initCompleteSent r \<longleftrightarrow> rd_initVehicleState r \<and> rd_initSeatboxLock r)"

definition latch_inv :: "BatteryReader \<Rightarrow> bool" where
  "latch_inv r \<longleftrightarrow>
     (rd_latchedSeatboxLockClosed r \<longrightarrow>
        rd_seatboxLockClosed r \<or> rd_vehicleState r = VehicleStateReadyToDrive) \<and>
     (\<not> rd_initVehicleState r \<longrightarrow> rd_vehicleState r \<noteq> VehicleStateReadyToDrive)"

definition handler_inv :: "BatteryReader \<Rightarrow> bool" where
  "handler_inv r \<longleftrightarrow> handshake_inv r \<and> latch_inv r"

text \<open>Everything a handler does before its last call keeps what the handshake looks at.\<close>

definition handshake_pending :: "BatteryReader \<Rightarrow> bool" where
  "handshake_pending r \<longleftrightarrow>
     count_list (rd_events r) EvInitComplete = (if rd_initCompleteSent r then 1 else 0) \<and>
     (rd_initCompleteSent r \<longrightarrow> rd_initVehicleState r \<and> rd_initSeatboxLock r)"

lemma checkInit_handshake: "handshake_pending r \<Longrightarrow> handshake_inv (checkInitComplete r)"
  by (simp add: handshake_pending_def handshake_inv_def checkInitComplete_def SendEvent_def)

lemma handshake_pendingI: "handshake_inv r \<Longrightarrow> handshake_pending r"
  by (simp add: handshake_inv_def handshake_pending_def)

lemma handshake_frame [simp]:
  "handshake_pending (triggerRestart r) = handshake_pending r"
  "handshake_pending (upd_data f r) = handshake_pending r"
  "handshake_pending (r\<lparr>rd_latchedSeatboxLockClosed := b\<rparr>) = handshake_pending r"
  "handshake_pending (r\<lparr>rd_enabled := b\<rparr>) = handshake_pending r"
  "ev \<noteq> EvInitComplete \<Longrightarrow> handshake_pending (SendEvent ev r) = handshake_pending r"
  by (simp_all add: handshake_pending_def triggerRestart_def upd_data_def SendEvent_def)

lemma handshake_parts [simp]:
  "handshake_pending (applySeatboxPolicy cfg l ch r) = handshake_pending r"
  "handshake_pending (announceLatch o' l r) = handshake_pending r"
  by (simp_all add: applySeatboxPolicy_def announceLatch_def Let_def)

lemma seatbox_handshake: "handshake_inv r \<Longrightarrow> handshake_inv (handleSeatboxLockChange cfg b r)"
proof -
  assume inv: "handshake_inv r"
  have "handshake_pending (r\<lparr>rd_initSeatboxLock := True, rd_seatboxLockClosed := b, rd_latchedSeatboxLockClosed := l\<rparr>)" for l
    using inv by (simp add: handshake_pending_def handshake_inv_def)
  then show ?thesis
    unfolding handleSeatboxLockChange_def Let_def
    by (intro checkInit_handshake) (simp del: handshake_frame(3))
qed

lemma handshake_step: "handshake_inv r \<Longrightarrow> handshake_inv (handler_exec c r)"
proof (cases c)
  case (HandleVehicle v)
  assume inv: "handshake_inv r"
  then have "handshake_pending (r\<lparr>rd_initVehicleState := True, rd_vehicleState := v\<rparr>)"
    by (simp add: handshake_pending_def handshake_inv_def)
  with HandleVehicle show ?thesis
    by (simp add: handleVehicleStateChange_def Let_def) (intro conjI impI checkInit_handshake; simp)
next
  case (HandleSeatbox cfg b)
  assume "handshake_inv r"
  with HandleSeatbox show ?thesis by (simp add: seatbox_handshake)
next
  case (HandleKeepActive cfg)
  assume "handshake_inv r"
  with HandleKeepActive show ?thesis by (simp add: handleKeepActiveChange_def seatbox_handshake)
qed (auto simp: handshake_inv_def handleRestart_def handleEnabledChange_def initTimeout_def checkInitComplete_def
      SendEvent_def triggerRestart_def Let_def)

section \<open>The seatbox handler\<close>

lemma checkInit_fields [simp]:
  "rd_seatboxLockClosed (checkInitComplete r) = rd_seatboxLockClosed r" "rd_initVehicleState (checkInitComplete r) = rd_initVehicleState r"
  "rd_latchedSeatboxLockClosed (checkInitComplete r) = rd_latchedSeatboxLockClosed r"
  "rd_vehicleState (checkInitComplete r) = rd_vehicleState r" "rd_role (checkInitComplete r) = rd_role r"
  "rd_enabled (checkInitComplete r) = rd_enabled r" "rd_restartQueued (checkInitComplete r) = rd_restartQueued r"
  by (simp_all add: checkInitComplete_def SendEvent_def)

lemma restart_fields [simp]:
  "rd_seatboxLockClosed (triggerRestart r) = rd_seatboxLockClosed r" "rd_initVehicleState (triggerRestart r) = rd_initVehicleState r"
  "rd_latchedSeatboxLockClosed (triggerRestart r) = rd_latchedSeatboxLockClosed r"
  "rd_vehicleState (triggerRestart r) = rd_vehicleState r" "rd_role (triggerRestart r) = rd_role r"
  "rd_enabled (triggerRestart r) = rd_enabled r" "rd_events (triggerRestart r) = rd_events r"
  "rd_restartQueued (triggerRestart r)"
  by (simp_all add: triggerRestart_def)

lemma event_fields [simp]:
  "rd_seatboxLockClosed (SendEvent e r) = rd_seatboxLockClosed r" "rd_initVehicleState (SendEvent e r) = rd_initVehicleState r"
  "rd_latchedSeatboxLockClosed (SendEvent e r) = rd_latchedSeatboxLockClosed r"
  "rd_vehicleState (SendEvent e r) = rd_vehicleState r" "rd_role (SendEvent e r) = rd_role r"
  "rd_enabled (SendEvent e r) = rd_enabled r" "rd_events (SendEvent e r) = rd_events r @ [e]"
  "rd_restartQueued (SendEvent e r) = rd_restartQueued r"
  by (simp_all add: SendEvent_def)

lemma data_fields [simp]:
  "rd_seatboxLockClosed (upd_data f r) = rd_seatboxLockClosed r" "rd_initVehicleState (upd_data f r) = rd_initVehicleState r"
  "rd_latchedSeatboxLockClosed (upd_data f r) = rd_latchedSeatboxLockClosed r"
  "rd_vehicleState (upd_data f r) = rd_vehicleState r" "rd_role (upd_data f r) = rd_role r"
  "rd_enabled (upd_data f r) = rd_enabled r" "rd_events (upd_data f r) = rd_events r"
  "rd_restartQueued (upd_data f r) = rd_restartQueued r"
  by (simp_all add: upd_data_def)

lemma policy_fields [simp]:
  "rd_seatboxLockClosed (applySeatboxPolicy cfg l ch r) = rd_seatboxLockClosed r"
  "rd_latchedSeatboxLockClosed (applySeatboxPolicy cfg l ch r) = rd_latchedSeatboxLockClosed r"
  "rd_vehicleState (applySeatboxPolicy cfg l ch r) = rd_vehicleState r"
  "rd_role (applySeatboxPolicy cfg l ch r) = rd_role r"
  "rd_enabled (applySeatboxPolicy cfg l ch r) =
     (if rd_role r = BatteryRoleActive then EffectiveKeepActiveOnSeatboxOpen cfg \<or> l else rd_enabled r)"
  "rd_events (applySeatboxPolicy cfg l ch r) = rd_events r"
  "rd_initVehicleState (applySeatboxPolicy cfg l ch r) = rd_initVehicleState r"
  by (auto simp: applySeatboxPolicy_def triggerRestart_def Let_def)

lemma announce_fields [simp]:
  "rd_seatboxLockClosed (announceLatch o' l r) = rd_seatboxLockClosed r"
  "rd_latchedSeatboxLockClosed (announceLatch o' l r) = rd_latchedSeatboxLockClosed r"
  "rd_vehicleState (announceLatch o' l r) = rd_vehicleState r" "rd_role (announceLatch o' l r) = rd_role r"
  "rd_enabled (announceLatch o' l r) = rd_enabled r"
  "rd_initVehicleState (announceLatch o' l r) = rd_initVehicleState r"
  "rd_events (announceLatch o' l r) =
     rd_events r @ (if l = o' then [] else [if l then EvSeatboxClosed else EvSeatboxOpened])"
  by (auto simp: announceLatch_def SendEvent_def)

lemma seatbox_fields:
  fixes r :: BatteryReader and b :: bool
  defines "latch \<equiv> nextLatchedSeatboxClosed (rd_vehicleState r) (rd_latchedSeatboxLockClosed r) b"
  shows "rd_latchedSeatboxLockClosed (handleSeatboxLockChange cfg b r) = latch"
    "rd_seatboxLockClosed (handleSeatboxLockChange cfg b r) = b"
    "rd_vehicleState (handleSeatboxLockChange cfg b r) = rd_vehicleState r"
    "rd_role (handleSeatboxLockChange cfg b r) = rd_role r"
    "rd_initVehicleState (handleSeatboxLockChange cfg b r) = rd_initVehicleState r"
    "rd_enabled (handleSeatboxLockChange cfg b r) =
       (if rd_role r = BatteryRoleActive then EffectiveKeepActiveOnSeatboxOpen cfg \<or> latch else rd_enabled r)"
  by (simp_all add: handleSeatboxLockChange_def Let_def latch_def)

lemma checkInit_events:
  "rd_events (checkInitComplete r) = rd_events r \<or> rd_events (checkInitComplete r) = rd_events r @ [EvInitComplete]"
  by (simp add: checkInitComplete_def)

lemma seatbox_events:
  fixes r :: BatteryReader and b :: bool
  defines "latch \<equiv> nextLatchedSeatboxClosed (rd_vehicleState r) (rd_latchedSeatboxLockClosed r) b"
  shows "\<exists>us. set us \<subseteq> {EvInitComplete} \<and> rd_events (handleSeatboxLockChange cfg b r) =
     rd_events r @ (if latch = rd_latchedSeatboxLockClosed r then []
                    else [if latch then EvSeatboxClosed else EvSeatboxOpened]) @ us"
proof -
  define r2 where "r2 = applySeatboxPolicy cfg latch (latch \<noteq> rd_latchedSeatboxLockClosed r)
    (r\<lparr>rd_initSeatboxLock := True, rd_seatboxLockClosed := b, rd_latchedSeatboxLockClosed := latch\<rparr>)"
  define r4 where "r4 = announceLatch (rd_latchedSeatboxLockClosed r) latch
    (if rd_vehicleState r2 \<noteq> VehicleStateReadyToDrive \<or> \<not> latch
     then upd_data (\<lambda>d. d\<lparr>EmptyOr0Data := 0\<rparr>) r2 else r2)"
  have "handleSeatboxLockChange cfg b r = checkInitComplete r4"
    by (simp only: handleSeatboxLockChange_def Let_def r4_def r2_def latch_def)
  moreover have "rd_events r4 = rd_events r @ (if latch = rd_latchedSeatboxLockClosed r then []
                    else [if latch then EvSeatboxClosed else EvSeatboxOpened])"
    by (simp add: r4_def r2_def)
  ultimately show ?thesis
    using checkInit_events [of r4] by (auto intro: exI [of _ "[]"] exI [of _ "[EvInitComplete]"])
qed

text \<open>
  A ride is not interrupted by the seatbox sensor: while the vehicle is ready to drive and the
  latch is closed, no sequence of seatbox reports and policy changes opens the latch, disables an
  enabled pack or sends the state machine a seatbox event.
\<close>

lemma ride_not_interrupted:
  assumes "rd_vehicleState r = VehicleStateReadyToDrive" "rd_latchedSeatboxLockClosed r" "rd_enabled r"
    and "\<forall>c \<in> set cs. (\<exists>cfg b. c = HandleSeatbox cfg b) \<or> (\<exists>cfg. c = HandleKeepActive cfg)"
  shows "rd_latchedSeatboxLockClosed (fold handler_exec cs r) \<and> rd_enabled (fold handler_exec cs r) \<and>
         (\<exists>us. rd_events (fold handler_exec cs r) = rd_events r @ us \<and> set us \<subseteq> {EvInitComplete})"
  using assms
proof (induction cs arbitrary: r)
  case (Cons c cs)
  let ?r = "handler_exec c r"
  have latch: "nextLatchedSeatboxClosed (rd_vehicleState r) (rd_latchedSeatboxLockClosed r) b" for b
    using Cons.prems(1,2) by (simp add: nextLatchedSeatboxClosed_def)
  have ride: "rd_vehicleState (handleSeatboxLockChange cfg b r) = VehicleStateReadyToDrive"
    "rd_latchedSeatboxLockClosed (handleSeatboxLockChange cfg b r)" "rd_enabled (handleSeatboxLockChange cfg b r)"
    "\<exists>us. set us \<subseteq> {EvInitComplete} \<and> rd_events (handleSeatboxLockChange cfg b r) = rd_events r @ us" for cfg b
    using Cons.prems(1-3) latch [of b] seatbox_events [where r = r and b = b and cfg = cfg] by (simp_all add: seatbox_fields)
  have "rd_vehicleState ?r = VehicleStateReadyToDrive \<and> rd_latchedSeatboxLockClosed ?r \<and> rd_enabled ?r \<and>
      (\<exists>us. set us \<subseteq> {EvInitComplete} \<and> rd_events ?r = rd_events r @ us)"
    using Cons.prems ride by (auto simp: handleKeepActiveChange_def)
  then obtain us where r: "rd_vehicleState ?r = VehicleStateReadyToDrive" "rd_latchedSeatboxLockClosed ?r" "rd_enabled ?r"
    and us: "set us \<subseteq> {EvInitComplete}" "rd_events ?r = rd_events r @ us" by blast
  from Cons.IH [OF r] Cons.prems(4) obtain vs where "rd_events (fold handler_exec cs ?r) = rd_events ?r @ vs"
    "set vs \<subseteq> {EvInitComplete}" "rd_latchedSeatboxLockClosed (fold handler_exec cs ?r)" "rd_enabled (fold handler_exec cs ?r)"
    by auto
  with us show ?case by (intro conjI exI [of _ "us @ vs"]) auto
qed simp

section \<open>The invariant\<close>

lemma latch_step: "latch_inv r \<Longrightarrow> latch_inv (handler_exec c r)"
proof (cases c)
  case (HandleVehicle v)
  assume "latch_inv r"
  with HandleVehicle show ?thesis by (auto simp: latch_inv_def handleVehicleStateChange_def Let_def)
next
  case (HandleSeatbox cfg b)
  assume "latch_inv r"
  with HandleSeatbox show ?thesis by (auto simp: latch_inv_def seatbox_fields nextLatchedSeatboxClosed_def)
next
  case (HandleKeepActive cfg)
  assume "latch_inv r"
  with HandleKeepActive show ?thesis
    by (auto simp: latch_inv_def handleKeepActiveChange_def seatbox_fields nextLatchedSeatboxClosed_def)
qed (auto simp: latch_inv_def handleRestart_def handleEnabledChange_def initTimeout_def Let_def)

definition handler_initial :: "BatteryReader \<Rightarrow> bool" where
  "handler_initial r \<longleftrightarrow> (\<exists>role now txn. r = NewBatteryReader role now txn)"

interpretation hdl: machine handler_initial handler_exec handler_inv
proof
  fix r assume "handler_initial r"
  then show "handler_inv r"
    by (auto simp: handler_initial_def NewBatteryReader_def initializeFaultManagement_def handler_inv_def
        handshake_inv_def latch_inv_def VehicleStateReadyToDrive_def)
next
  fix r c assume "handler_inv r"
  then show "handler_inv (handler_exec c r)" by (simp add: handler_inv_def handshake_step latch_step)
qed


text \<open>
  The five-second fallback assumes a closed seatbox but sets only the raw value: the latch, which is
  what the state machine asks for, still says open.
\<close>

lemma init_timeout_leaves_latch_open:
  "rd_seatboxLockClosed (initTimeout (NewBatteryReader role now txn)) \<and>
   \<not> GetSeatboxLockClosed (initTimeout (NewBatteryReader role now txn)) \<and>
   EvInitComplete \<in> set (rd_events (initTimeout (NewBatteryReader role now txn)))"
  by (simp add: initTimeout_def NewBatteryReader_def initializeFaultManagement_def GetSeatboxLockClosed_def
      checkInitComplete_def SendEvent_def)

end
