(* ===== verification/Service.thy ===== *)
theory Service
  imports Reader_Handlers
begin

text \<open>
  The service around the readers (\<open>service.go\<close>, \<open>admission_demand.go\<close>): the Redis messages and
  what each changes, hot-reloaded settings, the aux-battery override, the dual-battery setting, the
  drive-start demand and the poller. Redis is a parameter: what \<open>HGet\<close> answers for a hash and a
  field. The guard exists from \<open>Start\<close> on, so the checks for a nil guard are not repeated.
\<close>

section \<open>State\<close>

datatype redis_reply = RedisValue string | RedisNil | RedisErr

type_synonym redis_get = "string \<Rightarrow> string \<Rightarrow> redis_reply"

text \<open>A reader with the channels other goroutines send to; \<open>None\<close> and \<open>False\<close> are empty channels.\<close>

record reader_port =
  pt_reader :: BatteryReader
  pt_vehicleStateChan :: "VehicleState option"
  pt_seatboxLockChan :: "bool option"
  pt_enabledChan :: "bool option"
  pt_keepActiveChan :: bool

record Service =
  sv_config :: ServiceConfig
  sv_batteryConfig :: BatteryConfiguration
  sv_vehicleState :: VehicleState
  sv_readers :: "reader_port option list"
  sv_admission :: packAdmission
  sv_admissionRequests :: bool
  sv_admissionReady :: bool
  sv_driveStartDeadline :: "gotime option"

definition upd_config :: "(ServiceConfig \<Rightarrow> ServiceConfig) \<Rightarrow> Service \<Rightarrow> Service" where
  "upd_config f s = s\<lparr>sv_config := f (sv_config s)\<rparr>"

definition upd_admission :: "(packAdmission \<Rightarrow> packAdmission) \<Rightarrow> Service \<Rightarrow> Service" where
  "upd_admission f s = s\<lparr>sv_admission := f (sv_admission s)\<rparr>"

text \<open>The loops over \<open>s.readers\<close> that skip missing readers.\<close>

definition forReaders :: "(reader_port \<Rightarrow> reader_port) \<Rightarrow> Service \<Rightarrow> Service" where
  "forReaders f s = s\<lparr>sv_readers := map (map_option f) (sv_readers s)\<rparr>"

definition SetEnabled :: "bool \<Rightarrow> reader_port \<Rightarrow> reader_port" where
  "SetEnabled en p = p\<lparr>pt_enabledChan := tryUpdateChannel en (pt_enabledChan p)\<rparr>"

definition SendVehicleStateChange :: "VehicleState \<Rightarrow> reader_port \<Rightarrow> reader_port" where
  "SendVehicleStateChange st p = p\<lparr>pt_vehicleStateChan := tryUpdateChannel st (pt_vehicleStateChan p)\<rparr>"

definition SendSeatboxLockChange :: "bool \<Rightarrow> reader_port \<Rightarrow> reader_port" where
  "SendSeatboxLockChange closed p = p\<lparr>pt_seatboxLockChan := tryUpdateChannel closed (pt_seatboxLockChan p)\<rparr>"

definition reader_at :: "nat \<Rightarrow> Service \<Rightarrow> reader_port option" where
  "reader_at i s = (if i < length (sv_readers s) then sv_readers s ! i else None)"

definition set_reader :: "nat \<Rightarrow> reader_port \<Rightarrow> Service \<Rightarrow> Service" where
  "set_reader i p s = s\<lparr>sv_readers := (sv_readers s)[i := Some p]\<rparr>"

text \<open>\<open>SetBatteryEnabled\<close>: \<open>None\<close> is the invalid-index error; a negative index panics in the source.\<close>

definition SetBatteryEnabled :: "nat \<Rightarrow> bool \<Rightarrow> Service \<Rightarrow> Service option" where
  "SetBatteryEnabled i en s =
     (case reader_at i s of None \<Rightarrow> None | Some p \<Rightarrow> Some (set_reader i (SetEnabled en p) s))"

section \<open>Numbers\<close>

text \<open>\<open>strconv.ParseUint(raw, 10, 64)\<close>.\<close>

definition digitValue :: "char \<Rightarrow> nat option" where
  "digitValue c = (let n = of_char c :: nat in if 48 \<le> n \<and> n \<le> 57 then Some (n - 48) else None)"

fun parseDigits :: "nat \<Rightarrow> string \<Rightarrow> nat option" where
  "parseDigits acc [] = Some acc"
| "parseDigits acc (c # cs) =
     (case digitValue c of None \<Rightarrow> None | Some d \<Rightarrow> parseDigits (acc * 10 + d) cs)"

definition ParseUint :: "string \<Rightarrow> nat option" where
  "ParseUint raw =
     (if raw = [] then None
      else case parseDigits 0 raw of None \<Rightarrow> None | Some n \<Rightarrow> if n < 2 ^ 64 then Some n else None)"

section \<open>Settings\<close>

text \<open>
  Loading gives the new value of the target; reloading also says whether the value changed, which
  is when \<open>onChange\<close> is called.
\<close>

definition loadBoolSetting :: "redis_reply \<Rightarrow> bool \<Rightarrow> bool" where
  "loadBoolSetting reply target =
     (case reply of
        RedisValue raw \<Rightarrow> (case parseBoolSetting raw of (v, ok) \<Rightarrow> if ok then v else target)
      | _ \<Rightarrow> target)"

definition reloadBoolSetting :: "redis_reply \<Rightarrow> bool \<Rightarrow> bool \<times> bool" where
  "reloadBoolSetting reply target =
     (case reply of
        RedisValue raw \<Rightarrow>
          (case parseBoolSetting raw of (v, ok) \<Rightarrow> if \<not> ok then (target, False) else (v, target \<noteq> v))
      | _ \<Rightarrow> (target, False))"

definition loadUint64Setting :: "redis_reply \<Rightarrow> nat \<Rightarrow> nat" where
  "loadUint64Setting reply target =
     (case reply of
        RedisValue raw \<Rightarrow> (case ParseUint raw of None \<Rightarrow> target | Some v \<Rightarrow> v)
      | _ \<Rightarrow> target)"

definition reloadUint64Setting :: "redis_reply \<Rightarrow> nat \<Rightarrow> nat \<times> bool" where
  "reloadUint64Setting reply target =
     (case reply of
        RedisValue raw \<Rightarrow> (case ParseUint raw of None \<Rightarrow> (target, False) | Some v \<Rightarrow> (v, target \<noteq> v))
      | _ \<Rightarrow> (target, False))"

definition keepActiveKey :: string where "keepActiveKey = ''scooter.battery-keep-active-on-seatbox-open''"
definition maxVoltageDeltaKey :: string where "maxVoltageDeltaKey = ''scooter.max-voltage-delta''"
definition auxEnterKey :: string where "auxEnterKey = ''scooter.battery-aux-low-keep-active-enter-mv''"
definition auxExitKey :: string where "auxExitKey = ''scooter.battery-aux-low-keep-active-exit-mv''"
definition dualBatteryKey :: string where "dualBatteryKey = ''scooter.dual-battery''"

definition auxLowKeepActiveDefaultEnterMv :: nat where "auxLowKeepActiveDefaultEnterMv = 11500"
definition auxLowKeepActiveDefaultExitMv :: nat where "auxLowKeepActiveDefaultExitMv = 12000"

definition refreshKeepActiveReaders :: "Service \<Rightarrow> Service" where
  "refreshKeepActiveReaders s =
     forReaders (\<lambda>p. if rd_role (pt_reader p) = BatteryRoleActive then p\<lparr>pt_keepActiveChan := True\<rparr> else p) s"

definition reloadKeepActive :: "redis_get \<Rightarrow> Service \<Rightarrow> Service" where
  "reloadKeepActive rg s =
     (case reloadBoolSetting (rg ''settings'' keepActiveKey) (KeepActiveOnSeatboxOpen (sv_config s)) of
        (v, changed) \<Rightarrow>
          let s1 = upd_config (\<lambda>c. c\<lparr>KeepActiveOnSeatboxOpen := v\<rparr>) s
          in if changed then refreshKeepActiveReaders s1 else s1)"

definition reloadMaxVoltageDelta :: "redis_get \<Rightarrow> Service \<Rightarrow> Service" where
  "reloadMaxVoltageDelta rg s =
     upd_config (\<lambda>c. c\<lparr>MaxVoltageDelta :=
                      fst (reloadUint64Setting (rg ''settings'' maxVoltageDeltaKey) (MaxVoltageDelta c))\<rparr>) s"

section \<open>The aux-battery override\<close>

definition auxLowKeepActiveLatch :: "bool \<Rightarrow> bool \<Rightarrow> nat \<Rightarrow> nat \<Rightarrow> nat \<Rightarrow> bool" where
  "auxLowKeepActiveLatch was haveHistory mv enter exit =
     (if was \<or> \<not> haveHistory then mv < exit else mv < enter)"

definition recomputeAuxLowKeepActive :: "redis_get \<Rightarrow> bool \<Rightarrow> Service \<Rightarrow> Service" where
  "recomputeAuxLowKeepActive rg allowRestart s =
     (case rg ''aux-battery'' ''voltage'' of
        RedisValue raw \<Rightarrow>
          (case ParseUint raw of
             None \<Rightarrow> s
           | Some mv \<Rightarrow>
               let c = sv_config s;
                   was = AuxLowKeepActive c;
                   haveHistory = AuxLowKeepActiveEvaluated c;
                   s1 = upd_config (\<lambda>c. c\<lparr>AuxLowKeepActiveEvaluated := True\<rparr>) s;
                   engaged = auxLowKeepActiveLatch was haveHistory mv
                               (AuxLowKeepActiveEnterMv c) (AuxLowKeepActiveExitMv c)
               in if engaged = was \<and> haveHistory then s1
                  else let s2 = upd_config (\<lambda>c. c\<lparr>AuxLowKeepActive := engaged\<rparr>) s1
                       in if engaged \<noteq> was \<and> allowRestart then refreshKeepActiveReaders s2 else s2)
      | _ \<Rightarrow> s)"

definition reloadAuxEnter :: "redis_get \<Rightarrow> Service \<Rightarrow> Service" where
  "reloadAuxEnter rg s =
     (case reloadUint64Setting (rg ''settings'' auxEnterKey) (AuxLowKeepActiveEnterMv (sv_config s)) of
        (v, changed) \<Rightarrow>
          let s1 = upd_config (\<lambda>c. c\<lparr>AuxLowKeepActiveEnterMv := v\<rparr>) s
          in if changed then recomputeAuxLowKeepActive rg True s1 else s1)"

definition reloadAuxExit :: "redis_get \<Rightarrow> Service \<Rightarrow> Service" where
  "reloadAuxExit rg s =
     (case reloadUint64Setting (rg ''settings'' auxExitKey) (AuxLowKeepActiveExitMv (sv_config s)) of
        (v, changed) \<Rightarrow>
          let s1 = upd_config (\<lambda>c. c\<lparr>AuxLowKeepActiveExitMv := v\<rparr>) s
          in if changed then recomputeAuxLowKeepActive rg True s1 else s1)"

section \<open>Vehicle and seatbox\<close>

definition loadInitialVehicleState :: "redis_get \<Rightarrow> gotime \<Rightarrow> Service \<Rightarrow> Service" where
  "loadInitialVehicleState rg now s =
     (let st = (case rg ''vehicle'' ''state'' of RedisValue raw \<Rightarrow> raw | _ \<Rightarrow> VehicleStateStandby);
          seatboxClosed = (case rg ''vehicle'' ''seatbox:lock'' of RedisValue raw \<Rightarrow> raw = ''closed'' | _ \<Rightarrow> True);
          s1 = upd_admission (setVehicleAt st now) (s\<lparr>sv_vehicleState := st\<rparr>);
          s2 = upd_admission (setSeatbox seatboxClosed) s1
      in forReaders (\<lambda>p. SendSeatboxLockChange seatboxClosed (SendVehicleStateChange st p)) s2)"

definition handleVehicleStateMessage :: "redis_get \<Rightarrow> gotime \<Rightarrow> Service \<Rightarrow> Service" where
  "handleVehicleStateMessage rg now s =
     (case rg ''vehicle'' ''state'' of
        RedisValue st \<Rightarrow>
          forReaders (SendVehicleStateChange st) (upd_admission (setVehicleAt st now) (s\<lparr>sv_vehicleState := st\<rparr>))
      | _ \<Rightarrow> s)"

definition handleSeatboxUpdate :: "redis_get \<Rightarrow> Service \<Rightarrow> Service" where
  "handleSeatboxUpdate rg s =
     (case rg ''vehicle'' ''seatbox:lock'' of
        RedisValue raw \<Rightarrow>
          forReaders (SendSeatboxLockChange (raw = ''closed'')) (upd_admission (setSeatbox (raw = ''closed'')) s)
      | _ \<Rightarrow> s)"

section \<open>The dual-battery setting\<close>

definition set_role :: "BatteryRole \<Rightarrow> Service \<Rightarrow> Service" where
  "set_role role s =
     s\<lparr>sv_batteryConfig := (sv_batteryConfig s)[1 := (sv_batteryConfig s ! 1)\<lparr>Role := role\<rparr>]\<rparr>"

definition roleEligible :: "BatteryRole \<Rightarrow> Service \<Rightarrow> bool" where
  "roleEligible role s \<longleftrightarrow> Enabled (sv_batteryConfig s ! 1) \<and> role = BatteryRoleActive"

definition dualRole :: "string \<Rightarrow> BatteryRole" where
  "dualRole setting = (if setting = ''true'' then BatteryRoleActive else BatteryRoleInactive)"

definition loadDualBatterySetting :: "redis_get \<Rightarrow> Service \<Rightarrow> Service" where
  "loadDualBatterySetting rg s =
     (case rg ''settings'' dualBatteryKey of
        RedisValue setting \<Rightarrow>
          if setting \<noteq> ''true'' \<and> setting \<noteq> ''false'' \<or> \<not> length (sv_batteryConfig s) > 1 then s
          else let newRole = dualRole setting;
                   s1 = upd_admission (setRole Slot1 (roleEligible newRole s)) (set_role newRole s)
               in (case reader_at 1 s1 of
                     None \<Rightarrow> s1
                   | Some p \<Rightarrow>
                       set_reader 1 (p\<lparr>pt_reader := (pt_reader p)\<lparr>rd_role := newRole,
                                                                  rd_enabled := (newRole = BatteryRoleActive)\<rparr>\<rparr>) s1)
      | _ \<Rightarrow> s)"

text \<open>The enabled state of a slot that changes role.\<close>

definition enableForRole :: "redis_get \<Rightarrow> ServiceConfig \<Rightarrow> BatteryRole \<Rightarrow> reader_port \<Rightarrow> reader_port" where
  "enableForRole rg config newRole p =
     (if newRole = BatteryRoleInactive then SetEnabled False p
      else if EffectiveKeepActiveOnSeatboxOpen config then SetEnabled True p
      else (case rg ''vehicle'' ''seatbox:lock'' of
              RedisValue raw \<Rightarrow> SetEnabled (raw = ''closed'') p
            | _ \<Rightarrow> p))"

text \<open>The configuration entry of battery 1 exists whenever its reader does.\<close>

definition handleDualBatterySettingChange :: "redis_get \<Rightarrow> Service \<Rightarrow> Service" where
  "handleDualBatterySettingChange rg s =
     (case rg ''settings'' dualBatteryKey of
        RedisValue setting \<Rightarrow>
          if setting \<noteq> ''true'' \<and> setting \<noteq> ''false'' then s
          else (case reader_at 1 s of
                  None \<Rightarrow> s
                | Some p \<Rightarrow>
                    let newRole = dualRole setting
                    in if rd_role (pt_reader p) = newRole then s
                       else let s1 = set_role newRole (upd_admission (setRole Slot1 (roleEligible newRole s)) s);
                                p1 = p\<lparr>pt_reader := (pt_reader p)\<lparr>rd_role := newRole\<rparr>\<rparr>;
                                p2 = enableForRole rg (sv_config s1) newRole p1
                            in set_reader 1 (p2\<lparr>pt_reader := triggerRestart (pt_reader p2)\<rparr>) s1)
      | _ \<Rightarrow> s)"

section \<open>Drive-start demand\<close>

definition admissionDemandTimeout :: duration where [const_defs]: "admissionDemandTimeout = 30 * Second"

definition setDriveStartStatus :: "string \<Rightarrow> gotime \<Rightarrow> Service \<Rightarrow> Service" where
  "setDriveStartStatus status now s =
     (if status \<noteq> ''waiting-battery'' then s\<lparr>sv_driveStartDeadline := None\<rparr>
      else case sv_driveStartDeadline s of
             Some d \<Rightarrow> s
           | None \<Rightarrow> s\<lparr>sv_driveStartDeadline := Some (AddDur now admissionDemandTimeout),
                       sv_admissionRequests := True\<rparr>)"

definition handleDriveStartStatusMessage :: "redis_get \<Rightarrow> gotime \<Rightarrow> Service \<Rightarrow> Service" where
  "handleDriveStartStatusMessage rg now s =
     (case rg ''vehicle'' ''drive-start-status'' of
        RedisErr \<Rightarrow> s
      | RedisNil \<Rightarrow> setDriveStartStatus [] now s
      | RedisValue status \<Rightarrow> setDriveStartStatus status now s)"

definition driveStartDemandActive :: "gotime \<Rightarrow> Service \<Rightarrow> bool" where
  "driveStartDemandActive now s =
     (case sv_driveStartDeadline s of None \<Rightarrow> False | Some d \<Rightarrow> Before now d)"

text \<open>\<open>notifyAdmissionReady\<close> of the service; the readers' worlds hold its effect as \<open>w_ready\<close>.\<close>

definition serviceAdmissionReady :: "gotime \<Rightarrow> Service \<Rightarrow> Service" where
  "serviceAdmissionReady now s = (if driveStartDemandActive now s then s\<lparr>sv_admissionReady := True\<rparr> else s)"

definition promptAdmissionReaders :: "Service \<Rightarrow> Service" where
  "promptAdmissionReaders s = forReaders (\<lambda>p. p\<lparr>pt_reader := SendEvent EvAdmissionPoll (pt_reader p)\<rparr>) s"

definition pollAdmission :: "bool \<Rightarrow> gotime \<Rightarrow> Service \<Rightarrow> Service" where
  "pollAdmission demanded now s =
     (case beginRound now (sv_admission s) of
        ((rid, rep), a) \<Rightarrow>
          let s1 = s\<lparr>sv_admission := a\<rparr>
          in if rid \<noteq> 0 \<or> (demanded \<and> \<not> roundInProgress a) then promptAdmissionReaders s1 else s1)"

text \<open>One round of the poller's select: a tick, or a queued request or readiness signal.\<close>

datatype poll_case = PollTick | PollRequest | PollReady

fun runAdmissionRequests :: "poll_case \<Rightarrow> gotime \<Rightarrow> Service \<Rightarrow> Service" where
  "runAdmissionRequests PollTick now s = pollAdmission False now s"
| "runAdmissionRequests PollRequest now s =
     (if sv_admissionRequests s
      then let s1 = s\<lparr>sv_admissionRequests := False\<rparr>
           in if driveStartDemandActive now s1 then pollAdmission True now s1 else s1
      else s)"
| "runAdmissionRequests PollReady now s =
     (if sv_admissionReady s
      then let s1 = s\<lparr>sv_admissionReady := False\<rparr>
           in if driveStartDemandActive now s1 then pollAdmission True now s1 else s1
      else s)"

section \<open>Messages\<close>

text \<open>The switch of \<open>runRedisSubscriber\<close>.\<close>

definition handleMessage :: "redis_get \<Rightarrow> gotime \<Rightarrow> string \<Rightarrow> string \<Rightarrow> Service \<Rightarrow> Service" where
  "handleMessage rg now channel payload s =
     (if channel = ''vehicle''
      then (if payload = ''state'' then handleVehicleStateMessage rg now s
            else if payload = ''seatbox:lock'' then handleSeatboxUpdate rg s
            else if payload = ''drive-start-status'' then handleDriveStartStatusMessage rg now s
            else s)
      else if channel = ''settings''
      then (if payload = keepActiveKey then reloadKeepActive rg s
            else if payload = maxVoltageDeltaKey then reloadMaxVoltageDelta rg s
            else if payload = auxEnterKey then reloadAuxEnter rg s
            else if payload = auxExitKey then reloadAuxExit rg s
            else if payload = dualBatteryKey then handleDualBatterySettingChange rg s
            else s)
      else if channel = ''aux-battery''
      then (if payload = ''voltage'' then recomputeAuxLowKeepActive rg True s else s)
      else s)"

text \<open>The settings part of \<open>Start\<close>, in its order.\<close>

definition startSettings :: "redis_get \<Rightarrow> gotime \<Rightarrow> Service \<Rightarrow> Service" where
  "startSettings rg now s =
     (let lb = (\<lambda>key. loadBoolSetting (rg ''settings'' key));
          lu = (\<lambda>key. loadUint64Setting (rg ''settings'' key));
          s1 = upd_config (\<lambda>c. c\<lparr>KeepActiveOnSeatboxOpen := lb keepActiveKey (KeepActiveOnSeatboxOpen c),
                                MaxVoltageDelta := lu maxVoltageDeltaKey (MaxVoltageDelta c),
                                AuxLowKeepActiveEnterMv := lu auxEnterKey auxLowKeepActiveDefaultEnterMv,
                                AuxLowKeepActiveExitMv := lu auxExitKey auxLowKeepActiveDefaultExitMv\<rparr>) s;
          s2 = s1\<lparr>sv_admission := loadAdmissionSetting (sv_batteryConfig s1)
                     (case rg ''settings'' ''experimental.battery.dual-pack-admission'' of
                        RedisValue raw \<Rightarrow> Some raw | _ \<Rightarrow> None)\<rparr>;
          s3 = loadInitialVehicleState rg now (loadDualBatterySetting rg s2)
      in recomputeAuxLowKeepActive rg False s3)"

definition stopService :: "Service \<Rightarrow> Service" where
  "stopService s = upd_admission stopSampling s"

end
