(* ===== verification/Service_Safety.thy ===== *)
theory Service_Safety
  imports Service Nfc_Guard
begin

text \<open>
  The service loop: numbers survive Redis, the aux-battery override is a Schmitt trigger, a demand is
  not prolonged by repetition, and no message changes a supply record.
\<close>

section \<open>Parsing numbers\<close>

lemma digit_of: "n < 10 \<Longrightarrow> digitValue (char_of (48 + n :: nat)) = Some n"
  by (simp add: digitValue_def)

lemma parseDigits_append:
  "parseDigits acc (xs @ ys) = (case parseDigits acc xs of None \<Rightarrow> None | Some n \<Rightarrow> parseDigits n ys)"
  by (induction xs arbitrary: acc) (auto split: option.split)

lemma parseDigits_fmt: "parseDigits 0 (fmt_nat n) = Some n"
proof (induction n rule: fmt_nat.induct)
  case (1 n)
  then show ?case
    by (subst fmt_nat.simps) (auto simp: digit_of parseDigits_append)
qed

text \<open>
  Numbers survive the trip through Redis: a printed number that fits 64 bits parses back to
  itself, and one that does not is rejected.
\<close>

lemma uint_roundtrip: "ParseUint (fmt_nat n) = (if n < 2 ^ 64 then Some n else None)"
  by (simp add: ParseUint_def parseDigits_fmt fmt_nat_not_Nil)

section \<open>The aux-battery override\<close>

text \<open>
  The override as a function of the readings so far: the last reading outside the band decides, and
  a service that has only seen the band keeps the packs awake.
\<close>

definition aux_spec :: "nat \<Rightarrow> nat \<Rightarrow> nat list \<Rightarrow> bool" where
  "aux_spec enter exit mvs =
     (case filter (\<lambda>mv. mv < enter \<or> exit \<le> mv) mvs of
        [] \<Rightarrow> mvs \<noteq> []
      | out \<Rightarrow> last out < enter)"

text \<open>One reading published by the aux-battery service.\<close>

definition aux_reading :: "nat \<Rightarrow> redis_get" where
  "aux_reading mv = (\<lambda>h f. if h = ''aux-battery'' \<and> f = ''voltage'' then RedisValue (fmt_nat mv) else RedisNil)"

definition apply_aux :: "Service \<Rightarrow> nat \<Rightarrow> Service" where
  "apply_aux s mv = recomputeAuxLowKeepActive (aux_reading mv) True s"

lemma forReaders_config [simp]: "sv_config (forReaders f s) = sv_config s"
  by (simp add: forReaders_def)

lemma apply_aux_config:
  assumes "mv < 2 ^ 64"
  shows "sv_config (apply_aux s mv) =
    (sv_config s)\<lparr>AuxLowKeepActiveEvaluated := True,
       AuxLowKeepActive := auxLowKeepActiveLatch (AuxLowKeepActive (sv_config s))
         (AuxLowKeepActiveEvaluated (sv_config s)) mv
         (AuxLowKeepActiveEnterMv (sv_config s)) (AuxLowKeepActiveExitMv (sv_config s))\<rparr>"
  using assms
  by (auto simp: apply_aux_def recomputeAuxLowKeepActive_def aux_reading_def ParseUint_def parseDigits_fmt fmt_nat_not_Nil refreshKeepActiveReaders_def
      upd_config_def Let_def)

lemma aux_run:
  assumes "AuxLowKeepActiveEnterMv (sv_config s) \<le> AuxLowKeepActiveExitMv (sv_config s)"
    and "\<not> AuxLowKeepActiveEvaluated (sv_config s)" and "\<forall>mv \<in> set mvs. mv < 2 ^ 64"
  shows "sv_config (foldl apply_aux s mvs) =
    (if mvs = [] then sv_config s
     else (sv_config s)\<lparr>AuxLowKeepActiveEvaluated := True,
            AuxLowKeepActive := aux_spec (AuxLowKeepActiveEnterMv (sv_config s))
              (AuxLowKeepActiveExitMv (sv_config s)) mvs\<rparr>)"
  using assms(3)
proof (induction mvs rule: rev_induct)
  case (snoc mv mvs)
  show ?case
  proof (cases "mvs = []")
    case True
    with snoc.prems assms(1,2) show ?thesis
      by (auto simp: apply_aux_config auxLowKeepActiveLatch_def aux_spec_def)
  next
    case False
    with snoc have c: "sv_config (foldl apply_aux s mvs) = (sv_config s)\<lparr>AuxLowKeepActiveEvaluated := True,
            AuxLowKeepActive := aux_spec (AuxLowKeepActiveEnterMv (sv_config s))
              (AuxLowKeepActiveExitMv (sv_config s)) mvs\<rparr>" by simp
    let ?e = "AuxLowKeepActiveEnterMv (sv_config s)" and ?x = "AuxLowKeepActiveExitMv (sv_config s)"
    have "aux_spec ?e ?x (mvs @ [mv]) = auxLowKeepActiveLatch (aux_spec ?e ?x mvs) True mv ?e ?x"
      using assms(1) False
      by (cases "filter (\<lambda>mv. mv < ?e \<or> ?x \<le> mv) mvs") (auto simp: aux_spec_def auxLowKeepActiveLatch_def)
    with c snoc.prems show ?thesis by (simp add: apply_aux_config)
  qed
qed simp

text \<open>
  C40: The aux-battery override is a Schmitt trigger: after any sequence of readings it is engaged
  exactly when the last reading outside the band between the two thresholds was below the lower
  one, or, while every reading since the start was inside the band, as soon as there is one. This
  is the override \<open>EffectiveKeepActiveOnSeatboxOpen\<close> adds to the user's setting.
\<close>

theorem aux_override_hysteresis:
  assumes "AuxLowKeepActiveEnterMv (sv_config s) \<le> AuxLowKeepActiveExitMv (sv_config s)"
    and "\<not> AuxLowKeepActiveEvaluated (sv_config s)" "\<not> AuxLowKeepActive (sv_config s)"
    and "\<forall>mv \<in> set mvs. mv < 2 ^ 64"
  shows "EffectiveKeepActiveOnSeatboxOpen (sv_config (foldl apply_aux s mvs)) \<longleftrightarrow>
         KeepActiveOnSeatboxOpen (sv_config s) \<or>
         aux_spec (AuxLowKeepActiveEnterMv (sv_config s)) (AuxLowKeepActiveExitMv (sv_config s)) mvs"
  using assms(3) by (simp add: aux_run [OF assms(1,2,4)] EffectiveKeepActiveOnSeatboxOpen_def aux_spec_def)

section \<open>Demand\<close>

text \<open>
  A demand is not prolonged by repeated messages: its deadline is that of the first one, and it asks
  for one poll.
\<close>

lemma demand_not_prolonged:
  assumes "sv_driveStartDeadline s = None"
  shows "sv_driveStartDeadline (foldl (\<lambda>s t. setDriveStartStatus ''waiting-battery'' t s) s (t # ts)) =
    Some (AddDur t admissionDemandTimeout)"
proof -
  have "sv_driveStartDeadline (foldl (\<lambda>s t. setDriveStartStatus ''waiting-battery'' t s) s ts) = Some d"
    if "sv_driveStartDeadline s = Some d" for s :: Service and d
    using that by (induction ts arbitrary: s) (simp_all add: setDriveStartStatus_def)
  then show ?thesis using assms by (simp add: setDriveStartStatus_def)
qed

section \<open>The service and the guard\<close>

datatype service_op =
    SvMessage redis_get gotime string string
  | SvPoll poll_case gotime
  | SvReady gotime
  | SvEnable nat bool
  | SvStop

fun service_exec :: "service_op \<Rightarrow> Service \<Rightarrow> Service" where
  "service_exec (SvMessage rg now channel payload) s = handleMessage rg now channel payload s"
| "service_exec (SvPoll c now) s = runAdmissionRequests c now s"
| "service_exec (SvReady now) s = serviceAdmissionReady now s"
| "service_exec (SvEnable i b) s = (case SetBatteryEnabled i b s of None \<Rightarrow> s | Some s' \<Rightarrow> s')"
| "service_exec SvStop s = stopService s"

lemma admission_frame [simp]:
  "sv_admission (forReaders f s) = sv_admission s" "sv_admission (upd_config g s) = sv_admission s"
  "sv_admission (set_reader i p s) = sv_admission s" "sv_admission (set_role role s) = sv_admission s"
  "sv_admission (upd_admission h s) = h (sv_admission s)"
  "sv_admission (setDriveStartStatus st now s) = sv_admission s"
  "sv_admission (refreshKeepActiveReaders s) = sv_admission s"
  "sv_admission (promptAdmissionReaders s) = sv_admission s"
  by (simp_all add: forReaders_def upd_config_def set_reader_def set_role_def upd_admission_def
      setDriveStartStatus_def refreshKeepActiveReaders_def promptAdmissionReaders_def split: option.split)

lemma recompute_admission [simp]: "sv_admission (recomputeAuxLowKeepActive rg b s) = sv_admission s"
  by (simp add: recomputeAuxLowKeepActive_def Let_def split: redis_reply.split option.split)

text \<open>
  What a message or a poll does to the guard: nothing, or one call that says where the vehicle, the
  seatbox, a role or the sampling rounds stand.
\<close>

fun service_call :: "adm_op \<Rightarrow> bool" where
  "service_call (OpSetVehicle v now) \<longleftrightarrow> True"
| "service_call (OpSetSeatbox b) \<longleftrightarrow> True"
| "service_call (OpSetRole i b) \<longleftrightarrow> True"
| "service_call (OpBeginRound now) \<longleftrightarrow> True"
| "service_call OpStopSampling \<longleftrightarrow> True"
| "service_call _ \<longleftrightarrow> False"

definition calls_guard :: "(string \<Rightarrow> motionEvidence option) \<Rightarrow> packAdmission \<Rightarrow> packAdmission \<Rightarrow> bool" where
  "calls_guard js a b \<longleftrightarrow> b = a \<or> (\<exists>c. service_call c \<and> b = adm_exec js c a)"

lemma calls_guard_intros [simp]:
  "calls_guard js a a" "calls_guard js a (setVehicleAt v now a)" "calls_guard js a (setSeatbox b a)"
  "calls_guard js a (setRole i b a)" "calls_guard js a (snd (beginRound now a))" "calls_guard js a (stopSampling a)"
  by (auto simp: calls_guard_def intro: exI [of _ "OpSetVehicle v now"] exI [of _ "OpSetSeatbox b"]
      exI [of _ "OpSetRole i b"] exI [of _ "OpBeginRound now"] exI [of _ OpStopSampling])

lemma handler_calls:
  "calls_guard js (sv_admission s) (sv_admission (handleVehicleStateMessage rg now s))"
  "calls_guard js (sv_admission s) (sv_admission (handleSeatboxUpdate rg s))"
  "calls_guard js (sv_admission s) (sv_admission (handleDualBatterySettingChange rg s))"
    by (simp_all add: handleVehicleStateMessage_def handleSeatboxUpdate_def handleDualBatterySettingChange_def
      Let_def split: redis_reply.split option.split)

lemma handler_frame [simp]:
  "sv_admission (handleDriveStartStatusMessage rg now s) = sv_admission s"
  "sv_admission (reloadKeepActive rg s) = sv_admission s" "sv_admission (reloadMaxVoltageDelta rg s) = sv_admission s"
  "sv_admission (reloadAuxEnter rg s) = sv_admission s" "sv_admission (reloadAuxExit rg s) = sv_admission s"
  by (simp_all add: handleDriveStartStatusMessage_def reloadKeepActive_def reloadMaxVoltageDelta_def
      reloadAuxEnter_def reloadAuxExit_def Let_def split: redis_reply.split prod.split)

lemma message_calls: "calls_guard js (sv_admission s) (sv_admission (handleMessage rg now ch pl s))"
  unfolding handleMessage_def
  by (simp only: handler_calls handler_frame recompute_admission calls_guard_intros simp_thms
      if_split [of "\<lambda>x. calls_guard js (sv_admission s) (sv_admission x)"])

lemma poll_calls: "calls_guard js (sv_admission s) (sv_admission (pollAdmission dm now s))"
proof -
  have "sv_admission (pollAdmission dm now s) = snd (beginRound now (sv_admission s))"
    by (simp add: pollAdmission_def Let_def split: prod.split)
  then show ?thesis by simp
qed

lemma service_calls: "calls_guard js (sv_admission s) (sv_admission (service_exec c s))"
proof (cases c)
  case (SvPoll pc now)
  show ?thesis
    using poll_calls [of js s] poll_calls [of js "s\<lparr>sv_admissionRequests := False\<rparr>"]
      poll_calls [of js "s\<lparr>sv_admissionReady := False\<rparr>"]
    unfolding SvPoll by (cases pc) (simp_all add: Let_def)
qed (simp_all add: message_calls serviceAdmissionReady_def SetBatteryEnabled_def stopService_def split: option.split)

lemma service_call_power: "service_call c \<Longrightarrow> keeps_power a (adm_exec js c a)"
  by (cases c) (simp_all add: setVehicle_power setSeatbox_power setRole_power beginRound_power stopSampling_power)

lemma service_call_ledger:
  assumes "calls_guard js a b"
  shows "abs_ledger (slots b j) = abs_ledger (slots a j)"
  using assms unfolding calls_guard_def
  by (elim disjE exE conjE) (simp_all only: keeps_power_ledger [OF service_call_power])

interpretation svc: guard_client js sv_admission service_exec for js
proof
  fix c s
  from service_calls [of js s c] show "via_guard js (sv_admission s) (sv_admission (service_exec c s))"
    unfolding calls_guard_def by (elim disjE exE conjE) (simp_all only: via_refl via_op)
qed

text \<open>
  No message switches supply: whatever Redis publishes and answers, and whenever the poller runs,
  the service itself keeps the guard invariant and changes no slot's supply record; packs are switched
  only by the readers' own commands and observations.
\<close>

lemma messages_keep_ledger:
  assumes "adm_inv (sv_admission s)"
  shows "adm_inv (sv_admission (fold service_exec cs s)) \<and>
         (\<forall>j. abs_ledger (slots (sv_admission (fold service_exec cs s)) j) = abs_ledger (slots (sv_admission s) j))"
proof (intro conjI allI)
  show "adm_inv (sv_admission (fold service_exec cs s))" by (rule svc.client_inv) fact
  show "abs_ledger (slots (sv_admission (fold service_exec cs s)) j) = abs_ledger (slots (sv_admission s) j)" for j
    by (induction cs arbitrary: s) (simp_all add: service_call_ledger [OF service_calls])
qed

end
