(* ===== verification/Fsm.thy ===== *)
theory Fsm
  imports Service
begin

text \<open>
  The state machine of a reader (\<open>fsm/state_machine.go\<close>, \<open>fsm/state.go\<close>, \<open>fsm/events.go\<close>): its
  states, the functions run on entering and leaving them, the condition states and the transition
  table. The engine that runs the table is a library; what is relied on of it is in \<open>Fsm_Engine\<close>.
\<close>

section \<open>States\<close>

datatype StateID =
    StateInit | StateNFCReaderOff | StateNFCReaderOn
  | StateDiscoverTag | StateWaitArrival | StateTagAbsent
  | StateTagPresent | StateCondCheckPresence | StateCheckPresence | StateWaitLastCmd | StateCondSeatboxLock
  | StateHeartbeat | StateHeartbeatActions | StateSendClosed | StateSendOnOff | StateCondStateOK
  | StateWaitUpdate | StateSendInsertedClosed
  | StateCondJustInserted | StateCondOff | StateSendOff | StateReadOffStatus | StateSendOpened
  | StateSendInsertedOpen

fun parent_state :: "StateID \<Rightarrow> StateID option" where
  "parent_state StateInit = None"
| "parent_state StateNFCReaderOff = None"
| "parent_state StateNFCReaderOn = None"
| "parent_state StateDiscoverTag = Some StateNFCReaderOn"
| "parent_state StateWaitArrival = Some StateDiscoverTag"
| "parent_state StateTagAbsent = Some StateDiscoverTag"
| "parent_state StateTagPresent = Some StateNFCReaderOn"
| "parent_state StateHeartbeatActions = Some StateHeartbeat"
| "parent_state StateSendClosed = Some StateHeartbeatActions"
| "parent_state StateSendOnOff = Some StateHeartbeatActions"
| "parent_state StateCondStateOK = Some StateHeartbeatActions"
| "parent_state StateWaitUpdate = Some StateHeartbeatActions"
| "parent_state StateSendInsertedClosed = Some StateHeartbeatActions"
| "parent_state _ = Some StateTagPresent"

fun default_child :: "StateID \<Rightarrow> StateID option" where
  "default_child StateNFCReaderOn = Some StateDiscoverTag"
| "default_child StateDiscoverTag = Some StateWaitArrival"
| "default_child StateTagPresent = Some StateCondCheckPresence"
| "default_child StateHeartbeat = Some StateHeartbeatActions"
| "default_child StateHeartbeatActions = Some StateSendClosed"
| "default_child _ = None"

fun is_condition :: "StateID \<Rightarrow> bool" where
  "is_condition StateCondCheckPresence \<longleftrightarrow> True"
| "is_condition StateCondSeatboxLock \<longleftrightarrow> True"
| "is_condition StateCondStateOK \<longleftrightarrow> True"
| "is_condition StateCondJustInserted \<longleftrightarrow> True"
| "is_condition StateCondOff \<longleftrightarrow> True"
| "is_condition _ \<longleftrightarrow> False"

definition timeCmd :: duration where [const_defs]: "timeCmd = 400 * Millisecond"
definition timeReinit :: duration where [const_defs]: "timeReinit = 2 * Second"
definition timeDeparture :: duration where [const_defs]: "timeDeparture = 500 * Millisecond"
definition timeCheckReader :: duration where [const_defs]: "timeCheckReader = 10 * Second"
definition timeCheckPresence :: duration where [const_defs]: "timeCheckPresence = 5 * Second"
definition checkPresencePollMin :: duration where [const_defs]: "checkPresencePollMin = 100 * Millisecond"
definition checkPresencePollMax :: duration where [const_defs]: "checkPresencePollMax = 800 * Millisecond"
definition offConfirmTimeout :: duration where [const_defs]: "offConfirmTimeout = 3 * Second"
definition maxConsecutiveReadFailures :: nat where [const_defs]: "maxConsecutiveReadFailures = 3"

text \<open>The declared timeouts (\<open>WithTimeout\<close>).\<close>

fun state_timeout :: "StateID \<Rightarrow> (duration \<times> EventID) option" where
  "state_timeout StateNFCReaderOff = Some (timeReinit, EvReinit)"
| "state_timeout StateWaitArrival = Some (timeDeparture, EvDepartureTimeout)"
| "state_timeout StateTagAbsent = Some (timeCheckReader, EvCheckReaderTimeout)"
| "state_timeout StateCheckPresence = Some (timeCheckPresence, EvCheckPresenceTimeout)"
| "state_timeout StateSendClosed = Some (timeCmd, EvClosedTimeout)"
| "state_timeout StateSendInsertedClosed = Some (timeCmd, EvInsertedClosedTimeout)"
| "state_timeout StateReadOffStatus = Some (offConfirmTimeout, EvOffRetry)"
| "state_timeout _ = None"

section \<open>The interface to the reader\<close>

text \<open>
  \<open>BatteryActions\<close>, over any state of the reader; a boolean result of an operation that may fail
  says that it succeeded. The methods no state calls are left out.
\<close>

record 'w BatteryActions =
  act_TakeInhibitor :: "'w \<Rightarrow> 'w"
  act_ReleaseInhibitor :: "'w \<Rightarrow> 'w"
  act_StartDiscovery :: "'w \<Rightarrow> bool \<times> 'w"
  act_StopDiscovery :: "'w \<Rightarrow> 'w"
  act_PollForTagArrival :: "bool \<Rightarrow> bool \<Rightarrow> 'w \<Rightarrow> bool \<times> 'w"
  act_FinishDiscovery :: "'w \<Rightarrow> 'w"
  act_Initialize :: "'w \<Rightarrow> bool \<times> 'w"
  act_Deinitialize :: "'w \<Rightarrow> 'w"
  act_ReadStatus :: "'w \<Rightarrow> bool \<times> 'w"
  act_ReadFreshOffState :: "'w \<Rightarrow> (unit + OffState) \<times> 'w"
  act_SendCheckPresenceReady :: "'w \<Rightarrow> 'w"
  act_WriteCommand :: "BMSCommand \<Rightarrow> 'w \<Rightarrow> 'w"
  act_WriteOffCommand :: "'w \<Rightarrow> bool \<times> 'w"
  act_ShouldSendOn :: "'w \<Rightarrow> bool \<times> 'w"
  act_GetSeatboxLockClosed :: "'w \<Rightarrow> bool"
  act_CheckStateCorrect :: "'w \<Rightarrow> bool"
  act_GetRemainingCmdTime :: "'w \<Rightarrow> duration \<times> 'w"
  act_GetOpenedTime :: "bool \<Rightarrow> bool \<Rightarrow> 'w \<Rightarrow> duration"
  act_GetInsertedTime :: "bool \<Rightarrow> 'w \<Rightarrow> duration"
  act_IsInactive :: "'w \<Rightarrow> bool"
  act_ZeroRetryCounters :: "'w \<Rightarrow> 'w"
  act_ShouldKeepActiveOnSeatboxOpen :: "'w \<Rightarrow> bool"
  act_StartHeartbeatTimer :: "'w \<Rightarrow> 'w"
  act_ClearHeartbeatTimer :: "'w \<Rightarrow> 'w"
  act_StopTimerIfBatteryEmpty :: "'w \<Rightarrow> 'w"

record fsmData =
  justInserted :: bool
  justOpened :: bool
  latchedSeatboxClosed :: bool
  tagAbsentPolling :: bool
  checkPresencePolling :: bool
  consecutiveReadFailures :: nat
  tagPresent :: bool
  admissionPollPending :: bool

text \<open>
  What a handler works on: the machine's data, the reader behind the interface, the events sent with
  \<open>c.Send\<close> and the timers started with \<open>c.StartTimer\<close> (name, delay, event), latest last.
\<close>

record 'w fsm =
  fx_data :: fsmData
  fx_world :: 'w
  fx_sent :: "EventID list"
  fx_timers :: "(string \<times> duration \<times> EventID) list"

definition upd_fsm :: "(fsmData \<Rightarrow> fsmData) \<Rightarrow> 'w fsm \<Rightarrow> 'w fsm" where
  "upd_fsm f c = c\<lparr>fx_data := f (fx_data c)\<rparr>"

definition doAct :: "('w \<Rightarrow> 'w) \<Rightarrow> 'w fsm \<Rightarrow> 'w fsm" where
  "doAct f c = c\<lparr>fx_world := f (fx_world c)\<rparr>"

definition tryAct :: "('w \<Rightarrow> 'x \<times> 'w) \<Rightarrow> 'w fsm \<Rightarrow> 'x \<times> 'w fsm" where
  "tryAct f c = (case f (fx_world c) of (x, w) \<Rightarrow> (x, c\<lparr>fx_world := w\<rparr>))"

definition fsmSend :: "EventID \<Rightarrow> 'w fsm \<Rightarrow> 'w fsm" where
  "fsmSend ev c = c\<lparr>fx_sent := fx_sent c @ [ev]\<rparr>"

definition startTimer :: "string \<Rightarrow> duration \<Rightarrow> EventID \<Rightarrow> 'w fsm \<Rightarrow> 'w fsm" where
  "startTimer name d ev c = c\<lparr>fx_timers := fx_timers c @ [(name, d, ev)]\<rparr>"

text \<open>\<open>SendEvent\<close> and \<open>IsInState(StateTagPresent)\<close> as the reader sees them.\<close>

definition smSendEvent :: "EventID \<Rightarrow> 'w fsm \<Rightarrow> 'w fsm" where
  "smSendEvent ev c =
     fsmSend ev (if ev = EvAdmissionPoll then upd_fsm (\<lambda>d. d\<lparr>admissionPollPending := True\<rparr>) c else c)"

definition smInTagPresent :: "'w fsm \<Rightarrow> bool" where "smInTagPresent c = tagPresent (fx_data c)"

section \<open>Handlers\<close>

definition readStatusAction :: "'w BatteryActions \<Rightarrow> 'w fsm \<Rightarrow> 'w fsm" where
  "readStatusAction A c =
     (case tryAct (act_ReadStatus A) c of
        (True, c1) \<Rightarrow> upd_fsm (\<lambda>d. d\<lparr>consecutiveReadFailures := 0\<rparr>) c1
      | (False, c1) \<Rightarrow>
          let c2 = upd_fsm (\<lambda>d. d\<lparr>consecutiveReadFailures := Suc (consecutiveReadFailures d)\<rparr>) c1
          in if consecutiveReadFailures (fx_data c2) \<ge> maxConsecutiveReadFailures
             then fsmSend EvRestart (upd_fsm (\<lambda>d. d\<lparr>consecutiveReadFailures := 0\<rparr>) c2)
             else c2)"

definition markJustInsertedAction :: "'w fsm \<Rightarrow> 'w fsm" where
  "markJustInsertedAction c = upd_fsm (\<lambda>d. d\<lparr>justInserted := True\<rparr>) c"

text \<open>Handlers that only call one operation are unfolded wherever they occur.\<close>

definition enterNFCReaderOff :: "'w BatteryActions \<Rightarrow> 'w fsm \<Rightarrow> 'w fsm" where
  [simp]: "enterNFCReaderOff A c = doAct (act_Deinitialize A) c"

definition enterNFCReaderOn :: "'w BatteryActions \<Rightarrow> 'w fsm \<Rightarrow> 'w fsm" where
  "enterNFCReaderOn A c =
     (case tryAct (act_Initialize A) c of (ok, c1) \<Rightarrow> if ok then c1 else fsmSend EvReinit c1)"

definition enterWaitArrival :: "'w BatteryActions \<Rightarrow> 'w fsm \<Rightarrow> 'w fsm" where
  "enterWaitArrival A c = snd (tryAct (act_StartDiscovery A) (doAct (act_TakeInhibitor A) c))"

definition exitWaitArrival :: "'w BatteryActions \<Rightarrow> 'w fsm \<Rightarrow> 'w fsm" where
  [simp]: "exitWaitArrival A c = doAct (act_ReleaseInhibitor A) c"

definition enterTagAbsent :: "'w BatteryActions \<Rightarrow> 'w fsm \<Rightarrow> 'w fsm" where
  "enterTagAbsent A c =
     (case tryAct (act_StartDiscovery A) c of
        (False, c1) \<Rightarrow> fsmSend EvReinit c1
      | (True, c1) \<Rightarrow> upd_fsm (\<lambda>d. d\<lparr>tagAbsentPolling := True\<rparr>) c1)"

definition exitTagAbsent :: "'w BatteryActions \<Rightarrow> 'w fsm \<Rightarrow> 'w fsm" where
  "exitTagAbsent A c = doAct (act_ReleaseInhibitor A) (upd_fsm (\<lambda>d. d\<lparr>tagAbsentPolling := False\<rparr>) c)"

definition enterTagPresent :: "'w fsm \<Rightarrow> 'w fsm" where
  [simp]: "enterTagPresent c = upd_fsm (\<lambda>d. d\<lparr>tagPresent := True\<rparr>) c"

definition exitTagPresent :: "'w fsm \<Rightarrow> 'w fsm" where
  [simp]: "exitTagPresent c = upd_fsm (\<lambda>d. d\<lparr>tagPresent := False, admissionPollPending := False\<rparr>) c"

definition condCheckPresence :: "'w BatteryActions \<Rightarrow> 'w fsm \<Rightarrow> StateID \<times> 'w fsm" where
  "condCheckPresence A c =
     (case tryAct (act_ReadStatus A) (doAct (act_ZeroRetryCounters A) (doAct (act_TakeInhibitor A) c)) of
        (True, c1) \<Rightarrow> (StateWaitLastCmd, upd_fsm (\<lambda>d. d\<lparr>consecutiveReadFailures := 0\<rparr>) c1)
      | (False, c1) \<Rightarrow> (StateCheckPresence, c1))"

definition exitCondCheckPresence :: "'w BatteryActions \<Rightarrow> 'w fsm \<Rightarrow> 'w fsm" where
  [simp]: "exitCondCheckPresence A c = doAct (act_ReleaseInhibitor A) c"

definition enterCheckPresence :: "'w BatteryActions \<Rightarrow> 'w fsm \<Rightarrow> 'w fsm" where
  "enterCheckPresence A c =
     upd_fsm (\<lambda>d. d\<lparr>checkPresencePolling := True\<rparr>) (doAct (act_WriteCommand A BMSCmdInsertedInScooter) c)"

text \<open>
  One iteration of the polling goroutine of \<open>StateCheckPresence\<close> after its wait of \<open>backoff\<close>: the
  next wait, or \<open>None\<close> when it stops.
\<close>

definition checkPresencePoll :: "'w BatteryActions \<Rightarrow> duration \<Rightarrow> 'w fsm \<Rightarrow> duration option \<times> 'w fsm" where
  "checkPresencePoll A backoff c =
     (case tryAct (act_ReadStatus A) c of
        (True, c1) \<Rightarrow> (None, doAct (act_SendCheckPresenceReady A) c1)
      | (False, c1) \<Rightarrow>
          let b = backoff * 2 in (Some (if b > checkPresencePollMax then checkPresencePollMax else b), c1))"

definition exitCheckPresence :: "'w fsm \<Rightarrow> 'w fsm" where
  [simp]: "exitCheckPresence c = upd_fsm (\<lambda>d. d\<lparr>checkPresencePolling := False\<rparr>) c"

definition enterWaitLastCmd :: "'w BatteryActions \<Rightarrow> 'w fsm \<Rightarrow> 'w fsm" where
  "enterWaitLastCmd A c =
     (case tryAct (act_GetRemainingCmdTime A) (doAct (act_ClearHeartbeatTimer A) c) of
        (remaining, c1) \<Rightarrow> startTimer ''last_cmd'' remaining EvLastCmdTimeout c1)"

definition enterCondSeatboxLock :: "'w BatteryActions \<Rightarrow> 'w fsm \<Rightarrow> 'w fsm" where
  "enterCondSeatboxLock A c =
     (let c1 = upd_fsm (\<lambda>d. d\<lparr>latchedSeatboxClosed := act_GetSeatboxLockClosed A (fx_world c)\<rparr>) c
      in if \<not> latchedSeatboxClosed (fx_data c1) then doAct (act_ReleaseInhibitor A) c1 else c1)"

definition condSeatboxLock :: "'w fsm \<Rightarrow> StateID \<times> 'w fsm" where
  "condSeatboxLock c =
     (if latchedSeatboxClosed (fx_data c) then (StateHeartbeat, upd_fsm (\<lambda>d. d\<lparr>justInserted := False\<rparr>) c)
      else (StateCondJustInserted, c))"

definition enterHeartbeat :: "'w BatteryActions \<Rightarrow> 'w fsm \<Rightarrow> 'w fsm" where
  [simp]: "enterHeartbeat A c = doAct (act_StartHeartbeatTimer A) c"

definition exitHeartbeat :: "'w BatteryActions \<Rightarrow> 'w fsm \<Rightarrow> 'w fsm" where
  [simp]: "exitHeartbeat A c = doAct (act_ClearHeartbeatTimer A) c"

definition enterHeartbeatActions :: "'w BatteryActions \<Rightarrow> 'w fsm \<Rightarrow> 'w fsm" where
  [simp]: "enterHeartbeatActions A c = doAct (act_TakeInhibitor A) c"

definition exitHeartbeatActions :: "'w BatteryActions \<Rightarrow> 'w fsm \<Rightarrow> 'w fsm" where
  [simp]: "exitHeartbeatActions A c = doAct (act_ReleaseInhibitor A) c"

definition enterSendClosed :: "'w BatteryActions \<Rightarrow> 'w fsm \<Rightarrow> 'w fsm" where
  [simp]: "enterSendClosed A c = doAct (act_WriteCommand A BMSCmdSeatboxClosed) c"

definition enterSendOnOff :: "'w BatteryActions \<Rightarrow> 'w fsm \<Rightarrow> 'w fsm" where
  "enterSendOnOff A c =
     (case tryAct (act_ShouldSendOn A) c of (on, c1) \<Rightarrow>
        startTimer ''on_off'' timeCmd EvOnOffTimeout
          (doAct (act_WriteCommand A (if on then BMSCmdOn else BMSCmdOff)) c1))"

definition condStateOK :: "'w BatteryActions \<Rightarrow> 'w fsm \<Rightarrow> StateID \<times> 'w fsm" where
  "condStateOK A c =
     (if act_CheckStateCorrect A (fx_world c) then (StateWaitUpdate, c) else (StateSendInsertedClosed, c))"

definition enterCondStateOK :: "'w BatteryActions \<Rightarrow> 'w fsm \<Rightarrow> 'w fsm" where
  "enterCondStateOK A c =
     (if act_CheckStateCorrect A (fx_world c) then doAct (act_StopDiscovery A) c else c)"

definition enterWaitUpdate :: "'w BatteryActions \<Rightarrow> 'w fsm \<Rightarrow> 'w fsm" where
  "enterWaitUpdate A c =
     (let c1 = doAct (act_ReleaseInhibitor A) (doAct (act_StopTimerIfBatteryEmpty A) c)
      in if admissionPollPending (fx_data c1) then fsmSend EvAdmissionPoll c1 else c1)"

definition enterSendInsertedClosed :: "'w BatteryActions \<Rightarrow> 'w fsm \<Rightarrow> 'w fsm" where
  [simp]: "enterSendInsertedClosed A c = doAct (act_WriteCommand A BMSCmdInsertedInScooter) c"

definition condJustInserted :: "'w BatteryActions \<Rightarrow> 'w fsm \<Rightarrow> StateID \<times> 'w fsm" where
  "condJustInserted A c =
     (if act_ShouldKeepActiveOnSeatboxOpen A (fx_world c) \<and> \<not> act_IsInactive A (fx_world c)
      then (StateHeartbeat, upd_fsm (\<lambda>d. d\<lparr>justInserted := False\<rparr>) c)
      else if justInserted (fx_data c) then (StateCondOff, c) else (StateSendOff, c))"

definition condOff :: "'w BatteryActions \<Rightarrow> 'w fsm \<Rightarrow> StateID \<times> 'w fsm" where
  "condOff A c =
     (if act_IsInactive A (fx_world c)
      then (StateSendOpened, upd_fsm (\<lambda>d. d\<lparr>justOpened := True\<rparr>) c) else (StateSendOff, c))"

definition enterSendOff :: "'w BatteryActions \<Rightarrow> 'w fsm \<Rightarrow> 'w fsm" where
  "enterSendOff A c = startTimer ''off'' timeCmd EvOffTimeout (snd (tryAct (act_WriteOffCommand A) c))"

definition enterReadOffStatus :: "'w BatteryActions \<Rightarrow> 'w fsm \<Rightarrow> 'w fsm" where
  "enterReadOffStatus A c =
     (case tryAct (act_ReadFreshOffState A) c of
        (Inl _, c1) \<Rightarrow> fsmSend EvOffRetry c1
      | (Inr OffStateInactive, c1) \<Rightarrow> fsmSend EvOffConfirmedInactive c1
      | (Inr _, c1) \<Rightarrow> fsmSend EvOffRetry c1)"

definition enterSendOpened :: "'w BatteryActions \<Rightarrow> 'w fsm \<Rightarrow> 'w fsm" where
  "enterSendOpened A c =
     (let c1 = doAct (act_WriteCommand A BMSCmdSeatboxOpened) c
      in startTimer ''opened''
           (act_GetOpenedTime A (justInserted (fx_data c1)) (justOpened (fx_data c1)) (fx_world c1)) EvOpenedTimeout c1)"

definition enterSendInsertedOpen :: "'w BatteryActions \<Rightarrow> 'w fsm \<Rightarrow> 'w fsm" where
  "enterSendInsertedOpen A c =
     (let c1 = doAct (act_WriteCommand A BMSCmdInsertedInScooter) c
      in startTimer ''inserted_open''
           (act_GetInsertedTime A (justInserted (fx_data c1)) (fx_world c1)) EvInsertedOpenTimeout c1)"

section \<open>Entering, leaving, deciding\<close>

fun on_enter :: "'w BatteryActions \<Rightarrow> StateID \<Rightarrow> 'w fsm \<Rightarrow> 'w fsm" where
  "on_enter A StateNFCReaderOff c = enterNFCReaderOff A c"
| "on_enter A StateNFCReaderOn c = enterNFCReaderOn A c"
| "on_enter A StateWaitArrival c = enterWaitArrival A c"
| "on_enter A StateTagAbsent c = enterTagAbsent A c"
| "on_enter A StateTagPresent c = enterTagPresent c"
| "on_enter A StateCheckPresence c = enterCheckPresence A c"
| "on_enter A StateWaitLastCmd c = enterWaitLastCmd A c"
| "on_enter A StateCondSeatboxLock c = enterCondSeatboxLock A c"
| "on_enter A StateHeartbeat c = enterHeartbeat A c"
| "on_enter A StateHeartbeatActions c = enterHeartbeatActions A c"
| "on_enter A StateSendClosed c = enterSendClosed A c"
| "on_enter A StateSendOnOff c = enterSendOnOff A c"
| "on_enter A StateCondStateOK c = enterCondStateOK A c"
| "on_enter A StateWaitUpdate c = enterWaitUpdate A c"
| "on_enter A StateSendInsertedClosed c = enterSendInsertedClosed A c"
| "on_enter A StateSendOff c = enterSendOff A c"
| "on_enter A StateReadOffStatus c = enterReadOffStatus A c"
| "on_enter A StateSendOpened c = enterSendOpened A c"
| "on_enter A StateSendInsertedOpen c = enterSendInsertedOpen A c"
| "on_enter A _ c = c"

fun on_exit :: "'w BatteryActions \<Rightarrow> StateID \<Rightarrow> 'w fsm \<Rightarrow> 'w fsm" where
  "on_exit A StateWaitArrival c = exitWaitArrival A c"
| "on_exit A StateTagAbsent c = exitTagAbsent A c"
| "on_exit A StateTagPresent c = exitTagPresent c"
| "on_exit A StateCondCheckPresence c = exitCondCheckPresence A c"
| "on_exit A StateCheckPresence c = exitCheckPresence c"
| "on_exit A StateHeartbeat c = exitHeartbeat A c"
| "on_exit A StateHeartbeatActions c = exitHeartbeatActions A c"
| "on_exit A _ c = c"

fun cond_next :: "'w BatteryActions \<Rightarrow> StateID \<Rightarrow> 'w fsm \<Rightarrow> StateID \<times> 'w fsm" where
  "cond_next A StateCondCheckPresence c = condCheckPresence A c"
| "cond_next A StateCondSeatboxLock c = condSeatboxLock c"
| "cond_next A StateCondStateOK c = condStateOK A c"
| "cond_next A StateCondJustInserted c = condJustInserted A c"
| "cond_next A StateCondOff c = condOff A c"
| "cond_next A s c = (s, c)"

section \<open>Transitions\<close>

datatype guard_id = GTrue | GNotKeepActive | GPollPending | GKeepActive

datatype action_id =
    ANone | AMarkJustInserted | AFinishDiscovery | ARestartDiscovery | AReadStatus | ACheckState
  | AOffConfirmed | AOpenedDone | AInsertedDone

fun run_guard :: "'w BatteryActions \<Rightarrow> guard_id \<Rightarrow> 'w fsm \<Rightarrow> bool \<times> 'w fsm" where
  "run_guard A GTrue c = (True, c)"
| "run_guard A GNotKeepActive c = (\<not> act_ShouldKeepActiveOnSeatboxOpen A (fx_world c), c)"
| "run_guard A GPollPending c =
     (admissionPollPending (fx_data c), upd_fsm (\<lambda>d. d\<lparr>admissionPollPending := False\<rparr>) c)"
| "run_guard A GKeepActive c = (act_ShouldKeepActiveOnSeatboxOpen A (fx_world c), c)"

fun run_action :: "'w BatteryActions \<Rightarrow> action_id \<Rightarrow> 'w fsm \<Rightarrow> 'w fsm" where
  "run_action A ANone c = c"
| "run_action A AMarkJustInserted c = markJustInsertedAction c"
| "run_action A AFinishDiscovery c = doAct (act_FinishDiscovery A) c"
| "run_action A ARestartDiscovery c =
     (case tryAct (act_StartDiscovery A) c of (ok, c1) \<Rightarrow> if ok then c1 else fsmSend EvReinit c1)"
| "run_action A AReadStatus c = readStatusAction A c"
| "run_action A ACheckState c =
     (if act_CheckStateCorrect A (fx_world c) then c else fsmSend EvTagDeparted c)"
| "run_action A AOffConfirmed c = upd_fsm (\<lambda>d. d\<lparr>justOpened := True\<rparr>) c"
| "run_action A AOpenedDone c = upd_fsm (\<lambda>d. d\<lparr>justOpened := False\<rparr>) c"
| "run_action A AInsertedDone c = readStatusAction A (upd_fsm (\<lambda>d. d\<lparr>justInserted := False\<rparr>) c)"

datatype transition =
  Transition (tr_from: StateID) (tr_event: EventID) (tr_to: StateID) (tr_guard: guard_id) (tr_action: action_id)

definition transitions :: "transition list" where
  "transitions =
    [Transition StateInit EvInitComplete StateNFCReaderOn GTrue ANone,
     Transition StateNFCReaderOff EvReinit StateNFCReaderOn GTrue ANone,
     Transition StateNFCReaderOn EvReinit StateNFCReaderOff GTrue ANone,
     Transition StateNFCReaderOn EvTagArrived StateDiscoverTag GTrue ANone,
     Transition StateDiscoverTag EvReinit StateNFCReaderOff GTrue ANone,
     Transition StateDiscoverTag EvTagArrived StateTagPresent GTrue AMarkJustInserted,
     Transition StateDiscoverTag EvTagDeparted StateTagAbsent GTrue ANone,
     Transition StateWaitArrival EvReinit StateNFCReaderOff GTrue ANone,
     Transition StateWaitArrival EvTagArrived StateTagPresent GTrue AMarkJustInserted,
     Transition StateWaitArrival EvDepartureTimeout StateTagAbsent GTrue ANone,
     Transition StateTagAbsent EvReinit StateNFCReaderOff GTrue ANone,
     Transition StateTagAbsent EvCheckReaderTimeout StateNFCReaderOff GTrue AFinishDiscovery,
     Transition StateTagAbsent EvTagArrived StateTagPresent GTrue AMarkJustInserted,
     Transition StateTagAbsent EvRestart StateTagAbsent GTrue ARestartDiscovery,
     Transition StateTagPresent EvTagDeparted StateDiscoverTag GTrue ANone,
     Transition StateTagPresent EvReinit StateNFCReaderOff GTrue ANone,
     Transition StateTagPresent EvRestart StateTagPresent GTrue ANone,
     Transition StateTagPresent EvSeatboxClosed StateWaitLastCmd GTrue ANone,
     Transition StateCheckPresence EvRestart StateCheckPresence GTrue ANone,
     Transition StateCheckPresence EvCheckPresenceTimeout StateCondCheckPresence GTrue ANone,
     Transition StateCheckPresence EvCheckPresenceReady StateCondCheckPresence GTrue ANone,
     Transition StateWaitLastCmd EvLastCmdTimeout StateCondSeatboxLock GTrue ANone,
     Transition StateHeartbeat EvSeatboxOpened StateCondJustInserted GNotKeepActive ANone,
     Transition StateHeartbeatActions EvHeartbeatTimeout StateHeartbeat GTrue ANone,
     Transition StateSendClosed EvClosedTimeout StateSendOnOff GTrue ANone,
     Transition StateSendOnOff EvOnOffTimeout StateCondStateOK GTrue AReadStatus,
     Transition StateWaitUpdate EvAdmissionPoll StateHeartbeat GPollPending ANone,
     Transition StateWaitUpdate EvHeartbeatTimeout StateHeartbeat GTrue ACheckState,
     Transition StateSendInsertedClosed EvInsertedClosedTimeout StateSendClosed GTrue ANone,
     Transition StateSendOff EvOffTimeout StateReadOffStatus GTrue ANone,
     Transition StateReadOffStatus EvOffConfirmedInactive StateSendOpened GTrue AOffConfirmed,
     Transition StateReadOffStatus EvOffRetry StateSendOff GTrue ANone,
     Transition StateSendOpened EvOpenedTimeout StateSendInsertedOpen GTrue AOpenedDone,
     Transition StateSendInsertedOpen EvInsertedOpenTimeout StateHeartbeat GKeepActive AInsertedDone,
     Transition StateSendInsertedOpen EvInsertedOpenTimeout StateSendOpened GTrue AInsertedDone]"

end
