(* ===== verification/Fsm_Engine.thy ===== *)
theory Fsm_Engine
  imports Fsm
begin

text \<open>
  What the development relies on of the state machine library: an event is answered by the handlers
  of the table, a state is left only along a transition declared for the state or one that contains
  it, and the new state is where the target leads through default children and condition states. The
  order in which a transition leaves, acts and enters is not relied on, but for the entry of a
  condition state, which comes right before its condition, and the entry of the new state, which
  comes last. A reference engine shows that the requirements can be met.
\<close>

section \<open>Hierarchy\<close>

fun level :: "StateID \<Rightarrow> nat" where
  "level StateInit = 0" | "level StateNFCReaderOff = 0" | "level StateNFCReaderOn = 0"
| "level StateDiscoverTag = 1" | "level StateTagPresent = 1"
| "level StateHeartbeatActions = 3"
| "level StateSendClosed = 4" | "level StateSendOnOff = 4" | "level StateCondStateOK = 4"
| "level StateWaitUpdate = 4" | "level StateSendInsertedClosed = 4"
| "level _ = 2"

lemma level_parent: "parent_state s = Some p \<Longrightarrow> level s = Suc (level p)"
  by (cases s) auto

text \<open>A state and the states that contain it, innermost first.\<close>

function up :: "StateID \<Rightarrow> StateID list" where
  "up s = s # (case parent_state s of None \<Rightarrow> [] | Some p \<Rightarrow> up p)"
  by auto
termination by (relation "measure level") (auto simp: level_parent)

declare up.simps [simp del]

lemma up_simps [simp]:
  "up StateInit = [StateInit]" "up StateNFCReaderOff = [StateNFCReaderOff]" "up StateNFCReaderOn = [StateNFCReaderOn]"
  "up StateDiscoverTag = [StateDiscoverTag, StateNFCReaderOn]"
  "up StateWaitArrival = [StateWaitArrival, StateDiscoverTag, StateNFCReaderOn]"
  "up StateTagAbsent = [StateTagAbsent, StateDiscoverTag, StateNFCReaderOn]"
  "up StateTagPresent = [StateTagPresent, StateNFCReaderOn]"
  "up StateCondCheckPresence = [StateCondCheckPresence, StateTagPresent, StateNFCReaderOn]"
  "up StateCheckPresence = [StateCheckPresence, StateTagPresent, StateNFCReaderOn]"
  "up StateWaitLastCmd = [StateWaitLastCmd, StateTagPresent, StateNFCReaderOn]"
  "up StateCondSeatboxLock = [StateCondSeatboxLock, StateTagPresent, StateNFCReaderOn]"
  "up StateHeartbeat = [StateHeartbeat, StateTagPresent, StateNFCReaderOn]"
  "up StateHeartbeatActions = [StateHeartbeatActions, StateHeartbeat, StateTagPresent, StateNFCReaderOn]"
  "up StateSendClosed = [StateSendClosed, StateHeartbeatActions, StateHeartbeat, StateTagPresent, StateNFCReaderOn]"
  "up StateSendOnOff = [StateSendOnOff, StateHeartbeatActions, StateHeartbeat, StateTagPresent, StateNFCReaderOn]"
  "up StateCondStateOK = [StateCondStateOK, StateHeartbeatActions, StateHeartbeat, StateTagPresent, StateNFCReaderOn]"
  "up StateWaitUpdate = [StateWaitUpdate, StateHeartbeatActions, StateHeartbeat, StateTagPresent, StateNFCReaderOn]"
  "up StateSendInsertedClosed =
     [StateSendInsertedClosed, StateHeartbeatActions, StateHeartbeat, StateTagPresent, StateNFCReaderOn]"
  "up StateCondJustInserted = [StateCondJustInserted, StateTagPresent, StateNFCReaderOn]"
  "up StateCondOff = [StateCondOff, StateTagPresent, StateNFCReaderOn]"
  "up StateSendOff = [StateSendOff, StateTagPresent, StateNFCReaderOn]"
  "up StateReadOffStatus = [StateReadOffStatus, StateTagPresent, StateNFCReaderOn]"
  "up StateSendOpened = [StateSendOpened, StateTagPresent, StateNFCReaderOn]"
  "up StateSendInsertedOpen = [StateSendInsertedOpen, StateTagPresent, StateNFCReaderOn]"
  by (simp_all add: up.simps)

definition in_state :: "StateID \<Rightarrow> StateID \<Rightarrow> bool" where
  "in_state p s \<longleftrightarrow> p \<in> set (up s)"

definition leaf :: "StateID \<Rightarrow> bool" where
  "leaf s \<longleftrightarrow> default_child s = None \<and> \<not> is_condition s"

section \<open>What the engine calls\<close>

datatype fsm_call =
  CallEnter StateID | CallExit StateID | CallCond StateID | CallGuard guard_id | CallAction action_id

fun run_call :: "'w BatteryActions \<Rightarrow> fsm_call \<Rightarrow> 'w fsm \<Rightarrow> 'w fsm" where
  "run_call A (CallEnter s) c = on_enter A s c"
| "run_call A (CallExit s) c = on_exit A s c"
| "run_call A (CallCond s) c = snd (cond_next A s c)"
| "run_call A (CallGuard g) c = snd (run_guard A g c)"
| "run_call A (CallAction a) c = run_action A a c"

definition run_calls :: "'w BatteryActions \<Rightarrow> fsm_call list \<Rightarrow> 'w fsm \<Rightarrow> 'w fsm" where
  "run_calls A calls c = fold (run_call A) calls c"

text \<open>During the calls, condition state \<open>s\<close> was entered and decided for \<open>u\<close>.\<close>

definition decided :: "'w BatteryActions \<Rightarrow> fsm_call list \<Rightarrow> 'w fsm \<Rightarrow> StateID \<Rightarrow> StateID \<Rightarrow> bool" where
  "decided A calls c s u \<longleftrightarrow>
     (\<exists>pre post. calls = pre @ CallEnter s # CallCond s # post \<and>
        fst (cond_next A s (run_calls A (pre @ [CallEnter s]) c)) = u)"

text \<open>Where entering a state leads.\<close>

inductive settles :: "'w BatteryActions \<Rightarrow> fsm_call list \<Rightarrow> 'w fsm \<Rightarrow> StateID \<Rightarrow> StateID \<Rightarrow> bool"
  for A :: "'w BatteryActions" and calls :: "fsm_call list" and c :: "'w fsm" where
  settles_leaf: "leaf s \<Longrightarrow> settles A calls c s s"
| settles_child: "default_child s = Some d \<Longrightarrow> settles A calls c d l \<Longrightarrow> settles A calls c s l"
| settles_cond: "is_condition s \<Longrightarrow> decided A calls c s u \<Longrightarrow> settles A calls c u l \<Longrightarrow> settles A calls c s l"

text \<open>The guard of the transition held when it was asked, before anything but guards had run.\<close>

definition guard_held :: "'w BatteryActions \<Rightarrow> fsm_call list \<Rightarrow> 'w fsm \<Rightarrow> guard_id \<Rightarrow> bool" where
  "guard_held A calls c g \<longleftrightarrow>
     g = GTrue \<or>
     (\<exists>pre post. calls = pre @ CallGuard g # post \<and> (\<forall>x \<in> set pre. \<exists>h. x = CallGuard h) \<and>
        fst (run_guard A g (run_calls A pre c)))"

definition absorbed :: "'w BatteryActions \<Rightarrow> StateID \<Rightarrow> EventID \<Rightarrow> 'w fsm \<Rightarrow> StateID \<Rightarrow> 'w fsm \<Rightarrow> bool" where
  "absorbed A s ev c s' c' \<longleftrightarrow>
     s' = s \<and> (\<exists>calls. (\<forall>x \<in> set calls. \<exists>h. x = CallGuard h) \<and> c' = run_calls A calls c)"

definition taken :: "'w BatteryActions \<Rightarrow> StateID \<Rightarrow> EventID \<Rightarrow> 'w fsm \<Rightarrow> StateID \<Rightarrow> 'w fsm \<Rightarrow> bool" where
  "taken A s ev c s' c' \<longleftrightarrow>
     (\<exists>calls. \<exists>t \<in> set transitions.
        in_state (tr_from t) s \<and> tr_event t = ev \<and> guard_held A calls c (tr_guard t) \<and>
        settles A calls c (tr_to t) s' \<and> (s' \<noteq> s \<longrightarrow> calls \<noteq> [] \<and> last calls = CallEnter s') \<and>
        c' = run_calls A calls c)"

lemma settles_leafD: "settles A calls c t l \<Longrightarrow> leaf l"
  by (induction rule: settles.induct)

locale librefsm =
  fixes A :: "'w BatteryActions"
    and dispatch :: "StateID \<Rightarrow> EventID \<Rightarrow> 'w fsm \<Rightarrow> StateID \<times> 'w fsm"
  assumes engine: "dispatch s ev c = (s', c') \<Longrightarrow> absorbed A s ev c s' c' \<or> taken A s ev c s' c'"
begin

text \<open>Whatever an event does to the context, it does through the handlers.\<close>

lemma dispatch_calls: "dispatch s ev c = (s', c') \<Longrightarrow> \<exists>calls. c' = run_calls A calls c"
  using engine [of s ev c s' c'] by (auto simp: absorbed_def taken_def)

lemma dispatch_leaf: "leaf s \<Longrightarrow> dispatch s ev c = (s', c') \<Longrightarrow> leaf s'"
  using engine [of s ev c s' c'] by (auto simp: absorbed_def taken_def dest: settles_leafD)

end

section \<open>A reference engine\<close>

text \<open>How far entering a state can lead: default children and condition results come lower.\<close>

fun rank :: "StateID \<Rightarrow> nat" where
  "rank StateNFCReaderOn = 2" | "rank StateDiscoverTag = 1"
| "rank StateTagPresent = 2" | "rank StateCondCheckPresence = 1"
| "rank StateCondSeatboxLock = 4" | "rank StateCondJustInserted = 3" | "rank StateCondOff = 1"
| "rank StateHeartbeat = 2" | "rank StateHeartbeatActions = 1" | "rank StateCondStateOK = 1"
| "rank _ = 0"

lemma rank_child: "default_child s = Some d \<Longrightarrow> rank d < rank s"
  by (cases s) auto

lemma rank_cond: "is_condition s \<Longrightarrow> rank (fst (cond_next A s c)) < rank s"
  by (cases s) (auto simp: condCheckPresence_def condSeatboxLock_def condStateOK_def condJustInserted_def condOff_def
      split: prod.split bool.split)

text \<open>The calls of entering a state, down to the state they end in.\<close>

function enter_calls :: "'w BatteryActions \<Rightarrow> StateID \<Rightarrow> 'w fsm \<Rightarrow> fsm_call list \<times> StateID" where
  "enter_calls A s c =
     (case default_child s of
        Some d \<Rightarrow> (case enter_calls A d (on_enter A s c) of (cs, l) \<Rightarrow> (CallEnter s # cs, l))
      | None \<Rightarrow>
          if is_condition s
          then (let n = cond_next A s (on_enter A s c)
                in case enter_calls A (fst n) (on_exit A s (snd n)) of
                     (cs, l) \<Rightarrow> (CallEnter s # CallCond s # CallExit s # cs, l))
          else ([CallEnter s], s))"
  by pat_completeness auto
termination by (relation "measure (\<lambda>(A, s, c). rank s)") (auto simp: rank_child rank_cond)

declare enter_calls.simps [simp del]

lemma run_calls_append: "run_calls A (xs @ ys) c = run_calls A ys (run_calls A xs c)"
  by (simp add: run_calls_def)

lemma run_calls_simps [simp]:
  "run_calls A [] c = c" "run_calls A (x # xs) c = run_calls A xs (run_call A x c)"
  by (simp_all add: run_calls_def)

lemma enter_settles:
  "enter_calls A s (run_calls A pre c) = (cs, l) \<Longrightarrow>
   settles A (pre @ cs) c s l \<and> cs \<noteq> [] \<and> last cs = CallEnter l"
proof (induction "rank s" arbitrary: s pre cs l rule: less_induct)
  case less
  show ?case
  proof (cases "default_child s")
    case (Some d)
    obtain cs' where cs': "enter_calls A d (run_calls A (pre @ [CallEnter s]) c) = (cs', l)" "cs = CallEnter s # cs'"
      using less.prems Some by (subst (asm) enter_calls.simps) (auto simp: run_calls_append split: prod.split_asm)
    from less.hyps [OF rank_child [OF Some] cs'(1)] cs'(2) Some show ?thesis
      by (auto intro: settles_child)
  next
    case None
    show ?thesis
    proof (cases "is_condition s")
      case True
      let ?c1 = "run_calls A (pre @ [CallEnter s]) c"
      let ?u = "fst (cond_next A s ?c1)"
      obtain cs' where cs': "enter_calls A ?u (run_calls A (pre @ [CallEnter s, CallCond s, CallExit s]) c) = (cs', l)"
        "cs = CallEnter s # CallCond s # CallExit s # cs'"
        using less.prems None True
        by (subst (asm) enter_calls.simps) (auto simp: run_calls_append Let_def split: prod.split_asm)
      have "decided A (pre @ cs) c s ?u" unfolding decided_def cs'(2) by blast
      with less.hyps [OF rank_cond [OF True] cs'(1)] cs'(2) True show ?thesis
        by (auto intro: settles_cond)
    next
      case False
      with less.prems None show ?thesis
        by (subst (asm) enter_calls.simps) (auto simp: leaf_def intro: settles_leaf)
    qed
  qed
qed

text \<open>The transitions that could answer an event, innermost state first, in the order declared.\<close>

definition candidates :: "StateID \<Rightarrow> EventID \<Rightarrow> transition list" where
  "candidates s ev = concat (map (\<lambda>p. filter (\<lambda>t. tr_from t = p \<and> tr_event t = ev) transitions) (up s))"

fun pick :: "'w BatteryActions \<Rightarrow> transition list \<Rightarrow> 'w fsm \<Rightarrow> fsm_call list \<times> transition option" where
  "pick A [] c = ([], None)"
| "pick A (t # ts) c =
     (if fst (run_guard A (tr_guard t) c) then ([CallGuard (tr_guard t)], Some t)
      else case pick A ts (snd (run_guard A (tr_guard t) c)) of
             (gs, r) \<Rightarrow> (CallGuard (tr_guard t) # gs, r))"

definition leave_and_act :: "StateID \<Rightarrow> transition \<Rightarrow> fsm_call list" where
  "leave_and_act s t =
     map CallExit (filter (\<lambda>p. p \<notin> set (tl (up (tr_to t)))) (up s)) @ [CallAction (tr_action t)] @
     map CallEnter (rev (filter (\<lambda>p. p \<notin> set (up s)) (tl (up (tr_to t)))))"

definition ref_dispatch :: "'w BatteryActions \<Rightarrow> StateID \<Rightarrow> EventID \<Rightarrow> 'w fsm \<Rightarrow> StateID \<times> 'w fsm" where
  "ref_dispatch A s ev c =
     (case pick A (candidates s ev) c of
        (gs, None) \<Rightarrow> (s, run_calls A gs c)
      | (gs, Some t) \<Rightarrow>
          let pre = gs @ leave_and_act s t; en = enter_calls A (tr_to t) (run_calls A pre c)
          in (snd en, run_calls A (pre @ fst en) c))"

lemma pick_guards: "pick A ts c = (gs, r) \<Longrightarrow> \<forall>x \<in> set gs. \<exists>h. x = CallGuard h"
  by (induction ts arbitrary: c gs) (auto split: if_split_asm prod.split_asm)

lemma pick_some:
  "pick A ts c = (gs, Some t) \<Longrightarrow>
   t \<in> set ts \<and> (\<exists>pre. gs = pre @ [CallGuard (tr_guard t)] \<and> (\<forall>x \<in> set pre. \<exists>h. x = CallGuard h) \<and>
     fst (run_guard A (tr_guard t) (run_calls A pre c)))"
proof (induction ts arbitrary: c gs)
  case (Cons u ts)
  show ?case
  proof (cases "fst (run_guard A (tr_guard u) c)")
    case True
    with Cons.prems show ?thesis by (auto intro: exI [of _ "[]"])
  next
    case False
    with Cons.prems obtain gs' where gs': "pick A ts (snd (run_guard A (tr_guard u) c)) = (gs', Some t)"
      "gs = CallGuard (tr_guard u) # gs'"
      by (auto split: prod.split_asm)
    from Cons.IH [OF gs'(1)] obtain pre where "t \<in> set ts" "gs' = pre @ [CallGuard (tr_guard t)]"
      "\<forall>x \<in> set pre. \<exists>h. x = CallGuard h"
      "fst (run_guard A (tr_guard t) (run_calls A pre (snd (run_guard A (tr_guard u) c))))" by blast
    with gs'(2) show ?thesis by (auto intro!: exI [of _ "CallGuard (tr_guard u) # pre"])
  qed
qed simp

lemma candidates_iff: "t \<in> set (candidates s ev) \<longleftrightarrow> t \<in> set transitions \<and> in_state (tr_from t) s \<and> tr_event t = ev"
  by (auto simp: candidates_def in_state_def)

lemma ref_engine:
  assumes "ref_dispatch A s ev c = (s', c')"
  shows "absorbed A s ev c s' c' \<or> taken A s ev c s' c'"
proof -
  obtain gs r where p: "pick A (candidates s ev) c = (gs, r)" by fastforce
  show ?thesis
  proof (cases r)
    case None
    with p assms pick_guards [OF p] show ?thesis by (auto simp: ref_dispatch_def absorbed_def)
  next
    case (Some t)
    let ?pre = "gs @ leave_and_act s t"
    obtain cs l where en: "enter_calls A (tr_to t) (run_calls A ?pre c) = (cs, l)" by fastforce
    from p Some assms en have r: "s' = l" "c' = run_calls A (?pre @ cs) c"
      by (auto simp: ref_dispatch_def Let_def)
    from pick_some [OF p [unfolded Some]] obtain pre where t: "t \<in> set (candidates s ev)"
      "gs = pre @ [CallGuard (tr_guard t)]" "\<forall>x \<in> set pre. \<exists>h. x = CallGuard h"
      "fst (run_guard A (tr_guard t) (run_calls A pre c))" by blast
    then have "guard_held A (?pre @ cs) c (tr_guard t)"
      unfolding guard_held_def by (intro disjI2, rule_tac x = pre in exI, rule_tac x = "leave_and_act s t @ cs" in exI) simp
    with t(1) enter_settles [OF en] r have "taken A s ev c s' c'"
      unfolding taken_def by (intro exI [of _ "?pre @ cs"] bexI [of _ t]) (auto simp: candidates_iff)
    then show ?thesis ..
  qed
qed

interpretation ref: librefsm A "ref_dispatch A" for A
  by unfold_locales (rule ref_engine)

end
