(* ===== verification/Fsm_Safety.thy ===== *)
theory Fsm_Safety
  imports Fsm_Engine
begin

text \<open>
  What the table of the machine guarantees whatever engine runs it: packs are switched on only with
  permission, OFF is repeated until confirmed, no state waits without end, and read failures are
  counted up to a restart.
\<close>

section \<open>Power while the seatbox is open\<close>

lemma in_state_trans: "in_state q p \<Longrightarrow> in_state p s \<Longrightarrow> in_state q s"
proof -
  have "p \<in> set (up s) \<Longrightarrow> set (up p) \<subseteq> set (up s)" for p
  proof (induction s rule: up.induct)
    case (1 s)
    have us: "set (up s) = insert s (case parent_state s of None \<Rightarrow> {} | Some q \<Rightarrow> set (up q))"
      by (subst up.simps) (simp split: option.split)
    show ?case
    proof (cases "p = s")
      case False
      with 1(2) us obtain q where "parent_state s = Some q" "p \<in> set (up q)" by (auto split: option.split_asm)
      with 1(1) us show ?thesis by auto
    qed simp
  qed
  then show "in_state q p \<Longrightarrow> in_state p s \<Longrightarrow> in_state q s" by (auto simp: in_state_def)
qed

text \<open>At some moment during the calls the seatbox was latched closed or the packs were to stay active.\<close>

definition permitted :: "'w BatteryActions \<Rightarrow> fsm_call list \<Rightarrow> 'w fsm \<Rightarrow> bool" where
  "permitted A calls c \<longleftrightarrow>
     (\<exists>pre post. calls = pre @ post \<and>
        (act_GetSeatboxLockClosed A (fx_world (run_calls A pre c)) \<or>
         act_ShouldKeepActiveOnSeatboxOpen A (fx_world (run_calls A pre c))))"

lemma cond_heartbeat:
  assumes "is_condition s" "decided A calls c s u" "in_state StateHeartbeat u"
  shows "in_state StateHeartbeat s \<or> permitted A calls c"
proof -
  from assms(2) obtain pre post where d: "calls = pre @ CallEnter s # CallCond s # post"
    "fst (cond_next A s (run_calls A (pre @ [CallEnter s]) c)) = u" by (auto simp: decided_def)
  let ?c = "run_calls A pre c"
  have lock: "permitted A calls c" if "s = StateCondSeatboxLock"
  proof -
    from that d(2) assms(3) have "act_GetSeatboxLockClosed A (fx_world ?c)"
      by (auto simp: condSeatboxLock_def enterCondSeatboxLock_def in_state_def run_calls_append upd_fsm_def doAct_def
          Let_def split: if_split_asm)
    with d(1) show ?thesis by (auto simp: permitted_def)
  qed
  have just: "permitted A calls c" if "s = StateCondJustInserted"
  proof -
    from that d(2) assms(3) have "act_ShouldKeepActiveOnSeatboxOpen A (fx_world ?c)"
      by (auto simp: condJustInserted_def in_state_def run_calls_append split: if_split_asm)
    with d(1) show ?thesis by (auto simp: permitted_def)
  qed
  show ?thesis
    using assms(1,3) d(2) lock just
    by (cases s) (auto simp: in_state_def condCheckPresence_def condOff_def split: if_split_asm prod.split_asm bool.split_asm)
qed

lemma settles_heartbeat:
  "settles A calls c t l \<Longrightarrow> in_state StateHeartbeat l \<Longrightarrow> in_state StateHeartbeat t \<or> permitted A calls c"
proof (induction rule: settles.induct)
  case (settles_child s d l)
  then show ?case by (cases s) (auto simp: in_state_def)
next
  case (settles_cond s u l)
  then show ?case using cond_heartbeat by blast
qed simp

text \<open>The only transition into the heartbeat from outside it is guarded by the keep-active policy.\<close>

lemma transition_heartbeat:
  assumes "t \<in> set transitions" "in_state StateHeartbeat (tr_to t)" "\<not> in_state StateHeartbeat (tr_from t)"
  shows "tr_guard t = GKeepActive"
  using assms by (auto simp: transitions_def in_state_def)

context librefsm
begin

lemma heartbeat_permitted:
  assumes "dispatch s ev c = (s', c')" "\<not> in_state StateHeartbeat s" "in_state StateHeartbeat s'"
  shows "\<exists>calls. c' = run_calls A calls c \<and> permitted A calls c"
proof -
  from assms engine [OF assms(1)] obtain calls t where t: "t \<in> set transitions" "in_state (tr_from t) s"
    "guard_held A calls c (tr_guard t)" "settles A calls c (tr_to t) s'" "c' = run_calls A calls c"
    by (auto simp: absorbed_def taken_def)
  from settles_heartbeat [OF t(4) assms(3)] have "permitted A calls c"
  proof
    assume hb: "in_state StateHeartbeat (tr_to t)"
    have "\<not> in_state StateHeartbeat (tr_from t)" using assms(2) t(2) in_state_trans by blast
    with t(1,3) hb have "guard_held A calls c GKeepActive" using transition_heartbeat by metis
    then show ?thesis by (auto simp: guard_held_def permitted_def)
  qed
  with t(5) show ?thesis by blast
qed

lemma off_loop_left:
  assumes "dispatch s ev c = (s', c')" "s = StateSendOff \<or> s = StateReadOffStatus"
    and "s' \<noteq> StateSendOff" "s' \<noteq> StateReadOffStatus"
  shows "ev = EvTagDeparted \<or> ev = EvReinit \<or> ev = EvTagArrived \<or> ev = EvRestart \<or> ev = EvSeatboxClosed \<or>
         s = StateReadOffStatus \<and> ev = EvOffConfirmedInactive \<and> s' = StateSendOpened"
proof -
  from assms engine [OF assms(1)] obtain calls t where t: "t \<in> set transitions" "in_state (tr_from t) s"
    "tr_event t = ev" "settles A calls c (tr_to t) s'"
    by (auto simp: absorbed_def taken_def)
  have "s' = l" if "settles A calls c l s'" "l = StateSendOff \<or> l = StateReadOffStatus \<or> l = StateSendOpened" for l
    using that by (cases rule: settles.cases) auto
  with t(4) assms(3,4) have "tr_to t \<noteq> StateSendOff" "tr_to t \<noteq> StateReadOffStatus"
    "tr_to t = StateSendOpened \<Longrightarrow> s' = StateSendOpened" by blast+
  with t(1-3) assms(2) show ?thesis
    by (auto simp: transitions_def in_state_def)
qed

end

text \<open>Which handler says that a pack is off.\<close>

lemma sent_frame [simp]:
  "fx_sent (upd_fsm f c) = fx_sent c" "fx_sent (doAct g c) = fx_sent c"
  "fx_sent (snd (tryAct h c)) = fx_sent c" "fx_sent (startTimer n d ev c) = fx_sent c"
  "fx_sent (fsmSend ev c) = fx_sent c @ [ev]"
  by (simp_all add: upd_fsm_def doAct_def tryAct_def startTimer_def fsmSend_def split: prod.split)

lemma tryAct_sent: "tryAct h c = (x, c') \<Longrightarrow> fx_sent c' = fx_sent c"
  using sent_frame(3) [of h c] by simp

lemma readStatus_sent: "set (fx_sent (readStatusAction A c)) \<subseteq> set (fx_sent c) \<union> {EvRestart}"
  by (auto simp: readStatusAction_def Let_def dest: tryAct_sent split: prod.split bool.split)

text \<open>What the handlers send: the confirmation of an OFF only from a fresh inactive reading.\<close>

definition call_events :: "'w BatteryActions \<Rightarrow> fsm_call \<Rightarrow> 'w fsm \<Rightarrow> EventID set" where
  "call_events A x c =
     {EvReinit, EvRestart, EvTagDeparted, EvAdmissionPoll, EvOffRetry} \<union>
     (if x = CallEnter StateReadOffStatus \<and> fst (act_ReadFreshOffState A (fx_world c)) = Inr OffStateInactive
      then {EvOffConfirmedInactive} else {})"

lemma call_sends: "set (fx_sent (run_call A x c)) \<subseteq> set (fx_sent c) \<union> call_events A x c"
proof (cases x)
  case (CallEnter s)
  then show ?thesis
  proof (cases "s = StateReadOffStatus")
    case True
    with CallEnter show ?thesis
      by (auto simp: call_events_def enterReadOffStatus_def tryAct_def split: prod.split sum.split OffState.split)
  next
    case False
    with CallEnter show ?thesis
      by (cases s) (auto simp: call_events_def enterNFCReaderOn_def enterWaitArrival_def enterTagAbsent_def
          enterCheckPresence_def enterWaitLastCmd_def enterCondSeatboxLock_def enterSendOnOff_def enterCondStateOK_def
          enterWaitUpdate_def enterSendOff_def enterSendOpened_def enterSendInsertedOpen_def Let_def
          case_prod_beta split: bool.split)
  qed
next
  case (CallExit s)
  then show ?thesis by (cases s) (auto simp: exitTagAbsent_def)
next
  case (CallCond s)
  then show ?thesis
    by (cases s) (auto simp: condCheckPresence_def condSeatboxLock_def condStateOK_def condJustInserted_def condOff_def
        case_prod_beta split: bool.split)
next
  case (CallGuard g)
  then show ?thesis by (cases g) auto
next
  case (CallAction a)
  with readStatus_sent [of A c] readStatus_sent [of A "upd_fsm f c" for f] show ?thesis
    by (cases a) (auto simp: call_events_def markJustInsertedAction_def case_prod_beta)
qed

lemma confirmed_off_sent:
  assumes "EvOffConfirmedInactive \<in> set (fx_sent (run_call A x c))"
  shows "EvOffConfirmedInactive \<in> set (fx_sent c) \<or>
         x = CallEnter StateReadOffStatus \<and> fst (act_ReadFreshOffState A (fx_world c)) = Inr OffStateInactive"
  using assms call_sends [of A x c] by (auto simp: call_events_def split: if_split_asm)

lemma calls_send_no_opened:
  "EvSeatboxOpened \<in> set (fx_sent (run_calls A calls c)) \<Longrightarrow> EvSeatboxOpened \<in> set (fx_sent c)"
proof (induction calls arbitrary: c)
  case (Cons x calls)
  from Cons.IH [of "run_call A x c"] Cons.prems call_sends [of A x c] show ?case
    by (auto simp: call_events_def split: if_split_asm)
qed simp

text \<open>
  C24: The machine enters the heartbeat, the only part of it that switches a pack on, from outside
  only when during that event the seatbox was latched closed or the packs were to stay active on an
  open seatbox.
\<close>

theorem heartbeat_needs_permission:
  assumes "librefsm A dispatch" and "dispatch s ev c = (s', c')"
    and "\<not> in_state StateHeartbeat s" "in_state StateHeartbeat s'"
  shows "\<exists>pre post. c' = run_calls A (pre @ post) c \<and>
           (act_GetSeatboxLockClosed A (fx_world (run_calls A pre c)) \<or>
            act_ShouldKeepActiveOnSeatboxOpen A (fx_world (run_calls A pre c)))"
  using librefsm.heartbeat_permitted [OF assms] by (auto simp: permitted_def)


section \<open>The seatbox-open path\<close>

text \<open>The states in which an open seatbox is handled: OFF until confirmed, then the maintenance loop.\<close>

definition open_path :: "StateID \<Rightarrow> bool" where
  "open_path s \<longleftrightarrow> s \<in> {StateCondJustInserted, StateCondOff, StateSendOff, StateReadOffStatus, StateSendOpened,
     StateSendInsertedOpen}"

text \<open>At some moment during the calls the seatbox was not latched closed.\<close>

definition found_open :: "'w BatteryActions \<Rightarrow> fsm_call list \<Rightarrow> 'w fsm \<Rightarrow> bool" where
  "found_open A calls c \<longleftrightarrow>
     (\<exists>pre post. calls = pre @ post \<and> \<not> act_GetSeatboxLockClosed A (fx_world (run_calls A pre c)))"

lemma cond_open_path:
  assumes "is_condition s" "decided A calls c s u" "open_path u" "\<not> open_path s"
  shows "found_open A calls c"
proof -
  from assms(2) obtain pre post where d: "calls = pre @ CallEnter s # CallCond s # post"
    "fst (cond_next A s (run_calls A (pre @ [CallEnter s]) c)) = u" by (auto simp: decided_def)
  show ?thesis
  proof (cases "s = StateCondSeatboxLock")
    case True
    with d(2) assms(3) have "\<not> act_GetSeatboxLockClosed A (fx_world (run_calls A pre c))"
      by (auto simp: condSeatboxLock_def enterCondSeatboxLock_def run_calls_append upd_fsm_def doAct_def
          open_path_def Let_def split: if_split_asm)
    with d(1) show ?thesis by (auto simp: found_open_def)
  next
    case False
    with assms(1,3,4) d(2) show ?thesis
      by (cases s) (auto simp: open_path_def condCheckPresence_def condStateOK_def split: if_split_asm prod.split_asm bool.split_asm)
  qed
qed

lemma settles_open_path:
  "settles A calls c t l \<Longrightarrow> open_path l \<Longrightarrow> open_path t \<or> found_open A calls c"
proof (induction rule: settles.induct)
  case (settles_child s d l)
  then show ?case by (cases s) (auto simp: open_path_def)
next
  case (settles_cond s u l)
  then show ?case using cond_open_path by blast
qed simp

lemma transition_open_path:
  assumes "t \<in> set transitions" "open_path (tr_to t)" "\<not> open_path (tr_from t)"
  shows "tr_event t = EvSeatboxOpened \<and> tr_from t = StateHeartbeat"
  using assms by (auto simp: transitions_def open_path_def)

lemma in_open_path: "in_state p s \<Longrightarrow> open_path p \<Longrightarrow> open_path s"
  by (cases s) (auto simp: in_state_def open_path_def)

context librefsm
begin

lemma open_path_entered:
  assumes "dispatch s ev c = (s', c')" "\<not> open_path s" "open_path s'"
  shows "ev = EvSeatboxOpened \<or> (\<exists>calls. c' = run_calls A calls c \<and> found_open A calls c)"
proof -
  from assms engine [OF assms(1)] obtain calls t where t: "t \<in> set transitions" "in_state (tr_from t) s"
    "tr_event t = ev" "settles A calls c (tr_to t) s'" "c' = run_calls A calls c"
    by (auto simp: absorbed_def taken_def)
  from settles_open_path [OF t(4) assms(3)] show ?thesis
  proof
    assume "open_path (tr_to t)"
    with transition_open_path [OF t(1)] in_open_path [OF t(2)] assms(2) t(3) show ?thesis by blast
  next
    assume "found_open A calls c"
    with t(5) show ?thesis by blast
  qed
qed

end

section \<open>Progress\<close>

text \<open>
  The event a state waits for by itself: its declared timeout, or the timer its entry starts whatever
  happens there.
\<close>

definition wakes :: "'w BatteryActions \<Rightarrow> StateID \<Rightarrow> EventID \<Rightarrow> bool" where
  "wakes A s ev \<longleftrightarrow>
     (\<exists>d. state_timeout s = Some (d, ev)) \<or>
     (\<forall>c. \<exists>name d. fx_timers (on_enter A s c) \<noteq> [] \<and> last (fx_timers (on_enter A s c)) = (name, d, ev))"

definition moves_on :: "StateID \<Rightarrow> EventID \<Rightarrow> bool" where
  "moves_on s ev \<longleftrightarrow>
     (\<exists>t \<in> set transitions. tr_from t = s \<and> tr_event t = ev \<and> tr_guard t = GTrue \<and> tr_to t \<noteq> s)"

lemma timers_startTimer [simp]: "fx_timers (startTimer n d ev c) = fx_timers c @ [(n, d, ev)]"
  by (simp add: startTimer_def)

lemma wakes_timers:
  "wakes A StateWaitLastCmd EvLastCmdTimeout" "wakes A StateSendOnOff EvOnOffTimeout"
  "wakes A StateSendOff EvOffTimeout" "wakes A StateSendOpened EvOpenedTimeout"
  "wakes A StateSendInsertedOpen EvInsertedOpenTimeout"
  by (auto simp: wakes_def enterWaitLastCmd_def enterSendOnOff_def enterSendOff_def enterSendOpened_def
      enterSendInsertedOpen_def Let_def split: prod.split)


section \<open>Failed reads\<close>

text \<open>Fewer than three status reads in a row have failed since the last success or restart.\<close>

lemma data_frame [simp]:
  "fx_data (doAct g c) = fx_data c" "fx_data (startTimer n d ev c) = fx_data c" "fx_data (fsmSend ev c) = fx_data c"
  "fx_data (snd (tryAct h c)) = fx_data c" "fx_data (upd_fsm f c) = f (fx_data c)"
  by (simp_all add: upd_fsm_def doAct_def tryAct_def startTimer_def fsmSend_def split: prod.split)

lemma tryAct_data: "tryAct h c = (x, c') \<Longrightarrow> fx_data c' = fx_data c"
  using data_frame(4) [of h c] by simp

definition few_failures :: "'w fsm \<Rightarrow> bool" where
  "few_failures c \<longleftrightarrow> consecutiveReadFailures (fx_data c) < maxConsecutiveReadFailures"

lemma readStatus_failures: "few_failures (readStatusAction A c)"
proof (cases "fst (tryAct (act_ReadStatus A) c)")
  case True
  then show ?thesis by (auto simp: readStatusAction_def few_failures_def const_defs split: prod.split bool.split)
next
  case False
  then show ?thesis
    by (auto simp: readStatusAction_def few_failures_def Let_def const_defs split: prod.split bool.split)
qed

lemma call_failures: "few_failures c \<Longrightarrow> few_failures (run_call A x c)"
proof (cases x)
  case (CallEnter s)
  assume "few_failures c"
  with CallEnter show ?thesis
    by (cases s) (auto simp: few_failures_def enterNFCReaderOn_def enterWaitArrival_def enterTagAbsent_def
        enterCheckPresence_def enterWaitLastCmd_def enterCondSeatboxLock_def enterSendOnOff_def enterCondStateOK_def
        enterWaitUpdate_def enterSendOff_def enterReadOffStatus_def enterSendOpened_def enterSendInsertedOpen_def
        Let_def dest: tryAct_data split: prod.split bool.split sum.split OffState.split)
next
  case (CallExit s)
  assume "few_failures c"
  with CallExit show ?thesis by (cases s) (auto simp: few_failures_def exitTagAbsent_def)
next
  case (CallCond s)
  assume "few_failures c"
  with CallCond show ?thesis
    by (cases s) (auto simp: few_failures_def condCheckPresence_def condSeatboxLock_def condStateOK_def
        condJustInserted_def condOff_def const_defs dest: tryAct_data split: prod.split bool.split)
next
  case (CallGuard g)
  assume "few_failures c"
  with CallGuard show ?thesis by (cases g) (auto simp: few_failures_def)
next
  case (CallAction a)
  assume "few_failures c"
  with CallAction readStatus_failures show ?thesis
    by (cases a) (auto simp: few_failures_def markJustInsertedAction_def dest: tryAct_data split: prod.split)
qed

text \<open>
  Failed status reads are counted up to three: along every run the counter stays below three, and
  the third failure in a row asks for a restart and starts counting again.
\<close>

lemma read_failures_restart:
  assumes "librefsm A dispatch" and "few_failures c" and "dispatch s ev c = (s', c')"
  shows "few_failures c' \<and>
         (\<not> fst (act_ReadStatus A (fx_world c)) \<and> consecutiveReadFailures (fx_data c) = 2 \<longrightarrow>
            fx_sent (readStatusAction A c) = fx_sent c @ [EvRestart] \<and>
            consecutiveReadFailures (fx_data (readStatusAction A c)) = 0)"
proof
  have "few_failures (run_calls A calls c)" for calls
    using assms(2) by (induction calls arbitrary: c) (simp_all add: call_failures)
  with librefsm.dispatch_calls [OF assms(1,3)] show "few_failures c'" by auto
qed (auto simp: readStatusAction_def tryAct_def fsmSend_def upd_fsm_def Let_def const_defs split: prod.split bool.split)

section \<open>Immediate moves\<close>

text \<open>The moves a machine makes without waiting for an event.\<close>

definition leads :: "'w BatteryActions \<Rightarrow> StateID \<Rightarrow> StateID \<Rightarrow> bool" where
  "leads A s s' \<longleftrightarrow> default_child s = Some s' \<or> (is_condition s \<and> (\<exists>c. fst (cond_next A s c) = s'))"

lemma leads_rank: "leads A s u \<Longrightarrow> rank u < rank s"
  by (auto simp: leads_def rank_child rank_cond)

lemma chain_rank: "(leads A ^^ n) s u \<Longrightarrow> n + rank u \<le> rank s"
proof (induction n arbitrary: u)
  case (Suc n)
  then obtain v where "(leads A ^^ n) s v" "leads A v u" by auto
  with Suc.IH [of v] leads_rank [of A v u] show ?case by simp
qed simp

lemma leads_leaf: "leaf u \<longleftrightarrow> (\<nexists>v. leads A u v)"
  by (cases "default_child u") (auto simp: leads_def leaf_def)

lemma reaches_leaf: "\<exists>l m. leaf l \<and> (leads A ^^ m) u l"
proof (induction "rank u" arbitrary: u rule: less_induct)
  case less
  show ?case
  proof (cases "leaf u")
    case True
    then show ?thesis by (intro exI [of _ u] exI [of _ 0]) simp
  next
    case False
    then obtain v where v: "leads A u v" by (auto simp: leads_leaf [of u A])
    from less [OF leads_rank [OF v]] obtain l m where "leaf l" "(leads A ^^ m) v l" by blast
    with v relpowp_Suc_I2 [of "leads A" u v m l] show ?thesis by blast
  qed
qed

lemma rank_le: "rank s \<le> 4" by (cases s) simp_all

text \<open>
  C27: The moves a machine makes on its own end: through default children and condition states, and
  whatever the conditions find, at most four of them follow one another, the chain can go on exactly
  as long as it has not come to a state that waits for events, and from everywhere it gets to one.
\<close>

theorem immediate_moves_end:
  assumes "(leads A ^^ n) s u"
  shows "n \<le> 4 \<and> ((\<exists>v. leads A u v) \<longleftrightarrow> \<not> leaf u) \<and> (\<exists>l m. leaf l \<and> (leads A ^^ m) u l \<and> n + m \<le> 4)"
proof -
  have n: "n + rank u \<le> 4" using chain_rank [OF assms] rank_le [of s] by linarith
  obtain l m where l: "leaf l" "(leads A ^^ m) u l" using reaches_leaf by blast
  with chain_rank [OF l(2)] n show ?thesis by (auto simp: leads_leaf [of u A] intro!: exI [of _ l] exI [of _ m])
qed

end
