(* ===== verification/Fsm_Guard.thy ===== *)
theory Fsm_Guard
  imports Fsm_Safety Nfc_Guard
begin

text \<open>
  The machine on a reader: the reader behind the interface, and that whatever the engine calls acts on
  the guard through its operations only, so that what the guard keeps it keeps under the machines.
\<close>

section \<open>The machine on a reader\<close>

text \<open>The reader behind the interface: the operations of \<open>Nfc\<close>, \<open>Nfc_Read\<close> and \<open>Reader_Actions\<close>.\<close>

definition readerActions ::
  "(string \<Rightarrow> motionEvidence option) \<Rightarrow> 'h hal_ops \<Rightarrow> 'h world BatteryActions" where
  "readerActions js H =
     \<lparr>act_TakeInhibitor = TakeInhibitor H, act_ReleaseInhibitor = ReleaseInhibitor,
      act_StartDiscovery = StartDiscovery js H, act_StopDiscovery = StopDiscovery js H,
      act_PollForTagArrival = pollForTagArrival js H, act_FinishDiscovery = FinishDiscovery js H,
      act_Initialize = Initialize js H, act_Deinitialize = Deinitialize js H,
      act_ReadStatus = readStatus js H, act_ReadFreshOffState = ReadFreshOffState js H,
      act_SendCheckPresenceReady = SendCheckPresenceReady, act_WriteCommand = WriteCommand js H,
      act_WriteOffCommand = (\<lambda>w. case WriteOffCommand js H w of (r, w1) \<Rightarrow> (r = Written, w1)),
      act_ShouldSendOn = (\<lambda>w. case nowOf H w of (now, w1) \<Rightarrow> ShouldSendOn now w1),
      act_GetSeatboxLockClosed = (\<lambda>w. GetSeatboxLockClosed (w_reader w)), act_CheckStateCorrect = CheckStateCorrect,
      act_GetRemainingCmdTime = (\<lambda>w. case nowOf H w of (now, w1) \<Rightarrow> (GetRemainingCmdTime now (w_reader w1), w1)),
      act_GetOpenedTime = (\<lambda>ins op w. GetOpenedTime ins op (w_reader w)),
      act_GetInsertedTime = (\<lambda>ins w. GetInsertedTime ins), act_IsInactive = (\<lambda>w. IsInactive (w_reader w)),
      act_ZeroRetryCounters = upd_reader ZeroRetryCounters,
      act_ShouldKeepActiveOnSeatboxOpen = ShouldKeepActiveOnSeatboxOpen,
      act_StartHeartbeatTimer = StartHeartbeatTimer H, act_ClearHeartbeatTimer = ClearHeartbeatTimer,
      act_StopTimerIfBatteryEmpty = StopTimerIfBatteryEmpty H\<rparr>"

lemma step_StopHeartbeat [simp]: "guarded_step js u (StopHeartbeatTimer w) = guarded_step js u w"
  by (simp add: StopHeartbeatTimer_def)

lemma policy_clearHeartbeat [simp]: "policy (clearHeartbeatTimer r) = policy r"
  by (simp add: clearHeartbeatTimer_def)

text \<open>Every operation of the interface acts on the guard through its operations only.\<close>

lemma action_steps:
  "guarded_step js w (act_TakeInhibitor (readerActions js H) w)"
  "guarded_step js w (act_ReleaseInhibitor (readerActions js H) w)"
  "guarded_step js w (snd (act_StartDiscovery (readerActions js H) w))"
  "guarded_step js w (act_StopDiscovery (readerActions js H) w)"
  "guarded_step js w (snd (act_PollForTagArrival (readerActions js H) b1 b2 w))"
  "guarded_step js w (act_FinishDiscovery (readerActions js H) w)"
  "guarded_step js w (snd (act_Initialize (readerActions js H) w))"
  "guarded_step js w (act_Deinitialize (readerActions js H) w)"
  "guarded_step js w (snd (act_ReadStatus (readerActions js H) w))"
  "guarded_step js w (snd (act_ReadFreshOffState (readerActions js H) w))"
  "guarded_step js w (act_SendCheckPresenceReady (readerActions js H) w)"
  "guarded_step js w (act_WriteCommand (readerActions js H) cmd w)"
  "guarded_step js w (snd (act_WriteOffCommand (readerActions js H) w))"
  "guarded_step js w (snd (act_ShouldSendOn (readerActions js H) w))"
  "guarded_step js w (snd (act_GetRemainingCmdTime (readerActions js H) w))"
  "guarded_step js w (act_ZeroRetryCounters (readerActions js H) w)"
  "guarded_step js w (act_StartHeartbeatTimer (readerActions js H) w)"
  "guarded_step js w (act_ClearHeartbeatTimer (readerActions js H) w)"
  "guarded_step js w (act_StopTimerIfBatteryEmpty (readerActions js H) w)"
proof -
  have init: "guarded_step js w (snd (Initialize js H w))"
    unfolding Initialize_def
    by (auto split: prod.split option.split) (blast intro: chain step_refl)+
  have deinit: "guarded_step js w (deinitializeNFC js H w)"
    unfolding deinitializeNFC_def by (rule step_callout [OF surjective_pairing step_refl])
  then have deinit': "guarded_step js w (Deinitialize js H w)"
    unfolding Deinitialize_def by (auto split: prod.split intro: step_now)
  have should: "guarded_step js w (snd (case nowOf H w of (now, w1) \<Rightarrow> ShouldSendOn now w1))"
    by (auto split: prod.split) (metis step_now step_shouldSendOn step_refl surjective_pairing)
  have empty: "guarded_step js w (StopTimerIfBatteryEmpty H w)"
    unfolding StopTimerIfBatteryEmpty_def
    by (auto split: prod.split) (metis step_now step_refl step_StopHeartbeat)
  show "guarded_step js w (act_TakeInhibitor (readerActions js H) w)"
    by (simp add: readerActions_def TakeInhibitor_def step_takeInhibitor [OF surjective_pairing step_refl])
  show "guarded_step js w (snd (act_ReadStatus (readerActions js H) w))"
    "guarded_step js w (snd (act_ReadFreshOffState (readerActions js H) w))"
    "guarded_step js w (act_WriteCommand (readerActions js H) cmd w)"
    "guarded_step js w (act_FinishDiscovery (readerActions js H) w)"
    "guarded_step js w (act_StopDiscovery (readerActions js H) w)"
    "guarded_step js w (snd (act_StartDiscovery (readerActions js H) w))"
    "guarded_step js w (snd (act_PollForTagArrival (readerActions js H) b1 b2 w))"
    using reader_exec_guarded [of js w H RdReadStatus] reader_exec_guarded [of js w H RdReadFreshOff]
      reader_exec_guarded [of js w H "RdWriteCommand cmd"] reader_exec_guarded [of js w H RdFinishDiscovery]
      reader_exec_guarded [of js w H RdStopDiscovery] reader_exec_guarded [of js w H RdStartDiscovery]
      reader_exec_guarded [of js w H "RdPollTagArrival b1 b2"]
    by (simp_all add: readerActions_def StartDiscovery_def StopDiscovery_def)
  show "guarded_step js w (snd (act_WriteOffCommand (readerActions js H) w))"
    using reader_exec_guarded [of js w H RdWriteOff] by (simp add: readerActions_def case_prod_beta)
  show "guarded_step js w (snd (act_Initialize (readerActions js H) w))"
    "guarded_step js w (act_Deinitialize (readerActions js H) w)"
    "guarded_step js w (snd (act_ShouldSendOn (readerActions js H) w))"
    "guarded_step js w (act_StopTimerIfBatteryEmpty (readerActions js H) w)"
    using init deinit' should empty by (simp_all add: readerActions_def)
qed (auto simp: readerActions_def ReleaseInhibitor_def SendCheckPresenceReady_def StartHeartbeatTimer_def
      ClearHeartbeatTimer_def intro: step_now split: prod.split)

section \<open>The machine as a client of the guard\<close>

lemma world_frame [simp]:
  "fx_world (upd_fsm f c) = fx_world c" "fx_world (fsmSend ev c) = fx_world c"
  "fx_world (startTimer n d ev c) = fx_world c" "fx_world (doAct g c) = g (fx_world c)"
  by (simp_all add: upd_fsm_def doAct_def startTimer_def fsmSend_def)

text \<open>What the handlers do to the reader.\<close>

lemma world_tryAct: "tryAct h c = (x, c') \<Longrightarrow> fx_world c' = snd (h (fx_world c))"
  by (auto simp: tryAct_def split: prod.split_asm)

lemma world_tryAct_snd [simp]: "fx_world (snd (tryAct h c)) = snd (h (fx_world c))"
  by (simp add: tryAct_def split: prod.split)

lemma world_readStatus [simp]: "fx_world (readStatusAction A c) = snd (act_ReadStatus A (fx_world c))"
  by (auto simp: readStatusAction_def Let_def dest: world_tryAct split: prod.split bool.split)

lemma world_enter:
  "fx_world (enterNFCReaderOn A c) = snd (act_Initialize A (fx_world c))"
  "fx_world (enterWaitArrival A c) = snd (act_StartDiscovery A (act_TakeInhibitor A (fx_world c)))"
  "fx_world (enterTagAbsent A c) = snd (act_StartDiscovery A (fx_world c))"
  "fx_world (enterCheckPresence A c) = act_WriteCommand A BMSCmdInsertedInScooter (fx_world c)"
  "fx_world (enterWaitLastCmd A c) = snd (act_GetRemainingCmdTime A (act_ClearHeartbeatTimer A (fx_world c)))"
  "fx_world (enterSendOff A c) = snd (act_WriteOffCommand A (fx_world c))"
  "fx_world (enterReadOffStatus A c) = snd (act_ReadFreshOffState A (fx_world c))"
  by (auto simp: enterNFCReaderOn_def enterWaitArrival_def enterTagAbsent_def enterCheckPresence_def enterWaitLastCmd_def
      enterSendOff_def enterReadOffStatus_def dest: world_tryAct
      split: prod.split bool.split sum.split OffState.split)

lemma world_enterSendOnOff: "fx_world (enterSendOnOff A c) = (case act_ShouldSendOn A (fx_world c) of
    (on, w) \<Rightarrow> act_WriteCommand A (if on then BMSCmdOn else BMSCmdOff) w)"
  by (simp add: enterSendOnOff_def tryAct_def split: prod.split)

lemma world_condCheckPresence: "fx_world (snd (condCheckPresence A c)) =
    snd (act_ReadStatus A (act_ZeroRetryCounters A (act_TakeInhibitor A (fx_world c))))"
  by (auto simp: condCheckPresence_def dest: world_tryAct split: prod.split bool.split)

text \<open>Every call of the engine acts on the guard through its operations.\<close>

lemma enter_guarded: "guarded_step js (fx_world c) (fx_world (on_enter (readerActions js H) s c))"
proof -
  have "guarded_step js w (case act_ShouldSendOn (readerActions js H) w of
      (on, v) \<Rightarrow> act_WriteCommand (readerActions js H) (if on then BMSCmdOn else BMSCmdOff) v)" for w
    using step_trans [OF action_steps(14) [of js w H] action_steps(12)] by (simp add: case_prod_beta)
  then show ?thesis
    by (cases s) (auto simp: world_enter world_enterSendOnOff enterCondSeatboxLock_def enterCondStateOK_def
        enterWaitUpdate_def enterSendOpened_def enterSendInsertedOpen_def Let_def
        intro: action_steps step_trans [OF action_steps(1) action_steps(3)]
          step_trans [OF action_steps(18) action_steps(15)] step_trans [OF action_steps(19) action_steps(2)])
qed

lemma call_guarded: "guarded_step js (fx_world c) (fx_world (run_call (readerActions js H) x c))"
proof (cases x)
  case (CallEnter s)
  then show ?thesis by (simp add: enter_guarded)
next
  case (CallExit s)
  then show ?thesis by (cases s) (auto simp: exitTagAbsent_def intro: action_steps)
next
  case (CallCond s)
  have "guarded_step js w (snd (act_ReadStatus A (act_ZeroRetryCounters A (act_TakeInhibitor A w))))"
    if "A = readerActions js H" for A w
    unfolding that by (rule step_trans [OF action_steps(1) step_trans [OF action_steps(16) action_steps(9)]])
  with CallCond show ?thesis
    by (cases s) (auto simp: world_condCheckPresence condSeatboxLock_def condStateOK_def condJustInserted_def condOff_def)
next
  case (CallGuard g)
  then show ?thesis by (cases g) auto
next
  case (CallAction a)
  have "fx_world (case tryAct (act_StartDiscovery A) c of (ok, c1) \<Rightarrow> if ok then c1 else fsmSend EvReinit c1) =
      snd (act_StartDiscovery A (fx_world c))" for A :: "'a world BatteryActions"
    by (auto dest: world_tryAct split: prod.split)
  with CallAction show ?thesis by (cases a) (auto simp: markJustInsertedAction_def intro: action_steps)
qed

lemma calls_guarded: "guarded_step js (fx_world c) (fx_world (run_calls (readerActions js H) calls c))"
  by (induction calls arbitrary: c) (auto intro: step_trans call_guarded)

section \<open>The service with its machines\<close>

text \<open>
  What moves a machine and its reader: an event, an iteration of the two polling goroutines of the
  machine, and the guard calls of the other goroutines.
\<close>

datatype fsm_op = FsmEvent EventID | FsmPresencePoll duration | FsmArrivalPoll bool bool | FsmGuard adm_op

fun fsm_step ::
  "(string \<Rightarrow> motionEvidence option) \<Rightarrow> 'h hal_ops \<Rightarrow>
   (StateID \<Rightarrow> EventID \<Rightarrow> 'h world fsm \<Rightarrow> StateID \<times> 'h world fsm) \<Rightarrow>
   fsm_op \<Rightarrow> StateID \<times> 'h world fsm \<Rightarrow> StateID \<times> 'h world fsm" where
  "fsm_step js H dispatch (FsmEvent ev) (s, c) = dispatch s ev c"
| "fsm_step js H dispatch (FsmPresencePoll b) (s, c) = (s, snd (checkPresencePoll (readerActions js H) b c))"
| "fsm_step js H dispatch (FsmArrivalPoll before after) (s, c) =
     (s, snd (tryAct (act_PollForTagArrival (readerActions js H) before after) c))"
| "fsm_step js H dispatch (FsmGuard op) (s, c) = (s, doAct (\<lambda>w. w\<lparr>w_adm := adm_exec js op (w_adm w)\<rparr>) c)"

lemma presencePoll_guarded: "guarded_step js (fx_world c) (fx_world (snd (checkPresencePoll (readerActions js H) b c)))"
proof -
  let ?A = "readerActions js H" and ?w = "snd (act_ReadStatus (readerActions js H) (fx_world c))"
  have "fx_world (snd (checkPresencePoll ?A b c)) = ?w \<or>
        fx_world (snd (checkPresencePoll ?A b c)) = act_SendCheckPresenceReady ?A ?w"
    by (auto simp: checkPresencePoll_def Let_def dest: world_tryAct split: prod.split bool.split)
  with action_steps(9,11) step_trans show ?thesis by metis
qed

lemma machine_client:
  assumes "librefsm (readerActions js H) dispatch"
  shows "guard_client js (\<lambda>x. w_adm (fx_world (snd x))) (fsm_step js H dispatch)"
proof
  fix x :: "StateID \<times> 'a world fsm" and op
  obtain s c where x: "x = (s, c)" by fastforce
  have "guarded_step js (fx_world c) (fx_world (snd (dispatch s ev c)))" for ev
    using librefsm.dispatch_calls [OF assms, of s ev c] calls_guarded by (metis prod.collapse)
  moreover have "guarded_step js (fx_world c) ((fx_world c)\<lparr>w_adm := adm_exec js d (w_adm (fx_world c))\<rparr>)" for d
    by (rule step_adm [OF via_op step_refl])
  ultimately have "guarded_step js (fx_world c) (fx_world (snd (fsm_step js H dispatch op (s, c))))"
    by (cases op) (simp_all add: presencePoll_guarded action_steps)
  then show "via_guard js (w_adm (fx_world (snd x))) (w_adm (fx_world (snd (fsm_step js H dispatch op x))))"
    by (simp add: guarded_step_def x)
qed

interpretation mch: guard_client js "\<lambda>x. w_adm (fx_world (snd x))" "fsm_step js H (ref_dispatch (readerActions js H))" for js H
  by (rule machine_client) (rule ref.librefsm_axioms)

text \<open>
  What the guard guarantees holds under the state machines: whatever events a machine answers, its
  polling goroutines do and the other goroutines ask of the guard meanwhile, the guard invariant is
  kept, and a pack recorded as supplying stays recorded until a guard operation of the run confirms it
  off.
\<close>

lemma fsm_keeps_supply:
  assumes "librefsm (readerActions js H) dispatch"
    and "adm_inv (w_adm (fx_world c))" and "held (slots (w_adm (fx_world c)) j)"
    and "fold (fsm_step js H dispatch) ops (s, c) = (s', c')"
  shows "adm_inv (w_adm (fx_world c')) \<and>
         (\<exists>cs. w_adm (fx_world c') = fold (adm_exec js) cs (w_adm (fx_world c)) \<and>
            (held (slots (w_adm (fx_world c')) j) \<or>
             (\<exists>us x vs. cs = us @ x # vs \<and> confirms_off j x (fold (adm_exec js) us (w_adm (fx_world c))))))"
  using guard_client.client_inv [OF machine_client [OF assms(1)], of "(s, c)" ops]
    guard_client.client_kept [OF machine_client [OF assms(1)], where Q = "\<lambda>t. held (slots t j)" and w = "(s, c)" and cs = ops, OF held_step]
    assms(2-4) by simp

end
