(* ===== verification/System.thy ===== *)
theory System
  imports Fsm_Guard Service_Safety Handler_Safety
begin

text \<open>
  The whole service: the readers with their machines and event loops around the guard they share. A
  step is what one goroutine does between two points where another may take over: the service answers
  a message, a machine takes an event from its queue, a polling goroutine polls, an event loop takes
  from a channel, a timer fires. The guard is open to the others within a step too, during every
  controller call.
\<close>

section \<open>State\<close>

text \<open>
  The service with its readers, and for each slot the machine's state, its data with the reader's
  controller, and the events waiting in its queue.
\<close>

record 'h system =
  sy_service :: Service
  sy_state :: "slot \<Rightarrow> StateID"
  sy_ctx :: "slot \<Rightarrow> 'h world fsm"
  sy_queue :: "slot \<Rightarrow> EventID list"

fun slot_nat :: "slot \<Rightarrow> nat" where
  "slot_nat Slot0 = 0"
| "slot_nat Slot1 = 1"

definition port :: "slot \<Rightarrow> 'h system \<Rightarrow> reader_port option" where
  "port i y = reader_at (slot_nat i) (sy_service y)"

text \<open>
  The reader, the guard and the configuration are the service's: a step of a slot starts from them and
  leaves them as it found or changed them.
\<close>

definition loaded :: "gotime \<Rightarrow> slot \<Rightarrow> reader_port \<Rightarrow> 'h system \<Rightarrow> 'h world fsm" where
  "loaded now i p y =
     (let s = sy_service y; c = sy_ctx y i
      in c\<lparr>fx_world := (fx_world c)\<lparr>w_reader := pt_reader p, w_slot := Some i, w_adm := sv_admission s,
             w_config := sv_config s, w_demand := driveStartDemandActive now s, w_ready := sv_admissionReady s\<rparr>\<rparr>)"

definition stored :: "slot \<Rightarrow> reader_port \<Rightarrow> StateID \<times> 'h world fsm \<Rightarrow> 'h system \<Rightarrow> 'h system" where
  "stored i p x y =
     (let w = fx_world (snd x)
      in y\<lparr>sy_service := set_reader (slot_nat i) (p\<lparr>pt_reader := w_reader w\<rparr>)
             ((sy_service y)\<lparr>sv_admission := w_adm w, sv_admissionReady := w_ready w\<rparr>),
           sy_state := (sy_state y)(i := fst x), sy_ctx := (sy_ctx y)(i := snd x)\<rparr>)"

text \<open>
  What was sent to a machine goes to its queue; a prompt also raises its flag, and the reader sees
  whether its machine is in the part with a tag. The order of events sent in one step by the machine
  and by its reader is not that of the source, and the reader sees the flag of the tag as it was before
  the step.
\<close>

definition collect :: "slot \<Rightarrow> 'h system \<Rightarrow> 'h system" where
  "collect i y =
     (case port i y of
        None \<Rightarrow> y
      | Some p \<Rightarrow>
          let c = sy_ctx y i; r = pt_reader p;
              d = (if EvAdmissionPoll \<in> set (rd_events r) then (fx_data c)\<lparr>admissionPollPending := True\<rparr> else fx_data c)
          in y\<lparr>sy_service := set_reader (slot_nat i)
                 (p\<lparr>pt_reader := r\<lparr>rd_events := [], rd_inTagPresent := tagPresent d\<rparr>\<rparr>) (sy_service y),
               sy_ctx := (sy_ctx y)(i := c\<lparr>fx_data := d, fx_sent := []\<rparr>),
               sy_queue := (sy_queue y)(i := sy_queue y i @ fx_sent c @ rd_events r)\<rparr>)"

section \<open>Steps\<close>

text \<open>The cases of the select in \<open>run\<close>, and the fallback of the start-up.\<close>

datatype loop_case = LoopRestart | LoopVehicle | LoopSeatbox | LoopEnabled | LoopKeepActive | LoopInitTimeout

fun loop_step :: "ServiceConfig \<Rightarrow> bool \<Rightarrow> loop_case \<Rightarrow> reader_port \<Rightarrow> reader_port" where
  "loop_step cfg checking LoopRestart p =
     (if rd_restartQueued (pt_reader p) then p\<lparr>pt_reader := handleRestart checking (pt_reader p)\<rparr> else p)"
| "loop_step cfg checking LoopVehicle p =
     (case pt_vehicleStateChan p of
        None \<Rightarrow> p
      | Some v \<Rightarrow> p\<lparr>pt_vehicleStateChan := None, pt_reader := handleVehicleStateChange v (pt_reader p)\<rparr>)"
| "loop_step cfg checking LoopSeatbox p =
     (case pt_seatboxLockChan p of
        None \<Rightarrow> p
      | Some b \<Rightarrow> p\<lparr>pt_seatboxLockChan := None, pt_reader := handleSeatboxLockChange cfg b (pt_reader p)\<rparr>)"
| "loop_step cfg checking LoopEnabled p =
     (case pt_enabledChan p of
        None \<Rightarrow> p
      | Some b \<Rightarrow> p\<lparr>pt_enabledChan := None, pt_reader := handleEnabledChange b (pt_reader p)\<rparr>)"
| "loop_step cfg checking LoopKeepActive p =
     (if pt_keepActiveChan p
      then p\<lparr>pt_keepActiveChan := False, pt_reader := handleKeepActiveChange cfg (pt_reader p)\<rparr> else p)"
| "loop_step cfg checking LoopInitTimeout p = p\<lparr>pt_reader := initTimeout (pt_reader p)\<rparr>"

text \<open>The timers of a reader: its faults, the heartbeat, and the early read of an unconfirmed tag.\<close>

datatype reader_timer = FaultTimer fault_op | HeartbeatTimer | ConfirmTimer

fun timer_step :: "gotime \<Rightarrow> reader_timer \<Rightarrow> BatteryReader \<Rightarrow> BatteryReader" where
  "timer_step now (FaultTimer (FaultSetTimer f t)) r = fault_exec (FaultSetTimer f now) r"
| "timer_step now (FaultTimer (FaultResetTimer f t)) r = fault_exec (FaultResetTimer f now) r"
| "timer_step now (FaultTimer _) r = r"
| "timer_step now HeartbeatTimer r = heartbeatTimerFired now r"
| "timer_step now ConfirmTimer r = (if timer (rd_fresh r) then SendEvent EvHeartbeatTimeout r else r)"

datatype sys_op =
    SysMessage service_op
  | SysMotion string gotime
  | SysMotionReset
  | SysEvent slot gotime
  | SysDrop slot
  | SysTimeout slot EventID
  | SysPresencePoll slot duration gotime
  | SysArrivalPoll slot bool bool gotime
  | SysLoop slot loop_case
  | SysReaderTimer slot reader_timer gotime

definition timer_event :: "StateID \<Rightarrow> 'w fsm \<Rightarrow> EventID \<Rightarrow> bool" where
  "timer_event s c ev \<longleftrightarrow> (\<exists>d. state_timeout s = Some (d, ev)) \<or> ev \<in> (snd \<circ> snd) ` set (fx_timers c)"

definition at_slot :: "slot \<Rightarrow> (reader_port \<Rightarrow> 'h system \<Rightarrow> 'h system) \<Rightarrow> 'h system \<Rightarrow> 'h system" where
  "at_slot i f y = (case port i y of None \<Rightarrow> y | Some p \<Rightarrow> collect i (f p y))"

definition on_port :: "slot \<Rightarrow> (reader_port \<Rightarrow> reader_port) \<Rightarrow> 'h system \<Rightarrow> 'h system" where
  "on_port i g = at_slot i (\<lambda>p y. y\<lparr>sy_service := set_reader (slot_nat i) (g p) (sy_service y)\<rparr>)"

fun sys_exec ::
  "(string \<Rightarrow> motionEvidence option) \<Rightarrow> (slot \<Rightarrow> 'h hal_ops) \<Rightarrow>
   (slot \<Rightarrow> StateID \<Rightarrow> EventID \<Rightarrow> 'h world fsm \<Rightarrow> StateID \<times> 'h world fsm) \<Rightarrow> sys_op \<Rightarrow> 'h system \<Rightarrow> 'h system" where
  "sys_exec js H D (SysMessage c) y = collect Slot0 (collect Slot1 (y\<lparr>sy_service := service_exec c (sy_service y)\<rparr>))"
| "sys_exec js H D (SysMotion msg now) y =
     y\<lparr>sy_service := upd_admission (\<lambda>a. snd (receiveMotionEvidence js msg now a)) (sy_service y)\<rparr>"
| "sys_exec js H D SysMotionReset y = y\<lparr>sy_service := upd_admission resetMotionStream (sy_service y)\<rparr>"
| "sys_exec js H D (SysEvent i now) y =
     (case sy_queue y i of
        [] \<Rightarrow> y
      | ev # q \<Rightarrow>
          at_slot i (\<lambda>p y. stored i p (fsm_step js (H i) (D i) (FsmEvent ev) (sy_state y i, loaded now i p y)) y)
            (y\<lparr>sy_queue := (sy_queue y)(i := q)\<rparr>))"
| "sys_exec js H D (SysDrop i) y = y\<lparr>sy_queue := (sy_queue y)(i := butlast (sy_queue y i))\<rparr>"
| "sys_exec js H D (SysTimeout i ev) y =
     (if timer_event (sy_state y i) (sy_ctx y i) ev
      then y\<lparr>sy_queue := (sy_queue y)(i := sy_queue y i @ [ev])\<rparr> else y)"
| "sys_exec js H D (SysPresencePoll i b now) y =
     at_slot i (\<lambda>p y. stored i p (fsm_step js (H i) (D i) (FsmPresencePoll b) (sy_state y i, loaded now i p y)) y) y"
| "sys_exec js H D (SysArrivalPoll i before after now) y =
     at_slot i (\<lambda>p y. stored i p (fsm_step js (H i) (D i) (FsmArrivalPoll before after)
                                    (sy_state y i, loaded now i p y)) y) y"
| "sys_exec js H D (SysLoop i lc) y =
     on_port i (loop_step (sv_config (sy_service y)) (sy_state y i = StateCheckPresence) lc) y"
| "sys_exec js H D (SysReaderTimer i tm now) y =
     on_port i (\<lambda>p. p\<lparr>pt_reader := timer_step now tm (pt_reader p)\<rparr>) y"

end
