(* ===== verification/System_Safety.thy ===== *)
theory System_Safety
  imports System
begin

text \<open>
  Properties of the whole service: the system is a client of the guard whatever the interleaving, and a
  ride is not interrupted by the seatbox.
\<close>

section \<open>The guard in the system\<close>

lemma guard_frame [simp]:
  "sv_admission (sy_service (collect i y)) = sv_admission (sy_service y)"
  "sv_admission (sy_service (on_port i g y)) = sv_admission (sy_service y)"
  by (simp_all add: collect_def on_port_def at_slot_def Let_def split: option.split)

lemma stored_guard [simp]: "sv_admission (sy_service (stored i p x y)) = w_adm (fx_world (snd x))"
  by (simp add: stored_def Let_def)

lemma loaded_guard [simp]: "w_adm (fx_world (loaded now i p y)) = sv_admission (sy_service y)"
  by (simp add: loaded_def Let_def)

lemma slot_step_guard:
  assumes "librefsm (readerActions js (H i)) (D i)"
  shows "via_guard js (sv_admission (sy_service y))
    (sv_admission (sy_service (at_slot i (\<lambda>p y. stored i p (fsm_step js (H i) (D i) op (sy_state y i, loaded now i p y)) y) y)))"
proof (cases "port i y")
  case (Some p)
  from guard_client.acts_via_guard [OF machine_client [OF assms], of "(sy_state y i, loaded now i p y)" op]
  show ?thesis by (simp add: at_slot_def Some)
qed (simp add: at_slot_def)

lemma system_client:
  assumes "\<And>i. librefsm (readerActions js (H i)) (D i)"
  shows "guard_client js (\<lambda>y. sv_admission (sy_service y)) (sys_exec js H D)"
proof
  fix y :: "'a system" and c
  show "via_guard js (sv_admission (sy_service y)) (sv_admission (sy_service (sys_exec js H D c y)))"
  proof (cases c)
    case (SysMessage op)
    then show ?thesis using svc.acts_via_guard by simp
  next
    case (SysEvent i now)
    have "via_guard js (sv_admission (sy_service y)) (sv_admission (sy_service (at_slot i (\<lambda>p y. stored i p
        (fsm_step js (H i) (D i) op (sy_state y i, loaded now i p y)) y) (y\<lparr>sy_queue := q\<rparr>))))" for q op
      using slot_step_guard [of js H i D "y\<lparr>sy_queue := q\<rparr>" op now, OF assms] by simp
    with SysEvent show ?thesis by (simp split: list.split del: fsm_step.simps)
  next
    case (SysMotion msg now)
    then show ?thesis using via_op [of js _ "OpReceiveMotion msg now"] by simp
  next
    case SysMotionReset
    then show ?thesis using via_op [of js _ OpResetMotionStream] by simp
  qed (simp_all add: slot_step_guard assms del: fsm_step.simps)
qed

section \<open>A ride\<close>

text \<open>
  Slot \<open>i\<close> while the vehicle is driven: its reader knows and has the latch closed, its machine is not
  in the seatbox-open path, and no report of an opened seatbox is on its way.
\<close>

definition ride_reader :: "BatteryReader \<Rightarrow> bool" where
  "ride_reader r \<longleftrightarrow>
     rd_vehicleState r = VehicleStateReadyToDrive \<and> rd_latchedSeatboxLockClosed r \<and> rd_initVehicleState r \<and>
     EvSeatboxOpened \<notin> set (rd_events r)"

definition ride_machine :: "'w fsm \<Rightarrow> bool" where
  "ride_machine c \<longleftrightarrow> EvSeatboxOpened \<notin> set (fx_sent c) \<and> EvSeatboxOpened \<notin> (snd \<circ> snd) ` set (fx_timers c)"

definition riding :: "slot \<Rightarrow> 'h system \<Rightarrow> bool" where
  "riding i y \<longleftrightarrow>
     (\<exists>p. port i y = Some p \<and> ride_reader (pt_reader p)) \<and> ride_machine (sy_ctx y i) \<and>
     EvSeatboxOpened \<notin> set (sy_queue y i) \<and> \<not> open_path (sy_state y i)"

lemma ride_policy: "policy r' = policy r \<Longrightarrow> ride_reader r' = ride_reader r"
proof -
  assume p: "policy r' = policy r"
  then have "filter loop_event (rd_events r') = filter loop_event (rd_events r)" by (simp add: policy_def)
  then have "set (filter loop_event (rd_events r')) = set (filter loop_event (rd_events r))" by simp
  then have "EvSeatboxOpened \<in> set (rd_events r') \<longleftrightarrow> EvSeatboxOpened \<in> set (rd_events r)"
    by (auto simp: loop_event_def)
  with p show ?thesis by (simp add: ride_reader_def policy_def)
qed

lemma reader_at_set [simp]:
  "reader_at n (set_reader m p s) = (if n = m \<and> n < length (sv_readers s) then Some p else reader_at n s)"
  by (simp add: reader_at_def set_reader_def nth_list_update)

lemma reader_at_length: "reader_at n s = Some p \<Longrightarrow> n < length (sv_readers s)"
  by (simp add: reader_at_def split: if_split_asm)

lemma slot_nat_inj [simp]: "slot_nat i = slot_nat j \<longleftrightarrow> i = j"
  by (cases i; cases j) auto

lemma port_set [simp]:
  "port j y = Some p \<Longrightarrow>
   port i (y\<lparr>sy_service := set_reader (slot_nat j) q (sy_service y)\<rparr>) = (if i = j then Some q else port i y)"
  by (auto simp: port_def dest: reader_at_length)

lemma port_frame [simp]:
  "port i (y\<lparr>sy_queue := q\<rparr>) = port i y" "port i (y\<lparr>sy_state := st\<rparr>) = port i y" "port i (y\<lparr>sy_ctx := cx\<rparr>) = port i y"
  by (simp_all add: port_def)

lemma port_stored:
  "port j y = Some p \<Longrightarrow> port i (stored j p x y) = (if i = j then Some (p\<lparr>pt_reader := w_reader (fx_world (snd x))\<rparr>) else port i y)"
  by (auto simp: port_def stored_def Let_def reader_at_def set_reader_def nth_list_update split: if_split_asm)

lemma riding_collect: "riding i y \<Longrightarrow> riding i (collect j y)"
proof -
  assume r: "riding i y"
  then obtain p where p: "port i y = Some p" "ride_reader (pt_reader p)" by (auto simp: riding_def)
  show ?thesis
  proof (cases "port j y")
    case None
    with r show ?thesis by (simp add: collect_def)
  next
    case (Some q)
    show ?thesis
    proof (cases "i = j")
      case True
      with r p show ?thesis
        by (simp add: riding_def collect_def Let_def port_def ride_reader_def ride_machine_def reader_at_length)
    next
      case False
      with r p Some show ?thesis by (auto simp: riding_def collect_def Let_def port_def)
    qed
  qed
qed

lemma riding_at_slot:
  assumes "riding i y" and "\<And>p. port j y = Some p \<Longrightarrow> riding i (f p y)"
  shows "riding i (at_slot j f y)"
  using assms by (auto simp: at_slot_def intro: riding_collect split: option.split)

lemma riding_on_port:
  assumes "riding i y" and "\<And>p. i = j \<Longrightarrow> ride_reader (pt_reader p) \<Longrightarrow> ride_reader (pt_reader (g p))"
  shows "riding i (on_port j g y)"
  unfolding on_port_def
proof (rule riding_at_slot [OF assms(1)])
  fix p assume "port j y = Some p"
  with assms show "riding i (y\<lparr>sy_service := set_reader (slot_nat j) (g p) (sy_service y)\<rparr>)"
    by (auto simp: riding_def)
qed

text \<open>Timers of the machine.\<close>

lemma timers_frame [simp]:
  "fx_timers (upd_fsm f c) = fx_timers c" "fx_timers (doAct g c) = fx_timers c"
  "fx_timers (snd (tryAct h c)) = fx_timers c" "fx_timers (fsmSend ev c) = fx_timers c"
  by (simp_all add: upd_fsm_def doAct_def tryAct_def fsmSend_def split: prod.split)

lemma call_starts:
  "(snd \<circ> snd) ` set (fx_timers (run_call A x c)) \<subseteq> (snd \<circ> snd) ` set (fx_timers c) \<union>
     {EvLastCmdTimeout, EvOnOffTimeout, EvOffTimeout, EvOpenedTimeout, EvInsertedOpenTimeout}"
proof (cases x)
  case (CallEnter s)
  then show ?thesis
    by (cases s) (auto simp: enterNFCReaderOn_def enterWaitArrival_def enterTagAbsent_def
        enterCheckPresence_def enterWaitLastCmd_def enterCondSeatboxLock_def enterSendOnOff_def enterCondStateOK_def
        enterWaitUpdate_def enterSendOff_def enterReadOffStatus_def enterSendOpened_def enterSendInsertedOpen_def Let_def
        case_prod_beta split: bool.split sum.split OffState.split)
next
  case (CallExit s)
  then show ?thesis by (cases s) (auto simp: exitTagAbsent_def)
next
  case (CallCond s)
  then show ?thesis
    by (cases s) (auto simp: condCheckPresence_def condSeatboxLock_def condStateOK_def condJustInserted_def condOff_def
        case_prod_beta split: bool.split)
next
  case (CallGuard g)
  then show ?thesis by (cases g) auto
next
  case (CallAction a)
  then show ?thesis
    by (cases a) (auto simp: markJustInsertedAction_def readStatusAction_def case_prod_beta Let_def split: bool.split)
qed

lemma calls_start_no_opened:
  "EvSeatboxOpened \<in> (snd \<circ> snd) ` set (fx_timers (run_calls A calls c)) \<Longrightarrow>
   EvSeatboxOpened \<in> (snd \<circ> snd) ` set (fx_timers c)"
proof (induction calls arbitrary: c)
  case (Cons x calls)
  from Cons.IH [of "run_call A x c"] Cons.prems call_starts [of A x c] show ?case by auto
qed simp

lemma fsm_step_guarded:
  assumes "librefsm (readerActions js H) dispatch"
  shows "guarded_step js (fx_world c) (fx_world (snd (fsm_step js H dispatch (FsmEvent ev) (s, c))))"
    "guarded_step js (fx_world c) (fx_world (snd (fsm_step js H dispatch (FsmPresencePoll b) (s, c))))"
    "guarded_step js (fx_world c) (fx_world (snd (fsm_step js H dispatch (FsmArrivalPoll x y) (s, c))))"
proof -
  obtain calls where "snd (dispatch s ev c) = run_calls (readerActions js H) calls c"
    using librefsm.dispatch_calls [OF assms, of s ev c] by (cases "dispatch s ev c") auto
  then show "guarded_step js (fx_world c) (fx_world (snd (fsm_step js H dispatch (FsmEvent ev) (s, c))))"
    by (simp add: calls_guarded)
qed (simp_all add: presencePoll_guarded action_steps)

text \<open>What a machine does while its latch is closed.\<close>

lemma ride_dispatch:
  assumes fsm: "librefsm (readerActions js H) dispatch" and d: "dispatch s ev c = (s', c')"
    and "ev \<noteq> EvSeatboxOpened" and latch: "rd_latchedSeatboxLockClosed (w_reader (fx_world c))" and "ride_machine c" "\<not> open_path s"
  shows "ride_machine c' \<and> \<not> open_path s'"
proof
  let ?A = "readerActions js H"
  from librefsm.dispatch_calls [OF fsm d] assms(5) show "ride_machine c'"
    using calls_send_no_opened calls_start_no_opened unfolding ride_machine_def by blast
  have "act_GetSeatboxLockClosed ?A (fx_world (run_calls ?A pre c))" for pre
    using calls_guarded [of js c H pre] latch
    by (simp add: readerActions_def GetSeatboxLockClosed_def guarded_step_def policy_def)
  with librefsm.open_path_entered [OF fsm d assms(6)] assms(3) show "\<not> open_path s'"
    by (auto simp: found_open_def)
qed

lemma ride_poll:
  "ride_machine c \<Longrightarrow> ride_machine (snd (checkPresencePoll A b c))" "ride_machine c \<Longrightarrow> ride_machine (snd (tryAct h c))"
  by (auto simp: ride_machine_def checkPresencePoll_def Let_def case_prod_beta split: bool.split)

lemma ride_loaded:
  "w_reader (fx_world (loaded now i p y)) = pt_reader p" "ride_machine (loaded now i p y) = ride_machine (sy_ctx y i)"
  by (simp_all add: loaded_def ride_machine_def Let_def)

lemma riding_stored:
  assumes "riding i y" "port j y = Some p"
    and "i = j \<Longrightarrow> ride_machine (snd x) \<and> \<not> open_path (fst x) \<and> ride_reader (w_reader (fx_world (snd x)))"
  shows "riding i (stored j p x y)"
proof -
  have f: "sy_queue (stored j p x y) = sy_queue y" "sy_ctx (stored j p x y) = (sy_ctx y)(j := snd x)"
    "sy_state (stored j p x y) = (sy_state y)(j := fst x)" by (simp_all add: stored_def Let_def)
  show ?thesis using assms unfolding riding_def f port_stored [OF assms(2)] by auto
qed

lemma riding_machine:
  assumes fsm: "librefsm (readerActions js (H j)) (D j)" and r: "riding i y"
    and op: "op = FsmPresencePoll b \<or> op = FsmArrivalPoll u v \<or> op = FsmEvent ev \<and> (i = j \<longrightarrow> ev \<noteq> EvSeatboxOpened)"
  shows "riding i (at_slot j (\<lambda>p y. stored j p (fsm_step js (H j) (D j) op (sy_state y j, loaded now j p y)) y) y)"
proof (rule riding_at_slot [OF r], rule riding_stored [OF r], assumption)
  fix p assume "port j y = Some p" and ij: "i = j"
  let ?c = "loaded now j p y"
  let ?x = "fsm_step js (H j) (D j) op (sy_state y j, ?c)"
  from r ij \<open>port j y = Some p\<close> have c: "ride_reader (pt_reader p)" "ride_machine ?c" "\<not> open_path (sy_state y j)"
    by (auto simp: riding_def ride_loaded)
  have pol: "policy (w_reader (fx_world (snd ?x))) = policy (w_reader (fx_world ?c))"
    using fsm_step_guarded [OF fsm, where c = ?c and s = "sy_state y j"] op by (auto simp: guarded_step_def)
  have "ride_reader (w_reader (fx_world (snd ?x)))" using c(1) unfolding ride_policy [OF pol] by (simp add: ride_loaded(1))
  moreover have "ride_machine (snd ?x) \<and> \<not> open_path (fst ?x)"
    using op
  proof (elim disjE conjE)
    have "rd_latchedSeatboxLockClosed (w_reader (fx_world ?c))" using c(1) by (simp add: ride_loaded ride_reader_def)
    moreover assume "op = FsmEvent ev" "i = j \<longrightarrow> ev \<noteq> EvSeatboxOpened"
    ultimately show ?thesis using ride_dispatch [OF fsm surjective_pairing _ _ c(2,3), of ev] ij by simp
  qed (use c ride_poll(1) [OF c(2)] ride_poll(2) [OF c(2)] in simp_all)
  ultimately show "ride_machine (snd ?x) \<and> \<not> open_path (fst ?x) \<and> ride_reader (w_reader (fx_world (snd ?x)))" by blast
qed

text \<open>The event loop and the timers.\<close>

lemma ride_seatbox: "ride_reader r \<Longrightarrow> ride_reader (handleSeatboxLockChange cfg b r)"
proof -
  assume r: "ride_reader r"
  then have l: "nextLatchedSeatboxClosed (rd_vehicleState r) (rd_latchedSeatboxLockClosed r) b"
    by (simp add: ride_reader_def nextLatchedSeatboxClosed_def)
  with r seatbox_events [where r = r and b = b and cfg = cfg] show ?thesis
    by (auto simp: ride_reader_def seatbox_fields)
qed

lemma ride_frame [simp]:
  "ride_reader (checkInitComplete r) = ride_reader r" "ride_reader (triggerRestart r) = ride_reader r"
  "ride_reader (r\<lparr>rd_enabled := b\<rparr>) = ride_reader r" "ride_reader (r\<lparr>rd_restartQueued := b\<rparr>) = ride_reader r"
  "ride_reader (r\<lparr>rd_seatboxLockClosed := b\<rparr>) = ride_reader r" "ride_reader (r\<lparr>rd_initSeatboxLock := b\<rparr>) = ride_reader r"
  "ride_reader (r\<lparr>rd_role := rl\<rparr>) = ride_reader r" "ev \<noteq> EvSeatboxOpened \<Longrightarrow> ride_reader (SendEvent ev r) = ride_reader r"
  by (simp_all add: ride_reader_def checkInitComplete_def)

lemma ride_init: "ride_reader r \<Longrightarrow> ride_reader (initTimeout r)"
  by (auto simp: initTimeout_def Let_def) (auto simp: ride_reader_def)

lemma ride_loop: "ride_reader (pt_reader p) \<Longrightarrow> lc \<noteq> LoopVehicle \<Longrightarrow> ride_reader (pt_reader (loop_step cfg ck lc p))"
  by (cases lc) (auto simp: ride_seatbox ride_init handleRestart_def handleEnabledChange_def handleKeepActiveChange_def
      Let_def split: option.split)

lemma policy_timer: "policy (timer_step now tm r) = policy r"
proof (cases tm)
  case (FaultTimer op)
  then show ?thesis by (cases op) simp_all
next
  case HeartbeatTimer
  then show ?thesis by (simp add: heartbeatTimerFired_def split: option.split)
qed simp

text \<open>The service's messages.\<close>

definition keeps_ride :: "Service \<Rightarrow> Service \<Rightarrow> bool" where
  "keeps_ride s s' \<longleftrightarrow>
     (\<forall>n p. reader_at n s = Some p \<and> ride_reader (pt_reader p) \<longrightarrow>
        (\<exists>p'. reader_at n s' = Some p' \<and> ride_reader (pt_reader p')))"

lemma keeps_ride_readers: "sv_readers s' = sv_readers s \<Longrightarrow> keeps_ride s s'"
  by (simp add: keeps_ride_def reader_at_def)

lemma keeps_ride_trans: "keeps_ride s t \<Longrightarrow> keeps_ride t u \<Longrightarrow> keeps_ride s u"
  unfolding keeps_ride_def by blast

lemma keeps_ride_for:
  assumes "\<And>p. ride_reader (pt_reader p) \<Longrightarrow> ride_reader (pt_reader (f p))" "sv_readers t = sv_readers s"
  shows "keeps_ride s (forReaders f t)"
  unfolding keeps_ride_def
proof (intro allI impI)
  fix n p assume "reader_at n s = Some p \<and> ride_reader (pt_reader p)"
  with assms show "\<exists>p'. reader_at n (forReaders f t) = Some p' \<and> ride_reader (pt_reader p')"
    by (auto simp: reader_at_def forReaders_def split: if_split_asm)
qed

lemma readers_frame [simp]:
  "sv_readers (upd_config f s) = sv_readers s" "sv_readers (upd_admission g s) = sv_readers s"
  "sv_readers (set_role rl s) = sv_readers s" "sv_readers (setDriveStartStatus st now s) = sv_readers s"
  by (simp_all add: upd_config_def upd_admission_def set_role_def setDriveStartStatus_def split: option.split)

lemma refresh_ride: "sv_readers t = sv_readers s \<Longrightarrow> keeps_ride s (refreshKeepActiveReaders t)"
  unfolding refreshKeepActiveReaders_def by (rule keeps_ride_for) auto

lemma recompute_ride: "sv_readers t = sv_readers s \<Longrightarrow> keeps_ride s (recomputeAuxLowKeepActive rg b t)"
  by (auto simp: recomputeAuxLowKeepActive_def Let_def split: redis_reply.split option.split
      intro!: keeps_ride_readers refresh_ride)

lemma dual_ride: "keeps_ride s (handleDualBatterySettingChange rg s)"
proof -
  have e: "pt_reader (enableForRole rg cfg rl p) = pt_reader p" for cfg rl p
    by (simp add: enableForRole_def SetEnabled_def split: redis_reply.split)
  have "keeps_ride s (set_reader 1 q t)"
    if "reader_at 1 s = Some p" "sv_readers t = sv_readers s" "ride_reader (pt_reader p) \<Longrightarrow> ride_reader (pt_reader q)" for p q t
    using that by (auto simp: keeps_ride_def reader_at_def set_reader_def nth_list_update split: if_split_asm)
  then show ?thesis
    unfolding handleDualBatterySettingChange_def Let_def
    by (auto simp: e keeps_ride_readers split: redis_reply.split option.split)
qed

lemma message_rides:
  "keeps_ride s (handleVehicleStateMessage rg now s)" "keeps_ride s (handleSeatboxUpdate rg s)"
  "keeps_ride s (handleDriveStartStatusMessage rg now s)" "keeps_ride s (reloadKeepActive rg s)"
  "keeps_ride s (reloadMaxVoltageDelta rg s)" "keeps_ride s (reloadAuxEnter rg s)" "keeps_ride s (reloadAuxExit rg s)"
  "keeps_ride s (recomputeAuxLowKeepActive rg b s)" "keeps_ride s s"
  by (auto simp: handleVehicleStateMessage_def handleSeatboxUpdate_def handleDriveStartStatusMessage_def
      reloadKeepActive_def reloadMaxVoltageDelta_def reloadAuxEnter_def reloadAuxExit_def Let_def
      SendVehicleStateChange_def SendSeatboxLockChange_def split: redis_reply.split prod.split
      intro!: keeps_ride_for refresh_ride recompute_ride) (simp_all add: keeps_ride_readers)

lemma handleMessage_rides: "keeps_ride s (handleMessage rg now ch pl s)"
  unfolding handleMessage_def
  by (simp only: message_rides dual_ride simp_thms if_split [of "keeps_ride s"])

lemma poll_ride: "sv_readers t = sv_readers s \<Longrightarrow> keeps_ride s (pollAdmission dm now t)"
  by (auto simp: pollAdmission_def promptAdmissionReaders_def Let_def split: prod.split
      intro!: keeps_ride_for) (simp_all add: keeps_ride_readers)

lemma service_rides: "keeps_ride s (service_exec c s)"
proof (cases c)
  case (SvPoll pc now)
  then show ?thesis by (cases pc) (simp_all add: Let_def poll_ride keeps_ride_readers)
next
  case (SvEnable n b)
  then show ?thesis
    by (auto simp: SetBatteryEnabled_def SetEnabled_def keeps_ride_def split: option.split)
qed (simp_all add: handleMessage_rides serviceAdmissionReady_def stopService_def keeps_ride_readers)

lemma timeout_not_opened: "state_timeout s \<noteq> Some (d, EvSeatboxOpened)"
  by (cases s) auto

section \<open>Properties of the system\<close>

lemma riding_step:
  assumes fsm: "\<And>i. librefsm (readerActions js (H i)) (D i)" and r: "riding i y" and c: "c \<noteq> SysLoop i LoopVehicle"
  shows "riding i (sys_exec js H D c y)"
proof (cases c)
  case (SysMessage op)
  have "riding i (y\<lparr>sy_service := service_exec op (sy_service y)\<rparr>)"
    using r service_rides [of "sy_service y" op] by (auto simp: riding_def port_def keeps_ride_def)
  with SysMessage show ?thesis by (simp add: riding_collect)
next
  case (SysEvent j now)
  show ?thesis
  proof (cases "sy_queue y j")
    case (Cons ev q)
    with r have r': "riding i (y\<lparr>sy_queue := (sy_queue y)(j := q)\<rparr>)" and "i = j \<longrightarrow> ev \<noteq> EvSeatboxOpened"
      by (auto simp: riding_def)
    with SysEvent Cons show ?thesis
      by (simp del: fsm_step.simps) (rule riding_machine [OF fsm r'], blast)
  qed (use SysEvent r in simp)
next
  case (SysPresencePoll j b now)
  then show ?thesis by (simp del: fsm_step.simps) (rule riding_machine [OF fsm r], blast)
next
  case (SysArrivalPoll j u v now)
  then show ?thesis by (simp del: fsm_step.simps) (rule riding_machine [OF fsm r], blast)
next
  case (SysLoop j lc)
  with c show ?thesis by (auto intro!: riding_on_port [OF r] ride_loop)
next
  case (SysReaderTimer j tm now)
  then show ?thesis by (auto intro!: riding_on_port [OF r] simp: ride_policy [OF policy_timer])
next
  case (SysTimeout j ev)
  have "ev \<noteq> EvSeatboxOpened" if "timer_event (sy_state y j) (sy_ctx y j) ev" "i = j"
    using that r by (auto simp: timer_event_def riding_def ride_machine_def timeout_not_opened)
  with SysTimeout r show ?thesis by (auto simp: riding_def)
next
  case (SysDrop j)
  with r show ?thesis by (auto simp: riding_def dest: in_set_butlastD)
qed (use r in \<open>auto simp: riding_def port_def upd_admission_def reader_at_def split: if_split_asm\<close>)

text \<open>The system on the reference engine is a client of the guard.\<close>

interpretation sys: guard_client js "\<lambda>y. sv_admission (sy_service y)" "sys_exec js H (\<lambda>i. ref_dispatch (readerActions js (H i)))"
  for js :: "string \<Rightarrow> motionEvidence option" and H :: "slot \<Rightarrow> 'h hal_ops"
  by (rule system_client) (rule ref.librefsm_axioms)

text \<open>
  C16: What the guard guarantees holds of the whole service: in every interleaving of messages, events of
  both machines, their polling goroutines, event loops and timers, the guard invariant is kept, and a
  pack recorded as supplying stays recorded until a guard operation of the run confirms it off. The run
  reaches the guard by a sequence of the guard's own operations only.
\<close>

theorem system_keeps_supply:
  assumes "\<And>i. librefsm (readerActions js (H i)) (D i)"
    and "adm_inv (sv_admission (sy_service y))" and "held (slots (sv_admission (sy_service y)) j)"
    and "fold (sys_exec js H D) ops y = y'"
  shows "adm_inv (sv_admission (sy_service y')) \<and>
         (\<exists>cs. sv_admission (sy_service y') = fold (adm_exec js) cs (sv_admission (sy_service y)) \<and>
            (held (slots (sv_admission (sy_service y')) j) \<or>
             (\<exists>us x vs. cs = us @ x # vs \<and> confirms_off j x (fold (adm_exec js) us (sv_admission (sy_service y))))))"
proof -
  have client: "guard_client js (\<lambda>y. sv_admission (sy_service y)) (sys_exec js H D)"
    by (rule system_client) (rule assms(1))
  from guard_client.client_inv [OF client, of y ops]
    guard_client.client_kept [OF client, where Q = "\<lambda>t. held (slots t j)" and w = y and cs = ops, OF held_step]
    assms(2-4) show ?thesis by simp
qed


end
