(* ===== verification/Reader_Witnesses.thy ===== *)
theory Reader_Witnesses
  imports Admission_Witnesses Reader_Safety Handler_Safety Service_Safety System_Safety
begin

text \<open>
  Concrete readers, controllers and machines, and the properties of faults, status frames, controller
  operations, handlers, service and state machine evaluated on them.
\<close>

section \<open>A reader and its controller\<close>

definition demo_reader :: BatteryReader where
  "demo_reader = NewBatteryReader BatteryRoleActive (sec 90) (\<lambda>n. True)"

lemma demo_reader_fields [simp]:
  "rd_role demo_reader = BatteryRoleActive" "rd_enabled demo_reader" "\<not> rd_tagsDiscovered demo_reader"
  "rd_data demo_reader = zeroBMSData" "rd_redis demo_reader = []" "rd_txns demo_reader = 0" "rd_txn demo_reader n"
  "\<not> rd_seatboxLockClosed demo_reader" "rd_powerSample demo_reader = zeroBMSData"
  by (simp_all add: demo_reader_def NewBatteryReader_def initializeFaultManagement_def)

lemma demo_fault_initial: "fault_initial demo_reader"
  by (auto simp: fault_initial_def demo_reader_def NewBatteryReader_def)

lemmas demo_fault_inv = fault_initial_inv [OF demo_fault_initial]

lemma demo_fault_state [simp]: "fault_state f demo_reader = zeroFaultState"
  by (rule fault_initial_state [OF demo_fault_initial])

text \<open>A controller that answers every call, except that its discovery fails when \<open>ok\<close> is false.\<close>

definition demo_hal :: "bool \<Rightarrow> unit hal_ops" where
  "demo_hal ok =
     \<lparr>hal_StartDiscovery = (\<lambda>n h. (if ok then None else Some plainError, h)), hal_StopDiscovery = (\<lambda>h. (None, h)),
      hal_FullReinitialize = (\<lambda>h. (None, h)),
      hal_PollDiscovery = (\<lambda>h. (Inr \<lparr>disc_Kind = DiscoveryTags, disc_Tags = [''LS0001'']\<rparr>, h)),
      hal_ReadBinary = (\<lambda>ad h. (Inr (replicate 16 7), h)), hal_WriteBinary = (\<lambda>ad bs h. (None, h)),
      hal_SelectTag = (\<lambda>n h. (None, h)), hal_Initialize = (\<lambda>h. (None, h)), hal_Deinitialize = (\<lambda>h. ((), h)),
      hal_Inhibit = (\<lambda>h. (True, h)), hal_Now = (\<lambda>h. (sec 101, h)), hal_Meanwhile = (\<lambda>h. ([], h))\<rparr>"

definition demo_config :: ServiceConfig where
  "demo_config =
     \<lparr>RedisServerAddress = ''127.0.0.1'', RedisServerPort = 6379, HeartbeatTimeout = 40 * Second, OffUpdateTime = 1800 * Second, KeepActiveOnSeatboxOpen = True,
      MaxVoltageDelta = 2000, AuxLowKeepActiveEnterMv = 11800, AuxLowKeepActiveExitMv = 12200,
      AuxLowKeepActive = False, AuxLowKeepActiveEvaluated = False\<rparr>"

definition demo_world :: "BatteryReader \<Rightarrow> unit world" where
  "demo_world r =
     \<lparr>w_reader = r, w_slot = Some Slot0, w_adm = demo_pair 40000 True 40000 False, w_config = demo_config,
      w_inhibitor = False, w_demand = False, w_ready = False, w_hal = (), w_trace = []\<rparr>"

lemma demo_world_fields [simp]:
  "w_reader (demo_world r) = r" "w_slot (demo_world r) = Some Slot0"
  "w_adm (demo_world r) = demo_pair 40000 True 40000 False" "w_config (demo_world r) = demo_config"
  "w_trace (demo_world r) = []" "\<not> w_inhibitor (demo_world r)"
  by (simp_all add: demo_world_def)

section \<open>Faults\<close>

theorem fault_debounce_invariant_witness:
  "fault_initial demo_reader \<and>
   fault_inv (fold fault_exec [FaultSet BMSFaultNFCReaderError True (sec 100), FaultPublish (sec 101),
                               FaultSetTimer BMSFaultNFCReaderError (sec 131)] demo_reader)"
  using fault_debounce_invariant [OF demo_fault_initial] demo_fault_initial by blast

text \<open>A pack that does not follow commands, waiting for the five seconds of that fault.\<close>

definition demo_pending :: BatteryReader where
  "demo_pending = setFault (sec 100) BMSFaultBMSNotFollowingCmd True demo_reader"

section \<open>Status frames\<close>

definition demo_image :: pack_image where
  "demo_image =
     \<lparr>im_voltage = 54321, im_current = 65000, im_fw = (1, 12), im_remaining = 7500, im_full = 10000, im_faults = 0,
      im_temps = (21, 22, 254, 23), im_soh = 98, im_lowsoc = False, im_state = BMSStateActive,
      im_serial = replicate 16 65, im_date = [50, 48, 50, 52, 48, 49, 48, 49], im_cycles = 300\<rparr>"

theorem status_roundtrip_witness:
  "Current (parseStatus2 (encode2 demo_image) (parseStatus1 (encode1 demo_image) (parseStatus0 (encode0 demo_image) zeroBMSData))) = - 536 \<and>
   Voltage (parseStatus2 (encode2 demo_image) (parseStatus1 (encode1 demo_image) (parseStatus0 (encode0 demo_image) zeroBMSData))) = 54321"
  using status_roundtrip [of demo_image zeroBMSData] by (simp add: demo_image_def zeroBMSData_def)

definition demo_warm :: BatteryReader where
  "demo_warm = demo_reader\<lparr>rd_data := zeroBMSData\<lparr>Temperature := [25, 26, 24, 24]\<rparr>,
     rd_lastGoodSensors01 := \<lparr>s01_valid = True, s01_temperature = (25, 26), s01_voltage = 40000, s01_current = 0\<rparr>\<rparr>"

theorem sensors01_artifacts_filtered_witness:
  "guarded demo_warm \<and>
   calm (temps01 (rd_data (foldl guard_frame demo_warm
     [(sec 100, zeroBMSData\<lparr>Temperature := [sensors01ExtremeHot, sensors01ExtremeHot, 24, 24]\<rparr>)])))"
proof -
  let ?xs = "[(sec 100, zeroBMSData\<lparr>Temperature := [sensors01ExtremeHot, sensors01ExtremeHot, 24, 24]\<rparr>)]"
  have g: "guarded demo_warm" by (simp add: guarded_def demo_warm_def calm_def temps01_def const_defs)
  have "\<forall>x \<in> set ?xs. (calm (temps01 (snd x)) \<or> pegged (temps01 (snd x))) \<and> length (Temperature (snd x)) = 4"
    by (simp add: pegged_def temps01_def)
  from sensors01_artifacts_filtered [OF g this] g show ?thesis by blast
qed

section \<open>Controller\<close>

lemma fst_writeCommand:
  "rd_tagsDiscovered (w_reader w) \<Longrightarrow>
   fst (writeCommand js H cmd co w) = fst (writeLoop js H cmd co maxRetries None (snd (takeInhibitor H w)))"
  by (simp add: writeCommand_def case_prod_beta)

theorem writes_are_gated_witness:
  "fst (writeCommand (\<lambda>s. None) (demo_hal True) BMSCmdSeatboxClosed False (demo_world (demo_reader\<lparr>rd_tagsDiscovered := True\<rparr>))) = Written \<and>
   (\<exists>ts. w_trace (snd (writeCommand (\<lambda>s. None) (demo_hal True) BMSCmdSeatboxClosed False
                         (demo_world (demo_reader\<lparr>rd_tagsDiscovered := True\<rparr>)))) = ts \<and>
      gated_trace (Some Slot0) 2000 False BMSCmdSeatboxClosed ts \<and> length ts \<le> 10 \<and> ends_as Written ts)"
proof -
  let ?w = "demo_world (demo_reader\<lparr>rd_tagsDiscovered := True\<rparr>)"
  let ?c = "writeCommand (\<lambda>s. None) (demo_hal True) BMSCmdSeatboxClosed False ?w"
  have on: "BMSCmdSeatboxClosed \<noteq> BMSCmdOn" "BMSCmdSeatboxClosed \<noteq> BMSCmdOff" by (simp_all add: BMSCmdSeatboxClosed_def BMSCmdOn_def BMSCmdOff_def)
  have "fst (writeLoop (\<lambda>s. None) (demo_hal True) BMSCmdSeatboxClosed False (Suc n) None w) = Written" for n w
    by (simp add: demo_hal_def nowOf_def gate_def admitCommandPolicy_def callout_def case_prod_beta on split: option.split)
  moreover obtain n where "maxRetries = Suc n" by (auto simp: maxRetries_def eval_nat_numeral)
  ultimately have "fst (writeLoop (\<lambda>s. None) (demo_hal True) BMSCmdSeatboxClosed False maxRetries None w) = Written" for w
    by metis
  then have "fst ?c = Written" by (simp add: fst_writeCommand)
  with writes_are_gated [of "\<lambda>s. None" "demo_hal True" BMSCmdSeatboxClosed False ?w Written "snd ?c"] show ?thesis
    by (auto simp: prod_eq_iff demo_config_def)
qed

theorem verified_read_agrees_witness:
  "\<exists>w'. readWithVerification (\<lambda>s. None) (demo_hal True) 768 (demo_world demo_reader) = (Inr (replicate 16 7), w') \<and>
        read_twice (\<lambda>s. None) (demo_hal True) 768 (replicate 16 7) (demo_world demo_reader) w'"
proof -
  have "readLoop (\<lambda>s. None) (demo_hal True) 768 (Suc (Suc n)) None None w = (Inr (replicate 16 7), w)" for n w
    by (simp add: callout_def demo_hal_def)
  then have "\<exists>w'. readWithVerification (\<lambda>s. None) (demo_hal True) 768 (demo_world demo_reader) = (Inr (replicate 16 7), w')"
    by (simp add: readWithVerification_def maxRetries_def numeral_eq_Suc)
  with verified_read_agrees show ?thesis by blast
qed

theorem failed_read_withdraws_evidence_witness:
  "fst (readStatusLocked (\<lambda>s. None) (demo_hal False) (demo_world demo_reader)) = (False, False) \<and>
   \<not> valid (slots (w_adm (snd (readStatusLocked (\<lambda>s. None) (demo_hal False) (demo_world demo_reader)))) Slot0)"
proof -
  let ?c = "readStatusLocked (\<lambda>s. None) (demo_hal False) (demo_world demo_reader)"
  have c: "containsStr (err_text plainError) ''status: 06'' = False"
    by (simp add: plainError_def hasPrefix_def)
  have "fst ?c = (False, False)"
    by (simp add: readStatusLocked_def nowOf_def demo_hal_def callout_def discoverBatteryTag_def startDiscovery_def
        Let_def upd_reader_def demo_world_def case_prod_beta c)
  with failed_read_withdraws_evidence [of "\<lambda>s. None" "demo_hal False" "demo_world demo_reader" False "snd ?c" Slot0]
  show ?thesis by (simp add: prod_eq_iff)
qed

section \<open>Publication and observation\<close>


text \<open>The running pack of slot 0 read as idle, without a peer to give way to.\<close>

definition demo_dropped :: "unit world" where
  "demo_dropped = (demo_world (demo_reader\<lparr>rd_data := demo_frame 40000 BMSStateIdle,
     rd_powerSample := demo_frame 40000 BMSStateActive\<rparr>))\<lparr>w_slot := None\<rparr>"



section \<open>Handlers and service\<close>



definition demo_service :: Service where
  "demo_service =
     \<lparr>sv_config = demo_config\<lparr>KeepActiveOnSeatboxOpen := False\<rparr>, sv_batteryConfig = [], sv_vehicleState = VehicleStateParked,
      sv_readers = [], sv_admission = demo_pair 40000 True 40000 False, sv_admissionRequests = False,
      sv_admissionReady = False, sv_driveStartDeadline = None\<rparr>"

theorem aux_override_hysteresis_witness:
  "EffectiveKeepActiveOnSeatboxOpen (sv_config (foldl apply_aux demo_service [12500, 11700, 12000])) \<and>
   \<not> EffectiveKeepActiveOnSeatboxOpen (sv_config (foldl apply_aux demo_service [11700, 12300, 12000]))"
  using aux_override_hysteresis [of demo_service "[12500, 11700, 12000]"]
    aux_override_hysteresis [of demo_service "[11700, 12300, 12000]"]
  by (simp add: demo_service_def demo_config_def aux_spec_def)

section \<open>State machine\<close>

definition demo_fsm :: "nat \<Rightarrow> unit world fsm" where
  "demo_fsm n =
     \<lparr>fx_data = \<lparr>justInserted = False, justOpened = False, latchedSeatboxClosed = False, tagAbsentPolling = False,
        checkPresencePolling = False, consecutiveReadFailures = n, tagPresent = True, admissionPollPending = False\<rparr>,
      fx_world = demo_world demo_reader, fx_sent = [], fx_timers = []\<rparr>"

abbreviation demo_actions :: "unit world BatteryActions" where
  "demo_actions \<equiv> readerActions (\<lambda>s. None) (demo_hal True)"

lemmas demo_engine = ref.librefsm_axioms [of demo_actions]

lemma enter_heartbeat: "snd (enter_calls A StateHeartbeat c) = StateSendClosed"
  by (simp add: enter_calls.simps [of A StateHeartbeat] enter_calls.simps [of A StateHeartbeatActions]
      enter_calls.simps [of A StateSendClosed] split: prod.split)

lemma enter_opened: "snd (enter_calls A StateSendOpened c) = StateSendOpened"
  by (simp add: enter_calls.simps [of A StateSendOpened])

lemma demo_keep_active: "act_ShouldKeepActiveOnSeatboxOpen demo_actions (fx_world (demo_fsm n))"
  by (simp add: readerActions_def ShouldKeepActiveOnSeatboxOpen_def demo_fsm_def demo_config_def
      EffectiveKeepActiveOnSeatboxOpen_def)

lemma fst_ref_dispatch:
  "pick A (candidates s ev) c = (gs, Some t) \<Longrightarrow>
   fst (ref_dispatch A s ev c) = snd (enter_calls A (tr_to t) (run_calls A (gs @ leave_and_act s t) c))"
  by (simp add: ref_dispatch_def Let_def)

theorem heartbeat_needs_permission_witness:
  "in_state StateHeartbeat (fst (ref_dispatch demo_actions StateSendInsertedOpen EvInsertedOpenTimeout (demo_fsm 0))) \<and>
   (\<exists>pre post. snd (ref_dispatch demo_actions StateSendInsertedOpen EvInsertedOpenTimeout (demo_fsm 0)) =
        run_calls demo_actions (pre @ post) (demo_fsm 0) \<and>
      (act_GetSeatboxLockClosed demo_actions (fx_world (run_calls demo_actions pre (demo_fsm 0))) \<or>
       act_ShouldKeepActiveOnSeatboxOpen demo_actions (fx_world (run_calls demo_actions pre (demo_fsm 0)))))"
proof -
  let ?d = "ref_dispatch demo_actions StateSendInsertedOpen EvInsertedOpenTimeout (demo_fsm 0)"
  let ?t = "Transition StateSendInsertedOpen EvInsertedOpenTimeout StateHeartbeat GKeepActive AInsertedDone"
  have "pick demo_actions (candidates StateSendInsertedOpen EvInsertedOpenTimeout) (demo_fsm 0) =
      ([CallGuard GKeepActive], Some ?t)"
    using demo_keep_active [of 0] by (simp add: candidates_def transitions_def)
  from fst_ref_dispatch [OF this] have f: "in_state StateHeartbeat (fst ?d)"
    by (simp add: enter_heartbeat in_state_def)
  have "\<not> in_state StateHeartbeat StateSendInsertedOpen" by (simp add: in_state_def)
  from heartbeat_needs_permission [OF demo_engine surjective_pairing this f] f show ?thesis by blast
qed



section \<open>System\<close>

text \<open>Two readers that know the vehicle is ready to drive, with the seatbox latched closed.\<close>

definition demo_port :: reader_port where
  "demo_port =
     \<lparr>pt_reader = demo_reader\<lparr>rd_vehicleState := VehicleStateReadyToDrive, rd_initVehicleState := True,
        rd_seatboxLockClosed := True, rd_latchedSeatboxLockClosed := True\<rparr>,
      pt_vehicleStateChan = None, pt_seatboxLockChan = Some False, pt_enabledChan = None, pt_keepActiveChan = False\<rparr>"

definition demo_system :: "unit system" where
  "demo_system =
     \<lparr>sy_service = demo_service\<lparr>sv_readers := [Some demo_port, Some demo_port]\<rparr>, sy_state = (\<lambda>i. StateSendOnOff),
      sy_ctx = (\<lambda>i. demo_fsm 0), sy_queue = (\<lambda>i. [EvOnOffTimeout])\<rparr>"

definition demo_run :: "sys_op list" where
  "demo_run =
     [SysLoop Slot0 LoopSeatbox, SysEvent Slot0 (sec 102), SysPresencePoll Slot1 0 (sec 103), SysEvent Slot1 (sec 104),
      SysMessage (SvMessage (\<lambda>h f. RedisNil) (sec 105) ''vehicle'' ''state''), SysReaderTimer Slot1 HeartbeatTimer (sec 106)]"

abbreviation demo_exec :: "sys_op \<Rightarrow> unit system \<Rightarrow> unit system" where
  "demo_exec \<equiv> sys_exec (\<lambda>s. None) (\<lambda>i. demo_hal True) (\<lambda>i. ref_dispatch demo_actions)"

theorem system_keeps_supply_witness:
  "held (slots (sv_admission (sy_service demo_system)) Slot0) \<and>
   adm_inv (sv_admission (sy_service (fold demo_exec demo_run demo_system)))"
proof -
  have i: "adm_inv (sv_admission (sy_service demo_system))" "held (slots (sv_admission (sy_service demo_system)) Slot0)"
    by (simp_all add: demo_system_def demo_service_def demo_pair_inv)
  from system_keeps_supply [where H = "\<lambda>i. demo_hal True" and D = "\<lambda>i. ref_dispatch demo_actions",
      OF demo_engine i refl] i show ?thesis by blast
qed


end
