(* ===== verification/Logging.thy ===== *)
theory Logging
  imports Go_Text "HOL-Library.Sublist"
begin

text \<open>
  The log handlers of \<open>fsm_logger.go\<close>, the controller's log callback of \<open>reader.go\<close>, and what a
  \<open>slog.Logger\<close> does with them: a record goes to the handler when its level is enabled. Attributes are
  keys with the text of their values. A writer is what writing bytes does to it and whether that fails.
\<close>

section \<open>Levels\<close>

type_synonym LogLevel = int

definition LogLevelNone :: LogLevel where "LogLevelNone = 0"
definition LogLevelError :: LogLevel where "LogLevelError = 1"
definition LogLevelWarning :: LogLevel where "LogLevelWarning = 2"
definition LogLevelInfo :: LogLevel where "LogLevelInfo = 3"
definition LogLevelDebug :: LogLevel where "LogLevelDebug = 4"

lemmas log_levels = LogLevelNone_def LogLevelError_def LogLevelWarning_def LogLevelInfo_def LogLevelDebug_def

text \<open>The levels of the standard library.\<close>

definition slogLevelDebug :: int where "slogLevelDebug = - 4"
definition slogLevelInfo :: int where "slogLevelInfo = 0"
definition slogLevelWarn :: int where "slogLevelWarn = 4"
definition slogLevelError :: int where "slogLevelError = 8"

lemmas slog_levels = slogLevelDebug_def slogLevelInfo_def slogLevelWarn_def slogLevelError_def

section \<open>Records and handlers\<close>

record slogAttr =
  attr_Key :: string
  attr_Value :: string

record slogRecord =
  rec_Level :: int
  rec_Message :: string
  rec_Attrs :: "slogAttr list"

type_synonym 'w writer = "string \<Rightarrow> 'w \<Rightarrow> bool \<times> 'w"

record FSMHandler =
  fh_level :: LogLevel
  fh_attrs :: "slogAttr list"
  fh_groups :: "string list"
  fh_batteryID :: int

record ServiceHandler =
  sh_level :: LogLevel
  sh_attrs :: "slogAttr list"
  sh_groups :: "string list"

definition NewFSMHandler :: "LogLevel \<Rightarrow> int \<Rightarrow> FSMHandler" where
  "NewFSMHandler lvl battery = \<lparr>fh_level = lvl, fh_attrs = [], fh_groups = [], fh_batteryID = battery\<rparr>"

definition NewServiceHandler :: "LogLevel \<Rightarrow> ServiceHandler" where
  "NewServiceHandler lvl = \<lparr>sh_level = lvl, sh_attrs = [], sh_groups = []\<rparr>"

definition FSMHandler_Enabled :: "FSMHandler \<Rightarrow> int \<Rightarrow> bool" where
  "FSMHandler_Enabled h lvl =
     (if lvl = slogLevelDebug then fh_level h \<ge> LogLevelDebug
      else if lvl = slogLevelInfo then fh_level h \<ge> LogLevelInfo
      else if lvl = slogLevelWarn then fh_level h \<ge> LogLevelWarning
      else if lvl = slogLevelError then fh_level h \<ge> LogLevelError
      else False)"

definition ServiceHandler_Enabled :: "ServiceHandler \<Rightarrow> int \<Rightarrow> bool" where
  "ServiceHandler_Enabled h lvl =
     (if lvl = slogLevelDebug then sh_level h \<ge> LogLevelDebug
      else if lvl = slogLevelInfo then sh_level h \<ge> LogLevelInfo
      else if lvl = slogLevelWarn then sh_level h \<ge> LogLevelWarning
      else if lvl = slogLevelError then sh_level h \<ge> LogLevelError
      else False)"

definition levelPrefix :: "int \<Rightarrow> string" where
  "levelPrefix lvl =
     (if lvl = slogLevelDebug then ''DEBUG''
      else if lvl = slogLevelInfo then []
      else if lvl = slogLevelWarn then ''WARN''
      else if lvl = slogLevelError then ''ERROR''
      else [])"

text \<open>The callback of \<open>r.Attrs\<close>, with the buffer and the flag \<open>first\<close> it captures.\<close>

definition appendAttr :: "slogAttr \<Rightarrow> string \<times> bool \<Rightarrow> string \<times> bool" where
  "appendAttr a st =
     (case st of (buf, first) \<Rightarrow>
        if attr_Key a = ''battery'' then (buf, first)
        else ((if first then buf else buf @ '','') @ '' '' @ attr_Key a @ ''='' @ attr_Value a, False))"

definition FSMHandler_line :: "FSMHandler \<Rightarrow> slogRecord \<Rightarrow> string" where
  "FSMHandler_line h r =
     (let prefix = levelPrefix (rec_Level r);
          buf = ''Battery '' @ fmt_int (fh_batteryID h) @ '': '';
          buf = (if prefix \<noteq> [] then buf @ prefix @ '': '' else buf);
          buf = buf @ rec_Message r;
          buf = (if length (rec_Attrs r) > 0
                 then let buf = (if buf \<noteq> [] \<and> last buf \<noteq> CHR '':'' then buf @ '':'' else buf)
                      in fst (fold appendAttr (rec_Attrs r) (buf, True))
                 else buf)
      in buf @ [CHR 0x0A])"

definition FSMHandler_Handle :: "'w writer \<Rightarrow> FSMHandler \<Rightarrow> slogRecord \<Rightarrow> 'w \<Rightarrow> bool \<times> 'w" where
  "FSMHandler_Handle write h r w = write (FSMHandler_line h r) w"

definition FSMHandler_WithAttrs :: "slogAttr list \<Rightarrow> FSMHandler \<Rightarrow> FSMHandler" where
  "FSMHandler_WithAttrs as h =
     \<lparr>fh_level = fh_level h, fh_attrs = fh_attrs h @ as, fh_groups = fh_groups h, fh_batteryID = fh_batteryID h\<rparr>"

definition FSMHandler_WithGroup :: "string \<Rightarrow> FSMHandler \<Rightarrow> FSMHandler" where
  "FSMHandler_WithGroup name h =
     \<lparr>fh_level = fh_level h, fh_attrs = fh_attrs h, fh_groups = fh_groups h @ [name], fh_batteryID = fh_batteryID h\<rparr>"

definition ServiceHandler_line :: "slogRecord \<Rightarrow> string" where
  "ServiceHandler_line r =
     (let prefix = levelPrefix (rec_Level r);
          buf = (if prefix \<noteq> [] then prefix @ '': '' else []);
          buf = buf @ rec_Message r
      in buf @ [CHR 0x0A])"

definition ServiceHandler_Handle :: "'w writer \<Rightarrow> ServiceHandler \<Rightarrow> slogRecord \<Rightarrow> 'w \<Rightarrow> bool \<times> 'w" where
  "ServiceHandler_Handle write h r w = write (ServiceHandler_line r) w"

definition ServiceHandler_WithAttrs :: "slogAttr list \<Rightarrow> ServiceHandler \<Rightarrow> ServiceHandler" where
  "ServiceHandler_WithAttrs as h = \<lparr>sh_level = sh_level h, sh_attrs = sh_attrs h @ as, sh_groups = sh_groups h\<rparr>"

definition ServiceHandler_WithGroup :: "string \<Rightarrow> ServiceHandler \<Rightarrow> ServiceHandler" where
  "ServiceHandler_WithGroup name h =
     \<lparr>sh_level = sh_level h, sh_attrs = sh_attrs h, sh_groups = sh_groups h @ [name]\<rparr>"

section \<open>The controller's log callback\<close>

text \<open>The levels of the controller library are its own constants.\<close>

record hal_log_levels =
  halLogLevelError :: int
  halLogLevelWarning :: int
  halLogLevelInfo :: int
  halLogLevelDebug :: int

definition makeLogCallback :: "hal_log_levels \<Rightarrow> int \<Rightarrow> LogLevel \<Rightarrow> int \<Rightarrow> string \<Rightarrow> string list" where
  "makeLogCallback L index logLevel lvl message =
     (if lvl > logLevel then []
      else let levelPrefix =
                 (if lvl = halLogLevelError L then ''ERROR: ''
                  else if lvl = halLogLevelWarning L then ''WARN: ''
                  else if lvl = halLogLevelInfo L then []
                  else if lvl = halLogLevelDebug L then ''DEBUG: ''
                  else [])
           in [''Battery '' @ fmt_int index @ '': NFC: '' @ levelPrefix @ message])"

section \<open>A logger\<close>

text \<open>The lines a list of log calls leaves, on a writer that keeps every line.\<close>

definition log_calls ::
  "('h \<Rightarrow> int \<Rightarrow> bool) \<Rightarrow> (string list writer \<Rightarrow> 'h \<Rightarrow> slogRecord \<Rightarrow> string list \<Rightarrow> bool \<times> string list) \<Rightarrow>
   'h \<Rightarrow> slogRecord list \<Rightarrow> string list" where
  "log_calls enabled handle h rs =
     fold (\<lambda>r w. if enabled h (rec_Level r) then snd (handle (\<lambda>s w. (False, w @ [s])) h r w) else w) rs []"

text \<open>
  What a logger relies on of a handler: raising the threshold enables more, and handling a record
  writes its line.
\<close>

locale slog_handler =
  fixes enabled :: "'h \<Rightarrow> int \<Rightarrow> bool"
    and handle :: "string list writer \<Rightarrow> 'h \<Rightarrow> slogRecord \<Rightarrow> string list \<Rightarrow> bool \<times> string list"
    and line :: "'h \<Rightarrow> slogRecord \<Rightarrow> string"
    and threshold :: "'h \<Rightarrow> LogLevel"
  assumes handle_line: "handle write h r w = write (line h r) w"
    and enabled_mono: "threshold h \<le> threshold h' \<Longrightarrow> enabled h lvl \<Longrightarrow> enabled h' lvl"
begin

lemma log_calls_filter: "log_calls enabled handle h rs = map (line h) (filter (\<lambda>r. enabled h (rec_Level r)) rs)"
proof -
  have "fold (\<lambda>r w. if enabled h (rec_Level r) then snd (handle (\<lambda>s w. (False, w @ [s])) h r w) else w) rs acc =
      acc @ map (line h) (filter (\<lambda>r. enabled h (rec_Level r)) rs)" for acc
    by (induction rs arbitrary: acc) (auto simp: handle_line)
  then show ?thesis by (simp add: log_calls_def)
qed

lemma more_verbose:
  assumes "threshold h \<le> threshold h'" "line h = line h'"
  shows "subseq (log_calls enabled handle h rs) (log_calls enabled handle h' rs)"
proof -
  have "filter (\<lambda>r. enabled h (rec_Level r)) rs =
      filter (\<lambda>r. enabled h (rec_Level r)) (filter (\<lambda>r. enabled h' (rec_Level r)) rs)"
    using enabled_mono [OF assms(1)] by (auto simp: filter_filter intro!: filter_cong)
  then have "subseq (filter (\<lambda>r. enabled h (rec_Level r)) rs) (filter (\<lambda>r. enabled h' (rec_Level r)) rs)"
    by (metis subseq_filter_left)
  with assms(2) show ?thesis unfolding log_calls_filter by (simp add: subseq_map)
qed

end

lemmas handler_defs = FSMHandler_Enabled_def ServiceHandler_Enabled_def log_levels slog_levels

interpretation fsm_log: slog_handler FSMHandler_Enabled FSMHandler_Handle FSMHandler_line fh_level
  by unfold_locales (auto simp: FSMHandler_Handle_def handler_defs split: if_split_asm)

interpretation service_log: slog_handler ServiceHandler_Enabled ServiceHandler_Handle "\<lambda>h. ServiceHandler_line" sh_level
  by unfold_locales (auto simp: ServiceHandler_Handle_def handler_defs split: if_split_asm)

section \<open>The text of a line\<close>

fun join_comma :: "string list \<Rightarrow> string" where
  "join_comma [] = []"
| "join_comma [x] = x"
| "join_comma (x # y # zs) = x @ '','' @ join_comma (y # zs)"

text \<open>The attributes as they should read: all but the battery, separated by commas.\<close>

definition attrs_text :: "slogAttr list \<Rightarrow> string" where
  "attrs_text as =
     join_comma (map (\<lambda>a. '' '' @ attr_Key a @ ''='' @ attr_Value a) (filter (\<lambda>a. attr_Key a \<noteq> ''battery'') as))"

lemma join_comma_Cons: "join_comma (x # xs) = x @ (if xs = [] then [] else '','' @ join_comma xs)"
  by (cases xs) auto

lemma appendAttr_fold:
  "fst (fold appendAttr as (buf, False)) = buf @ (if filter (\<lambda>a. attr_Key a \<noteq> ''battery'') as = [] then [] else '','' @ attrs_text as)"
  "fst (fold appendAttr as (buf, True)) = buf @ attrs_text as"
proof (induction as arbitrary: buf)
  case (Cons a as)
  {
    case 1
    from Cons(1) show ?case by (simp add: appendAttr_def attrs_text_def join_comma_Cons)
  next
    case 2
    from Cons show ?case by (simp add: appendAttr_def attrs_text_def join_comma_Cons)
  }
qed (simp_all add: attrs_text_def)

definition line_head :: "FSMHandler \<Rightarrow> slogRecord \<Rightarrow> string" where
  "line_head h r =
     ''Battery '' @ fmt_int (fh_batteryID h) @ '': '' @
     (if levelPrefix (rec_Level r) = [] then [] else levelPrefix (rec_Level r) @ '': '') @ rec_Message r"

lemma FSMHandler_line_eq:
  "FSMHandler_line h r =
     line_head h r @
     (if rec_Attrs r = [] then []
      else (if last (line_head h r) = CHR '':'' then [] else '':'') @ attrs_text (rec_Attrs r)) @ [CHR 0x0A]"
  by (simp add: FSMHandler_line_def line_head_def Let_def appendAttr_fold)

section \<open>Properties\<close>

lemma fmt_int_no_colon: "CHR '':'' \<notin> set (fmt_int i)"
  by (simp add: fmt_int_def fmt_nat_chars)

text \<open>A reader's line says which battery it is about, whatever the message holds.\<close>

lemma line_names_battery:
  assumes "FSMHandler_line h r = FSMHandler_line h' r'"
  shows "fh_batteryID h = fh_batteryID h'"
proof -
  have "takeWhile (\<lambda>c. c \<noteq> CHR '':'') (FSMHandler_line k q) = ''Battery '' @ fmt_int (fh_batteryID k)" for k q
    unfolding FSMHandler_line_eq line_head_def using fmt_int_no_colon [of "fh_batteryID k"]
    by (auto simp: takeWhile_append takeWhile_eq_all_conv)
  from this [of h r] this [of h' r'] assms show ?thesis by (auto intro: fmt_int_inj)
qed

text \<open>The attributes of a service message are not written, nor are those a handler was given.\<close>

lemma service_line_drops_attrs: "ServiceHandler_line (r\<lparr>rec_Attrs := as\<rparr>) = ServiceHandler_line r"
  by (simp add: ServiceHandler_line_def)

lemma with_attrs_not_written:
  "FSMHandler_line (FSMHandler_WithAttrs as h) r = FSMHandler_line h r"
  "FSMHandler_line (FSMHandler_WithGroup g h) r = FSMHandler_line h r"
  by (simp_all add: FSMHandler_line_def FSMHandler_WithAttrs_def FSMHandler_WithGroup_def)

text \<open>
  Raising a log level only adds lines: what a reader or the service writes at one level it writes,
  in the same order and with the same text, at every higher level, and at level none nothing is
  written.
\<close>

lemma raising_level_adds_lines:
  assumes "l \<le> l'"
  shows "subseq (log_calls FSMHandler_Enabled FSMHandler_Handle (NewFSMHandler l b) rs)
                (log_calls FSMHandler_Enabled FSMHandler_Handle (NewFSMHandler l' b) rs) \<and>
         subseq (log_calls ServiceHandler_Enabled ServiceHandler_Handle (NewServiceHandler l) rs)
                (log_calls ServiceHandler_Enabled ServiceHandler_Handle (NewServiceHandler l') rs) \<and>
         log_calls FSMHandler_Enabled FSMHandler_Handle (NewFSMHandler LogLevelNone b) rs = [] \<and>
         log_calls ServiceHandler_Enabled ServiceHandler_Handle (NewServiceHandler LogLevelNone) rs = []"
proof -
  have "FSMHandler_line (NewFSMHandler l b) = FSMHandler_line (NewFSMHandler l' b)"
    by (simp add: FSMHandler_line_def NewFSMHandler_def fun_eq_iff)
  moreover have "\<not> FSMHandler_Enabled (NewFSMHandler LogLevelNone b) lvl" for lvl
    by (simp add: handler_defs NewFSMHandler_def)
  moreover have "\<not> ServiceHandler_Enabled (NewServiceHandler LogLevelNone) lvl" for lvl
    by (simp add: handler_defs NewServiceHandler_def)
  ultimately show ?thesis
    using assms fsm_log.more_verbose [of "NewFSMHandler l b" "NewFSMHandler l' b"]
      service_log.more_verbose [of "NewServiceHandler l" "NewServiceHandler l'"]
    by (simp add: NewFSMHandler_def NewServiceHandler_def fsm_log.log_calls_filter service_log.log_calls_filter)
qed

end
