(* ===== verification/Inhibitor.thy ===== *)
theory Inhibitor
  imports Nfc
begin

text \<open>
  The suspend inhibitor (\<open>inhibitor.go\<close>) and how a reader takes and releases it
  (\<open>battery_commands.go\<close>), down to the connections to the socket of the power manager. The network
  is a parameter: whether a call succeeds, how long it takes, and what it does to the environment.
  \<open>Nfc\<close> keeps of all this only whether the inhibitor is held; that it may do so is shown below.
\<close>

section \<open>Connections\<close>

record 'n net_ops =
  net_Dial :: "duration \<Rightarrow> 'n \<Rightarrow> (bool \<times> duration) \<times> 'n"
  net_SetReadDeadline :: "nat \<Rightarrow> 'n \<Rightarrow> bool \<times> 'n"
  net_Read :: "nat \<Rightarrow> int option \<Rightarrow> int \<Rightarrow> 'n \<Rightarrow> (bool \<times> duration) \<times> 'n"
  net_Close :: "nat \<Rightarrow> 'n \<Rightarrow> bool \<times> 'n"

text \<open>
  The network as the process sees it: the environment, the clock, the number of the next connection,
  and the connections opened and not yet closed. Closing gives the connection up even if it reports an
  error.
\<close>

record 'n netw =
  nw_env :: 'n
  nw_now :: int
  nw_next :: nat
  nw_open :: "nat list"

definition DialTimeout :: "'n net_ops \<Rightarrow> duration \<Rightarrow> 'n netw \<Rightarrow> nat option \<times> 'n netw" where
  "DialTimeout N timeout n =
     (case net_Dial N timeout (nw_env n) of ((ok, d), e) \<Rightarrow>
        let n1 = n\<lparr>nw_env := e, nw_now := nw_now n + d\<rparr>
        in if ok then (Some (nw_next n), n1\<lparr>nw_next := Suc (nw_next n), nw_open := nw_next n # nw_open n\<rparr>)
           else (None, n1))"

definition SetReadDeadline :: "'n net_ops \<Rightarrow> nat \<Rightarrow> 'n netw \<Rightarrow> bool \<times> 'n netw" where
  "SetReadDeadline N c n = (case net_SetReadDeadline N c (nw_env n) of (ok, e) \<Rightarrow> (ok, n\<lparr>nw_env := e\<rparr>))"

definition ReadAck :: "'n net_ops \<Rightarrow> nat \<Rightarrow> int option \<Rightarrow> 'n netw \<Rightarrow> bool \<times> 'n netw" where
  "ReadAck N c deadline n =
     (case net_Read N c deadline (nw_now n) (nw_env n) of ((ok, d), e) \<Rightarrow>
        (ok, n\<lparr>nw_env := e, nw_now := nw_now n + d\<rparr>))"

definition CloseConn :: "'n net_ops \<Rightarrow> nat \<Rightarrow> 'n netw \<Rightarrow> bool \<times> 'n netw" where
  "CloseConn N c n =
     (case net_Close N c (nw_env n) of (ok, e) \<Rightarrow> (ok, n\<lparr>nw_env := e, nw_open := remove1 c (nw_open n)\<rparr>))"

section \<open>The inhibitor\<close>

definition inhibitorDialTimeout :: duration where "inhibitorDialTimeout = 3 * Second"

record SuspendInhibitor =
  si_conn :: "nat option"
  si_name :: string

datatype inhibitor_error = ConnectFailed | SetDeadlineFailed | AckFailed | ClearDeadlineFailed

text \<open>The early returns close the connection; \<open>delay\<close> closes it as well.\<close>

definition NewSuspendInhibitor ::
  "'n net_ops \<Rightarrow> string \<Rightarrow> string \<Rightarrow> 'n netw \<Rightarrow> (inhibitor_error + SuspendInhibitor) \<times> 'n netw" where
  "NewSuspendInhibitor N name mode n =
     (case DialTimeout N inhibitorDialTimeout n of
        (None, n1) \<Rightarrow> (Inl ConnectFailed, n1)
      | (Some conn, n1) \<Rightarrow>
          (case SetReadDeadline N conn n1 of
             (False, n2) \<Rightarrow> (Inl SetDeadlineFailed, snd (CloseConn N conn n2))
           | (True, n2) \<Rightarrow>
               (case ReadAck N conn (Some (nw_now n1 + inhibitorDialTimeout)) n2 of
                  (False, n3) \<Rightarrow> (Inl AckFailed, snd (CloseConn N conn n3))
                | (True, n3) \<Rightarrow>
                    (case SetReadDeadline N conn n3 of
                       (False, n4) \<Rightarrow> (Inl ClearDeadlineFailed, snd (CloseConn N conn n4))
                     | (True, n4) \<Rightarrow>
                         let si = \<lparr>si_conn = Some conn, si_name = name\<rparr>
                         in if mode = ''delay'' then (Inr (si\<lparr>si_conn := None\<rparr>), snd (CloseConn N conn n4))
                            else (Inr si, n4)))))"

text \<open>\<open>Release\<close>: the first component says whether closing succeeded.\<close>

definition SuspendInhibitor_Release :: "'n net_ops \<Rightarrow> SuspendInhibitor \<Rightarrow> 'n netw \<Rightarrow> bool \<times> SuspendInhibitor \<times> 'n netw" where
  "SuspendInhibitor_Release N si n =
     (case si_conn si of
        None \<Rightarrow> (True, si, n)
      | Some conn \<Rightarrow> (case CloseConn N conn n of (ok, n1) \<Rightarrow> (ok, si\<lparr>si_conn := None\<rparr>, n1)))"

definition SuspendInhibitor_IsActive :: "SuspendInhibitor \<Rightarrow> bool" where
  "SuspendInhibitor_IsActive si \<longleftrightarrow> si_conn si \<noteq> None"

section \<open>Taking and releasing\<close>

definition inhibitorBackoff :: "duration list" where
  "inhibitorBackoff = [100 * Millisecond, 250 * Millisecond, 500 * Millisecond, 1 * Second]"

text \<open>The attempts: one more than there are pauses.\<close>

fun acquire :: "'n net_ops \<Rightarrow> duration list \<Rightarrow> 'n netw \<Rightarrow> (inhibitor_error + SuspendInhibitor) \<times> 'n netw" where
  "acquire N [] n = NewSuspendInhibitor N ''BATTERY_NFC_TRANSACTION_INHIBITOR'' ''block'' n"
| "acquire N (pause # pauses) n =
     (case NewSuspendInhibitor N ''BATTERY_NFC_TRANSACTION_INHIBITOR'' ''block'' n of
        (Inr si, n1) \<Rightarrow> (Inr si, n1)
      | (Inl e, n1) \<Rightarrow> acquire N pauses (n1\<lparr>nw_now := nw_now n1 + pause\<rparr>))"

text \<open>The readers of a process with the network they share: \<open>r.suspendInhibitor\<close> for each slot.\<close>

record 'n inhibitors =
  ih_net :: "'n netw"
  ih_suspendInhibitor :: "slot \<Rightarrow> SuspendInhibitor option"

definition acquireInhibitor :: "'n net_ops \<Rightarrow> slot \<Rightarrow> 'n inhibitors \<Rightarrow> bool \<times> 'n inhibitors" where
  "acquireInhibitor N i s =
     (if (case ih_suspendInhibitor s i of Some si \<Rightarrow> SuspendInhibitor_IsActive si | None \<Rightarrow> False) then (True, s)
      else case acquire N inhibitorBackoff (ih_net s) of
             (Inl e, n) \<Rightarrow> (False, s\<lparr>ih_net := n\<rparr>)
           | (Inr si, n) \<Rightarrow> (True, s\<lparr>ih_net := n, ih_suspendInhibitor := (ih_suspendInhibitor s)(i := Some si)\<rparr>))"

definition dropInhibitor :: "'n net_ops \<Rightarrow> slot \<Rightarrow> 'n inhibitors \<Rightarrow> 'n inhibitors" where
  "dropInhibitor N i s =
     (case ih_suspendInhibitor s i of
        None \<Rightarrow> s
      | Some si \<Rightarrow>
          (case SuspendInhibitor_Release N si (ih_net s) of (_, _, n) \<Rightarrow>
             s\<lparr>ih_net := n, ih_suspendInhibitor := (ih_suspendInhibitor s)(i := None)\<rparr>))"

datatype inhibitor_op = TakeInhibitorOp slot | ReleaseInhibitorOp slot

fun inhibitor_exec :: "'n net_ops \<Rightarrow> inhibitor_op \<Rightarrow> 'n inhibitors \<Rightarrow> 'n inhibitors" where
  "inhibitor_exec N (TakeInhibitorOp i) s = snd (acquireInhibitor N i s)"
| "inhibitor_exec N (ReleaseInhibitorOp i) s = dropInhibitor N i s"

section \<open>No connection is lost\<close>

lemmas net_defs = DialTimeout_def SetReadDeadline_def ReadAck_def CloseConn_def

text \<open>A failed attempt leaves no connection open, a successful one exactly its own.\<close>

lemma new_inhibitor:
  assumes "NewSuspendInhibitor N name mode n = (res, n')"
  shows "nw_next n \<le> nw_next n' \<and>
    (case res of
       Inl e \<Rightarrow> nw_open n' = nw_open n
     | Inr si \<Rightarrow> if mode = ''delay'' then si_conn si = None \<and> nw_open n' = nw_open n
                else si_conn si = Some (nw_next n) \<and> nw_open n' = nw_next n # nw_open n \<and> nw_next n < nw_next n')"
  using assms
  by (auto simp: NewSuspendInhibitor_def net_defs Let_def split: prod.splits if_split_asm option.splits bool.splits)

lemma acquire_net:
  assumes "acquire N pauses n = (res, n')"
  shows "nw_next n \<le> nw_next n' \<and>
    (case res of
       Inl e \<Rightarrow> nw_open n' = nw_open n
     | Inr si \<Rightarrow> (\<exists>c. si_conn si = Some c \<and> nw_next n \<le> c \<and> c < nw_next n' \<and> nw_open n' = c # nw_open n))"
  using assms
proof (induction pauses arbitrary: n)
  case Nil
  then show ?case using new_inhibitor [of N _ "''block''" n res n'] by (cases res) auto
next
  case (Cons p ps)
  obtain r1 n1 where n1: "NewSuspendInhibitor N ''BATTERY_NFC_TRANSACTION_INHIBITOR'' ''block'' n = (r1, n1)" by fastforce
  show ?case
  proof (cases r1)
    case (Inl e)
    with Cons.prems n1 have "acquire N ps (n1\<lparr>nw_now := nw_now n1 + p\<rparr>) = (res, n')" by simp
    from Cons.IH [OF this] new_inhibitor [OF n1] Inl show ?thesis by (cases res) auto
  next
    case (Inr si)
    with Cons.prems n1 new_inhibitor [OF n1] show ?thesis by auto
  qed
qed

definition inhibitor_inv :: "'n inhibitors \<Rightarrow> bool" where
  "inhibitor_inv s \<longleftrightarrow>
     distinct (nw_open (ih_net s)) \<and> (\<forall>c \<in> set (nw_open (ih_net s)). c < nw_next (ih_net s)) \<and>
     (\<forall>i si. ih_suspendInhibitor s i = Some si \<longrightarrow> si_conn si \<noteq> None) \<and>
     (\<forall>i j si sj. ih_suspendInhibitor s i = Some si \<and> ih_suspendInhibitor s j = Some sj \<and> si_conn si = si_conn sj \<longrightarrow> i = j) \<and>
     set (nw_open (ih_net s)) = {c. \<exists>i si. ih_suspendInhibitor s i = Some si \<and> si_conn si = Some c}"

lemma inhibitor_invD:
  assumes "inhibitor_inv s"
  shows "distinct (nw_open (ih_net s))"
    "c \<in> set (nw_open (ih_net s)) \<Longrightarrow> c < nw_next (ih_net s)"
    "ih_suspendInhibitor s i = Some si \<Longrightarrow> \<exists>c. si_conn si = Some c"
    "ih_suspendInhibitor s i = Some si \<Longrightarrow> ih_suspendInhibitor s j = Some sj \<Longrightarrow> si_conn si = si_conn sj \<Longrightarrow> i = j"
    "c \<in> set (nw_open (ih_net s)) \<longleftrightarrow> (\<exists>i si. ih_suspendInhibitor s i = Some si \<and> si_conn si = Some c)"
proof -
  note d = assms [unfolded inhibitor_inv_def]
  show "distinct (nw_open (ih_net s))" by (rule conjunct1 [OF d])
  show "c < nw_next (ih_net s)" if "c \<in> set (nw_open (ih_net s))" using d that by blast
  show "\<exists>c. si_conn si = Some c" if "ih_suspendInhibitor s i = Some si" using d that by blast
  show "i = j" if "ih_suspendInhibitor s i = Some si" "ih_suspendInhibitor s j = Some sj" "si_conn si = si_conn sj"
    using d that by blast
  show "c \<in> set (nw_open (ih_net s)) \<longleftrightarrow> (\<exists>i si. ih_suspendInhibitor s i = Some si \<and> si_conn si = Some c)"
    using d by blast
qed

lemma inhibitor_invI:
  assumes "distinct (nw_open (ih_net s))"
    "\<And>c. c \<in> set (nw_open (ih_net s)) \<Longrightarrow> c < nw_next (ih_net s)"
    "\<And>i si. ih_suspendInhibitor s i = Some si \<Longrightarrow> \<exists>c. si_conn si = Some c"
    "\<And>i j si sj c. ih_suspendInhibitor s i = Some si \<Longrightarrow> ih_suspendInhibitor s j = Some sj \<Longrightarrow>
       si_conn si = Some c \<Longrightarrow> si_conn sj = Some c \<Longrightarrow> i = j"
    "\<And>c. c \<in> set (nw_open (ih_net s)) \<longleftrightarrow> (\<exists>i si. ih_suspendInhibitor s i = Some si \<and> si_conn si = Some c)"
  shows "inhibitor_inv s"
  unfolding inhibitor_inv_def
proof (intro conjI allI impI ballI)
  fix i j si sj
  assume "ih_suspendInhibitor s i = Some si \<and> ih_suspendInhibitor s j = Some sj \<and> si_conn si = si_conn sj"
  with assms(3) [of i si] assms(4) [of i si j sj] show "i = j" by auto
next
  show "set (nw_open (ih_net s)) = {c. \<exists>i si. ih_suspendInhibitor s i = Some si \<and> si_conn si = Some c}"
    using assms(5) by blast
qed (use assms(1-3) in blast)+

lemma acquire_inv: "inhibitor_inv s \<Longrightarrow> inhibitor_inv (snd (acquireInhibitor N i s))"
proof -
  assume s: "inhibitor_inv s"
  obtain res n' where a: "acquire N inhibitorBackoff (ih_net s) = (res, n')" by fastforce
  show ?thesis
  proof (cases "ih_suspendInhibitor s i")
    case (Some si)
    with inhibitor_invD(3) [OF s Some] s show ?thesis by (auto simp: acquireInhibitor_def SuspendInhibitor_IsActive_def)
  next
    case None
    show ?thesis
    proof (cases res)
      case (Inl e)
      have t: "snd (acquireInhibitor N i s) = s\<lparr>ih_net := n'\<rparr>" using a Inl None by (simp add: acquireInhibitor_def)
      from acquire_net [OF a] Inl have n: "nw_next (ih_net s) \<le> nw_next n'" "nw_open n' = nw_open (ih_net s)" by auto
      show ?thesis unfolding t
      proof (rule inhibitor_invI, goal_cases)
        case (2 d)
        then show ?case using n inhibitor_invD(2) [OF s, of d] by simp
      next
        case (3 j sj)
        then show ?case using inhibitor_invD(3) [OF s, of j sj] by simp
      next
        case (4 j k sj sk d)
        then show ?case using inhibitor_invD(4) [OF s, of j sj k sk] by simp
      next
        case (5 d)
        show ?case using n inhibitor_invD(5) [OF s, of d] by simp
      qed (use n inhibitor_invD(1) [OF s] in simp)
    next
      case (Inr si)
      from acquire_net [OF a] Inr obtain c where c: "si_conn si = Some c" "nw_next (ih_net s) \<le> c" "c < nw_next n'"
        "nw_open n' = c # nw_open (ih_net s)" "nw_next (ih_net s) \<le> nw_next n'" by auto
      have t: "snd (acquireInhibitor N i s) = s\<lparr>ih_net := n', ih_suspendInhibitor := (ih_suspendInhibitor s)(i := Some si)\<rparr>"
        using a Inr None by (simp add: acquireInhibitor_def)
      have f: "c \<notin> set (nw_open (ih_net s))" using inhibitor_invD(2) [OF s, of c] c(2) by auto
      then have g: "si_conn sj \<noteq> Some c" if "ih_suspendInhibitor s j = Some sj" for j sj
        using that inhibitor_invD(5) [OF s] by blast
      show ?thesis unfolding t
      proof (rule inhibitor_invI, goal_cases)
        case 1
        show ?case using c f inhibitor_invD(1) [OF s] by simp
      next
        case (2 d)
        then show ?case using c inhibitor_invD(2) [OF s, of d] by auto
      next
        case (3 j sj)
        then show ?case using c inhibitor_invD(3) [OF s, of j sj] by (auto split: if_split_asm)
      next
        case (4 j k sj sk d)
        then show ?case using c g inhibitor_invD(4) [OF s, of j sj k sk] by (auto split: if_split_asm)
      next
        case (5 d)
        show ?case using c None inhibitor_invD(5) [OF s, of d] by auto (metis option.distinct(1))
      qed
    qed
  qed
qed

lemma drop_inv: "inhibitor_inv s \<Longrightarrow> inhibitor_inv (dropInhibitor N i s)"
proof (cases "ih_suspendInhibitor s i")
  case (Some si)
  assume s: "inhibitor_inv s"
  from inhibitor_invD(3) [OF s Some] obtain c where c: "si_conn si = Some c" by blast
  let ?t = "dropInhibitor N i s"
  have t: "nw_open (ih_net ?t) = remove1 c (nw_open (ih_net s))" "nw_next (ih_net ?t) = nw_next (ih_net s)"
    "ih_suspendInhibitor ?t = (ih_suspendInhibitor s)(i := None)"
    by (simp_all add: dropInhibitor_def SuspendInhibitor_Release_def CloseConn_def Some c split: prod.split)
  note d = inhibitor_invD(1) [OF s]
  show ?thesis
  proof (rule inhibitor_invI, goal_cases)
    case (2 d)
    then show ?case using inhibitor_invD(2) [OF s, of d] by (simp add: t \<open>distinct _\<close>)
  next
    case (3 j sj)
    then show ?case using inhibitor_invD(3) [OF s, of j sj] by (simp add: t split: if_split_asm)
  next
    case (4 j k sj sk d)
    then show ?case using inhibitor_invD(4) [OF s, of j sj k sk] by (simp add: t split: if_split_asm)
  next
    case (5 e)
    have "e \<in> set (nw_open (ih_net ?t)) \<longleftrightarrow> e \<noteq> c \<and> e \<in> set (nw_open (ih_net s))" by (auto simp: t d)
    moreover have "j \<noteq> i \<longleftrightarrow> e \<noteq> c" if "ih_suspendInhibitor s j = Some sj" "si_conn sj = Some e" for j sj
      using that Some c inhibitor_invD(4) [OF s Some that(1)] by auto
    ultimately show ?case using inhibitor_invD(5) [OF s, of e] unfolding t by (simp only: fun_upd_apply) (metis option.distinct(1))
  qed (simp add: t d)
qed (simp add: dropInhibitor_def)

definition inhibitor_initial :: "'n inhibitors \<Rightarrow> bool" where
  "inhibitor_initial s \<longleftrightarrow> nw_open (ih_net s) = [] \<and> ih_suspendInhibitor s = (\<lambda>i. None)"

interpretation inhibitors: machine inhibitor_initial "inhibitor_exec N" inhibitor_inv for N :: "'n net_ops"
proof
  show "inhibitor_initial s \<Longrightarrow> inhibitor_inv s" for s :: "'n inhibitors"
    by (simp add: inhibitor_initial_def inhibitor_inv_def)
  show "inhibitor_inv s \<Longrightarrow> inhibitor_inv (inhibitor_exec N c s)" for s c
    by (cases c) (simp_all add: acquire_inv drop_inv)
qed

text \<open>
  C22: Connections to the power manager are neither leaked nor shared. Whatever the network does to the
  attempts, after any sequence of takes and releases by the readers the open connections are exactly
  those of the inhibitors held, one each, and every inhibitor a reader keeps is active; so the system
  can suspend once all are released.
\<close>

theorem inhibitor_connections:
  assumes "inhibitor_initial s" and "t = fold (inhibitor_exec N) ops s"
  shows "distinct (nw_open (ih_net t)) \<and> length (nw_open (ih_net t)) \<le> 2 \<and>
         (\<forall>c. c \<in> set (nw_open (ih_net t)) = (\<exists>i si. ih_suspendInhibitor t i = Some si \<and> si_conn si = Some c)) \<and>
         (\<forall>i. (ih_suspendInhibitor t i = None) \<noteq> (\<exists>si. ih_suspendInhibitor t i = Some si \<and> SuspendInhibitor_IsActive si)) \<and>
         ((\<forall>i. ih_suspendInhibitor t i = None) = (nw_open (ih_net t) = []))"
proof -
  have t: "inhibitor_inv t" using inhibitors.inv_reachable [OF assms(1)] assms(2) by simp
  note o = inhibitor_invD(5) [OF t]
  have "set (nw_open (ih_net t)) \<subseteq>
      {the (Option.bind (ih_suspendInhibitor t Slot0) si_conn), the (Option.bind (ih_suspendInhibitor t Slot1) si_conn)}"
  proof
    fix c assume "c \<in> set (nw_open (ih_net t))"
    then obtain i si where "ih_suspendInhibitor t i = Some si" "si_conn si = Some c" using o by blast
    then show "c \<in> {the (Option.bind (ih_suspendInhibitor t Slot0) si_conn), the (Option.bind (ih_suspendInhibitor t Slot1) si_conn)}"
      by (cases i) simp_all
  qed
  then have "card (set (nw_open (ih_net t))) \<le> 2"
    by (rule order_trans [OF card_mono, rotated]) (simp_all add: card_insert_if)
  moreover have "ih_suspendInhibitor t i = Some si \<Longrightarrow> SuspendInhibitor_IsActive si" for i si
    using inhibitor_invD(3) [OF t] by (auto simp: SuspendInhibitor_IsActive_def)
  moreover have "(\<forall>i. ih_suspendInhibitor t i = None) = (nw_open (ih_net t) = [])"
  proof
    assume "nw_open (ih_net t) = []"
    then show "\<forall>i. ih_suspendInhibitor t i = None" using o inhibitor_invD(3) [OF t] by (metis empty_iff list.set(1) option.exhaust)
  next
    assume "\<forall>i. ih_suspendInhibitor t i = None"
    then have "c \<notin> set (nw_open (ih_net t))" for c using o [of c] by simp
    then show "nw_open (ih_net t) = []" by (metis list.set_intros(1) neq_Nil_conv)
  qed
  ultimately show ?thesis using o inhibitor_invD(1) [OF t] by (auto simp: distinct_card)
qed

section \<open>What the readers' model keeps of it\<close>

text \<open>One attempt with the pause that follows a failure; the pauses start over after the last attempt.\<close>

definition socket_inhibit :: "'n net_ops \<Rightarrow> 'n netw \<times> duration list \<Rightarrow> bool \<times> 'n netw \<times> duration list" where
  "socket_inhibit N x =
     (case NewSuspendInhibitor N ''BATTERY_NFC_TRANSACTION_INHIBITOR'' ''block'' (fst x) of
        (Inr si, n) \<Rightarrow> (True, n, inhibitorBackoff)
      | (Inl e, n) \<Rightarrow>
          (False, case snd x of
                    [] \<Rightarrow> (n, inhibitorBackoff)
                  | p # ps \<Rightarrow> (n\<lparr>nw_now := nw_now n + p\<rparr>, ps)))"

lemma inhibitLoop_acquire:
  assumes "hal_Inhibit H = socket_inhibit N" and "w_hal w = (n, pauses)" and "acquire N pauses n = (res, n')"
    and "inhibitLoop H (Suc (length pauses)) w = (ok, w')"
  shows "ok = (\<not> isl res) \<and>
         w' = (if ok then w\<lparr>w_hal := (n', inhibitorBackoff), w_inhibitor := True\<rparr> else w\<lparr>w_hal := (n', inhibitorBackoff)\<rparr>)"
  using assms(2-)
proof (induction pauses arbitrary: n w)
  case Nil
  then show ?case
    by (auto simp: assms(1) socket_inhibit_def split: prod.splits sum.splits)
next
  case (Cons p ps)
  obtain r1 n1 where n1: "NewSuspendInhibitor N ''BATTERY_NFC_TRANSACTION_INHIBITOR'' ''block'' n = (r1, n1)" by fastforce
  show ?case
  proof (cases r1)
    case (Inl e)
    let ?n = "n1\<lparr>nw_now := nw_now n1 + p\<rparr>"
    from Cons.IH [of "w\<lparr>w_hal := (?n, ps)\<rparr>" ?n] Cons.prems n1 Inl show ?thesis
      by (simp add: assms(1) socket_inhibit_def)
  next
    case (Inr si)
    with Cons.prems n1 show ?thesis by (auto simp: assms(1) socket_inhibit_def)
  qed
qed


section \<open>How long it takes\<close>

text \<open>Dialling ends within its timeout and reading by its deadline.\<close>

definition net_timely :: "'n net_ops \<Rightarrow> bool" where
  "net_timely N \<longleftrightarrow>
     (\<forall>t e. 0 \<le> t \<longrightarrow> snd (fst (net_Dial N t e)) \<le> t) \<and>
     (\<forall>c t now e. now \<le> t \<longrightarrow> snd (fst (net_Read N c (Some t) now e)) \<le> t - now)"

lemma new_inhibitor_time:
  assumes "net_timely N" "NewSuspendInhibitor N name mode n = (res, n')"
  shows "nw_now n' \<le> nw_now n + 2 * inhibitorDialTimeout"
proof -
  have "snd (fst (net_Dial N inhibitorDialTimeout e)) \<le> inhibitorDialTimeout" for e
    using assms(1) by (simp add: net_timely_def inhibitorDialTimeout_def)
  then have 1: "nw_now (snd (DialTimeout N inhibitorDialTimeout m)) \<le> nw_now m + inhibitorDialTimeout" for m
    by (auto simp: DialTimeout_def Let_def split: prod.split) (metis fst_conv snd_conv)+
  have "snd (fst (net_Read N c (Some (now + inhibitorDialTimeout)) now e)) \<le> inhibitorDialTimeout" for c now e
  proof -
    have "now \<le> now + inhibitorDialTimeout" by (simp add: inhibitorDialTimeout_def)
    with assms(1) have "snd (fst (net_Read N c (Some (now + inhibitorDialTimeout)) now e)) \<le> now + inhibitorDialTimeout - now"
      unfolding net_timely_def by blast
    then show ?thesis by simp
  qed
  then have 2: "nw_now (snd (ReadAck N c (Some (nw_now m + inhibitorDialTimeout)) m)) \<le> nw_now m + inhibitorDialTimeout" for c m
    by (auto simp: ReadAck_def split: prod.split) (metis fst_conv snd_conv)
  have 3: "nw_now (snd (SetReadDeadline N c m)) = nw_now m" "nw_now (snd (CloseConn N c m)) = nw_now m" for c m
    by (simp_all add: SetReadDeadline_def CloseConn_def split: prod.split)
  obtain cn n1 where n1: "DialTimeout N inhibitorDialTimeout n = (cn, n1)" by fastforce
  have d1: "nw_now n1 \<le> nw_now n + inhibitorDialTimeout" using 1 [of n] n1 by simp
  show ?thesis
  proof (cases cn)
    case None
    with assms(2) n1 d1 show ?thesis by (auto simp: NewSuspendInhibitor_def inhibitorDialTimeout_def)
  next
    case (Some c)
    obtain ok2 n2 where n2: "SetReadDeadline N c n1 = (ok2, n2)" by fastforce
    obtain ok3 n3 where n3: "ReadAck N c (Some (nw_now n1 + inhibitorDialTimeout)) n2 = (ok3, n3)" by fastforce
    obtain ok4 n4 where n4: "SetReadDeadline N c n3 = (ok4, n4)" by fastforce
    have e: "nw_now n2 = nw_now n1" "nw_now n4 = nw_now n3" using 3(1) [of c n1] 3(1) [of c n3] n2 n4 by simp_all
    then have "nw_now n3 \<le> nw_now n1 + inhibitorDialTimeout" using 2 [of c n2] n3 by simp
    moreover have "nw_now n' \<in> {nw_now n2, nw_now n3, nw_now n4}"
      using assms(2) n1 Some n2 n3 n4 by (auto simp: NewSuspendInhibitor_def Let_def 3 split: bool.split_asm if_split_asm)
    moreover have "0 \<le> inhibitorDialTimeout" by (simp add: inhibitorDialTimeout_def)
    ultimately show ?thesis using d1 e by auto
  qed
qed

lemma acquire_time:
  assumes "net_timely N" "acquire N pauses n = (res, n')" "\<forall>p \<in> set pauses. 0 \<le> p"
  shows "nw_now n' \<le> nw_now n + sum_list pauses + 2 * inhibitorDialTimeout * int (Suc (length pauses))"
  using assms(2,3)
proof (induction pauses arbitrary: n)
  case Nil
  then show ?case using new_inhibitor_time [OF assms(1)] by fastforce
next
  case (Cons p ps)
  obtain r1 n1 where n1: "NewSuspendInhibitor N ''BATTERY_NFC_TRANSACTION_INHIBITOR'' ''block'' n = (r1, n1)" by fastforce
  note t = new_inhibitor_time [OF assms(1) n1]
  have z: "0 \<le> inhibitorDialTimeout" "0 \<le> sum_list ps"
    using Cons.prems by (auto simp: inhibitorDialTimeout_def intro: sum_list_nonneg)
  show ?case
  proof (cases r1)
    case (Inl e)
    with Cons.prems n1 have "acquire N ps (n1\<lparr>nw_now := nw_now n1 + p\<rparr>) = (res, n')" by simp
    from Cons.IH [OF this] t Cons.prems show ?thesis by (simp add: algebra_simps)
  next
    case (Inr si)
    have "0 \<le> inhibitorDialTimeout * (int (length ps) * 2)" using z(1) by (rule mult_nonneg_nonneg) simp
    moreover have n': "n' = n1" and "0 \<le> p" using Inr Cons.prems n1 by auto
    moreover have "2 * inhibitorDialTimeout * int (Suc (length (p # ps))) =
        4 * inhibitorDialTimeout + inhibitorDialTimeout * (int (length ps) * 2)" by (simp add: algebra_simps)
    ultimately show ?thesis using t z unfolding sum_list.Cons n' by linarith
  qed
qed

text \<open>
  C38: Taking the inhibitor ends in bounded time: with a network that keeps its timeouts, five attempts
  of at most three seconds to connect and three to be answered, and pauses of 1.85 seconds in all,
  so at most 31.85 seconds.
\<close>

theorem inhibitor_time_bound:
  assumes "net_timely N"
  shows "nw_now (ih_net (snd (acquireInhibitor N i s))) \<le> nw_now (ih_net s) + 31850 * Millisecond"
proof -
  obtain res n' where a: "acquire N inhibitorBackoff (ih_net s) = (res, n')" by fastforce
  have "nw_now n' \<le> nw_now (ih_net s) + 31850 * Millisecond"
    using acquire_time [OF assms a] by (simp add: inhibitorBackoff_def inhibitorDialTimeout_def)
  with a show ?thesis by (auto simp: acquireInhibitor_def split: sum.split)
qed

text \<open>A network that accepts after three seconds and never answers takes all of it.\<close>

definition slow_net :: "unit net_ops" where
  "slow_net =
     \<lparr>net_Dial = (\<lambda>t e. ((True, t), e)), net_SetReadDeadline = (\<lambda>c e. (True, e)),
      net_Read = (\<lambda>c t now e. ((False, case t of None \<Rightarrow> 0 | Some u \<Rightarrow> u - now), e)), net_Close = (\<lambda>c e. (True, e))\<rparr>"

lemma slow_net_timely: "net_timely slow_net"
  by (simp add: net_timely_def slow_net_def)

lemma slow_net_attempt:
  "nw_now (snd (NewSuspendInhibitor slow_net name mode n)) = nw_now n + 6 * Second"
  "fst (NewSuspendInhibitor slow_net name mode n) = Inl AckFailed"
  by (simp_all add: NewSuspendInhibitor_def slow_net_def net_defs inhibitorDialTimeout_def Let_def)

lemma inhibitor_bound_reached:
  "ih_suspendInhibitor s i = None \<Longrightarrow>
   nw_now (ih_net (snd (acquireInhibitor slow_net i s))) = nw_now (ih_net s) + 31850 * Millisecond"
proof -
  have st: "acquire slow_net (p # ps) n =
      acquire slow_net ps ((snd (NewSuspendInhibitor slow_net ''BATTERY_NFC_TRANSACTION_INHIBITOR'' ''block'' n))
        \<lparr>nw_now := nw_now n + 6 * Second + p\<rparr>)" for p ps n
    using slow_net_attempt [of "''BATTERY_NFC_TRANSACTION_INHIBITOR''" "''block''" n]
    by (cases "NewSuspendInhibitor slow_net ''BATTERY_NFC_TRANSACTION_INHIBITOR'' ''block'' n") auto
  have "nw_now (snd (acquire slow_net inhibitorBackoff n)) = nw_now n + 31850 * Millisecond" for n
    unfolding inhibitorBackoff_def st by (simp add: slow_net_attempt)
  then show "ih_suspendInhibitor s i = None \<Longrightarrow> ?thesis"
    by (auto simp: acquireInhibitor_def split: prod.split sum.split) (metis snd_conv)+
qed

end
