(* ===== verification/Motion_Feed.thy ===== *)
theory Motion_Feed
  imports Nfc_Guard Admission_Evidence
begin

text \<open>
  The subscription to the movement evidence (\<open>receiveMotionMessages\<close> and \<open>runMotionSubscriber\<close> of
  \<open>motion_ipc.go\<close>). What the subscription delivers is a parameter, as a list of answers, each with the
  guard operations of other goroutines that came before it; the list of sessions says how each
  connection went and when the service was cancelled.
\<close>

section \<open>Receiving\<close>

definition motionEvidenceChannel :: string where "motionEvidenceChannel = ''engine-ecu:motion''"

datatype pubsub_answer =
    SubscriptionAnswer
  | MessageAnswer string string gotime
  | OtherAnswer
  | ReceiveError

record motion_feed =
  mf_admission :: packAdmission
  mf_log :: "string list"

definition upd_feed :: "(packAdmission \<Rightarrow> packAdmission) \<Rightarrow> motion_feed \<Rightarrow> motion_feed" where
  "upd_feed g f = f\<lparr>mf_admission := g (mf_admission f)\<rparr>"

text \<open>
  The loop: the first component of the result says whether it has returned (with the error); otherwise
  it waits in \<open>Receive\<close> for the next answer.
\<close>

fun receiveMotionMessages ::
  "(string \<Rightarrow> motionEvidence option) \<Rightarrow> bool \<Rightarrow> (adm_op list \<times> pubsub_answer) list \<Rightarrow> motion_feed \<Rightarrow> bool \<times> motion_feed" where
  "receiveMotionMessages js reported [] f = (False, f)"
| "receiveMotionMessages js reported ((others, answer) # rest) f0 =
     (let f = upd_feed (fold (adm_exec js) others) f0
      in case answer of
           ReceiveError \<Rightarrow> (True, f)
         | SubscriptionAnswer \<Rightarrow> receiveMotionMessages js False rest (upd_feed resetMotionStream f)
         | MessageAnswer channel payload now \<Rightarrow>
             if channel = motionEvidenceChannel
             then (case receiveMotionEvidence js payload now (mf_admission f) of
                     (accepted, a) \<Rightarrow>
                       let f1 = f\<lparr>mf_admission := a\<rparr>
                       in if accepted \<and> \<not> reported
                          then receiveMotionMessages js True rest
                                 (f1\<lparr>mf_log := mf_log f1 @ [''Received fresh motion evidence from ecu-service'']\<rparr>)
                          else receiveMotionMessages js reported rest f1)
             else receiveMotionMessages js reported rest f
         | OtherAnswer \<Rightarrow> receiveMotionMessages js reported rest f)"

section \<open>Sessions\<close>

text \<open>
  One pass of the loop of \<open>runMotionSubscriber\<close>: whether the service was cancelled before it, when its
  subscription failed, and during the pause of five seconds.
\<close>

record motion_session =
  ms_cancelledBefore :: bool
  ms_answers :: "(adm_op list \<times> pubsub_answer) list"
  ms_cancelledAfter :: bool
  ms_cancelledWaiting :: bool

text \<open>Returning resets the stream, by the deferred call.\<close>

fun runMotionSubscriber ::
  "(string \<Rightarrow> motionEvidence option) \<Rightarrow> motion_session list \<Rightarrow> motion_feed \<Rightarrow> bool \<times> motion_feed" where
  "runMotionSubscriber js [] f = (False, f)"
| "runMotionSubscriber js (s # ss) f =
     (if ms_cancelledBefore s then (True, upd_feed resetMotionStream f)
      else case receiveMotionMessages js False (ms_answers s) f of
             (False, f1) \<Rightarrow> (False, f1)
           | (True, f1) \<Rightarrow>
               let f2 = upd_feed resetMotionStream f1
               in if ms_cancelledAfter s then (True, upd_feed resetMotionStream f2)
                  else if ms_cancelledWaiting s then (True, upd_feed resetMotionStream f2)
                  else runMotionSubscriber js ss f2)"

section \<open>The feed is a client of the guard\<close>

lemma upd_feed_admission [simp]: "mf_admission (upd_feed g f) = g (mf_admission f)"
  by (simp add: upd_feed_def)

lemma via_fold: "via_guard js a (fold (adm_exec js) ops a)"
  by (auto simp: via_guard_def)

lemma via_reset: "via_guard js a b \<Longrightarrow> via_guard js a (resetMotionStream b)"
  using via_op [of js b OpResetMotionStream] by (auto intro: via_trans)

lemma receive_via:
  "via_guard js (mf_admission f) (mf_admission (snd (receiveMotionMessages js reported items f)))"
proof (induction items arbitrary: f reported)
  case (Cons item rest)
  obtain others answer where item: "item = (others, answer)" by fastforce
  let ?f = "upd_feed (fold (adm_exec js) others) f"
  note o = via_fold [of js "mf_admission f" others]
  show ?case
  proof (cases answer)
    case SubscriptionAnswer
    with item show ?thesis
      using via_trans [OF via_reset [OF o] Cons.IH [of "upd_feed resetMotionStream ?f", simplified]] by simp
  next
    case (MessageAnswer channel payload now)
    obtain acc a where a: "receiveMotionEvidence js payload now (mf_admission ?f) = (acc, a)" by fastforce
    then have "via_guard js (mf_admission f) a"
      using via_trans [OF o] via_op [of js "mf_admission ?f" "OpReceiveMotion payload now"] by simp
    then have "via_guard js (mf_admission f) (mf_admission (snd (receiveMotionMessages js rep rest g)))"
      if "mf_admission g = a" for rep g using via_trans [OF _ Cons.IH [of g rep]] that by simp
    moreover have "via_guard js (mf_admission f) (mf_admission (snd (receiveMotionMessages js rep rest ?f)))" for rep
      using via_trans [OF o Cons.IH [of ?f rep, simplified]] .
    ultimately show ?thesis using item MessageAnswer a by (simp add: Let_def)
  next
    case OtherAnswer
    with item show ?thesis using via_trans [OF o Cons.IH [of ?f, simplified]] by simp
  qed (use item o in simp)
qed simp

lemma sessions_via: "via_guard js (mf_admission f) (mf_admission (snd (runMotionSubscriber js ss f)))"
proof (induction ss arbitrary: f)
  case (Cons s ss)
  obtain ended f1 where r: "receiveMotionMessages js False (ms_answers s) f = (ended, f1)" by fastforce
  have v: "via_guard js (mf_admission f) (mf_admission f1)"
    using receive_via [of js f False "ms_answers s"] r by simp
  show ?case
    using via_reset [OF via_refl, of js "mf_admission f"] v via_reset [OF v] via_reset [OF via_reset [OF v]]
      via_trans [OF via_reset [OF v] Cons.IH [of "upd_feed resetMotionStream f1", simplified]] r
    by (cases ended) (simp_all add: Let_def)
qed simp

interpretation feed: guard_client js mf_admission "\<lambda>s f. snd (runMotionSubscriber js [s] f)" for js
  by unfold_locales (rule sessions_via)

section \<open>Evidence is of the current subscription\<close>

text \<open>No other operation of the guard makes evidence.\<close>

definition makes_evidence :: "adm_op \<Rightarrow> bool" where
  "makes_evidence c \<longleftrightarrow> (\<exists>m now. c = OpReceiveMotion m now) \<or> (\<exists>st rc now. c = OpObserveMotion st rc now)"

lemma motion_if: "motion (if b then x else y) = (if b then motion x else motion y)"
  by simp

lemma motion_snd_if: "motion (snd (if b then x else y)) = (if b then motion (snd x) else motion (snd y))"
  by simp

lemmas motion_push = motion_if motion_snd_if

lemma motion_slots:
  "motion (setRole i el a) = motion a" "motion (setSeatbox b a) = motion a" "motion (tag i u a) = motion a"
  "motion (failAcquisition i n x a) = motion a" "motion (observeAbsent i now a) = motion a"
  by (simp_all add: setRole_def setSeatbox_def invalidateSeatboxLocked_def tag_def failAcquisition_def observeAbsent_def
      Let_def motion_push split: option.split)

lemma motion_observe: "motion (observeLocked i d now a) = motion a"
proof -
  have "motion (observeIdentity i d b) = motion b" "motion (observePower i d now b) = motion b" for b
    by (simp_all add: observeIdentity_def observePower_def Let_def motion_push split: option.split)
  then show ?thesis by (simp add: observeLocked_def Let_def motion_push)
qed

lemma motion_rounds:
  "motion (snd (beginRound now a)) = motion a" "motion (snd (claimRound i now a)) = motion a"
  "motion (stopSampling a) = motion a"
  by (simp_all add: beginRound_def openRound_def claimRound_def stopSampling_def Let_def motion_push split: option.split)

lemma motion_acquisition: "motion (snd (observeAcquisition i n x a)) = motion a"
proof -
  have "motion (snd (pairRound retry r x y b)) = motion b" for retry r x y b
    by (simp add: pairRound_def Let_def motion_push del: ex_simps)
  then have "motion (snd (deliverAcquisition i retry r x b)) = motion b" for retry r x b
    by (simp add: deliverAcquisition_def Let_def motion_push)
  then show ?thesis by (simp add: observeAcquisition_def Let_def motion_push motion_observe split: option.split)
qed

lemma motion_isolation:
  "motion (reconcileLocked now md a) = motion a" "motion (snd (shouldIsolate i now md a)) = motion a"
  "motion (snd (isolationOffAttempt i now a)) = motion a" "motion (offAttempt i now a) = motion a"
proof -
  have "motion (startEpisode sv now b) = motion b" "motion (reconcileEpisode e now md b) = motion b" for sv b e
    by (simp_all add: startEpisode_def reconcileEpisode_def Let_def motion_push)
  then have r: "motion (reconcileLocked now md b) = motion b" for b
    by (simp add: reconcileLocked_def motion_push split: option.split)
  show "motion (reconcileLocked now md a) = motion a" by (rule r)
  show "motion (snd (shouldIsolate i now md a)) = motion a"
    by (simp add: shouldIsolate_def Let_def motion_push r split: option.split)
  show "motion (snd (isolationOffAttempt i now a)) = motion a"
    by (simp add: isolationOffAttempt_def motion_push split: option.split)
  show "motion (offAttempt i now a) = motion a" by (simp add: offAttempt_def)
qed

lemmas motion_frames = motion_slots motion_observe motion_rounds motion_acquisition motion_isolation

definition evidence :: "packAdmission \<Rightarrow> bool" where
  "evidence a \<longleftrightarrow> \<not> IsZero (motion_at (motion a))"

lemma evidence_invalidate [simp]: "\<not> evidence (invalidateMotionLocked a)"
  by (simp add: evidence_def)

lemma evidence_reset [simp]: "\<not> evidence (resetMotionStream a)"
  by (simp add: evidence_def resetMotionStream_def)

lemma evidence_frame: "motion b = motion a \<Longrightarrow> evidence b = evidence a"
  by (simp add: evidence_def)

lemma evidence_requestOn: "evidence (snd (requestOn i now md a)) \<Longrightarrow> evidence a"
proof -
  let ?a = "reconcileLocked now md a"
  have g: "motion (snd (grantOn i now b)) = motion b" for b by (simp add: grantOn_def Let_def)
  have "motion (snd (decideOn i now md ?a)) = motion ?a \<or> \<not> evidence (snd (decideOn i now md ?a))"
    using checkPeer_state [of i now md ?a] g
    by (cases rule: decideOn_cases [of i now ?a md]) (auto simp: evidence_def split: prod.split)
  moreover have "motion (snd (requestOn i now md a)) = motion (snd (decideOn i now md ?a))"
    by (simp add: requestOn_def split: prod.split)
  ultimately show "evidence (snd (requestOn i now md a)) \<Longrightarrow> evidence a"
    by (auto simp: evidence_def motion_isolation)
qed

lemma evidence_setVehicle: "evidence (setVehicleAt v now a) \<Longrightarrow> evidence a"
  by (auto simp: evidence_def setVehicleAt_def stoppedMotionFreshLocked_def Let_def split: if_split_asm)

lemma evidence_kept:
  assumes "\<not> makes_evidence c" "evidence (adm_exec js c a)"
  shows "evidence a"
  using assms
proof (cases c)
  case (OpSetVehicle v now)
  with assms show ?thesis by (auto dest: evidence_setVehicle)
next
  case (OpRequestOn i now md)
  with assms show ?thesis by (auto dest: evidence_requestOn)
qed (auto simp: makes_evidence_def invalidateMotion_def observe_def resetMotionStream_def evidence_def motion_frames)

lemma evidence_accepted: "fst (receiveMotionEvidence js payload now a) = evidence (snd (receiveMotionEvidence js payload now a))"
  by (auto simp: receiveMotionEvidence_def acceptMotionEvidence_def applyMotionEvidence_def Let_def evidence_def
      split: option.split bool.split)

lemma evidence_others:
  "list_all (\<lambda>c. \<not> makes_evidence c) cs \<Longrightarrow> evidence (fold (adm_exec js) cs a) \<Longrightarrow> evidence a"
  by (induction cs arbitrary: a) (auto dest: evidence_kept)

definition quiet_others :: "(adm_op list \<times> pubsub_answer) list \<Rightarrow> bool" where
  "quiet_others items \<longleftrightarrow> list_all (\<lambda>x. list_all (\<lambda>c. \<not> makes_evidence c) (fst x)) items"

text \<open>
  The message after which the evidence has stood: it was accepted, and no new subscription or failure
  came after it.
\<close>

definition accepted_in ::
  "(string \<Rightarrow> motionEvidence option) \<Rightarrow> bool \<Rightarrow> (adm_op list \<times> pubsub_answer) list \<Rightarrow> motion_feed \<Rightarrow> bool" where
  "accepted_in js reported items f \<longleftrightarrow>
     (\<exists>us others payload now vs.
        items = us @ (others, MessageAnswer motionEvidenceChannel payload now) # vs \<and>
        list_all (\<lambda>x. snd x \<noteq> SubscriptionAnswer \<and> snd x \<noteq> ReceiveError) vs \<and>
        fst (receiveMotionEvidence js payload now
               (fold (adm_exec js) others (mf_admission (snd (receiveMotionMessages js reported us f))))))"

lemma accepted_inI:
  assumes "items = us @ (others, MessageAnswer motionEvidenceChannel payload now) # vs"
    and "list_all (\<lambda>x. snd x \<noteq> SubscriptionAnswer \<and> snd x \<noteq> ReceiveError) vs"
    and "fst (receiveMotionEvidence js payload now
               (fold (adm_exec js) others (mf_admission (snd (receiveMotionMessages js reported us f)))))"
  shows "accepted_in js reported items f"
  using assms unfolding accepted_in_def by blast

lemma accepted_Cons:
  assumes "accepted_in js reported' rest f1"
    and "\<And>us. receiveMotionMessages js reported (x # us) f = receiveMotionMessages js reported' us f1"
  shows "accepted_in js reported (x # rest) f"
proof -
  obtain us others payload now vs where "rest = us @ (others, MessageAnswer motionEvidenceChannel payload now) # vs"
    "list_all (\<lambda>x. snd x \<noteq> SubscriptionAnswer \<and> snd x \<noteq> ReceiveError) vs"
    "fst (receiveMotionEvidence js payload now
       (fold (adm_exec js) others (mf_admission (snd (receiveMotionMessages js reported' us f1)))))"
    using assms(1) by (auto simp: accepted_in_def)
  then show ?thesis by (intro accepted_inI [where us = "x # us"]) (simp_all add: assms(2) del: receiveMotionMessages.simps)
qed

lemma receive_evidence:
  assumes "receiveMotionMessages js reported items f = (False, f')" and "quiet_others items"
    and "evidence (mf_admission f')"
  shows "accepted_in js reported items f \<or>
         evidence (mf_admission f) \<and> list_all (\<lambda>x. snd x \<noteq> SubscriptionAnswer \<and> snd x \<noteq> ReceiveError) items"
  using assms
proof (induction items arbitrary: reported f)
  case (Cons item rest)
  obtain others answer where item: "item = (others, answer)" by fastforce
  let ?f = "upd_feed (fold (adm_exec js) others) f"
  have q: "quiet_others rest" "list_all (\<lambda>c. \<not> makes_evidence c) others" using Cons.prems(2) item by (auto simp: quiet_others_def)
  have step: ?case
    if s: "\<And>us. receiveMotionMessages js reported (item # us) f = receiveMotionMessages js reported' us f1"
      and e: "evidence (mf_admission f1) \<Longrightarrow> accepted_in js reported [item] f \<or> evidence (mf_admission f) \<and> answer \<noteq> SubscriptionAnswer"
      and n: "answer \<noteq> ReceiveError" for reported' f1
  proof -
    from Cons.IH [OF _ q(1) Cons.prems(3), of reported' f1] Cons.prems(1) s
    consider "accepted_in js reported' rest f1"
      | "evidence (mf_admission f1)" "list_all (\<lambda>x. snd x \<noteq> SubscriptionAnswer \<and> snd x \<noteq> ReceiveError) rest" by auto
    then show ?thesis
    proof cases
      case 1
      then show ?thesis using accepted_Cons [OF _ s] by blast
    next
      case 2
      from e [OF 2(1)] show ?thesis
      proof
        assume "accepted_in js reported [item] f"
        then obtain payload now where "answer = MessageAnswer motionEvidenceChannel payload now"
          "fst (receiveMotionEvidence js payload now (fold (adm_exec js) others (mf_admission f)))"
          by (auto simp: accepted_in_def item Cons_eq_append_conv)
        with 2(2) item have "accepted_in js reported (item # rest) f"
          by (intro accepted_inI [where us = "[]"]) simp_all
        then show ?thesis ..
      qed (use 2(2) item n in simp)
    qed
  qed
  show ?case
  proof (cases answer)
    case SubscriptionAnswer
    show ?thesis by (rule step [of False "upd_feed resetMotionStream ?f"]) (simp_all add: item SubscriptionAnswer)
  next
    case (MessageAnswer channel payload now)
    have keep: "evidence (mf_admission ?f) \<Longrightarrow> evidence (mf_admission f)" using evidence_others [OF q(2)] by simp
    obtain acc a where a: "receiveMotionEvidence js payload now (mf_admission ?f) = (acc, a)" by fastforce
    have acc: "evidence a \<Longrightarrow> channel = motionEvidenceChannel \<Longrightarrow> accepted_in js reported [item] f"
      using evidence_accepted [of js payload now "mf_admission ?f"] a
      by (intro accepted_inI [where us = "[]" and vs = "[]"]) (auto simp: item MessageAnswer)
    show ?thesis
    proof (cases "channel = motionEvidenceChannel")
      case False
      show ?thesis by (rule step [of reported ?f]) (use keep in \<open>simp_all add: item MessageAnswer False\<close>)
    next
      case True
      define f1 where "f1 = (if acc \<and> \<not> reported
        then ?f\<lparr>mf_admission := a, mf_log := mf_log ?f @ [''Received fresh motion evidence from ecu-service'']\<rparr>
        else ?f\<lparr>mf_admission := a\<rparr>)"
      have "mf_admission f1 = a" by (simp add: f1_def)
      moreover have "receiveMotionMessages js reported (item # us) f =
          receiveMotionMessages js (reported \<or> acc) us f1" for us
        using a by (auto simp: item MessageAnswer True f1_def Let_def)
      ultimately show ?thesis using step [of "reported \<or> acc" f1] acc True by (simp add: MessageAnswer)
    qed
  next
    case OtherAnswer
    have keep: "evidence (mf_admission ?f) \<Longrightarrow> evidence (mf_admission f)" using evidence_others [OF q(2)] by simp
    show ?thesis by (rule step [of reported ?f]) (use keep in \<open>simp_all add: item OtherAnswer\<close>)
  next
    case ReceiveError
    with Cons.prems item show ?thesis by simp
  qed
qed simp

text \<open>
  C20: Evidence of movement is of the current subscription. If after any number of sessions, with
  whatever the other goroutines do to the guard meanwhile, evidence stands, then the goroutine is still
  receiving, and the message that made it was accepted in the session in progress after its last
  (re)subscription; nothing from before a reconnect and nothing after the goroutine has returned can
  qualify a second pack.
\<close>

theorem evidence_of_current_subscription:
  assumes "runMotionSubscriber js ss f = (ended, f')" and "\<not> evidence (mf_admission f)"
    and "list_all (\<lambda>s. quiet_others (ms_answers s)) ss" and "evidence (mf_admission f')"
  shows "\<not> ended \<and> (\<exists>ss1 s ss2. ss = ss1 @ s # ss2 \<and>
            accepted_in js False (ms_answers s) (snd (runMotionSubscriber js ss1 f)) \<and>
            receiveMotionMessages js False (ms_answers s) (snd (runMotionSubscriber js ss1 f)) = (False, f'))"
  using assms
proof (induction ss arbitrary: f)
  case (Cons s ss)
  obtain fin f1 where r: "receiveMotionMessages js False (ms_answers s) f = (fin, f1)" by fastforce
  have b: "\<not> ms_cancelledBefore s" using Cons.prems(1,4) by auto
  show ?case
  proof (cases fin)
    case False
    with Cons.prems(1) r b have e: "\<not> ended" "f' = f1" by auto
    from receive_evidence [of js False "ms_answers s" f f1] r False e Cons.prems(2-4)
    have "accepted_in js False (ms_answers s) f" by auto
    with e r False show ?thesis by (intro conjI exI [of _ "[]"] exI [of _ s] exI [of _ ss]) auto
  next
    case True
    let ?f2 = "upd_feed resetMotionStream f1"
    have n: "\<not> ms_cancelledAfter s" "\<not> ms_cancelledWaiting s"
      using Cons.prems(1,4) r b True by (auto simp: Let_def split: if_split_asm)
    then have s: "runMotionSubscriber js (s # us) f = runMotionSubscriber js us ?f2" for us
      using r b True by (simp add: Let_def)
    from Cons.IH [of ?f2] Cons.prems s obtain ss1 t ss2 where i: "\<not> ended" "ss = ss1 @ t # ss2"
      "accepted_in js False (ms_answers t) (snd (runMotionSubscriber js ss1 ?f2))"
      "receiveMotionMessages js False (ms_answers t) (snd (runMotionSubscriber js ss1 ?f2)) = (False, f')" by auto
    then show ?thesis
      by (intro conjI exI [of _ "s # ss1"] exI [of _ t] exI [of _ ss2]) (simp_all add: s del: runMotionSubscriber.simps)
  qed
qed simp

end
