(* ===== verification/Diagnostics.thy ===== *)
theory Diagnostics
  imports Admission Logging
begin

text \<open>
  What the service logs about its decisions: the diagnostics line with its change key and the gate that
  keeps it from being repeated (\<open>admission_diagnostics.go\<close>), and the report of a sampling round
  (\<open>logSamplingReport\<close> of \<open>service.go\<close>). The guard is read, never changed.
\<close>

section \<open>The line\<close>

fun fmt_slot :: "slot \<Rightarrow> string" where
  "fmt_slot Slot0 = ''0''"
| "fmt_slot Slot1 = ''1''"

abbreviation fmt_word :: "64 word \<Rightarrow> string" where
  "fmt_word w \<equiv> fmt_nat (unat w)"

definition evidenceAge :: "gotime \<Rightarrow> gotime \<Rightarrow> string" where
  "evidenceAge now at =
     (if IsZero at then ''unknown'' else fmt_duration (roundDur (Sub now at) Millisecond))"

definition diagnosticsHead :: "gotime \<Rightarrow> nat \<Rightarrow> packAdmission \<Rightarrow> string" where
  "diagnosticsHead now maxDelta a =
     ''Dual-pack decision: vehicle='' @ vehicle a @ '' conservative='' @ fmt_bool (conservative a) @
     '' delta_mv='' @ fmt_nat (voltageDistance (Voltage (frame (slots a Slot0))) (Voltage (frame (slots a Slot1)))) @
     '' limit_mv='' @ fmt_nat maxDelta @ '' paired_round='' @ fmt_word (pairedID (sampling a)) @
     '' pair_age='' @ evidenceAge now (pairedAt (sampling a))"

definition isolationText :: "isolationEpisode \<Rightarrow> string" where
  "isolationText e =
     '' target='' @ fmt_slot (survivor e) @ '' victim='' @ fmt_slot (victim e) @ '' handover='' @ fmt_bool (handover e) @
     '' off_attempted='' @ fmt_bool (attempted e) @ '' off_confirmed='' @ fmt_bool (offConfirmed e)"

definition isolationKey :: "isolationEpisode \<Rightarrow> string" where
  "isolationKey e =
     ''/isolation:'' @ fmt_slot (victim e) @ '':'' @ fmt_bool (handover e) @ '':'' @ fmt_bool (attempted e) @ '':'' @
     fmt_bool (offConfirmed e)"

text \<open>The three previews of a slot: as it is, and as a pack joining without and with the strict rules.\<close>

definition slotPreviews ::
  "slot \<Rightarrow> gotime \<Rightarrow> nat \<Rightarrow> packAdmission \<Rightarrow> (bool \<times> string) \<times> (bool \<times> string) \<times> (bool \<times> string)" where
  "slotPreviews i now maxDelta a =
     (let text = (\<lambda>p. (fst p, admission_reason_text (snd p)))
      in (text (previewOn i now maxDelta False (conservative a) a), text (previewOn i now maxDelta True False a),
          text (previewOn i now maxDelta True True a)))"

definition slotText :: "slot \<Rightarrow> gotime \<Rightarrow> nat \<Rightarrow> packAdmission \<Rightarrow> string" where
  "slotText i now maxDelta a =
     (let s = slots a i; d = frame s
      in case slotPreviews i now maxDelta a of
           ((on, reason), (join, joinReason), (strict, strictReason)) \<Rightarrow>
             '' slot'' @ fmt_slot i @ ''={state='' @ BMSState_String (State d) @ '' eligible='' @ fmt_bool (eligible s) @
             '' absent='' @ fmt_bool (absent s) @ '' voltage_mv='' @ fmt_nat (Voltage d) @
             '' current_ma='' @ fmt_int (Current d) @ '' charge='' @ fmt_nat (Charge d) @
             '' fault='' @ fmt_nat (FaultCode d) @ '' fresh='' @ fmt_bool (fresh now s) @
             '' read_age='' @ evidenceAge now (observed s) @ '' changed_age='' @ evidenceAge now (written s) @
             '' round='' @ fmt_word (observedRound s) @ '' samples='' @ fmt_nat (length (history s)) @
             '' stable='' @ fmt_bool (stable now s) @ '' held='' @ fmt_bool (held s) @
             '' active_confirmed='' @ fmt_bool (active s) @ '' off_pending='' @ fmt_bool (offPending s) @
             '' on_age='' @ evidenceAge now (onAt s) @ '' last_on_age='' @ evidenceAge now (lastOnAt s) @
             '' off_age='' @ evidenceAge now (offAt s) @
             '' off_after_last_on='' @ fmt_bool (\<not> Before (offAt s) (lastOnAt s)) @
             '' command_on='' @ fmt_bool on @ '' reason='' @ fmt_quoted reason @
             '' baseline_new_on='' @ fmt_bool join @ '' baseline_reason='' @ fmt_quoted joinReason @
             '' strict_new_on='' @ fmt_bool strict @ '' strict_reason='' @ fmt_quoted strictReason @ ''}'')"

definition slotKey :: "slot \<Rightarrow> gotime \<Rightarrow> nat \<Rightarrow> packAdmission \<Rightarrow> string" where
  "slotKey i now maxDelta a =
     (case slotPreviews i now maxDelta a of
        ((on, reason), (join, joinReason), (strict, strictReason)) \<Rightarrow>
          ''/'' @ BMSState_String (State (frame (slots a i))) @ '':'' @ fmt_bool on @ '':'' @ reason @ '':'' @
          fmt_bool join @ '':'' @ joinReason @ '':'' @ fmt_bool strict @ '':'' @ strictReason)"

definition diagnostics :: "gotime \<Rightarrow> nat \<Rightarrow> packAdmission \<Rightarrow> string \<times> string" where
  "diagnostics now maxDelta a0 =
     (let a = cloneLocked a0
      in if \<exists>i. \<not> haveFrame (slots a i) \<or> \<not> Present (frame (slots a i)) then ([], [])
         else (diagnosticsHead now maxDelta a @ (case isolation a of None \<Rightarrow> [] | Some e \<Rightarrow> isolationText e) @
                 slotText Slot0 now maxDelta a @ slotText Slot1 now maxDelta a,
               vehicle a @ ''/'' @ fmt_bool (conservative a) @ ''/'' @ fmt_nat maxDelta @
                 (case isolation a of None \<Rightarrow> [] | Some e \<Rightarrow> isolationKey e) @
                 slotKey Slot0 now maxDelta a @ slotKey Slot1 now maxDelta a))"

section \<open>The gate\<close>

text \<open>\<open>admissionLogKey\<close> and \<open>admissionLogAt\<close> of the service, and what was given to its logger.\<close>

record log_gate =
  admissionLogKey :: string
  admissionLogAt :: gotime
  logged :: "slogRecord list"

definition log_message :: "int \<Rightarrow> string \<Rightarrow> log_gate \<Rightarrow> log_gate" where
  "log_message lvl msg g = g\<lparr>logged := logged g @ [\<lparr>rec_Level = lvl, rec_Message = msg, rec_Attrs = []\<rparr>]\<rparr>"

definition logAdmissionDiagnostics :: "gotime \<Rightarrow> nat \<Rightarrow> packAdmission \<Rightarrow> log_gate \<Rightarrow> log_gate" where
  "logAdmissionDiagnostics now maxDelta a g =
     (case diagnostics now maxDelta a of (message, key) \<Rightarrow>
        if message = [] then g
        else if key \<noteq> admissionLogKey g \<or> Sub now (admissionLogAt g) \<ge> 30 * Second
        then (log_message slogLevelInfo message g)\<lparr>admissionLogKey := key, admissionLogAt := now\<rparr>
        else log_message slogLevelDebug message g)"

definition logSamplingReport :: "samplingReport \<Rightarrow> log_gate \<Rightarrow> log_gate" where
  "logSamplingReport r g =
     (if rep_id r = 0 then g
      else log_message slogLevelDebug
             (''Paired status round: round='' @ fmt_word (rep_id r) @ '' result='' @
              fmt_quoted (round_reason_text (rep_reason r)) @ '' skew='' @ fmt_duration (rep_skew r) @
              '' status0_duration=['' @ fmt_duration (rep_status0 r Slot0) @ '' '' @ fmt_duration (rep_status0 r Slot1) @
              ''] frame_duration=['' @ fmt_duration (rep_frame r Slot0) @ '' '' @ fmt_duration (rep_frame r Slot1) @ '']'') g)"

text \<open>The logging of one poll: the decision, then the report of the round that has ended.\<close>

definition logPoll :: "gotime \<times> nat \<times> packAdmission \<Rightarrow> log_gate \<Rightarrow> log_gate" where
  "logPoll p g =
     (case p of (now, maxDelta, a) \<Rightarrow>
        logSamplingReport (snd (fst (beginRound now a))) (logAdmissionDiagnostics now maxDelta a g))"

section \<open>No change goes unlogged\<close>

definition infos :: "log_gate \<Rightarrow> string list" where
  "infos g = map rec_Message (filter (\<lambda>r. rec_Level r = slogLevelInfo) (logged g))"

lemma infos_log [simp]:
  "infos (log_message slogLevelInfo msg g) = infos g @ [msg]" "infos (log_message slogLevelDebug msg g) = infos g"
  by (simp_all add: infos_def log_message_def slog_levels)

lemma infos_report [simp]:
  "infos (logSamplingReport r g) = infos g" "admissionLogKey (logSamplingReport r g) = admissionLogKey g"
  "admissionLogAt (logSamplingReport r g) = admissionLogAt g"
  by (simp_all add: logSamplingReport_def) (simp_all add: log_message_def)

lemma infos_frame [simp]: "infos (g\<lparr>admissionLogKey := k\<rparr>) = infos g" "infos (g\<lparr>admissionLogAt := t\<rparr>) = infos g"
  by (simp_all add: infos_def)

text \<open>Whether a poll logs its decision at info level.\<close>

definition info_due :: "gotime \<Rightarrow> string \<times> string \<Rightarrow> log_gate \<Rightarrow> bool" where
  "info_due now mk g \<longleftrightarrow>
     fst mk \<noteq> [] \<and> (snd mk \<noteq> admissionLogKey g \<or> Sub now (admissionLogAt g) \<ge> 30 * Second)"

lemma logPoll_infos:
  "infos (logPoll (now, md, a) g) = infos g @ (if info_due now (diagnostics now md a) g then [fst (diagnostics now md a)] else [])"
  "admissionLogKey (logPoll (now, md, a) g) =
     (if info_due now (diagnostics now md a) g then snd (diagnostics now md a) else admissionLogKey g)"
  "admissionLogAt (logPoll (now, md, a) g) = (if info_due now (diagnostics now md a) g then now else admissionLogAt g)"
proof -
  obtain m k where d: "diagnostics now md a = (m, k)" by fastforce
  have l: "admissionLogKey (log_message l x h) = admissionLogKey h" "admissionLogAt (log_message l x h) = admissionLogAt h" for l x h
    by (simp_all add: log_message_def)
  show "infos (logPoll (now, md, a) g) = infos g @ (if info_due now (diagnostics now md a) g then [fst (diagnostics now md a)] else [])"
    "admissionLogKey (logPoll (now, md, a) g) =
      (if info_due now (diagnostics now md a) g then snd (diagnostics now md a) else admissionLogKey g)"
    "admissionLogAt (logPoll (now, md, a) g) = (if info_due now (diagnostics now md a) g then now else admissionLogAt g)"
    by (simp_all add: logPoll_def logAdmissionDiagnostics_def d info_due_def l)
qed

text \<open>The decisions a run of polls logs at info level, with their times and keys.\<close>

fun info_entries :: "(gotime \<times> nat \<times> packAdmission) list \<Rightarrow> log_gate \<Rightarrow> (gotime \<times> string \<times> string) list" where
  "info_entries [] g = []"
| "info_entries ((now, md, a) # ps) g =
     (if info_due now (diagnostics now md a) g then [(now, diagnostics now md a)] else []) @
     info_entries ps (logPoll (now, md, a) g)"

text \<open>The keys of the decisions there were.\<close>

definition poll_keys :: "(gotime \<times> nat \<times> packAdmission) list \<Rightarrow> string list" where
  "poll_keys ps = map snd (filter (\<lambda>mk. fst mk \<noteq> []) (map (\<lambda>(now, md, a). diagnostics now md a) ps))"

definition spaced :: "gotime \<times> string \<times> string \<Rightarrow> gotime \<times> string \<times> string \<Rightarrow> bool" where
  "spaced x y \<longleftrightarrow> snd (snd x) \<noteq> snd (snd y) \<or> Sub (fst y) (fst x) \<ge> 30 * Second"

lemma entries_infos: "infos (fold logPoll ps g) = infos g @ map (fst \<circ> snd) (info_entries ps g)"
  by (induction ps g rule: info_entries.induct) (auto simp: logPoll_infos)

lemma entries_keys:
  "remdups_adj (admissionLogKey g # map (snd \<circ> snd) (info_entries ps g)) = remdups_adj (admissionLogKey g # poll_keys ps)"
proof (induction ps g rule: info_entries.induct)
  case (2 now md a ps g)
  obtain m k where d: "diagnostics now md a = (m, k)" by fastforce
  have p: "poll_keys ((now, md, a) # ps) = (if m = [] then poll_keys ps else k # poll_keys ps)"
    by (simp add: poll_keys_def d)
  from 2 show ?case
    by (auto simp: p d logPoll_infos info_due_def split: if_split_asm)
qed (simp add: poll_keys_def)

lemma entries_spaced: "successively spaced ((admissionLogAt g, x, admissionLogKey g) # info_entries ps g)"
proof (induction ps g arbitrary: x rule: info_entries.induct)
  case (2 now md a ps g)
  obtain m k where d: "diagnostics now md a = (m, k)" by fastforce
  from 2 [of m] show ?case
    by (cases "info_due now (m, k) g") (auto simp: d logPoll_infos successively_Cons spaced_def info_due_def)
qed simp

text \<open>
  No change of a decision goes unlogged and none floods the log: over any run of polls of a changing
  guard, the keys of the decisions logged at info level are, up to repetition, the keys of all
  decisions there were, in order; consecutive entries with the same key are at least thirty seconds
  apart; and the info lines are exactly these decisions.
\<close>

lemma decision_changes_logged:
  "infos (fold logPoll ps g) = infos g @ map (fst \<circ> snd) (info_entries ps g) \<and>
   remdups_adj (admissionLogKey g # map (snd \<circ> snd) (info_entries ps g)) = remdups_adj (admissionLogKey g # poll_keys ps) \<and>
   successively spaced (info_entries ps g)"
proof (intro conjI)
  show "successively spaced (info_entries ps g)"
    using entries_spaced [of g "[]" ps] by (cases "info_entries ps g") (auto simp: successively_Cons)
qed (rule entries_infos, rule entries_keys)

text \<open>An age in the line is the age rounded to a millisecond.\<close>

lemma age_rounded:
  "0 \<le> d \<Longrightarrow> d \<le> maxDuration - Millisecond \<Longrightarrow>
   Millisecond dvd roundDur d Millisecond \<and> 2 * \<bar>roundDur d Millisecond - d\<bar> \<le> Millisecond"
  by (rule roundDur_near) (simp_all add: const_defs)

text \<open>Reasons are quoted without escapes.\<close>

lemma reason_quoted: "fmt_quoted (admission_reason_text r) = CHR 0x22 # admission_reason_text r @ [CHR 0x22]"
  by (cases r) (simp_all add: fmt_quoted_def quoteChar_def)

end
