(* ===== verification/Lifecycle.thy ===== *)
theory Lifecycle
  imports System_Safety
begin

text \<open>
  From the command line to a running service and back: the configuration of \<open>main.go\<close>, creation and
  start of the service and its readers (\<open>NewService\<close>, \<open>Start\<close>, the beginning of \<open>run\<close>), the subscriber
  loop, and shutdown. What the hardware and Redis do on the way is a parameter.
\<close>

section \<open>The command line\<close>

record flags =
  fl_version :: bool
  fl_log :: int
  fl_redisServer :: string
  fl_redisPort :: nat
  fl_heartbeatTimeout :: nat
  fl_offUpdateTime :: nat
  fl_debug :: bool
  fl_keepActiveOnSeatboxOpen :: bool
  fl_device0 :: string
  fl_log0 :: int
  fl_device1 :: string
  fl_log1 :: int
  fl_battery1Active :: bool
  fl_disableBattery1 :: bool

definition defaultFlags :: flags where
  "defaultFlags =
     \<lparr>fl_version = False, fl_log = 3, fl_redisServer = ''127.0.0.1'', fl_redisPort = 6379, fl_heartbeatTimeout = 40, fl_offUpdateTime = 1800,
      fl_debug = False, fl_keepActiveOnSeatboxOpen = False, fl_device0 = ''/dev/pn5xx_i2c0'', fl_log0 = 3,
      fl_device1 = ''/dev/pn5xx_i2c1'', fl_log1 = 3, fl_battery1Active = False, fl_disableBattery1 = False\<rparr>"

text \<open>\<open>time.Duration(u) * time.Second\<close>: int64 arithmetic.\<close>

definition secondsOf :: "nat \<Rightarrow> duration" where
  "secondsOf u = wrap64 (wrap64 (int u) * Second)"

definition mainConfig :: "flags \<Rightarrow> ServiceConfig" where
  "mainConfig f =
     \<lparr>RedisServerAddress = fl_redisServer f, RedisServerPort = word_of_nat (fl_redisPort f),
      HeartbeatTimeout = secondsOf (fl_heartbeatTimeout f), OffUpdateTime = secondsOf (fl_offUpdateTime f),
      KeepActiveOnSeatboxOpen = fl_keepActiveOnSeatboxOpen f, MaxVoltageDelta = DefaultMaxVoltageDeltaMV,
      AuxLowKeepActiveEnterMv = 0, AuxLowKeepActiveExitMv = 0, AuxLowKeepActive = False,
      AuxLowKeepActiveEvaluated = False\<rparr>"

definition mainReaders :: "flags \<Rightarrow> BatteryConfiguration" where
  "mainReaders f =
     [\<lparr>Index = 0, Role = BatteryRoleActive, Enabled = True, DeviceName = fl_device0 f, LogLevel = fl_log0 f\<rparr>,
      \<lparr>Index = 1, Role = (if fl_battery1Active f then BatteryRoleActive else BatteryRoleInactive),
       Enabled = (\<not> fl_disableBattery1 f), DeviceName = fl_device1 f, LogLevel = fl_log1 f\<rparr>]"

section \<open>Creation\<close>

text \<open>
  What creation and start meet: whether Redis answers the ping, whether the controller of a reader
  can be opened and its machine started, the clock, and which transactions will succeed.
\<close>

record surroundings =
  at_ping :: bool
  at_open :: "BatteryReaderConfig \<Rightarrow> bool"
  at_machine :: "nat \<Rightarrow> bool"
  at_now :: gotime
  at_txn :: "int \<Rightarrow> nat \<Rightarrow> bool"

definition newPort :: "surroundings \<Rightarrow> BatteryReaderConfig \<Rightarrow> reader_port" where
  "newPort S c =
     \<lparr>pt_reader = NewBatteryReader (Role c) (at_now S) (at_txn S (Index c)), pt_vehicleStateChan = None,
      pt_seatboxLockChan = None, pt_enabledChan = None, pt_keepActiveChan = False\<rparr>"

text \<open>The loop of \<open>NewService\<close>: the readers by position, and whether one with an active role was created.\<close>

fun createReaders :: "surroundings \<Rightarrow> BatteryConfiguration \<Rightarrow> reader_port option list \<times> bool" where
  "createReaders S [] = ([], False)"
| "createReaders S (c # cs) =
     (case createReaders S cs of (ps, anyActive) \<Rightarrow>
        if \<not> Enabled c then (None # ps, anyActive)
        else if \<not> at_open S c then (None # ps, anyActive)
        else (Some (newPort S c) # ps, Role c = BatteryRoleActive \<or> anyActive))"

datatype service_error = RedisUnreachable | NoActiveReader

text \<open>The guard is made by \<open>Start\<close>; until then the field holds the zero value.\<close>

definition NewService :: "surroundings \<Rightarrow> ServiceConfig \<Rightarrow> BatteryConfiguration \<Rightarrow> service_error + Service" where
  "NewService S config batteryConfig =
     (if \<not> at_ping S then Inl RedisUnreachable
      else case createReaders S batteryConfig of (ps, anyActive) \<Rightarrow>
        if \<not> anyActive then Inl NoActiveReader
        else Inr \<lparr>sv_config = config, sv_batteryConfig = batteryConfig, sv_vehicleState = VehicleStateStandby,
                  sv_readers = ps, sv_admission = zeroAdmission, sv_admissionRequests = False,
                  sv_admissionReady = False, sv_driveStartDeadline = None\<rparr>)"

section \<open>Start\<close>

definition redisKey :: "redis_get \<Rightarrow> string \<Rightarrow> string \<Rightarrow> string option" where
  "redisKey rg hash field = (case rg hash field of RedisValue v \<Rightarrow> Some v | _ \<Rightarrow> None)"

text \<open>\<open>Start\<close> of a reader: when its machine starts, its event loop begins.\<close>

definition startReader :: "redis_get \<Rightarrow> surroundings \<Rightarrow> ServiceConfig \<Rightarrow> nat \<Rightarrow> reader_port \<Rightarrow> reader_port" where
  "startReader rg S config n p =
     (if \<not> at_machine S n then p
      else p\<lparr>pt_reader := runStart config (at_now S) (redisKey rg ''vehicle'' ''state'')
                            (redisKey rg ''vehicle'' ''seatbox:lock'') (pt_reader p)\<rparr>)"

definition startService :: "redis_get \<Rightarrow> surroundings \<Rightarrow> Service \<Rightarrow> Service" where
  "startService rg S s0 =
     (let s = startSettings rg (at_now S) s0
      in s\<lparr>sv_readers := map (\<lambda>(n, p). map_option (startReader rg S (sv_config s) n) p) (enumerate 0 (sv_readers s))\<rparr>)"

section \<open>The subscriber\<close>

text \<open>
  The goroutine that answers messages: it ends the process when the subscription fails or its channel
  closes, and returns when the service is cancelled.
\<close>

datatype subscriber_event = SubMessage redis_get gotime string string | SubClosed | SubCancelled
datatype subscriber_outcome = SubWaiting | SubFatal | SubReturned

fun subscriberLoop :: "subscriber_event list \<Rightarrow> Service \<Rightarrow> subscriber_outcome \<times> Service" where
  "subscriberLoop [] s = (SubWaiting, s)"
| "subscriberLoop (SubMessage rg now channel payload # es) s = subscriberLoop es (handleMessage rg now channel payload s)"
| "subscriberLoop (SubClosed # es) s = (SubFatal, s)"
| "subscriberLoop (SubCancelled # es) s = (SubReturned, s)"

definition runRedisSubscriber ::
  "bool \<Rightarrow> redis_get \<Rightarrow> gotime \<Rightarrow> subscriber_event list \<Rightarrow> Service \<Rightarrow> subscriber_outcome \<times> Service" where
  "runRedisSubscriber established rg now es s =
     (if \<not> established then (SubFatal, s) else subscriberLoop es (handleDriveStartStatusMessage rg now s))"

section \<open>The process\<close>

definition zeroFsmData :: fsmData where
  "zeroFsmData =
     \<lparr>justInserted = False, justOpened = False, latchedSeatboxClosed = False, tagAbsentPolling = False,
      checkPresencePolling = False, consecutiveReadFailures = 0, tagPresent = False, admissionPollPending = False\<rparr>"

text \<open>A machine as \<open>fsm.New\<close> and \<open>Start\<close> leave it: in its initial state, which does nothing on entry.\<close>

definition newMachine :: "'h \<Rightarrow> slot \<Rightarrow> Service \<Rightarrow> 'h world fsm" where
  "newMachine h i s =
     \<lparr>fx_data = zeroFsmData,
      fx_world = \<lparr>w_reader = NewBatteryReader BatteryRoleInactive zeroTime (\<lambda>n. False), w_slot = Some i,
                  w_adm = sv_admission s, w_config = sv_config s, w_inhibitor = False, w_demand = False, w_ready = False,
                  w_hal = h, w_trace = []\<rparr>,
      fx_sent = [], fx_timers = []\<rparr>"

definition boot ::
  "flags \<Rightarrow> surroundings \<Rightarrow> redis_get \<Rightarrow> (slot \<Rightarrow> 'h) \<Rightarrow> service_error + 'h system" where
  "boot f S rg h =
     (case NewService S (mainConfig f) (mainReaders f) of
        Inl e \<Rightarrow> Inl e
      | Inr s0 \<Rightarrow>
          let s = startService rg S s0
          in Inr (collect Slot0 (collect Slot1
               \<lparr>sy_service = s, sy_state = (\<lambda>i. StateInit), sy_ctx = (\<lambda>i. newMachine (h i) i s), sy_queue = (\<lambda>i. [])\<rparr>)))"

section \<open>Shutdown\<close>

text \<open>
  Stopped timers are no longer stored. (The source keeps pointers to them, which would matter only to
  a later request for the same fault.)
\<close>

definition cleanupFaultManagement :: "BatteryReader \<Rightarrow> BatteryReader" where
  "cleanupFaultManagement r =
     r\<lparr>rd_faultStates := (\<lambda>f. map_option (\<lambda>s. s\<lparr>SetTimer := None, ResetTimer := None\<rparr>) (rd_faultStates r f))\<rparr>"

definition stopReader :: "(string \<Rightarrow> motionEvidence option) \<Rightarrow> 'h hal_ops \<Rightarrow> 'h world \<Rightarrow> 'h world" where
  "stopReader js H w = deinitializeNFC js H (upd_reader cleanupFaultManagement w)"

definition stopSlot :: "(string \<Rightarrow> motionEvidence option) \<Rightarrow> 'h hal_ops \<Rightarrow> gotime \<Rightarrow> slot \<Rightarrow> 'h system \<Rightarrow> 'h system" where
  "stopSlot js H now i y =
     at_slot i (\<lambda>p y. let c = loaded now i p y
                      in stored i p (sy_state y i, c\<lparr>fx_world := stopReader js H (fx_world c)\<rparr>) y) y"

text \<open>\<open>Stop\<close>: sampling first, then the readers, each in a goroutine of its own.\<close>

definition stopSystem ::
  "(string \<Rightarrow> motionEvidence option) \<Rightarrow> (slot \<Rightarrow> 'h hal_ops) \<Rightarrow> gotime \<Rightarrow> slot list \<Rightarrow> 'h system \<Rightarrow> 'h system" where
  "stopSystem js H now order y =
     fold (\<lambda>i. stopSlot js (H i) now i) order (y\<lparr>sy_service := stopService (sy_service y)\<rparr>)"

section \<open>The main function\<close>

text \<open>
  The flags of Go's package \<open>log\<close>. Under systemd, which sets \<open>JOURNAL_STREAM\<close>, the journal stamps the lines.
\<close>

definition LstdFlags :: nat where [simp]: "LstdFlags = 3"
definition Lmicroseconds :: nat where [simp]: "Lmicroseconds = 4"
definition Lmsgprefix :: nat where [simp]: "Lmsgprefix = 64"

definition logFlags :: "string \<Rightarrow> nat" where
  "logFlags journalStream = (if journalStream \<noteq> [] then 0 else or (or LstdFlags Lmicroseconds) Lmsgprefix)"

text \<open>
  How the process ends: after printing its version, by \<open>Fatalf\<close> when the service cannot be created, or
  stopped by a signal. (\<open>Start\<close> reports no error.)
\<close>

datatype 'h main_result = VersionShown string | CreateFailed service_error | Terminated "'h system"

text \<open>\<open>ops\<close> are the steps of the goroutines until the signal, \<open>now\<close> and \<open>order\<close> those of the shutdown.\<close>

definition mainRun ::
  "(string \<Rightarrow> motionEvidence option) \<Rightarrow> (slot \<Rightarrow> 'h hal_ops) \<Rightarrow>
   (slot \<Rightarrow> StateID \<Rightarrow> EventID \<Rightarrow> 'h world fsm \<Rightarrow> StateID \<times> 'h world fsm) \<Rightarrow>
   string \<Rightarrow> flags \<Rightarrow> surroundings \<Rightarrow> redis_get \<Rightarrow> (slot \<Rightarrow> 'h) \<Rightarrow> sys_op list \<Rightarrow> gotime \<Rightarrow> slot list \<Rightarrow> 'h main_result" where
  "mainRun js H D version f S rg h ops now order =
     (if fl_version f then VersionShown (''battery-service version '' @ version @ [CHR 0x0A])
      else case boot f S rg h of
        Inl e \<Rightarrow> CreateFailed e
      | Inr y \<Rightarrow> Terminated (stopSystem js H now order (fold (sys_exec js H D) ops y)))"

end
