(* ===== verification/Lifecycle_Safety.thy ===== *)
theory Lifecycle_Safety
  imports Lifecycle Handler_Safety
begin

text \<open>
  Properties of the service from start to shutdown: when it starts at all, what the guard knows then,
  that roles agree in every part, and that shutting down admits nothing new.
\<close>

section \<open>Numbers of the command line\<close>

lemma secondsOf_exact: "u \<le> 9223372036 \<Longrightarrow> secondsOf u = int u * Second"
proof -
  assume u: "u \<le> 9223372036"
  then have "wrap64 (int u) = int u" by (intro wrap64_id) auto
  moreover have "wrap64 (int u * Second) = int u * Second" using u by (intro wrap64_id) auto
  ultimately show ?thesis by (simp add: secondsOf_def)
qed

section \<open>What is created\<close>

lemma createReaders_any:
  "snd (createReaders S cs) \<longleftrightarrow> (\<exists>c \<in> set cs. Enabled c \<and> at_open S c \<and> Role c = BatteryRoleActive)"
  by (induction cs) (auto split: prod.split)

lemma createReaders_at:
  "length (fst (createReaders S cs)) = length cs"
  "n < length cs \<Longrightarrow> fst (createReaders S cs) ! n =
     (if Enabled (cs ! n) \<and> at_open S (cs ! n) then Some (newPort S (cs ! n)) else None)"
proof (induction cs arbitrary: n)
  case (Cons c cs)
  {
    case 1
    from Cons(1) show ?case by (auto split: prod.split)
  next
    case 2
    with Cons show ?case by (cases n) (auto split: prod.split)
  }
qed simp_all

text \<open>
  The service comes up exactly when Redis answers and a reader with an active role, enabled and
  with a working controller, exists; otherwise the error says which of the two failed. Each position
  then holds a reader for its own configuration entry, with the role of that entry, if it is enabled
  and its controller works, and none otherwise.
\<close>

lemma service_created_iff:
  "case NewService S config bc of
     Inl RedisUnreachable \<Rightarrow> \<not> at_ping S
   | Inl NoActiveReader \<Rightarrow> at_ping S \<and> \<not> (\<exists>c \<in> set bc. Enabled c \<and> at_open S c \<and> Role c = BatteryRoleActive)
   | Inr s \<Rightarrow> at_ping S \<and> (\<exists>c \<in> set bc. Enabled c \<and> at_open S c \<and> Role c = BatteryRoleActive) \<and>
       (\<forall>n. reader_at n s =
          (if n < length bc \<and> Enabled (bc ! n) \<and> at_open S (bc ! n) then Some (newPort S (bc ! n)) else None)) \<and>
       (\<forall>n p. reader_at n s = Some p \<longrightarrow>
          rd_role (pt_reader p) = Role (bc ! n) \<and> rd_enabled (pt_reader p) = (Role (bc ! n) = BatteryRoleActive))"
proof -
  obtain ps act where c: "createReaders S bc = (ps, act)" by fastforce
  have a: "act \<longleftrightarrow> (\<exists>c \<in> set bc. Enabled c \<and> at_open S c \<and> Role c = BatteryRoleActive)"
    using createReaders_any [of S bc] c by simp
  have l: "length ps = length bc" using createReaders_at(1) [of S bc] c by simp
  have p: "n < length bc \<Longrightarrow> ps ! n = (if Enabled (bc ! n) \<and> at_open S (bc ! n) then Some (newPort S (bc ! n)) else None)" for n
    using createReaders_at(2) [of n bc S] c by simp
  have r: "rd_role (pt_reader (newPort S d)) = Role d" "rd_enabled (pt_reader (newPort S d)) = (Role d = BatteryRoleActive)" for d
    by (simp_all add: newPort_def NewBatteryReader_def initializeFaultManagement_def)
  show ?thesis
    using a c l by (auto simp: NewService_def reader_at_def p r split: sum.split service_error.split if_split_asm)
qed

section \<open>Where a supply comes from\<close>

text \<open>A request granted to slot \<open>j\<close>, or an observation of it as active.\<close>

definition starts_supply :: "slot \<Rightarrow> adm_op \<Rightarrow> packAdmission \<Rightarrow> bool" where
  "starts_supply j c t \<longleftrightarrow>
     (\<exists>now md. c = OpRequestOn j now md \<and> fst (fst (requestOn j now md t))) \<or>
     (\<exists>d now. c = OpObserve j d now \<and> State d = BMSStateActive) \<or>
     (\<exists>n x. c = OpObserveAcquisition j n x \<and> State (acq_data x) = BMSStateActive)"

lemma supply_starts:
  assumes inv: "adm_inv t" and "\<not> held (slots t j)"
  shows "\<not> held (slots (adm_exec js c t) j) \<or> starts_supply j c t"
proof (rule ccontr)
  assume "\<not> (\<not> held (slots (adm_exec js c t) j) \<or> starts_supply j c t)"
  then have on: "held (slots (adm_exec js c t) j)" and no: "\<not> starts_supply j c t" by auto
  from exec_event [OF inv, of c j js] obtain ev where ev: "ev \<in> allowed_events c j"
    "ledger_step ev (abs_ledger (slots t j)) (abs_ledger (slots (adm_exec js c t) j))" by blast
  from ev(2) on assms(2) have "ev = Reserve \<or> ev = Confirm"
    by (cases rule: ledger_step.cases) (auto simp: abs_ledger_def split: if_splits)
  with ev(1) have "(\<exists>now md. c = OpRequestOn j now md) \<or> (\<exists>d now. c = OpObserve j d now \<and> State d = BMSStateActive) \<or>
      (\<exists>n x. c = OpObserveAcquisition j n x \<and> State (acq_data x) = BMSStateActive)"
    by (cases "(c, j)" rule: allowed_events.cases) (auto simp: frame_events_def split: if_splits)
  with no on assms(2) show False by (auto simp: starts_supply_def requestOn_power)
qed

section \<open>The guard at the start\<close>

definition admission_raw :: "redis_get \<Rightarrow> string option" where
  "admission_raw rg =
     (case rg ''settings'' ''experimental.battery.dual-pack-admission'' of RedisValue raw \<Rightarrow> Some raw | _ \<Rightarrow> None)"

lemma dual_calls: "calls_guard js (sv_admission s) (sv_admission (loadDualBatterySetting rg s))"
  by (simp add: loadDualBatterySetting_def Let_def split: redis_reply.split option.split)

lemma calls_via: "calls_guard js a b \<Longrightarrow> via_guard js a b"
  unfolding calls_guard_def by (elim disjE exE conjE) (simp_all only: via_refl via_op)

lemma start_guard:
  "via_guard js (loadAdmissionSetting (sv_batteryConfig s) (admission_raw rg)) (sv_admission (startSettings rg now s)) \<and>
   (\<forall>j. \<not> held (slots (sv_admission (startSettings rg now s)) j))"
proof -
  define s2 where "s2 = (upd_config (\<lambda>c. c\<lparr>KeepActiveOnSeatboxOpen := loadBoolSetting (rg ''settings'' keepActiveKey) (KeepActiveOnSeatboxOpen c),
      MaxVoltageDelta := loadUint64Setting (rg ''settings'' maxVoltageDeltaKey) (MaxVoltageDelta c),
      AuxLowKeepActiveEnterMv := loadUint64Setting (rg ''settings'' auxEnterKey) auxLowKeepActiveDefaultEnterMv,
      AuxLowKeepActiveExitMv := loadUint64Setting (rg ''settings'' auxExitKey) auxLowKeepActiveDefaultExitMv\<rparr>) s)
      \<lparr>sv_admission := loadAdmissionSetting (sv_batteryConfig s) (admission_raw rg)\<rparr>"
  let ?a = "sv_admission s2"
  let ?b = "sv_admission (loadDualBatterySetting rg s2)"
  have e: "startSettings rg now s = recomputeAuxLowKeepActive rg False (loadInitialVehicleState rg now (loadDualBatterySetting rg s2))"
    by (simp add: startSettings_def s2_def admission_raw_def upd_config_def Let_def)
  have a: "?a = loadAdmissionSetting (sv_batteryConfig s) (admission_raw rg)" by (simp add: s2_def)
  obtain b v where f: "sv_admission (startSettings rg now s) = setSeatbox b (setVehicleAt v now ?b)"
    unfolding e recompute_admission by (simp add: loadInitialVehicleState_def Let_def)
  have v: "calls_guard js ?a ?b" "calls_guard js ?b (setVehicleAt v now ?b)"
    "calls_guard js (setVehicleAt v now ?b) (setSeatbox b (setVehicleAt v now ?b))"
    by (simp_all add: dual_calls)
  then have "via_guard js ?a (sv_admission (startSettings rg now s))"
    unfolding f by (blast intro: via_trans calls_via)
  moreover have "\<not> held (slots (sv_admission (startSettings rg now s)) j)" for j
  proof -
    have "abs_ledger (slots (sv_admission (startSettings rg now s)) j) = abs_ledger (slots ?a j)"
      unfolding f using v service_call_ledger by metis
    moreover have "adm_initial ?a" unfolding a adm_initial_def by blast
    ultimately show ?thesis using initial_off(1) [of ?a j] by (auto simp: abs_ledger_def split: if_split_asm)
  qed
  ultimately show ?thesis using a by simp
qed

lemma boot_guard:
  assumes "boot f S rg h = Inr y"
  shows "\<exists>s0. sv_batteryConfig s0 = mainReaders f \<and> sv_admission (sy_service y) = sv_admission (startSettings rg (at_now S) s0)"
proof -
  from assms obtain s0 where "NewService S (mainConfig f) (mainReaders f) = Inr s0"
    "sv_admission (sy_service y) = sv_admission (startSettings rg (at_now S) s0)"
    by (auto simp: boot_def startService_def Let_def split: sum.split_asm)
  moreover from this(1) have "sv_batteryConfig s0 = mainReaders f"
    by (auto simp: NewService_def split: if_split_asm prod.split_asm)
  ultimately show ?thesis by blast
qed

lemma boot_inv:
  assumes "boot f S rg h = Inr y"
  shows "adm_inv (sv_admission (sy_service y))" "\<not> held (slots (sv_admission (sy_service y)) j)"
proof -
  from boot_guard [OF assms] obtain s0 where g: "sv_admission (sy_service y) = sv_admission (startSettings rg (at_now S) s0)" by blast
  have "adm_inv (loadAdmissionSetting (sv_batteryConfig s0) (admission_raw rg))"
    by (rule adm.inv_initial) (auto simp: adm_initial_def)
  then show "adm_inv (sv_admission (sy_service y))"
    using start_guard [of undefined s0 rg "at_now S"] adm.inv_run unfolding g via_guard_def by auto
  show "\<not> held (slots (sv_admission (sy_service y)) j)" unfolding g using start_guard by blast
qed

text \<open>
  C18: From the start of the process, whatever the command line, the contents of Redis and the hardware,
  and in every interleaving after that, the guard invariant holds; no pack counts as supplying at
  first, and one does later only since a guard operation of the run granted it ON or observed it
  active.
\<close>

theorem boot_keeps_guard:
  assumes "\<And>i. librefsm (readerActions js (H i)) (D i)" and "boot f S rg h = Inr y"
    and "fold (sys_exec js H D) ops y = y'"
  shows "adm_inv (sv_admission (sy_service y')) \<and> \<not> held (slots (sv_admission (sy_service y)) j) \<and>
         (\<exists>cs. sv_admission (sy_service y') = fold (adm_exec js) cs (sv_admission (sy_service y)) \<and>
            (\<not> held (slots (sv_admission (sy_service y')) j) \<or>
             (\<exists>us c vs. cs = us @ c # vs \<and> starts_supply j c (fold (adm_exec js) us (sv_admission (sy_service y))))))"
proof -
  note inv = boot_inv(1) [OF assms(2)] and off = boot_inv(2) [OF assms(2), of j]
  have client: "guard_client js (\<lambda>y. sv_admission (sy_service y)) (sys_exec js H D)"
    by (rule system_client) (rule assms(1))
  from guard_client.client_inv [OF client inv, of ops] off
    guard_client.client_kept [OF client, where Q = "\<lambda>t. \<not> held (slots t j)" and w = y and cs = ops, OF supply_starts inv off] assms(3)
  show ?thesis by simp
qed

section \<open>Shutdown\<close>

abbreviation stopped :: "packAdmission \<Rightarrow> bool" where
  "stopped a \<equiv> sampling_stopped (sampling a)"

lemma stopped_if: "stopped (if b then x else y) = (if b then stopped x else stopped y)"
  "stopped (snd (if b then u else v)) = (if b then stopped (snd u) else stopped (snd v))"
  by simp_all

lemma stopped_sampling [simp]:
  "stopped (upd_sampling f a) = sampling_stopped (f (sampling a))" "stopped (a\<lparr>isolation := e\<rparr>) = stopped a"
  by (simp_all add: upd_sampling_def)

lemma stopped_slots:
  "stopped (setRole i el a) = stopped a" "stopped (setSeatbox b a) = stopped a" "stopped (tag i u a) = stopped a"
  "stopped (failAcquisition i n x a) = stopped a" "stopped (observeAbsent i now a) = stopped a"
  "stopped (setVehicleAt v now a) = stopped a"
  by (simp_all add: setRole_def setSeatbox_def invalidateSeatboxLocked_def tag_def failAcquisition_def observeAbsent_def
      setVehicleAt_def stoppedMotionFreshLocked_def Let_def stopped_if split: option.split)

lemma stopped_observe: "stopped (observeLocked i d now a) = stopped a"
proof -
  have "stopped (observeIdentity i d b) = stopped b" "stopped (observePower i d now b) = stopped b" for b
    by (simp_all add: observeIdentity_def observePower_def Let_def stopped_if split: option.split)
  then show ?thesis by (simp add: observeLocked_def Let_def stopped_if)
qed

lemma stopped_acquisition: "stopped (snd (observeAcquisition i n x a)) = stopped a"
proof -
  have "stopped (snd (pairRound retry r x y b)) = stopped b" for retry r x y b
    by (simp add: pairRound_def Let_def stopped_if)
  then have "stopped (snd (deliverAcquisition i retry r x b)) = stopped b" for retry r x b
    by (simp add: deliverAcquisition_def Let_def stopped_if)
  then show ?thesis by (simp add: observeAcquisition_def Let_def stopped_if stopped_observe split: option.split)
qed

lemma stopped_rounds:
  "stopped a \<Longrightarrow> stopped (snd (beginRound now a))" "stopped (snd (claimRound i now a)) = stopped a"
  "stopped (stopSampling a)" "stopped a \<Longrightarrow> fst (fst (beginRound now a)) = 0"
  by (simp_all add: beginRound_def openRound_def claimRound_def stopSampling_def Let_def stopped_if split: option.split)

lemma stopped_motion:
  "stopped (observeMotionLocked st rc now a) = stopped a" "stopped (resetMotionStream a) = stopped a"
  "stopped (snd (receiveMotionEvidence js p now a)) = stopped a"
proof -
  show o: "stopped (observeMotionLocked st rc now a) = stopped a" for st rc now a
    by (simp add: observeMotionLocked_def Let_def stopped_if)
  show "stopped (resetMotionStream a) = stopped a" by (simp add: resetMotionStream_def)
  have ap: "stopped (snd (applyMotionEvidence e now b)) = stopped b" for e b
    by (simp add: applyMotionEvidence_def Let_def o split: option.split bool.split)
  show "stopped (snd (receiveMotionEvidence js p now a)) = stopped a"
    by (simp add: receiveMotionEvidence_def acceptMotionEvidence_def Let_def ap stopped_if)
qed

lemma stopped_requestOn: "stopped (snd (requestOn i now md a)) = stopped a"
proof -
  have g: "stopped (snd (grantOn i now b)) = stopped b" for b by (simp add: grantOn_def Let_def)
  have "stopped (snd (decideOn i now md b)) = stopped b" for b
    by (cases rule: decideOn_cases [of i now b md]) (simp_all add: g)
  then show ?thesis by (simp add: requestOn_eq Let_def split: prod.split) (metis reconcile_fields snd_conv)
qed

lemma stopped_exec: "stopped a \<Longrightarrow> stopped (adm_exec js c a)"
  by (cases c)
    (simp_all add: stopped_slots stopped_observe stopped_acquisition stopped_rounds stopped_motion stopped_requestOn
      observe_def observeMotion_def invalidateMotion_def offAttempt_def offAttemptLocked_def shouldIsolate_def
      isolationOffAttempt_def Let_def split: option.split)

lemma stopped_via: "via_guard js a b \<Longrightarrow> stopped a \<Longrightarrow> stopped b"
proof -
  have "stopped a \<Longrightarrow> stopped (fold (adm_exec js) cs a)" for cs
    by (induction cs arbitrary: a) (simp_all add: stopped_exec)
  then show "via_guard js a b \<Longrightarrow> stopped a \<Longrightarrow> stopped b" by (auto simp: via_guard_def)
qed

lemma stopped_request: "stopped a \<Longrightarrow> fst (fst (requestOn i now md a)) \<Longrightarrow> held (slots a i)"
proof -
  let ?a = "reconcileLocked now md a"
  assume s: "stopped a" and g: "fst (fst (requestOn i now md a))"
  from s have "stopped ?a" by simp
  then have n: "earlyDecision i now ?a \<noteq> None" using early_through(5) [of i now ?a] by blast
  from g have "fst (fst (decideOn i now md ?a))" by (simp add: requestOn_fst)
  then obtain r where "earlyDecision i now ?a = Some (True, r)"
    using n by (cases rule: decideOn_cases [of i now ?a md]) auto
  from early_allowed_held [OF this] show ?thesis by simp
qed

lemma policy_cleanup: "policy (cleanupFaultManagement r) = policy r"
  by (simp add: policy_def cleanupFaultManagement_def)

lemma stopReader_guarded: "guarded_step js w (stopReader js H w)"
  unfolding stopReader_def deinitializeNFC_def
  by (rule step_callout [OF surjective_pairing]) (simp add: policy_cleanup)

lemma stopSlot_via:
  "via_guard js (sv_admission (sy_service y)) (sv_admission (sy_service (stopSlot js H now i y)))"
proof (cases "port i y")
  case (Some p)
  from stopReader_guarded [of js "fx_world (loaded now i p y)" H] show ?thesis
    by (simp add: stopSlot_def at_slot_def Some Let_def guarded_step_def)
qed (simp add: stopSlot_def at_slot_def)

lemma stopSystem_via:
  "via_guard js (stopSampling (sv_admission (sy_service y))) (sv_admission (sy_service (stopSystem js H now order y)))"
proof -
  have "via_guard js (sv_admission (sy_service z))
      (sv_admission (sy_service (fold (\<lambda>i. stopSlot js (H i) now i) order z)))" for z
    by (induction order arbitrary: z) (auto intro: via_trans stopSlot_via)
  from this [of "y\<lparr>sy_service := stopService (sy_service y)\<rparr>"] show ?thesis
    by (simp add: stopSystem_def stopService_def)
qed

text \<open>A reader that was stopped raises and clears no fault by a timer.\<close>

lemma stopped_reader_timers:
  "fault_exec (FaultSetTimer f now) (cleanupFaultManagement r) = cleanupFaultManagement r"
  "fault_exec (FaultResetTimer f now) (cleanupFaultManagement r) = cleanupFaultManagement r"
  by (simp_all add: cleanupFaultManagement_def fault_state_def timerDue_def zeroFaultState_def split: option.split)

text \<open>
  C19: Shutting down admits nothing new: from the moment the service stops, whatever steps are still
  under way and in whatever order the readers are stopped, the guard begins no sampling round and grants
  ON only to a pack it already counts as supplying.
\<close>

theorem shutdown_admits_nothing_new:
  assumes "\<And>i. librefsm (readerActions js (H i)) (D i)"
    and "y' = fold (sys_exec js H D) ops (stopSystem js H now order y)"
  shows "(fst (fst (requestOn i t md (sv_admission (sy_service y')))) \<longrightarrow> held (slots (sv_admission (sy_service y')) i)) \<and>
         fst (fst (beginRound t (sv_admission (sy_service y')))) = 0"
proof -
  have client: "guard_client js (\<lambda>y. sv_admission (sy_service y)) (sys_exec js H D)"
    by (rule system_client) (rule assms(1))
  have "stopped (sv_admission (sy_service y'))"
    unfolding assms(2)
    by (rule stopped_via [OF via_trans [OF stopSystem_via guard_client.run_via [OF client]]]) (simp add: stopped_rounds)
  then show ?thesis using stopped_request stopped_rounds(4) by blast
qed

text \<open>
  How the process ends: with its version if asked for it; by the error of creation, which says what
  was missing; or stopped, with the guard sound and sampling over.
\<close>

lemma main_ends:
  assumes "\<And>i. librefsm (readerActions js (H i)) (D i)"
  shows "case mainRun js H D version f S rg h ops now order of
      VersionShown line \<Rightarrow> fl_version f
    | CreateFailed RedisUnreachable \<Rightarrow> \<not> at_ping S
    | CreateFailed NoActiveReader \<Rightarrow> at_ping S \<and> \<not> (\<exists>c \<in> set (mainReaders f). Enabled c \<and> at_open S c \<and> Role c = BatteryRoleActive)
    | Terminated y \<Rightarrow> adm_inv (sv_admission (sy_service y)) \<and> stopped (sv_admission (sy_service y))"
proof (cases "fl_version f")
  case False
  show ?thesis
  proof (cases "boot f S rg h")
    case (Inl e)
    then have "NewService S (mainConfig f) (mainReaders f) = Inl e" by (simp add: boot_def Let_def split: sum.split_asm)
    with Inl False service_created_iff [where S = S and config = "mainConfig f" and bc = "mainReaders f"] show ?thesis by (simp add: mainRun_def split: service_error.split)
  next
    case (Inr y)
    let ?y = "fold (sys_exec js H D) ops y"
    have client: "guard_client js (\<lambda>y. sv_admission (sy_service y)) (sys_exec js H D)"
      by (rule system_client) (rule assms)
    from guard_client.client_inv [OF client boot_inv(1) [OF Inr]] have inv: "adm_inv (sv_admission (sy_service ?y))" .
    have v: "via_guard js (stopSampling (sv_admission (sy_service ?y))) (sv_admission (sy_service (stopSystem js H now order ?y)))"
      by (rule stopSystem_via)
    have "via_guard js (sv_admission (sy_service ?y)) (sv_admission (sy_service (stopSystem js H now order ?y)))"
      using via_trans [OF via_op [of js _ OpStopSampling]] v by simp
    with inv have "adm_inv (sv_admission (sy_service (stopSystem js H now order ?y)))"
      using adm.inv_run unfolding via_guard_def by auto
    moreover have "stopped (sv_admission (sy_service (stopSystem js H now order ?y)))"
      by (rule stopped_via [OF v]) (simp add: stopped_rounds)
    ultimately show ?thesis using False Inr by (simp add: mainRun_def)
  qed
qed (simp add: mainRun_def)

section \<open>Roles\<close>

text \<open>The role the reader of a position acts in.\<close>

definition role_at :: "nat \<Rightarrow> Service \<Rightarrow> BatteryRole option" where
  "role_at n s = map_option (\<lambda>p. rd_role (pt_reader p)) (reader_at n s)"

definition reader_roles :: "Service \<Rightarrow> bool" where
  "reader_roles s \<longleftrightarrow>
     (\<forall>i rl. role_at (slot_nat i) s = Some rl \<longrightarrow>
        slot_nat i < length (sv_batteryConfig s) \<and> rl = Role (sv_batteryConfig s ! slot_nat i))"

definition roles_agree :: "Service \<Rightarrow> bool" where
  "roles_agree s \<longleftrightarrow>
     reader_roles s \<and>
     (\<forall>i. slot_nat i < length (sv_batteryConfig s) \<longrightarrow>
        eligible (slots (sv_admission s) i) =
          (Enabled (sv_batteryConfig s ! slot_nat i) \<and> Role (sv_batteryConfig s ! slot_nat i) = BatteryRoleActive))"

text \<open>What keeps roles alone: the configuration, the roles of the readers and who is eligible stay.\<close>

definition same_roles :: "Service \<Rightarrow> Service \<Rightarrow> bool" where
  "same_roles s t \<longleftrightarrow>
     sv_batteryConfig t = sv_batteryConfig s \<and> (\<forall>i. eligible (slots (sv_admission t) i) = eligible (slots (sv_admission s) i)) \<and>
     (\<forall>n. role_at n t = role_at n s)"

lemma same_roles_readers: "same_roles s t \<Longrightarrow> reader_roles s \<Longrightarrow> reader_roles t"
  by (simp add: same_roles_def reader_roles_def)

lemma same_roles_agree: "same_roles s t \<Longrightarrow> roles_agree s \<Longrightarrow> roles_agree t"
  using same_roles_readers [of s t] by (simp add: same_roles_def roles_agree_def)

lemma same_roles_refl [simp]: "same_roles s s"
  by (simp add: same_roles_def)

lemma same_roles_trans: "same_roles s t \<Longrightarrow> same_roles t u \<Longrightarrow> same_roles s u"
  by (simp add: same_roles_def)

lemma same_roles_for:
  assumes "\<And>p. rd_role (pt_reader (f p)) = rd_role (pt_reader p)"
  shows "same_roles s (forReaders f s)"
  unfolding same_roles_def
  by (auto simp: forReaders_def role_at_def reader_at_def option.map_comp comp_def assms)

lemma same_roles_admission:
  "(\<And>i. eligible (slots (g (sv_admission s)) i) = eligible (slots (sv_admission s) i)) \<Longrightarrow> same_roles s (upd_admission g s)"
  by (simp add: same_roles_def upd_admission_def role_at_def reader_at_def)

lemma same_roles_frame:
  "same_roles s (upd_config g s)" "same_roles s (s\<lparr>sv_vehicleState := v\<rparr>)" "same_roles s (s\<lparr>sv_driveStartDeadline := d\<rparr>)"
  "same_roles s (s\<lparr>sv_admissionRequests := b\<rparr>)" "same_roles s (s\<lparr>sv_admissionReady := b\<rparr>)"
  by (simp_all add: same_roles_def upd_config_def role_at_def reader_at_def)

lemma eligible_frame:
  "eligible (slots (setVehicleAt v now a) i) = eligible (slots a i)" "eligible (slots (setSeatbox b a) i) = eligible (slots a i)"
  "eligible (slots (snd (beginRound now a)) i) = eligible (slots a i)" "eligible (slots (stopSampling a) i) = eligible (slots a i)"
  by (simp_all add: setVehicleAt_def stoppedMotionFreshLocked_def setSeatbox_def invalidateSeatboxLocked_def
      invalidateSeatboxSlot_def beginRound_def openRound_def stopSampling_def Let_def split: option.split)

lemma same_roles_refresh: "same_roles s t \<Longrightarrow> same_roles s (refreshKeepActiveReaders t)"
  unfolding refreshKeepActiveReaders_def by (erule same_roles_trans) (rule same_roles_for, simp)

lemma same_roles_config: "same_roles s t \<Longrightarrow> same_roles s (upd_config g t)"
  by (erule same_roles_trans) (rule same_roles_frame)

lemma same_roles_recompute: "same_roles s t \<Longrightarrow> same_roles s (recomputeAuxLowKeepActive rg b t)"
  unfolding recomputeAuxLowKeepActive_def Let_def
  by (simp add: same_roles_refresh same_roles_config split: redis_reply.split option.split)

lemma message_roles:
  "same_roles s (handleVehicleStateMessage rg now s)" "same_roles s (handleSeatboxUpdate rg s)"
  "same_roles s (handleDriveStartStatusMessage rg now s)" "same_roles s (reloadKeepActive rg s)"
  "same_roles s (reloadMaxVoltageDelta rg s)" "same_roles s (reloadAuxEnter rg s)" "same_roles s (reloadAuxExit rg s)"
  "same_roles s (recomputeAuxLowKeepActive rg b s)"
proof -
  show "same_roles s (handleVehicleStateMessage rg now s)"
    unfolding handleVehicleStateMessage_def
    by (auto simp: SendVehicleStateChange_def eligible_frame split: redis_reply.split
        intro!: same_roles_trans [OF same_roles_trans [OF same_roles_frame(2) same_roles_admission] same_roles_for])
  show "same_roles s (handleSeatboxUpdate rg s)"
    unfolding handleSeatboxUpdate_def
    by (auto simp: SendSeatboxLockChange_def eligible_frame split: redis_reply.split
        intro!: same_roles_trans [OF same_roles_admission same_roles_for])
  show "same_roles s (handleDriveStartStatusMessage rg now s)"
    by (simp add: handleDriveStartStatusMessage_def setDriveStartStatus_def same_roles_def role_at_def reader_at_def
        split: redis_reply.split option.split)
qed (simp_all add: reloadKeepActive_def reloadMaxVoltageDelta_def reloadAuxEnter_def reloadAuxExit_def Let_def
    same_roles_refresh same_roles_config same_roles_recompute split: prod.split)

lemma pollAdmission_roles: "same_roles s t \<Longrightarrow> same_roles s (pollAdmission dm now t)"
proof (erule same_roles_trans)
  obtain rid rep a where b: "beginRound now (sv_admission t) = ((rid, rep), a)" by (metis prod.collapse)
  have "same_roles t (t\<lparr>sv_admission := a\<rparr>)"
    using eligible_frame(3) [of now "sv_admission t"] b by (simp add: same_roles_def role_at_def reader_at_def)
  then show "same_roles t (pollAdmission dm now t)"
    by (simp add: pollAdmission_def b Let_def promptAdmissionReaders_def same_roles_trans [OF _ same_roles_for])
qed

text \<open>The dual-battery setting changes all three together.\<close>

lemma setRole_eligible: "eligible (slots (setRole i el a) j) = (if j = i then el else eligible (slots a j))"
  by (simp add: setRole_def Let_def)

lemma set_role_readers:
  assumes "reader_roles s" "1 < length (sv_batteryConfig s)"
    and "sv_batteryConfig t = (sv_batteryConfig s)[1 := (sv_batteryConfig s ! 1)\<lparr>Role := rl\<rparr>]"
    and "role_at 0 t = role_at 0 s" and "role_at 1 t = None \<or> role_at 1 t = Some rl"
  shows "reader_roles t"
  using assms unfolding reader_roles_def all_slot by auto

lemma set_role_agrees:
  assumes "roles_agree s" "1 < length (sv_batteryConfig s)"
    and "sv_batteryConfig t = (sv_batteryConfig s)[1 := (sv_batteryConfig s ! 1)\<lparr>Role := rl\<rparr>]"
    and "\<And>i. eligible (slots (sv_admission t) i) =
          (if i = Slot1 then Enabled (sv_batteryConfig s ! 1) \<and> rl = BatteryRoleActive else eligible (slots (sv_admission s) i))"
    and "role_at 0 t = role_at 0 s" and "role_at 1 t = None \<or> role_at 1 t = Some rl"
  shows "roles_agree t"
  using set_role_readers [of s t rl] assms unfolding roles_agree_def all_slot by auto

lemma dual_cases:
  assumes "reader_roles s"
  shows "handleDualBatterySettingChange rg s = s \<or>
    (\<exists>rl. 1 < length (sv_batteryConfig s) \<and>
       sv_batteryConfig (handleDualBatterySettingChange rg s) = (sv_batteryConfig s)[1 := (sv_batteryConfig s ! 1)\<lparr>Role := rl\<rparr>] \<and>
       (\<forall>i. eligible (slots (sv_admission (handleDualBatterySettingChange rg s)) i) =
          (if i = Slot1 then Enabled (sv_batteryConfig s ! 1) \<and> rl = BatteryRoleActive else eligible (slots (sv_admission s) i))) \<and>
       role_at 0 (handleDualBatterySettingChange rg s) = role_at 0 s \<and>
       (role_at 1 (handleDualBatterySettingChange rg s) = None \<or> role_at 1 (handleDualBatterySettingChange rg s) = Some rl))"
proof (cases "handleDualBatterySettingChange rg s = s")
  case False
  then obtain setting p where d: "rg ''settings'' dualBatteryKey = RedisValue setting" "reader_at 1 s = Some p"
    "rd_role (pt_reader p) \<noteq> dualRole setting" "setting = ''true'' \<or> setting = ''false''"
    by (auto simp: handleDualBatterySettingChange_def Let_def split: redis_reply.split_asm option.split_asm if_split_asm)
  have l: "1 < length (sv_batteryConfig s)" using assms d(2) by (auto simp: reader_roles_def role_at_def all_slot)
  have e: "rd_role (triggerRestart r) = rd_role r" "rd_role (pt_reader (enableForRole rg cfg rl q)) = rd_role (pt_reader q)" for r cfg rl q
    by (simp_all add: triggerRestart_def enableForRole_def SetEnabled_def split: redis_reply.split)
  show ?thesis
    by (intro disjI2 exI [of _ "dualRole setting"] conjI l)
      (use d e l in \<open>auto simp: handleDualBatterySettingChange_def Let_def set_role_def roleEligible_def setRole_eligible
        upd_admission_def role_at_def reader_at_def set_reader_def nth_list_update split: if_split_asm\<close>)
qed simp

lemma dual_agrees:
  "reader_roles s \<Longrightarrow> reader_roles (handleDualBatterySettingChange rg s)"
  "roles_agree s \<Longrightarrow> roles_agree (handleDualBatterySettingChange rg s)"
proof -
  show "reader_roles (handleDualBatterySettingChange rg s)" if "reader_roles s"
    using dual_cases [OF that, of rg] set_role_readers [OF that] that by metis
  show "roles_agree (handleDualBatterySettingChange rg s)" if a: "roles_agree s"
  proof -
    from a have "reader_roles s" by (simp add: roles_agree_def)
    from dual_cases [OF this, of rg] set_role_agrees [OF a, of "handleDualBatterySettingChange rg s"] a show ?thesis by fastforce
  qed
qed

lemma set_reader_config: "sv_batteryConfig (set_reader n p s) = sv_batteryConfig s"
  by (simp add: set_reader_def)

text \<open>The service's messages keep what both the dual-battery setting and operations that leave roles alone keep.\<close>

lemma service_keeps:
  assumes "Q s" and same: "\<And>t. same_roles s t \<Longrightarrow> Q t" and dual: "\<And>rg. Q (handleDualBatterySettingChange rg s)"
  shows "Q (service_exec c s)"
proof (cases c)
  case (SvMessage rg now ch pl)
  have "handleMessage rg now ch pl s = handleDualBatterySettingChange rg s \<or> same_roles s (handleMessage rg now ch pl s)"
    unfolding handleMessage_def
    by (simp only: message_roles same_roles_refl simp_thms
        if_split [of "\<lambda>x. x = handleDualBatterySettingChange rg s \<or> same_roles s x"])
  with SvMessage same dual show ?thesis by (metis service_exec.simps(1))
next
  case (SvPoll pc now)
  have "same_roles s (runAdmissionRequests pc now s)"
    by (cases pc) (simp_all add: Let_def pollAdmission_roles same_roles_frame)
  with SvPoll same show ?thesis by auto
next
  case (SvReady now)
  then show ?thesis using same [OF same_roles_frame(5)] assms(1) by (simp add: serviceAdmissionReady_def)
next
  case (SvEnable n b)
  moreover have "same_roles s s'" if "SetBatteryEnabled n b s = Some s'" for s'
    using that by (auto simp: SetBatteryEnabled_def SetEnabled_def same_roles_def role_at_def set_reader_config split: option.split_asm)
  ultimately show ?thesis using same assms(1) by (auto split: option.split)
next
  case SvStop
  then show ?thesis using same [OF same_roles_admission] by (simp add: stopService_def eligible_frame)
qed

lemma service_agrees:
  "reader_roles s \<Longrightarrow> reader_roles (service_exec c s)" "roles_agree s \<Longrightarrow> roles_agree (service_exec c s)"
  by (rule service_keeps; use dual_agrees same_roles_readers same_roles_agree in blast)+

lemma new_agrees:
  assumes "NewService S (mainConfig f) (mainReaders f) = Inr s0"
    and "sv_batteryConfig t = sv_batteryConfig s0" "sv_readers t = sv_readers s0"
    and "sv_admission t = loadAdmissionSetting (sv_batteryConfig s0) raw"
  shows "roles_agree t"
proof -
  from assms(1) have s0: "sv_batteryConfig s0 = mainReaders f" "sv_readers s0 = fst (createReaders S (mainReaders f))"
    by (auto simp: NewService_def split: if_split_asm prod.split_asm)
  have "role_at n t = Some rl \<Longrightarrow> n < length (mainReaders f) \<and> rl = Role (mainReaders f ! n)" for n rl
    using createReaders_at(1) [of S "mainReaders f"] createReaders_at(2) [where S = S and cs = "mainReaders f" and n = n]
    by (auto simp: role_at_def reader_at_def assms(3) s0 newPort_def NewBatteryReader_def initializeFaultManagement_def
        split: if_split_asm)
  moreover have "eligible (slots (newPackAdmission (mainReaders f)) i) =
      (Enabled (mainReaders f ! slot_nat i) \<and> Role (mainReaders f ! slot_nat i) = BatteryRoleActive)" for i
    by (cases i) (simp_all add: mainReaders_def newPackAdmission_def configureReader_def setRole_eligible Let_def)
  ultimately show ?thesis by (simp add: roles_agree_def reader_roles_def assms(2,4) s0)
qed

lemma load_dual_agrees: "roles_agree s \<Longrightarrow> roles_agree (loadDualBatterySetting rg s)"
proof -
  assume a: "roles_agree s"
  show ?thesis
  proof (cases "loadDualBatterySetting rg s = s")
    case False
    then obtain setting where d: "rg ''settings'' dualBatteryKey = RedisValue setting" "setting = ''true'' \<or> setting = ''false''"
      "1 < length (sv_batteryConfig s)"
      by (auto simp: loadDualBatterySetting_def Let_def split: redis_reply.split_asm if_split_asm)
    show ?thesis
      by (rule set_role_agrees [OF a d(3), where rl = "dualRole setting"])
        (use d in \<open>auto simp: loadDualBatterySetting_def Let_def set_role_def roleEligible_def setRole_eligible
          upd_admission_def role_at_def reader_at_def set_reader_def nth_list_update split: if_split_asm option.split\<close>)
  qed (use a in simp)
qed

lemma vehicle_role: "rd_role (handleVehicleStateChange st r) = rd_role r"
  by (simp add: handleVehicleStateChange_def Let_def if_distrib [of rd_role] triggerRestart_def checkInitComplete_def
      SendEvent_def upd_data_def)

lemma runStart_role: "rd_role (runStart cfg now v l r) = rd_role r"
proof -
  have "policy (sendStatusUpdate now r) = policy r" by simp
  then have p: "rd_role (sendStatusUpdate now r) = rd_role r" by (simp add: policy_def)
  have f: "rd_role (checkInitComplete q) = rd_role q" for q by (simp add: checkInitComplete_def SendEvent_def)
  show ?thesis by (simp add: runStart_def fetchInitialRedisState_def Let_def f p vehicle_role seatbox_fields(4) split: option.split)
qed

lemma start_agrees:
  assumes "NewService S (mainConfig f) (mainReaders f) = Inr s0"
  shows "roles_agree (startService rg S s0)"
proof -
  define s2 where "s2 = (upd_config (\<lambda>c. c\<lparr>KeepActiveOnSeatboxOpen := loadBoolSetting (rg ''settings'' keepActiveKey) (KeepActiveOnSeatboxOpen c),
      MaxVoltageDelta := loadUint64Setting (rg ''settings'' maxVoltageDeltaKey) (MaxVoltageDelta c),
      AuxLowKeepActiveEnterMv := loadUint64Setting (rg ''settings'' auxEnterKey) auxLowKeepActiveDefaultEnterMv,
      AuxLowKeepActiveExitMv := loadUint64Setting (rg ''settings'' auxExitKey) auxLowKeepActiveDefaultExitMv\<rparr>) s0)
      \<lparr>sv_admission := loadAdmissionSetting (sv_batteryConfig s0) (admission_raw rg)\<rparr>"
  let ?d = "loadDualBatterySetting rg s2"
  have "roles_agree s2" by (rule new_agrees [OF assms]) (simp_all add: s2_def upd_config_def)
  then have d: "roles_agree ?d" by (rule load_dual_agrees)
  have e: "startSettings rg (at_now S) s0 = recomputeAuxLowKeepActive rg False (loadInitialVehicleState rg (at_now S) ?d)"
    by (simp add: startSettings_def s2_def admission_raw_def upd_config_def Let_def)
  have "same_roles ?d (loadInitialVehicleState rg (at_now S) ?d)"
    unfolding loadInitialVehicleState_def Let_def
    by (intro same_roles_trans [OF same_roles_trans [OF same_roles_trans [OF same_roles_frame(2) same_roles_admission] same_roles_admission] same_roles_for])
      (simp_all add: eligible_frame SendSeatboxLockChange_def SendVehicleStateChange_def)
  then have "same_roles ?d (startSettings rg (at_now S) s0)" unfolding e by (rule same_roles_recompute)
  moreover have "same_roles (startSettings rg (at_now S) s0) (startService rg S s0)"
    by (auto simp: same_roles_def startService_def Let_def role_at_def reader_at_def option.map_comp comp_def startReader_def
        runStart_role nth_enumerate_eq intro: option.map_cong)
  ultimately show ?thesis using d same_roles_trans same_roles_agree by blast
qed

text \<open>The steps of the other goroutines leave the role of a reader alone.\<close>

lemma roles_set_reader:
  "reader_at n s = Some p \<Longrightarrow> rd_role (pt_reader q) = rd_role (pt_reader p) \<Longrightarrow> same_roles s (set_reader n q s)"
  by (auto simp: same_roles_def role_at_def set_reader_config set_reader_def reader_at_def nth_list_update split: if_split_asm)

lemma collect_roles: "same_roles (sy_service y) (sy_service (collect i y))"
  by (auto simp: collect_def Let_def port_def intro: roles_set_reader split: option.split)

lemma at_slot_roles:
  "(\<And>p. port i y = Some p \<Longrightarrow> reader_roles (sy_service (f p y))) \<Longrightarrow> reader_roles (sy_service y) \<Longrightarrow>
   reader_roles (sy_service (at_slot i f y))"
  by (auto simp: at_slot_def intro: same_roles_readers [OF collect_roles] split: option.split)

lemma on_port_roles:
  assumes "\<And>p. rd_role (pt_reader (g p)) = rd_role (pt_reader p)" "reader_roles (sy_service y)"
  shows "reader_roles (sy_service (on_port i g y))"
  unfolding on_port_def
  by (rule at_slot_roles) (use assms in \<open>auto simp: port_def intro!: same_roles_readers [OF roles_set_reader]\<close>)

lemma stored_roles:
  assumes "port i y = Some p" "rd_role (w_reader (fx_world (snd x))) = rd_role (pt_reader p)" "reader_roles (sy_service y)"
  shows "reader_roles (sy_service (stored i p x y))"
proof -
  have "role_at n (sy_service (stored i p x y)) = role_at n (sy_service y)" for n
    using assms(1,2) by (auto simp: stored_def Let_def role_at_def reader_at_def set_reader_def port_def nth_list_update split: if_split_asm)
  moreover have "sv_batteryConfig (sy_service (stored i p x y)) = sv_batteryConfig (sy_service y)"
    by (simp add: stored_def Let_def set_reader_def)
  ultimately show ?thesis using assms(3) by (simp add: reader_roles_def)
qed

lemma machine_roles:
  assumes "librefsm (readerActions js H) D" "reader_roles (sy_service y)"
  shows "reader_roles (sy_service (at_slot i (\<lambda>p y. stored i p (fsm_step js H D op (sy_state y i, loaded now i p y)) y) y))"
proof (rule at_slot_roles, rule stored_roles [OF _ _ assms(2)], assumption)
  fix p
  let ?c = "loaded now i p y"
  let ?x = "fsm_step js H D op (sy_state y i, ?c)"
  show "rd_role (w_reader (fx_world (snd ?x))) = rd_role (pt_reader p)"
    using fsm_step_guarded [OF assms(1), where c = ?c and s = "sy_state y i"]
    by (cases op) (auto simp: guarded_step_def policy_def ride_loaded)
qed (rule assms(2))

lemma timer_role: "rd_role (timer_step now tm r) = rd_role r"
  using policy_timer [of now tm r] by (simp add: policy_def)

lemma loop_role: "rd_role (pt_reader (loop_step cfg ck lc p)) = rd_role (pt_reader p)"
  by (cases lc) (auto simp: seatbox_fields(4) vehicle_role handleRestart_def handleEnabledChange_def handleKeepActiveChange_def
      initTimeout_def checkInitComplete_def SendEvent_def triggerRestart_def Let_def split: option.split)

lemma system_roles_step:
  assumes fsm: "\<And>i. librefsm (readerActions js (H i)) (D i)" and r: "reader_roles (sy_service y)"
  shows "reader_roles (sy_service (sys_exec js H D c y))"
proof (cases c)
  case (SysMessage op)
  show ?thesis unfolding SysMessage sys_exec.simps
    by (intro same_roles_readers [OF collect_roles]) (simp add: r service_agrees(1))
next
  case (SysEvent j now)
  then show ?thesis using machine_roles [OF fsm, of "y\<lparr>sy_queue := q\<rparr>" for q] r
    by (simp split: list.split del: fsm_step.simps)
next
  case (SysLoop j lc)
  then show ?thesis by (simp add: on_port_roles [OF loop_role r])
next
  case (SysReaderTimer j tm now)
  then show ?thesis by (simp add: on_port_roles [OF _ r] timer_role)
next
  case (SysMotion msg now)
  with r show ?thesis by (simp add: reader_roles_def role_at_def reader_at_def upd_admission_def)
next
  case SysMotionReset
  with r show ?thesis by (simp add: reader_roles_def role_at_def reader_at_def upd_admission_def)
qed (simp_all add: machine_roles [OF fsm r] r del: fsm_step.simps)

lemma boot_agrees: "boot f S rg h = Inr y \<Longrightarrow> roles_agree (sy_service y)"
  by (auto simp: boot_def Let_def split: sum.split_asm intro!: same_roles_agree [OF collect_roles] dest: start_agrees)

text \<open>
  C21: From the start of the process, however it is configured, each reader acts in the role of its
  configuration entry in every interleaving of the service's messages with the machines, event loops
  and timers of both readers; and through every sequence of messages, those that switch the second
  slot on and off included, a slot counts as eligible in the guard exactly when its entry is enabled
  and active.
\<close>

theorem roles_stay_agreed:
  assumes "\<And>i. librefsm (readerActions js (H i)) (D i)" and "boot f S rg h = Inr y"
  shows "reader_roles (sy_service (fold (sys_exec js H D) steps y)) \<and> roles_agree (fold service_exec ops (sy_service y))"
proof
  have a: "roles_agree (sy_service y)" by (rule boot_agrees [OF assms(2)])
  then have "reader_roles (sy_service y)" by (simp add: roles_agree_def)
  then show "reader_roles (sy_service (fold (sys_exec js H D) steps y))"
    by (induction steps rule: rev_induct) (simp_all add: system_roles_step [OF assms(1)])
  from a show "roles_agree (fold service_exec ops (sy_service y))"
    by (induction ops rule: rev_induct) (simp_all add: service_agrees(2))
qed

end
