(* ===== verification/Frame_Typing.thy ===== *)
theory Frame_Typing
  imports Status_Safety Reader_Safety Handler_Safety
begin

text \<open>
  The ranges of what a reader decodes. Go's \<open>uint\<close> and \<open>int\<close> are modelled by unbounded numbers; here
  it is shown that a frame's values stay within the bytes they come from, that the arithmetic on
  them does not wrap even at 32 bits, and that the temperature array is only indexed inside it.
\<close>

section \<open>Ranges\<close>

definition temp_range :: "int \<Rightarrow> bool" where "temp_range t \<longleftrightarrow> - 128 \<le> t \<and> t \<le> 127"

definition frame_typed :: "BMSData \<Rightarrow> bool" where
  "frame_typed d \<longleftrightarrow>
     Voltage d < 65536 \<and> - 32768 \<le> Current d \<and> Current d \<le> 32767 \<and>
     RemainingCapacity d < 65536 \<and> FullCapacity d < 65536 \<and> Charge d = chargeOf (RemainingCapacity d) (FullCapacity d) \<and>
     FaultCode d < 65536 \<and> StateOfHealth d < 256 \<and> CycleCount d < 65536 \<and>
     length (Temperature d) = 4 \<and> list_all temp_range (Temperature d)"

definition sample_typed :: "sensors01Sample \<Rightarrow> bool" where
  "sample_typed s \<longleftrightarrow>
     s01_voltage s < 65536 \<and> - 32768 \<le> s01_current s \<and> s01_current s \<le> 32767 \<and>
     temp_range (fst (s01_temperature s)) \<and> temp_range (snd (s01_temperature s))"

definition reader_typed :: "BatteryReader \<Rightarrow> bool" where
  "reader_typed r \<longleftrightarrow> frame_typed (rd_data r) \<and> sample_typed (rd_lastGoodSensors01 r)"

text \<open>The product in the charge computation fits \<open>uint\<close> on a 32-bit target.\<close>

lemma charge_no_wrap: "frame_typed d \<Longrightarrow> RemainingCapacity d * 100 + FullCapacity d div 2 < 2 ^ 32"
proof -
  assume "frame_typed d"
  then have "RemainingCapacity d < 65536" "FullCapacity d < 65536" by (simp_all add: frame_typed_def)
  then have "RemainingCapacity d * 100 \<le> 6553500" "FullCapacity d div 2 \<le> 32768" by simp_all
  then show ?thesis by simp
qed

section \<open>Decoding\<close>

lemma sint_range: "- 128 \<le> sint b" "sint b \<le> 127" for b :: byte
  using sint_ge [of b] sint_lt [of b] by simp_all

lemma leInt16_range: "- 32768 \<le> leInt16 a b" "leInt16 a b \<le> 32767"
  using sint_ge [of "(ucast a :: 16 word) OR push_bit 8 (ucast b)"] sint_lt [of "(ucast a :: 16 word) OR push_bit 8 (ucast b)"]
  by (simp_all add: leInt16_def)

lemma all_update: "list_all P xs \<Longrightarrow> P x \<Longrightarrow> list_all P (xs[i := x])"
  by (auto simp: list_all_iff dest: set_update_subset_insert [THEN subsetD])

lemmas range_facts = leUint_bound leInt16_range unat_byte_less sint_range all_update

lemma parse_typed:
  "frame_typed d \<Longrightarrow> frame_typed (parseStatus0 s d)"
  "frame_typed d \<Longrightarrow> frame_typed (parseStatus1 s d)"
  "frame_typed d \<Longrightarrow> frame_typed (parseStatus2 s d)"
  by (auto simp: frame_typed_def parseStatus0_def parseStatus1_def parseStatus2_def temp_range_def range_facts)

lemma nth_typed: "frame_typed d \<Longrightarrow> i < 4 \<Longrightarrow> temp_range (Temperature d ! i)"
  by (auto simp: frame_typed_def list_all_length)

lemma guard_typed: "reader_typed r \<Longrightarrow> reader_typed (snd (applySensors01Guard now r))"
  using nth_typed [of "rd_data r" 0] nth_typed [of "rd_data r" 1]
  by (auto simp: applySensors01Guard_def Let_def reader_typed_def sample_typed_def frame_typed_def all_update)

lemma temperature_typed: "reader_typed (updateTemperatureState u r) = reader_typed r"
  by (simp add: updateTemperatureState_def Let_def reader_typed_def frame_typed_def)

section \<open>Faults and handlers\<close>

lemma zero_typed: "frame_typed zeroBMSData"
  by (simp add: frame_typed_def zeroBMSData_def chargeOf_def temp_range_def)

lemma sample_frame [simp]:
  "rd_lastGoodSensors01 (redisDo c r) = rd_lastGoodSensors01 r" "rd_lastGoodSensors01 (reportFault f b r) = rd_lastGoodSensors01 r"
  "rd_lastGoodSensors01 (upd_fault f g r) = rd_lastGoodSensors01 r" "rd_lastGoodSensors01 (sendStatusUpdate now r) = rd_lastGoodSensors01 r"
proof -
  show "rd_lastGoodSensors01 (redisDo c r) = rd_lastGoodSensors01 r" "rd_lastGoodSensors01 (reportFault f b r) = rd_lastGoodSensors01 r"
    "rd_lastGoodSensors01 (upd_fault f g r) = rd_lastGoodSensors01 r"
    by (simp_all add: redisDo_def reportFault_def upd_fault_def)
  obtain x where "noteFrameFreshness now r = r\<lparr>rd_fresh := x\<rparr>" using noteFrameFreshness_frame by blast
  then show "rd_lastGoodSensors01 (sendStatusUpdate now r) = rd_lastGoodSensors01 r"
    by (simp add: sendStatusUpdate_def markPublished_def redisDo_def Let_def)
qed

lemma typed_frame [simp]:
  "reader_typed (redisDo c r) = reader_typed r" "reader_typed (reportFault f b r) = reader_typed r"
  "reader_typed (upd_fault f g r) = reader_typed r" "reader_typed (sendStatusUpdate now r) = reader_typed r"
  by (simp_all add: reader_typed_def)

lemma typed_clear [simp]: "reader_typed (clearFaultLocked now f r) = reader_typed r"
  by (simp add: clearFaultLocked_def deactivateFaultLocked_def Let_def split: option.split)

lemma typed_foldl: "(\<And>x r. reader_typed r \<Longrightarrow> reader_typed (f r x)) \<Longrightarrow> reader_typed r \<Longrightarrow> reader_typed (foldl f r xs)"
  by (induction xs arbitrary: r) auto

lemma typed_zero: "reader_typed r \<Longrightarrow> rd_lastGoodSensors01 q = rd_lastGoodSensors01 r \<Longrightarrow> rd_data q = zeroBMSData \<Longrightarrow> reader_typed q"
  by (simp add: reader_typed_def zero_typed)

lemma typed_activate: "reader_typed r \<Longrightarrow> reader_typed (activateFaultLocked now f c r)"
proof -
  assume r: "reader_typed r"
  then have "reader_typed (clearLesserFaultsLocked now f False r)"
    unfolding clearLesserFaultsLocked_def by (intro typed_foldl) simp_all
  then have "reader_typed (sendNotPresent now (clearLesserFaultsLocked now f False r))"
    by (simp add: sendNotPresent_def) (erule typed_zero; simp)
  with r show ?thesis by (simp add: activateFaultLocked_def Let_def)
qed

lemma typed_set: "reader_typed r \<Longrightarrow> reader_typed (setFault now f b r)"
  by (simp add: setFault_def setFaultLocked_def raiseFaultLocked_def typed_activate Let_def split: option.split)

lemma typed_timers:
  "reader_typed r \<Longrightarrow> reader_typed (setTimerFired now f r)" "reader_typed (resetTimerFired f r) = reader_typed r"
  by (simp_all add: setTimerFired_def resetTimerFired_def deactivateFaultLocked_def typed_activate split: option.split)

lemma typed_bits: "reader_typed r \<Longrightarrow> reader_typed (updateFaultsFromBatteryData now r)"
proof -
  assume "reader_typed r"
  then have "reader_typed (parseHardwareFaults now n m r)" for n m
    unfolding parseHardwareFaults_def by (intro typed_foldl) (simp_all add: typed_set)
  then show ?thesis by (simp add: updateFaultsFromBatteryData_def typed_set Let_def)
qed

lemma typed_data: "(\<And>d. frame_typed d \<Longrightarrow> frame_typed (g d)) \<Longrightarrow> reader_typed r \<Longrightarrow> reader_typed (upd_data g r)"
  by (simp add: upd_data_def reader_typed_def)

lemma typed_parse: "reader_typed r \<Longrightarrow> reader_typed (snd (parseStatusData now s0 s1 s2 r))"
proof -
  assume r: "reader_typed r"
  have z: "reader_typed (upd_data (\<lambda>d. d\<lparr>EmptyOr0Data := Suc (EmptyOr0Data d)\<rparr>) r)"
    "reader_typed (upd_data (\<lambda>d. d\<lparr>Present := True, EmptyOr0Data := 0\<rparr>) r)"
    by (rule typed_data [OF _ r], simp add: frame_typed_def)+
  have p: "reader_typed q \<Longrightarrow> reader_typed (upd_data (parseStatus2 s2 \<circ> parseStatus1 s1 \<circ> parseStatus0 s0) q)" for q
    by (rule typed_data) (simp_all add: parse_typed)
  show ?thesis
    by (simp add: parseStatusData_def Let_def typed_set z p typed_bits temperature_typed guard_typed case_prod_beta)
qed

lemma typed_fields:
  "reader_typed (r\<lparr>rd_restartQueued := x0\<rparr>) = reader_typed r" "reader_typed (r\<lparr>rd_initVehicleState := x1\<rparr>) = reader_typed r"
  "reader_typed (r\<lparr>rd_vehicleState := x2\<rparr>) = reader_typed r" "reader_typed (r\<lparr>rd_initSeatboxLock := x3\<rparr>) = reader_typed r"
  "reader_typed (r\<lparr>rd_seatboxLockClosed := x4\<rparr>) = reader_typed r" "reader_typed (r\<lparr>rd_latchedSeatboxLockClosed := x5\<rparr>) = reader_typed r"
  "reader_typed (r\<lparr>rd_enabled := x6\<rparr>) = reader_typed r" "reader_typed (r\<lparr>rd_inTagPresent := x7\<rparr>) = reader_typed r"
  "reader_typed (r\<lparr>rd_initCompleteSent := x8\<rparr>) = reader_typed r"
  "reader_typed (SendEvent e r) = reader_typed r" "reader_typed (triggerRestart r) = reader_typed r"
  "reader_typed (checkInitComplete r) = reader_typed r"
  by (simp_all add: reader_typed_def SendEvent_def triggerRestart_def checkInitComplete_def)

lemma typed_empty: "reader_typed (upd_data (\<lambda>d. d\<lparr>EmptyOr0Data := 0\<rparr>) r) = reader_typed r"
  by (simp add: upd_data_def reader_typed_def frame_typed_def)

lemma typed_if: "reader_typed (if b then x else y) = (if b then reader_typed x else reader_typed y)"
  by simp

lemma typed_seatbox: "reader_typed (handleSeatboxLockChange cfg b r) = reader_typed r"
proof -
  have "reader_typed (applySeatboxPolicy cfg l ch q) = reader_typed q" "reader_typed (announceLatch o' l q) = reader_typed q" for l ch o' q
    by (simp_all add: applySeatboxPolicy_def announceLatch_def Let_def typed_if typed_fields)
  then show ?thesis by (simp add: handleSeatboxLockChange_def Let_def typed_if typed_fields typed_empty)
qed

lemma typed_handler: "reader_typed r \<Longrightarrow> reader_typed (handler_exec c r)"
  by (cases c)
    (simp_all add: handleRestart_def handleVehicleStateChange_def handleKeepActiveChange_def handleEnabledChange_def initTimeout_def
      typed_seatbox typed_fields typed_empty typed_if Let_def)

section \<open>Every history\<close>

text \<open>What changes a reader's frame: decoding, stamping a sample, faults, the event loop and a departure.\<close>

datatype frame_op =
    FrameDecode gotime "byte list" "byte list" "byte list"
  | FrameStamp gotime bool
  | FrameFault gotime BMSFault bool
  | FrameSetTimer gotime BMSFault
  | FrameResetTimer BMSFault
  | FrameHandler handler_op
  | FrameDeparture gotime

fun frame_exec :: "frame_op \<Rightarrow> 'h world \<Rightarrow> 'h world" where
  "frame_exec (FrameDecode now s0 s1 s2) w = upd_reader (\<lambda>r. snd (parseStatusData now s0 s1 s2 r)) w"
| "frame_exec (FrameStamp t ok) w = upd_reader (upd_data (\<lambda>d. d\<lparr>SampleTime := t, SampleValid := ok\<rparr>)) w"
| "frame_exec (FrameFault now f b) w = upd_reader (setFault now f b) w"
| "frame_exec (FrameSetTimer now f) w = upd_reader (setTimerFired now f) w"
| "frame_exec (FrameResetTimer f) w = upd_reader (resetTimerFired f) w"
| "frame_exec (FrameHandler c) w = upd_reader (handler_exec c) w"
| "frame_exec (FrameDeparture now) w = handleDeparture now w"

definition frame_initial :: "'h world \<Rightarrow> bool" where
  "frame_initial w \<longleftrightarrow> (\<exists>role now txn. w_reader w = NewBatteryReader role now txn)"

lemma typed_new: "reader_typed (NewBatteryReader role now txn)"
  by (simp add: NewBatteryReader_def initializeFaultManagement_def reader_typed_def zero_typed sample_typed_def temp_range_def)

lemma typed_departure: "reader_typed (w_reader w) \<Longrightarrow> reader_typed (w_reader (handleDeparture now w))"
proof -
  assume r: "reader_typed (w_reader w)"
  let ?z = "(w_reader w)\<lparr>rd_currentTagUID := [], rd_fresh := zeroFreshness, rd_data := zeroBMSData, rd_powerSample := zeroBMSData\<rparr>"
  have "reader_typed ?z" by (rule typed_zero [OF r]) simp_all
  then have "reader_typed (clearPackFaults now (setFault now BMSFaultUnexpectedPowerOff False ?z))"
    unfolding clearPackFaults_def by (intro typed_foldl) (simp_all add: setFaultLocked_def typed_set)
  moreover have "w_reader (withSlot f w) = w_reader w" for f by (simp add: withSlot_def split: option.split)
  ultimately show ?thesis by (simp add: handleDeparture_def upd_reader_def)
qed

lemma typed_step: "reader_typed (w_reader w) \<Longrightarrow> reader_typed (w_reader (frame_exec c w))"
  by (cases c)
    (simp_all add: upd_reader_def typed_parse typed_set typed_timers typed_handler typed_departure upd_data_def,
      simp add: reader_typed_def frame_typed_def)

interpretation frm: machine frame_initial frame_exec "\<lambda>w. reader_typed (w_reader w)"
  by unfold_locales (auto simp: frame_initial_def typed_new typed_step)

text \<open>
  C37: Every value of a frame stays in the range of the bytes it comes from, whatever blocks a pack
  delivers and however decoding interleaves with faults, the event loop and departures: voltage,
  capacities, fault code and cycle count in 16 bits, the current in signed 16 bits, the temperatures
  four signed bytes, and the charge the one computed from the capacities, whose intermediate product
  fits 32 bits.
\<close>

theorem frames_stay_typed:
  fixes w :: "'h world" and cs :: "frame_op list"
  assumes "frame_initial w"
  defines "d \<equiv> rd_data (w_reader (fold frame_exec cs w))"
  shows "frame_typed d \<and> RemainingCapacity d * 100 + FullCapacity d div 2 < 2 ^ 32"
  using frm.inv_reachable [OF assms(1), of cs] charge_no_wrap [of d] by (simp add: reader_typed_def d_def)

end
