(* ===== verification/Search.thy ===== *)
theory Search
  imports Fsm_Guard Reader_Safety
begin

text \<open>
  The two goroutines a machine starts (\<open>fsm/state_machine.go\<close>): the search for a returning tag while
  the slot is taken for empty, with the evidence it gathers for a departure, and the reads that
  wait for a pack to become readable.
\<close>

section \<open>Searching for a tag\<close>

text \<open>What wakes the search: its cancellation, or a tick with what \<open>ctx.Err()\<close> says around the poll.\<close>

datatype search_wake = SearchCancelled | SearchTick bool bool

text \<open>The first component of the result says whether the goroutine has returned.\<close>

fun tagAbsentLoop ::
  "(string \<Rightarrow> motionEvidence option) \<Rightarrow> 'h hal_ops \<Rightarrow> search_wake list \<Rightarrow> 'h world \<Rightarrow> bool \<times> 'h world" where
  "tagAbsentLoop js H [] w = (False, w)"
| "tagAbsentLoop js H (SearchCancelled # ts) w = (True, w)"
| "tagAbsentLoop js H (SearchTick before after # ts) w =
     (case pollForTagArrival js H before after w of
        (False, w1) \<Rightarrow> (True, w1)
      | (True, w1) \<Rightarrow> tagAbsentLoop js H ts w1)"

text \<open>What the controller answered to the polls of a search, with whether it was cancelled meanwhile.\<close>

definition poll_answer ::
  "(string \<Rightarrow> motionEvidence option) \<Rightarrow> 'h hal_ops \<Rightarrow> 'h world \<Rightarrow> nfc_error + DiscoveryResult" where
  "poll_answer js H w = fst (callout js H (hal_PollDiscovery H) w)"

fun search_answers ::
  "(string \<Rightarrow> motionEvidence option) \<Rightarrow> 'h hal_ops \<Rightarrow> search_wake list \<Rightarrow> 'h world \<Rightarrow>
   (bool \<times> (nfc_error + DiscoveryResult)) list" where
  "search_answers js H [] w = []"
| "search_answers js H (SearchCancelled # ts) w = []"
| "search_answers js H (SearchTick before after # ts) w =
     (if before then []
      else (after, poll_answer js H w) #
           (case pollForTagArrival js H before after w of
              (False, w1) \<Rightarrow> []
            | (True, w1) \<Rightarrow> search_answers js H ts w1))"

definition quiet_answer :: "nfc_error + DiscoveryResult \<Rightarrow> bool" where
  "quiet_answer x = (case x of Inl e \<Rightarrow> False | Inr res \<Rightarrow> disc_Kind res = DiscoveryQuiet)"

section \<open>What one poll does\<close>

lemma callout_reader: "callout js H f w = (x, w') \<Longrightarrow> w_reader w' = w_reader w"
  by (auto simp: callout_def split: prod.split_asm)

lemma nowOf_reader: "nowOf H w = (t, w') \<Longrightarrow> w_reader w' = w_reader w"
  by (auto simp: nowOf_def split: prod.split_asm)

lemma withSlot_reader [simp]: "w_reader (withSlot f w) = w_reader w"
  by (simp add: withSlot_def split: option.split)

lemma noteTag_reader:
  "rd_discovery (w_reader (noteTagPresent now u w)) = rd_discovery (w_reader w)"
  "rd_events (w_reader (noteTagPresent now u w)) = rd_events (w_reader w)"
  by (simp_all add: noteTagPresent_def upd_reader_def armConfirmRead_def upd_fresh_def)

lemma process_poll:
  assumes "processTagArrivalPoll now x w = (again, w')"
  shows "quiet (rd_discovery (w_reader w')) = (quiet (rd_discovery (w_reader w)) \<or> quiet_answer x)"
    "uncertain (rd_discovery (w_reader w')) = (uncertain (rd_discovery (w_reader w)) \<or> \<not> quiet_answer x)"
    "\<exists>evs. rd_events (w_reader w') = rd_events (w_reader w) @ evs \<and>
       (if again then set evs \<subseteq> {EvTagArrived} else evs = [EvReinit])"
  using assms
  by (auto simp: processTagArrivalPoll_def quiet_answer_def upd_reader_def setUncertain_def SendEvent_def noteTag_reader Let_def
      split: sum.split_asm DiscoveryKind.split_asm if_split_asm)

lemma one_poll:
  assumes "pollForTagArrival js H before after w = (again, w')"
  shows "quiet (rd_discovery (w_reader w')) =
      (quiet (rd_discovery (w_reader w)) \<or> \<not> before \<and> \<not> after \<and> quiet_answer (poll_answer js H w))"
    "uncertain (rd_discovery (w_reader w')) =
      (uncertain (rd_discovery (w_reader w)) \<or> \<not> before \<and> \<not> quiet_answer (poll_answer js H w))"
    "\<exists>evs. rd_events (w_reader w') = rd_events (w_reader w) @ evs \<and>
       (if again then set evs \<subseteq> {EvTagArrived} else evs = [] \<or> evs = [EvReinit])"
proof -
  obtain x w1 where x: "callout js H (hal_PollDiscovery H) w = (x, w1)" by fastforce
  obtain now w2 where w2: "nowOf H w1 = (now, w2)" by fastforce
  have a: "poll_answer js H w = x" by (simp add: poll_answer_def x)
  have r: "w_reader w1 = w_reader w" "w_reader w2 = w_reader w"
    using callout_reader [OF x] nowOf_reader [OF w2] by simp_all
  have "(quiet (rd_discovery (w_reader w')) =
      (quiet (rd_discovery (w_reader w)) \<or> \<not> before \<and> \<not> after \<and> quiet_answer x)) \<and>
    (uncertain (rd_discovery (w_reader w')) = (uncertain (rd_discovery (w_reader w)) \<or> \<not> before \<and> \<not> quiet_answer x)) \<and>
    (\<exists>evs. rd_events (w_reader w') = rd_events (w_reader w) @ evs \<and>
       (if again then set evs \<subseteq> {EvTagArrived} else evs = [] \<or> evs = [EvReinit]))"
  proof (cases "before \<or> after")
    case True
    with assms r show ?thesis
      by (cases x) (auto simp: pollForTagArrival_def x quiet_answer_def upd_reader_def setUncertain_def split: if_split_asm)
  next
    case False
    with assms have "processTagArrivalPoll now x w2 = (again, w')" by (simp add: pollForTagArrival_def x w2)
    from process_poll [OF this] False r show ?thesis by (auto split: if_split_asm)
  qed
  then show "quiet (rd_discovery (w_reader w')) =
      (quiet (rd_discovery (w_reader w)) \<or> \<not> before \<and> \<not> after \<and> quiet_answer (poll_answer js H w))"
    "uncertain (rd_discovery (w_reader w')) =
      (uncertain (rd_discovery (w_reader w)) \<or> \<not> before \<and> \<not> quiet_answer (poll_answer js H w))"
    "\<exists>evs. rd_events (w_reader w') = rd_events (w_reader w) @ evs \<and>
       (if again then set evs \<subseteq> {EvTagArrived} else evs = [] \<or> evs = [EvReinit])"
    by (simp_all add: a)
qed

section \<open>What a search concludes\<close>

lemma search_evidence:
  "quiet (rd_discovery (w_reader (snd (tagAbsentLoop js H ts w)))) =
     (quiet (rd_discovery (w_reader w)) \<or> (\<exists>x. (False, x) \<in> set (search_answers js H ts w) \<and> quiet_answer x))"
  "uncertain (rd_discovery (w_reader (snd (tagAbsentLoop js H ts w)))) =
     (uncertain (rd_discovery (w_reader w)) \<or> (\<exists>c x. (c, x) \<in> set (search_answers js H ts w) \<and> \<not> quiet_answer x))"
proof (induction js H ts w rule: tagAbsentLoop.induct)
  case (3 js H before after ts w)
  obtain again w1 where p: "pollForTagArrival js H before after w = (again, w1)" by fastforce
  note o = one_poll [OF p]
  have l: "tagAbsentLoop js H (SearchTick before after # ts) w = (if again then tagAbsentLoop js H ts w1 else (True, w1))"
    "search_answers js H (SearchTick before after # ts) w =
       (if before then [] else (after, poll_answer js H w) # (if again then search_answers js H ts w1 else []))"
    using p by (cases before; auto split: bool.split)+
  have stop: "\<not> again" if before using p that by (simp add: pollForTagArrival_def)
  {
    case 1
    show ?case
    proof (cases again)
      case True
      with stop have b: "\<not> before" by blast
      from "3.IH"(1) [OF p [symmetric] eqTrueI [OF True]] o(1) show ?thesis
        unfolding l by (simp only: True b if_True if_False set_simps) blast
    next
      case False
      with o(1) show ?thesis unfolding l by (cases before) auto
    qed
  next
    case 2
    show ?case
    proof (cases again)
      case True
      with stop have b: "\<not> before" by blast
      from "3.IH"(2) [OF p [symmetric] eqTrueI [OF True]] o(2) show ?thesis
        unfolding l by (simp only: True b if_True if_False set_simps) blast
    next
      case False
      with o(2) show ?thesis unfolding l by (cases before) auto
    qed
  }
qed simp_all

text \<open>
  The search asks for a reinitialization at most once, as the last thing it does: a second request
  would cut short the pause of the reader that is then switched off.
\<close>

lemma search_reinit_once:
  "\<exists>evs. rd_events (w_reader (snd (tagAbsentLoop js H ts w))) = rd_events (w_reader w) @ evs \<and>
     set evs \<subseteq> {EvTagArrived, EvReinit} \<and> EvReinit \<notin> set (butlast evs) \<and>
     (EvReinit \<in> set evs \<longrightarrow> fst (tagAbsentLoop js H ts w))"
proof (induction js H ts w rule: tagAbsentLoop.induct)
  case (3 js H before after ts w)
  obtain again w1 where p: "pollForTagArrival js H before after w = (again, w1)" by fastforce
  from one_poll(3) [OF p] obtain e1 where e1: "rd_events (w_reader w1) = rd_events (w_reader w) @ e1"
    "if again then set e1 \<subseteq> {EvTagArrived} else e1 = [] \<or> e1 = [EvReinit]" by blast
  show ?case
  proof (cases again)
    case True
    from "3.IH" [OF p [symmetric]] True obtain e2 where e2:
      "rd_events (w_reader (snd (tagAbsentLoop js H ts w1))) = rd_events (w_reader w1) @ e2"
      "set e2 \<subseteq> {EvTagArrived, EvReinit}" "EvReinit \<notin> set (butlast e2)"
      "EvReinit \<in> set e2 \<longrightarrow> fst (tagAbsentLoop js H ts w1)" by auto
    have "EvReinit \<notin> set (butlast (e1 @ e2))" "EvReinit \<in> set (e1 @ e2) \<longrightarrow> EvReinit \<in> set e2"
      using e1(2) e2(3) True by (auto simp: butlast_append dest: in_set_butlastD split: if_split_asm)
    with e1 e2 True p show ?thesis by (intro exI [of _ "e1 @ e2"]) auto
  next
    case False
    with e1 p show ?thesis by (intro exI [of _ e1]) auto
  qed
qed simp_all

lemma departure_frame:
  "rd_data (w_reader (handleDeparture now w)) = zeroBMSData" "rd_currentTagUID (w_reader (handleDeparture now w)) = []"
proof -
  have u: "rd_currentTagUID (sendStatusUpdate now r) = rd_currentTagUID r" for r
    using noteFrameFreshness_frame [of now r] by (auto simp: sendStatusUpdate_def markPublished_def redisDo_def Let_def)
  show "rd_data (w_reader (handleDeparture now w)) = zeroBMSData" "rd_currentTagUID (w_reader (handleDeparture now w)) = []"
    by (simp_all add: handleDeparture_def upd_reader_def u clearPack_frame setFault_def setFaultLocked_def)
qed

lemma finish_search:
  "FinishDiscovery js H w =
     (if \<not> searchQuiet (w_reader w) then w
      else let (x, w1) = callout js H (hal_PollDiscovery H) w; (now, w2) = nowOf H w1
           in if quiet_answer x
              then handleDeparture now (upd_reader (\<lambda>r. r\<lparr>rd_previousTagPresent := False, rd_tagsDiscovered := False\<rparr>) w2)
              else upd_reader setUncertain w2)"
proof -
  obtain x w1 where x: "callout js H (hal_PollDiscovery H) w = (x, w1)" by fastforce
  obtain now w2 where w2: "nowOf H w1 = (now, w2)" by fastforce
  have "searchQuiet (w_reader w2) = searchQuiet (w_reader w)" using callout_reader [OF x] nowOf_reader [OF w2] by simp
  then show ?thesis
    by (auto simp: FinishDiscovery_def finishDiscovery_def x w2 quiet_answer_def split: sum.split)
qed

lemma start_clears: "startDiscovery js H w = (True, w') \<Longrightarrow> rd_discovery (w_reader w') = \<lparr>quiet = False, uncertain = False\<rparr>"
  by (auto simp: startDiscovery_def Let_def upd_reader_def dest!: callout_reader split: prod.split_asm option.split_asm if_split_asm)

text \<open>
  C33: A pack is declared gone exactly on a search that was quiet throughout. When the watchdog ends a
  search that was started afresh, the reader drops its frame and tag if and only if it had a pack,
  at least one poll of this search was answered with silence before the search was cancelled, no
  poll, not even a cancelled one, was answered otherwise, and the final check is quiet too; in every
  other case frame and tag are kept.
\<close>

theorem departure_needs_quiet_search:
  assumes "startDiscovery js H w0 = (True, w)" and "tagAbsentLoop js H ts w = (ended, w1)"
    and "rd_currentTagUID (w_reader w1) \<noteq> []"
  shows "(rd_currentTagUID (w_reader (FinishDiscovery js H w1)) = [] \<longleftrightarrow>
           hasCachedBattery (w_reader w1) \<and> (\<exists>x. (False, x) \<in> set (search_answers js H ts w) \<and> quiet_answer x) \<and>
           (\<forall>c x. (c, x) \<in> set (search_answers js H ts w) \<longrightarrow> quiet_answer x) \<and> quiet_answer (poll_answer js H w1)) \<and>
         rd_data (w_reader (FinishDiscovery js H w1)) =
           (if rd_currentTagUID (w_reader (FinishDiscovery js H w1)) = [] then zeroBMSData else rd_data (w_reader w1))"
proof -
  note e = search_evidence [of js H ts w, unfolded assms(2) snd_conv start_clears [OF assms(1)]]
  have q: "searchQuiet (w_reader w1) \<longleftrightarrow> hasCachedBattery (w_reader w1) \<and>
      (\<exists>x. (False, x) \<in> set (search_answers js H ts w) \<and> quiet_answer x) \<and>
      (\<forall>c x. (c, x) \<in> set (search_answers js H ts w) \<longrightarrow> quiet_answer x)"
    using e by (auto simp: searchQuiet_def)
  obtain x w2 where x: "callout js H (hal_PollDiscovery H) w1 = (x, w2)" by fastforce
  obtain now w3 where w3: "nowOf H w2 = (now, w3)" by fastforce
  have r: "w_reader w3 = w_reader w1" using callout_reader [OF x] nowOf_reader [OF w3] by simp
  have p: "poll_answer js H w1 = x" by (simp add: poll_answer_def x)
  have f: "rd_currentTagUID (w_reader (FinishDiscovery js H w1)) =
      (if searchQuiet (w_reader w1) \<and> quiet_answer x then [] else rd_currentTagUID (w_reader w1)) \<and>
    rd_data (w_reader (FinishDiscovery js H w1)) =
      (if searchQuiet (w_reader w1) \<and> quiet_answer x then zeroBMSData else rd_data (w_reader w1))"
    by (simp add: finish_search x w3 departure_frame upd_reader_def setUncertain_def r)
  then show ?thesis using assms(3) by (auto simp: q p)
qed

section \<open>Waiting for a pack to become readable\<close>

text \<open>
  The goroutine of \<open>StateCheckPresence\<close>: before each read it waits for \<open>backoff\<close> or its cancellation, here
  an element \<open>True\<close> of the list. The waits that ran out are recorded.
\<close>

fun checkPresenceLoop ::
  "'w BatteryActions \<Rightarrow> bool list \<Rightarrow> duration \<Rightarrow> 'w fsm \<Rightarrow> bool \<times> duration list \<times> 'w fsm" where
  "checkPresenceLoop A [] backoff c = (False, [], c)"
| "checkPresenceLoop A (True # ws) backoff c = (True, [], c)"
| "checkPresenceLoop A (False # ws) backoff c =
     (case checkPresencePoll A backoff c of
        (None, c1) \<Rightarrow> (True, [backoff], c1)
      | (Some b, c1) \<Rightarrow> (case checkPresenceLoop A ws b c1 of (ended, waits, c2) \<Rightarrow> (ended, backoff # waits, c2)))"

text \<open>The waits are those of one schedule, whatever the reads find.\<close>

fun backoffs :: "nat \<Rightarrow> duration \<Rightarrow> duration list" where
  "backoffs 0 b = []"
| "backoffs (Suc n) b = b # backoffs n (min (b * 2) checkPresencePollMax)"

lemma poll_backoff: "checkPresencePoll A b c = (Some b', c') \<Longrightarrow> b' = min (b * 2) checkPresencePollMax"
  by (auto simp: checkPresencePoll_def min_def Let_def split: prod.split_asm bool.split_asm)

lemma loop_waits: "checkPresenceLoop A ws b c = (ended, waits, c') \<Longrightarrow> waits = backoffs (length waits) b"
proof (induction A ws b c arbitrary: ended waits c' rule: checkPresenceLoop.induct)
  case (3 A ws b c)
  obtain r c1 where r: "checkPresencePoll A b c = (r, c1)" by fastforce
  show ?case
  proof (cases r)
    case None
    with r "3.prems" show ?thesis by auto
  next
    case (Some b')
    obtain e vs c2 where l: "checkPresenceLoop A ws b' c1 = (e, vs, c2)" by (metis prod.collapse)
    with "3.IH" [OF r [symmetric] Some, of e vs c2] r Some "3.prems" poll_backoff [of A b c b' c1] show ?thesis by auto
  qed
qed auto

lemma backoffs_bounds:
  "0 < b \<Longrightarrow> b \<le> checkPresencePollMax \<Longrightarrow> \<forall>t \<in> set (backoffs n b). b \<le> t \<and> t \<le> checkPresencePollMax"
proof (induction n arbitrary: b)
  case (Suc n)
  have "0 < min (b * 2) checkPresencePollMax" "b \<le> min (b * 2) checkPresencePollMax" using Suc.prems by simp_all
  with Suc.IH [of "min (b * 2) checkPresencePollMax"] Suc.prems show ?case by (fastforce simp del: min_less_iff_conj)
qed simp

lemma backoffs_sum:
  "0 < b \<Longrightarrow> b \<le> checkPresencePollMax \<Longrightarrow> sum_list (backoffs m b) \<le> sum_list (backoffs (m + n) b)"
proof (induction m arbitrary: b)
  case 0
  with backoffs_bounds [of b n] show ?case by (auto intro!: sum_list_nonneg)
next
  case (Suc m)
  from Suc.IH [of "min (b * 2) checkPresencePollMax"] Suc.prems show ?case by simp
qed

text \<open>
  In the five seconds of the state the goroutine makes at most eight reads, however short they are,
  the first after a tenth of a second and none later than eight tenths after the one before.
\<close>

lemma presence_reads_bounded:
  assumes "checkPresenceLoop A ws checkPresencePollMin c = (ended, waits, c')" and "sum_list waits \<le> timeCheckPresence"
  shows "length waits \<le> 8 \<and> (\<forall>t \<in> set waits. checkPresencePollMin \<le> t \<and> t \<le> checkPresencePollMax)"
proof -
  have b: "0 < checkPresencePollMin" "checkPresencePollMin \<le> checkPresencePollMax" by (simp_all add: const_defs)
  note w = loop_waits [OF assms(1)]
  have "length waits \<le> 8"
  proof (rule ccontr)
    assume "\<not> length waits \<le> 8"
    then obtain k where k: "length waits = 9 + k" using le_Suc_ex [of 9 "length waits"] by auto
    have "sum_list (backoffs 9 checkPresencePollMin) = 5500 * Millisecond"
      by (simp add: numeral_eq_Suc const_defs)
    with backoffs_sum [OF b, of 9 k] w k assms(2) show False by (simp add: const_defs)
  qed
  with backoffs_bounds [OF b, of "length waits"] w show ?thesis by metis
qed

end
