(* ===== verification/Lifecycle_Witnesses.thy ===== *)
theory Lifecycle_Witnesses
  imports Reader_Witnesses Logging Inhibitor Motion_Feed Diagnostics
    Lifecycle_Safety Frame_Typing Search
begin

text \<open>
  A process started with the default flags, a network, a feed of movement evidence and frames, and the
  properties of start, shutdown, inhibitor, feed, frames and immediate moves evaluated on them.
\<close>

section \<open>Frames and machine\<close>

theorem frames_stay_typed_witness:
  "frame_initial (demo_world demo_reader) \<and>
   frame_typed (rd_data (w_reader (fold frame_exec
     [FrameDecode (sec 100) (encode0 demo_image) (encode1 demo_image) (encode2 demo_image), FrameStamp (sec 100) True,
      FrameHandler (HandleVehicle VehicleStateReadyToDrive)] (demo_world demo_reader))))"
proof -
  have "frame_initial (demo_world demo_reader)" by (auto simp: frame_initial_def demo_reader_def)
  with frames_stay_typed [OF this] show ?thesis by blast
qed

theorem immediate_moves_end_witness:
  "(leads demo_actions ^^ 4) StateCondSeatboxLock StateSendClosed \<and> (\<nexists>v. leads demo_actions StateSendClosed v)"
proof -
  have "fst (condSeatboxLock (demo_fsm 0)) = StateCondJustInserted" by (simp add: condSeatboxLock_def demo_fsm_def)
  then have a: "leads demo_actions StateCondSeatboxLock StateCondJustInserted"
    unfolding leads_def by (intro disjI2 conjI exI [of _ "demo_fsm 0"]) simp_all
  let ?c = "demo_fsm 0\<lparr>fx_world := demo_world (demo_reader\<lparr>rd_data := zeroBMSData\<lparr>State := BMSStateActive\<rparr>\<rparr>)\<rparr>"
  have "fst (condJustInserted demo_actions ?c) = StateHeartbeat"
    by (simp add: condJustInserted_def readerActions_def ShouldKeepActiveOnSeatboxOpen_def IsInactive_def demo_config_def
        EffectiveKeepActiveOnSeatboxOpen_def)
  then have b: "leads demo_actions StateCondJustInserted StateHeartbeat"
    unfolding leads_def by (intro disjI2 conjI exI [of _ ?c]) simp_all
  have c: "leads demo_actions StateHeartbeat StateHeartbeatActions" "leads demo_actions StateHeartbeatActions StateSendClosed"
    by (simp_all add: leads_def)
  have "(leads demo_actions ^^ Suc 0) StateHeartbeatActions StateSendClosed" using c(2) by (simp add: eq_OO)
  from relpowp_Suc_I2 [OF a relpowp_Suc_I2 [OF b relpowp_Suc_I2 [OF c(1) this]]]
  have p: "(leads demo_actions ^^ 4) StateCondSeatboxLock StateSendClosed"
    by (simp only: numeral_eq_Suc pred_numeral_simps BitM.simps One_nat_def)
  from immediate_moves_end [OF p] show ?thesis using p by (simp add: leaf_def)
qed

section \<open>Inhibitor\<close>

text \<open>A network that answers at once, and one that accepts late and never answers (\<open>slow_net\<close>).\<close>

definition quick_net :: "unit net_ops" where
  "quick_net =
     \<lparr>net_Dial = (\<lambda>t e. ((True, 0), e)), net_SetReadDeadline = (\<lambda>c e. (True, e)),
      net_Read = (\<lambda>c t now e. ((True, 0), e)), net_Close = (\<lambda>c e. (True, e))\<rparr>"

definition demo_inhibitors :: "unit inhibitors" where
  "demo_inhibitors = \<lparr>ih_net = \<lparr>nw_env = (), nw_now = 0, nw_next = 0, nw_open = []\<rparr>, ih_suspendInhibitor = (\<lambda>i. None)\<rparr>"

lemma demo_inhibitors_initial: "inhibitor_initial demo_inhibitors"
  by (simp add: inhibitor_initial_def demo_inhibitors_def)

abbreviation demo_takes :: "unit inhibitors" where
  "demo_takes \<equiv> fold (inhibitor_exec quick_net) [TakeInhibitorOp Slot0, TakeInhibitorOp Slot1, ReleaseInhibitorOp Slot0] demo_inhibitors"

lemma demo_takes_open: "nw_open (ih_net demo_takes) = [1]"
  by (simp add: demo_inhibitors_def acquireInhibitor_def dropInhibitor_def inhibitorBackoff_def NewSuspendInhibitor_def net_defs
      quick_net_def SuspendInhibitor_Release_def Let_def)

theorem inhibitor_connections_witness:
  "nw_open (ih_net demo_takes) = [1] \<and> (\<exists>i si. ih_suspendInhibitor demo_takes i = Some si \<and> si_conn si = Some 1) \<and>
   length (nw_open (ih_net demo_takes)) \<le> 2"
proof -
  have "1 \<in> set (nw_open (ih_net demo_takes))" by (simp only: demo_takes_open) simp
  with inhibitor_connections [OF demo_inhibitors_initial refl,
      of quick_net "[TakeInhibitorOp Slot0, TakeInhibitorOp Slot1, ReleaseInhibitorOp Slot0]"] demo_takes_open
  show ?thesis by blast
qed

text \<open>The controller of \<open>demo_hal\<close> with the inhibitor calls going to a socket.\<close>

definition socket_hal :: "unit net_ops \<Rightarrow> (unit netw \<times> duration list) hal_ops" where
  "socket_hal N =
     \<lparr>hal_StartDiscovery = (\<lambda>n h. (None, h)), hal_StopDiscovery = (\<lambda>h. (None, h)), hal_FullReinitialize = (\<lambda>h. (None, h)),
      hal_PollDiscovery = (\<lambda>h. (Inl plainError, h)), hal_ReadBinary = (\<lambda>ad h. (Inl plainError, h)),
      hal_WriteBinary = (\<lambda>ad bs h. (None, h)), hal_SelectTag = (\<lambda>n h. (None, h)), hal_Initialize = (\<lambda>h. (None, h)),
      hal_Deinitialize = (\<lambda>h. ((), h)), hal_Inhibit = socket_inhibit N, hal_Now = (\<lambda>h. (sec 101, h)),
      hal_Meanwhile = (\<lambda>h. ([], h))\<rparr>"

definition socket_world :: "(unit netw \<times> duration list) world" where
  "socket_world =
     \<lparr>w_reader = demo_reader, w_slot = Some Slot0, w_adm = demo_pair 40000 True 40000 False, w_config = demo_config,
      w_inhibitor = False, w_demand = False, w_ready = False, w_hal = (ih_net demo_inhibitors, inhibitorBackoff), w_trace = []\<rparr>"


theorem inhibitor_time_bound_witness:
  "net_timely slow_net \<and>
   nw_now (ih_net (snd (acquireInhibitor slow_net Slot0 demo_inhibitors))) \<le> nw_now (ih_net demo_inhibitors) + 31850 * Millisecond"
  using inhibitor_time_bound [OF slow_net_timely] slow_net_timely by blast

section \<open>Movement evidence\<close>

text \<open>A session in progress that has received one message.\<close>

definition demo_feed :: motion_feed where
  "demo_feed = \<lparr>mf_admission = demo_pair 40000 True 40500 False, mf_log = []\<rparr>"

definition demo_sessions :: "motion_session list" where
  "demo_sessions =
     [\<lparr>ms_cancelledBefore = False, ms_answers = [([], MessageAnswer motionEvidenceChannel ''{}'' (sec 100))],
       ms_cancelledAfter = False, ms_cancelledWaiting = False\<rparr>]"

lemma demo_feed_run:
  "evidence (mf_admission (snd (runMotionSubscriber (\<lambda>_. Some demo_evidence) demo_sessions demo_feed)))"
  using demo_motion evidence_accepted [of "\<lambda>_. Some demo_evidence" "''{}''" "sec 100" "demo_pair 40000 True 40500 False"]
  by (simp add: demo_sessions_def demo_feed_def upd_feed_def case_prod_beta Let_def)

theorem evidence_of_current_subscription_witness:
  "\<not> evidence (mf_admission demo_feed) \<and>
   evidence (mf_admission (snd (runMotionSubscriber (\<lambda>_. Some demo_evidence) demo_sessions demo_feed))) \<and>
   \<not> fst (runMotionSubscriber (\<lambda>_. Some demo_evidence) demo_sessions demo_feed)"
proof -
  have e: "\<not> evidence (mf_admission demo_feed)" by (simp add: evidence_def demo_feed_def zeroMotion_def)
  have q: "list_all (\<lambda>s. quiet_others (ms_answers s)) demo_sessions" by (simp add: demo_sessions_def quiet_others_def)
  from evidence_of_current_subscription [OF surjective_pairing e q demo_feed_run] e demo_feed_run show ?thesis by blast
qed

section \<open>Start and shutdown\<close>

definition demo_surroundings :: surroundings where
  "demo_surroundings =
     \<lparr>at_ping = True, at_open = (\<lambda>c. True), at_machine = (\<lambda>n. True), at_now = sec 90, at_txn = (\<lambda>i n. True)\<rparr>"

abbreviation demo_new :: Service where
  "demo_new \<equiv> projr (NewService demo_surroundings (mainConfig defaultFlags) (mainReaders defaultFlags))"

lemma demo_new: "NewService demo_surroundings (mainConfig defaultFlags) (mainReaders defaultFlags) = Inr demo_new"
  by (simp add: NewService_def demo_surroundings_def mainReaders_def)

abbreviation demo_boot :: "unit system" where
  "demo_boot \<equiv> projr (boot defaultFlags demo_surroundings (\<lambda>h f. RedisNil) (\<lambda>i. ()))"

lemma demo_boot: "boot defaultFlags demo_surroundings (\<lambda>h f. RedisNil) (\<lambda>i. ()) = Inr demo_boot"
  using demo_new by (cases "NewService demo_surroundings (mainConfig defaultFlags) (mainReaders defaultFlags)") (simp_all add: boot_def Let_def)

theorem boot_keeps_guard_witness:
  "boot defaultFlags demo_surroundings (\<lambda>h f. RedisNil) (\<lambda>i. ()) = Inr demo_boot \<and>
   adm_inv (sv_admission (sy_service (fold demo_exec demo_run demo_boot))) \<and> \<not> held (slots (sv_admission (sy_service demo_boot)) Slot0)"
  using boot_keeps_guard [where H = "\<lambda>i. demo_hal True" and D = "\<lambda>i. ref_dispatch demo_actions", OF demo_engine demo_boot refl, of demo_run Slot0]
    demo_boot by blast

theorem shutdown_admits_nothing_new_witness:
  "fst (fst (beginRound (sec 110) (sv_admission (sy_service (fold demo_exec demo_run
     (stopSystem (\<lambda>s. None) (\<lambda>i. demo_hal True) (sec 109) [Slot1, Slot0] demo_system)))))) = 0"
  using shutdown_admits_nothing_new [where H = "\<lambda>i. demo_hal True" and D = "\<lambda>i. ref_dispatch demo_actions", OF demo_engine refl] by blast

text \<open>The dual-battery setting turns the second slot on.\<close>

abbreviation demo_dual :: "Service \<Rightarrow> Service" where
  "demo_dual \<equiv> fold service_exec
     [SvMessage (\<lambda>h f. if f = dualBatteryKey then RedisValue ''true'' else RedisNil) (sec 95) ''settings'' ''scooter.dual-battery'']"

theorem roles_stay_agreed_witness:
  "boot defaultFlags demo_surroundings (\<lambda>h f. RedisNil) (\<lambda>i. ()) = Inr demo_boot \<and>
   reader_roles (sy_service (fold demo_exec demo_run demo_boot)) \<and> roles_agree (demo_dual (sy_service demo_boot))"
  using roles_stay_agreed [where H = "\<lambda>i. demo_hal True" and D = "\<lambda>i. ref_dispatch demo_actions", OF demo_engine demo_boot, of demo_run]
    demo_boot by blast

section \<open>A search that hears nothing\<close>

text \<open>A controller that finds no tag, and a reader that had one.\<close>

definition silent_hal :: "unit hal_ops" where
  "silent_hal = (demo_hal True)\<lparr>hal_PollDiscovery := (\<lambda>h. (Inr \<lparr>disc_Kind = DiscoveryQuiet, disc_Tags = []\<rparr>, h))\<rparr>"

definition demo_parted :: BatteryReader where
  "demo_parted = demo_reader\<lparr>rd_currentTagUID := ''LS0001'', rd_previousTagPresent := True\<rparr>"

theorem departure_needs_quiet_search_witness:
  "rd_currentTagUID (w_reader (FinishDiscovery (\<lambda>s. None) silent_hal
     (snd (tagAbsentLoop (\<lambda>s. None) silent_hal [SearchTick False False]
       (snd (startDiscovery (\<lambda>s. None) silent_hal (demo_world demo_parted))))))) = []"
proof -
  let ?w = "snd (startDiscovery (\<lambda>s. None) silent_hal (demo_world demo_parted))"
  have s: "startDiscovery (\<lambda>s. None) silent_hal (demo_world demo_parted) = (True, ?w)"
    by (simp add: startDiscovery_def silent_hal_def demo_hal_def callout_def Let_def)
  let ?x = "tagAbsentLoop (\<lambda>s. None) silent_hal [SearchTick False False] ?w"
  have r: "rd_currentTagUID (w_reader (snd ?x)) = ''LS0001''" "rd_previousTagPresent (w_reader (snd ?x))"
    by (simp_all add: startDiscovery_def silent_hal_def demo_hal_def callout_def Let_def pollForTagArrival_def
        nowOf_def processTagArrivalPoll_def upd_reader_def demo_parted_def)
  have "search_answers (\<lambda>s. None) silent_hal [SearchTick False False] ?w = [(False, Inr \<lparr>disc_Kind = DiscoveryQuiet, disc_Tags = []\<rparr>)]"
    by (simp add: poll_answer_def silent_hal_def demo_hal_def callout_def pollForTagArrival_def nowOf_def processTagArrivalPoll_def)
  moreover have "poll_answer (\<lambda>s. None) silent_hal w = Inr \<lparr>disc_Kind = DiscoveryQuiet, disc_Tags = []\<rparr>" for w
    by (simp add: poll_answer_def silent_hal_def demo_hal_def callout_def)
  ultimately show ?thesis
    using departure_needs_quiet_search [OF s surjective_pairing] r by (simp add: quiet_answer_def hasCachedBattery_def del: tagAbsentLoop.simps search_answers.simps)
qed

end
