(* ===== verification/Spec2Isabelle.thy ===== *)
theory Spec2Isabelle
  imports Lifecycle_Witnesses
begin

text \<open>
  Verification of the battery service of the LibreScoot scooter.

  \<^bold>\<open>The program.\<close> The service (\<open>battery/service.go\<close>) runs one reader per battery slot
  (\<open>battery/reader.go\<close>). A reader talks to its pack over an NFC tag: it reads three status blocks,
  writes four-byte commands (ON, OFF, seatbox opened or closed, inserted), publishes the status in
  Redis and manages faults. A hierarchical state machine (\<open>battery/fsm/state_machine.go\<close>, run by the
  library librefsm) drives each reader. Before any ON or OFF is written the reader asks the guard the
  readers share (\<open>packAdmission\<close>, \<open>battery/admission.go\<close>), which keeps a record of which
  pack supplies power and lets a second pack join only on paired, fresh and matching voltage readings
  while the vehicle stands still. Packs whose voltages have drifted apart are isolated by a corrective
  OFF (\<open>battery/admission_isolation.go\<close>). Redis messages change vehicle state, seatbox, settings and
  demand; goroutines meet in the guard's mutex, in channels of size one and in the machine's event
  queue. \<open>cmd/battery-service/main.go\<close> makes the configuration from flags, starts the service and stops
  it at a signal.

  \<^bold>\<open>The theories.\<close> \<open>Prelude\<close> holds Go's time arithmetic (int64 nanoseconds with saturation and
  wrap-around written out), list and state lemmas and the locale \<open>machine\<close> of an initial condition,
  a step function and an invariant. \<open>Go_Text\<close> prints numbers, truth values, quoted text and durations as
  Go's library does. \<open>Types\<close> is \<open>types.go\<close> and \<open>fsm/command.go\<close>. Then, by part:

  \<^item> Guard. \<open>Admission_State\<close> has the records and the small operations of \<open>admission.go\<close>, \<open>Motion\<close> the
    movement evidence (\<open>stopped_admission.go\<close>, \<open>motion_ipc.go\<close>), \<open>Observation\<close> what a frame or an
    absence does to a slot, \<open>Sampling_Rounds\<close> the coordinated acquisitions (\<open>sampling.go\<close>), \<open>Isolation\<close> the
    episodes of \<open>admission_isolation.go\<close>, and \<open>Admission\<close> the decision \<open>requestOn\<close>, its preview and
    the guard as a machine: \<open>adm_op\<close> lists every operation other code calls, \<open>adm_exec\<close> runs one. As
    every method holds the mutex, an execution of the guard is a sequence of these operations.
    \<open>Motion_Feed\<close> is the goroutine of \<open>motion_ipc.go\<close> that subscribes to movement evidence, over what
    Redis answers to it; \<open>Diagnostics\<close> is \<open>admission_diagnostics.go\<close> with the line it logs.
  \<^item> Reader. \<open>Reader_State\<close> is the record \<open>BatteryReader\<close> with two outboxes, the Redis commands issued
    and the events sent; \<open>Publication\<close> and \<open>Status_Frame\<close> are \<open>battery_status.go\<close>, \<open>Faults\<close> is
    \<open>fault.go\<close>, \<open>Nfc\<close> and \<open>Nfc_Read\<close> are \<open>nfc_operations.go\<close>, \<open>admission_reader.go\<close>, \<open>discovery.go\<close> and the
    inhibitor calls of \<open>battery_commands.go\<close>, \<open>Reader_Actions\<close> is \<open>actions.go\<close>, \<open>Reader_Handlers\<close> the event
    loop of \<open>reader.go\<close> and \<open>channels.go\<close>. \<open>Inhibitor\<close> has \<open>inhibitor.go\<close> and the same calls of
    \<open>battery_commands.go\<close> on connections, over a network that is a parameter.
  \<^item> Service. \<open>Service\<close> is \<open>service.go\<close> and \<open>admission_demand.go\<close>.
  \<^item> State machine. \<open>Fsm\<close> has the states, the handlers and the transition table of
    \<open>fsm/state_machine.go\<close> over the interface \<open>BatteryActions\<close>; \<open>Fsm_Engine\<close> what is relied on of
    librefsm. \<open>Search\<close> has the two goroutines the machine starts: the search for a tag and the reads that
    wait for a pack to become readable.
  \<^item> Whole service. \<open>System\<close> puts the service, both readers with their machines, event queues, event
    loops and timers around the one guard; \<open>sys_op\<close> lists the steps of the goroutines and \<open>sys_exec\<close>
    runs one, so an interleaving is a list of steps. \<open>Lifecycle\<close> adds the flags and configuration of
    \<open>main.go\<close>, creation and start of service and readers, the subscriber and shutdown; \<open>boot\<close> leads from
    the command line to the system these steps run on, and \<open>mainRun\<close> to the end of the process.
  \<^item> Logging. \<open>Logging\<close> has the handlers of \<open>fsm_logger.go\<close> and the controller's log callback.

  \<^bold>\<open>Code outside the repository\<close> is a parameter. The NFC controller, the inhibitor socket and the clock
  are the record \<open>hal_ops\<close> of functions on an arbitrary state; while such a call is in progress the
  other goroutines may use the guard, so each call also yields the guard operations that happened
  meanwhile (\<open>callout\<close>). The JSON decoder is \<open>js\<close>. Redis answers are \<open>redis_get\<close>, whether the n-th
  transaction succeeds is \<open>rd_txn\<close>. The engine is the locale \<open>librefsm\<close>: an event is answered by
  handlers of the table, a state is left only along a transition declared for it or for a state that
  contains it whose guard held, and the new state is where its target leads. The order in which the
  engine leaves, acts and enters is otherwise left open; \<open>ref_dispatch\<close> is one engine that meets the
  requirements. What creation and start meet (whether Redis answers, which controllers open, the clock)
  is the record \<open>surroundings\<close>. Timers are the instants they expire at; their callbacks are operations of their own.

  \<^bold>\<open>What is shown.\<close>
  \<^item> The guard keeps its invariant (\<open>Admission_Invariant\<close>), implements slot by slot an abstract ledger of
    supply (\<open>Supply_Ledger\<close>), and its decisions are safe and live (\<open>Admission_Safety\<close>): when a second
    pack may join, that a supply stays recorded until confirmed off, what corrective OFFs need and
    that they persist, that one of two idle packs is selected. \<open>Admission_Evidence\<close> is about the evidence
    itself: pairing, the stability test against its specification, history and motion messages.
  \<^item> Readers act on the guard only through its operations (\<open>Nfc_Guard\<close>), a chain that the locale
    \<open>guard_client\<close> turns into guarantees for readers (\<open>rdr\<close>), for the service's messages (\<open>svc\<close> in
    \<open>Service_Safety\<close>), for the machines (\<open>mch\<close> in \<open>Fsm_Guard\<close>) and for all of them together (\<open>sys\<close> in
    \<open>System_Safety\<close>). \<open>Reader_Policy\<close> shows that the operations of a reader leave the vehicle state, the
    seatbox and their events to its event loop. \<open>Nfc_Safety\<close> shows that every write
    is admitted first, that blocks are read twice and that a failed read withdraws its evidence.
  \<^item> \<open>Fault_Safety\<close>, \<open>Publication_Safety\<close>, \<open>Status_Safety\<close> and \<open>Reader_Safety\<close> cover the debouncing of faults,
    the fault set and fields in Redis, decoding (with an encoder to state the round trip), the
    filter for pegged sensors, unexpected loss of power and departures.
  \<^item> \<open>Handler_Safety\<close> covers the start-up handshake and the seatbox latch, \<open>Service_Safety\<close> numbers in
    settings, the aux-battery override and messages, \<open>Fsm_Safety\<close> power while the seatbox is open,
    repetition of OFF, progress, failed reads and how the machine gets to the seatbox-open path. From
    these \<open>System_Safety\<close> shows that nothing short of a change of the vehicle state takes a machine
    there during a ride.
  \<^item> \<open>Search\<close> joins discovery, polling goroutine and watchdog: a pack is declared gone exactly on a search
    that was silent throughout, a search asks for a reinitialization at most once, and waiting for a
    pack to become readable makes at most eight reads.
  \<^item> \<open>Lifecycle_Safety\<close> carries the guarantees over the whole life of the process: from any command line
    and any contents of Redis the guard starts sound and without supply, readers keep to the roles of
    the configuration in every interleaving and the guard knows the same roles, after shutdown nothing
    new is admitted, and each way the process can end has its cause. \<open>Motion_Feed\<close> shows that evidence of
    standstill is of the current subscription, \<open>Inhibitor\<close> that no connection is lost, how long taking
    the inhibitor can last and that the readers' model of it is sound, \<open>Frame_Typing\<close> that decoded
    values stay in their ranges (which justifies unbounded numbers for them), \<open>Diagnostics\<close> that every
    change of a decision is logged, \<open>Logging\<close> that a higher level only adds lines.
  \<^item> \<open>Admission_Witnesses\<close>, \<open>Reader_Witnesses\<close> and \<open>Lifecycle_Witnesses\<close> apply the properties to concrete states.

  \<^bold>\<open>Bounds.\<close> The retry loops have the bounds of the source (five reads, five writes, five attempts to
  take the inhibitor) as the argument they recurse on, so no fuel is chosen and they end always. The
  machine's chains of default children and conditions end because \<open>rank\<close> decreases, after at most
  four moves. Goroutines that loop until the service ends recurse on the list of what they are answered.

  \<^bold>\<open>Not modelled.\<close> The text of log messages other than the diagnostics line, the sampling report and
  the prefixes and attributes the handlers add, and what exists only for it (the remembered admission
  reason); how Go's library parses the flags, whose values are the input of \<open>mainRun\<close>;
  the Redis client and its reconnects below an answer; the race of a fault timer that has expired while
  its callback waits for the mutex and \<open>Stop\<close> comes too late. In \<open>System\<close> a
  queue may drop its last event at any moment, a timer may fire although it was stopped, and between
  the controller calls of one step other goroutines reach the guard but not the reader's own fields:
  the event loop of a reader runs between the steps of its machine. The steps of \<open>System\<close> keep of the
  inhibitor only whether it is held, which \<open>Inhibitor\<close> justifies.
  That the guard counts the slots of the configuration as eligible is shown between the steps of the
  service only: within a step of a reader a call of the guard may be any of its operations, the one
  that sets a role included.
\<close>

end
